(* ===== verification/Rust_Str.thy ===== *)
theory Rust_Str
  imports Prelude
begin

text \<open>
  Rust's \<^verbatim>\<open>str\<close> as the list of its UTF-8 bytes (\<^typ>\<open>string\<close>, one \<^typ>\<open>char\<close> per byte), so that
  \<^verbatim>\<open>len()\<close> is \<open>length\<close>, \<^verbatim>\<open>bytes()\<close> is the list itself and the order is that of \<^verbatim>\<open>String\<close>. Searching
  for and splitting at an ASCII character is the same on bytes as on characters. The two
  operations that look at whole characters, \<^verbatim>\<open>trim\<close> and \<^verbatim>\<open>char::is_control\<close>, match the UTF-8
  encodings of the code points they concern. The definitions are total on every byte list; on
  valid UTF-8 they compute what the library computes.
\<close>

section \<open>Bytes\<close>

definition is_ascii_digit :: "char \<Rightarrow> bool" where
  "is_ascii_digit c \<longleftrightarrow> CHR ''0'' \<le> c \<and> c \<le> CHR ''9''"

definition is_ascii_alphanumeric :: "char \<Rightarrow> bool" where
  "is_ascii_alphanumeric c \<longleftrightarrow>
     is_ascii_digit c \<or> CHR ''A'' \<le> c \<and> c \<le> CHR ''Z'' \<or> CHR ''a'' \<le> c \<and> c \<le> CHR ''z''"

definition is_ascii_control :: "char \<Rightarrow> bool" where
  "is_ascii_control c \<longleftrightarrow> c \<le> CHR 0x1F \<or> c = CHR 0x7F"

definition is_ascii_whitespace :: "char \<Rightarrow> bool" where
  "is_ascii_whitespace c \<longleftrightarrow> c \<in> {CHR 0x20, CHR 0x09, CHR 0x0A, CHR 0x0C, CHR 0x0D}"

definition ascii_lower :: "char \<Rightarrow> char" where
  "ascii_lower c =
     (if CHR ''A'' \<le> c \<and> c \<le> CHR ''Z'' then char_of (of_char c + (32::nat)) else c)"

definition to_ascii_lowercase :: "string \<Rightarrow> string" where
  "to_ascii_lowercase s = map ascii_lower s"

definition eq_ignore_ascii_case :: "string \<Rightarrow> string \<Rightarrow> bool" where
  "eq_ignore_ascii_case s t \<longleftrightarrow> to_ascii_lowercase s = to_ascii_lowercase t"

text \<open>
  \<^verbatim>\<open>s.chars().any(char::is_control)\<close>: the code points of category Cc, U+0000 to U+001F and U+007F
  (one byte) and U+0080 to U+009F (the byte C2 followed by 80 to 9F).
\<close>

fun has_control :: "string \<Rightarrow> bool" where
  "has_control [] = False"
| "has_control (c # cs) =
     (is_ascii_control c
      \<or> c = CHR 0xC2 \<and> (case cs of [] \<Rightarrow> False | d # _ \<Rightarrow> CHR 0x80 \<le> d \<and> d \<le> CHR 0x9F)
      \<or> has_control cs)"

lemma has_control_append_left: "has_control xs \<Longrightarrow> has_control (xs @ ys)"
proof (induction xs)
  case (Cons c cs)
  then show ?case by (cases cs) auto
qed simp

lemma has_control_append_right: "has_control ys \<Longrightarrow> has_control (xs @ ys)"
  by (induction xs) auto

text \<open>A string of identifier bytes has no control character.\<close>

lemma alnum_no_control:
  "is_ascii_alphanumeric c \<Longrightarrow> \<not> is_ascii_control c \<and> c \<noteq> CHR 0xC2"
  unfolding is_ascii_alphanumeric_def is_ascii_control_def is_ascii_digit_def
  by (auto simp: less_eq_char_def)

section \<open>Trimming\<close>

text \<open>The UTF-8 encodings of the code points with the property White_Space.\<close>

definition ws_encodings :: "string list" where
  "ws_encodings =
     [[CHR 0x20], [CHR 0x09], [CHR 0x0A], [CHR 0x0B], [CHR 0x0C], [CHR 0x0D],
      [CHR 0xC2, CHR 0x85], [CHR 0xC2, CHR 0xA0], [CHR 0xE1, CHR 0x9A, CHR 0x80],
      [CHR 0xE2, CHR 0x80, CHR 0x80], [CHR 0xE2, CHR 0x80, CHR 0x81],
      [CHR 0xE2, CHR 0x80, CHR 0x82], [CHR 0xE2, CHR 0x80, CHR 0x83],
      [CHR 0xE2, CHR 0x80, CHR 0x84], [CHR 0xE2, CHR 0x80, CHR 0x85],
      [CHR 0xE2, CHR 0x80, CHR 0x86], [CHR 0xE2, CHR 0x80, CHR 0x87],
      [CHR 0xE2, CHR 0x80, CHR 0x88], [CHR 0xE2, CHR 0x80, CHR 0x89],
      [CHR 0xE2, CHR 0x80, CHR 0x8A], [CHR 0xE2, CHR 0x80, CHR 0xA8],
      [CHR 0xE2, CHR 0x80, CHR 0xA9], [CHR 0xE2, CHR 0x80, CHR 0xAF],
      [CHR 0xE2, CHR 0x81, CHR 0x9F], [CHR 0xE3, CHR 0x80, CHR 0x80]]"

fun strip_prefix :: "string \<Rightarrow> string \<Rightarrow> string option" where
  "strip_prefix [] s = Some s"
| "strip_prefix (p # ps) [] = None"
| "strip_prefix (p # ps) (c # cs) = (if p = c then strip_prefix ps cs else None)"

lemma strip_prefix_Some [simp]: "strip_prefix p s = Some t \<longleftrightarrow> s = p @ t"
  by (induction p s rule: strip_prefix.induct) auto

lemma strip_prefix_None: "strip_prefix p s = None \<longleftrightarrow> \<not> prefix p s"
  by (induction p s rule: strip_prefix.induct) auto

fun strip_any :: "string list \<Rightarrow> string \<Rightarrow> string option" where
  "strip_any [] s = None"
| "strip_any (p # ps) s =
     (case (if p = [] then None else strip_prefix p s) of
        Some t \<Rightarrow> Some t
      | None \<Rightarrow> strip_any ps s)"

lemma strip_any_Some:
  "strip_any ps s = Some t \<Longrightarrow> \<exists>p \<in> set ps. p \<noteq> [] \<and> s = p @ t"
  by (induction ps s rule: strip_any.induct) (auto split: option.splits if_splits)

lemma strip_any_None: "strip_any ps s = None \<longleftrightarrow> (\<forall>p \<in> set ps. p = [] \<or> \<not> prefix p s)"
  by (induction ps s rule: strip_any.induct)
    (auto split: option.splits if_splits simp: strip_prefix_None prefix_def)

lemma strip_any_shorter: "strip_any ps s = Some t \<Longrightarrow> length t < length s"
  by (auto dest!: strip_any_Some)

function trim_front :: "string list \<Rightarrow> string \<Rightarrow> string" where
  "trim_front ps s = (case strip_any ps s of None \<Rightarrow> s | Some t \<Rightarrow> trim_front ps t)"
  by pat_completeness auto
termination
  by (relation "measure (\<lambda>(ps, s). length s)") (auto dest: strip_any_shorter)

declare trim_front.simps [simp del]

definition trim_start :: "string \<Rightarrow> string" where
  "trim_start s = trim_front ws_encodings s"

definition trim_end :: "string \<Rightarrow> string" where
  "trim_end s = rev (trim_front (map rev ws_encodings) (rev s))"

definition trim :: "string \<Rightarrow> string" where
  "trim s = trim_end (trim_start s)"

text \<open>\<^verbatim>\<open>s.trim().is_empty()\<close>\<close>

definition is_blank :: "string \<Rightarrow> bool" where
  "is_blank s \<longleftrightarrow> trim s = []"

text \<open>What is trimmed away is a sequence of the encodings.\<close>

lemma trim_front_decompose:
  "\<exists>qs. set qs \<subseteq> set ps \<and> s = concat qs @ trim_front ps s"
proof (induction ps s rule: trim_front.induct)
  case (1 ps s)
  show ?case
  proof (cases "strip_any ps s")
    case None
    then show ?thesis by (intro exI [of _ "[]"]) (simp add: trim_front.simps [of ps s])
  next
    case (Some t)
    from strip_any_Some [OF Some] obtain p where p: "p \<in> set ps" "s = p @ t" by blast
    from "1.IH" [OF Some] obtain qs where qs: "set qs \<subseteq> set ps" "t = concat qs @ trim_front ps t"
      by blast
    have "trim_front ps s = trim_front ps t"
      using Some by (simp add: trim_front.simps [of ps s])
    with p qs have "set (p # qs) \<subseteq> set ps \<and> s = concat (p # qs) @ trim_front ps s"
      by simp
    then show ?thesis by blast
  qed
qed

definition ws_bytes :: "char set" where
  "ws_bytes = set (concat ws_encodings)"

lemma trim_front_set: "set s \<subseteq> set (concat ps) \<union> set (trim_front ps s)"
proof -
  obtain qs where qs: "set qs \<subseteq> set ps" and s: "s = concat qs @ trim_front ps s"
    using trim_front_decompose by blast
  have "set s = set (concat qs) \<union> set (trim_front ps s)"
    by (subst s) simp
  with qs show ?thesis by auto
qed

lemma trim_set: "set s \<subseteq> ws_bytes \<union> set (trim s)"
proof -
  have "set s \<subseteq> ws_bytes \<union> set (trim_start s)"
    using trim_front_set [of s ws_encodings] by (simp add: trim_start_def ws_bytes_def)
  moreover have "set (trim_start s) \<subseteq> ws_bytes \<union> set (trim s)"
    using trim_front_set [of "rev (trim_start s)" "map rev ws_encodings"]
    by (auto simp: trim_def trim_end_def ws_bytes_def)
  ultimately show ?thesis by blast
qed

lemma not_blankI: "c \<in> set s \<Longrightarrow> c \<notin> ws_bytes \<Longrightarrow> \<not> is_blank s"
  using trim_set [of s] by (auto simp: is_blank_def)

lemma trim_front_suffix: "suffix (trim_front ps s) s"
  using trim_front_decompose [of ps s] by (metis suffix_def)

lemma trim_sublist: "\<exists>as bs. s = as @ trim s @ bs"
proof -
  obtain as where 1: "s = as @ trim_start s"
    using trim_front_suffix [of ws_encodings s] by (auto simp: suffix_def trim_start_def)
  obtain bs where 2: "trim_start s = trim s @ bs"
    using trim_front_suffix [of "map rev ws_encodings" "rev (trim_start s)"]
    by (auto simp: suffix_def trim_def trim_end_def)
       (metis rev_append rev_rev_ident)
  from 1 2 show ?thesis by (metis append.assoc)
qed

lemma set_trim: "set (trim s) \<subseteq> set s"
  using trim_sublist [of s] by (metis Un_iff set_append subsetI)

lemma length_trim: "length (trim s) \<le> length s"
proof -
  obtain as bs where "s = as @ trim s @ bs" using trim_sublist by blast
  then have "length s = length as + (length (trim s) + length bs)" by (metis length_append)
  then show ?thesis by simp
qed

lemma alnum_not_ws: "is_ascii_alphanumeric c \<Longrightarrow> c \<notin> ws_bytes"
  unfolding is_ascii_alphanumeric_def is_ascii_digit_def ws_bytes_def ws_encodings_def
  by (auto simp: less_eq_char_def)

lemma blank_Nil [simp]: "is_blank []"
proof -
  have "trim [] = []" using length_trim [of "[]"] by simp
  then show ?thesis by (simp add: is_blank_def)
qed

section \<open>Searching and splitting\<close>

text \<open>\<^verbatim>\<open>s.split(c)\<close>: one part more than there are separators; the empty string has one empty part.\<close>

fun split_on :: "char \<Rightarrow> string \<Rightarrow> string list" where
  "split_on c [] = [[]]"
| "split_on c (x # xs) =
     (if x = c then [] # split_on c xs
      else (case split_on c xs of [] \<Rightarrow> [[x]] | p # ps \<Rightarrow> (x # p) # ps))"

fun join_with :: "char \<Rightarrow> string list \<Rightarrow> string" where
  "join_with c [] = []"
| "join_with c [p] = p"
| "join_with c (p # q # ps) = p @ c # join_with c (q # ps)"

text \<open>\<^verbatim>\<open>s.split_once(c)\<close>, and \<^verbatim>\<open>find(c)\<close> with the two slices around the position found.\<close>

fun split_once :: "char \<Rightarrow> string \<Rightarrow> (string \<times> string) option" where
  "split_once c [] = None"
| "split_once c (x # xs) =
     (if x = c then Some ([], xs) else map_option (\<lambda>(a, b). (x # a, b)) (split_once c xs))"

fun str_contains :: "string \<Rightarrow> string \<Rightarrow> bool" where
  "str_contains [] p = (p = [])"
| "str_contains (c # cs) p = (prefix p (c # cs) \<or> str_contains cs p)"

lemma split_on_nonempty [simp]: "split_on c s \<noteq> []"
  by (induction s) (auto split: list.splits)

lemma join_split [simp]: "join_with c (split_on c s) = s"
proof (induction s)
  case (Cons x xs)
  then show ?case
    by (cases "split_on c xs") (auto split: list.splits, (metis join_with.simps(2,3) append_Cons list.exhaust)+)
qed simp

lemma split_on_no_sep: "p \<in> set (split_on c s) \<Longrightarrow> c \<notin> set p"
proof (induction s arbitrary: p)
  case (Cons x xs)
  then show ?case by (cases "split_on c xs") (auto split: if_splits)
qed simp

lemma split_on_subset: "p \<in> set (split_on c s) \<Longrightarrow> set p \<subseteq> set s"
proof (induction s arbitrary: p)
  case (Cons x xs)
  then show ?case
    by (cases "split_on c xs") (auto split: if_splits, blast+)
qed simp

lemma split_on_set: "x \<in> set s \<Longrightarrow> x \<noteq> c \<Longrightarrow> \<exists>p \<in> set (split_on c s). x \<in> set p"
proof (induction s)
  case (Cons y ys)
  then show ?case by (cases "split_on c ys") (auto split: if_splits)
qed simp

lemma split_on_append_part:
  "c \<notin> set p \<Longrightarrow> split_on c (p @ c # s) = p # split_on c s"
  by (induction p) auto

lemma split_on_single: "c \<notin> set p \<Longrightarrow> split_on c p = [p]"
  by (induction p) auto

lemma split_join:
  "ps \<noteq> [] \<Longrightarrow> (\<And>p. p \<in> set ps \<Longrightarrow> c \<notin> set p) \<Longrightarrow> split_on c (join_with c ps) = ps"
  by (induction c ps rule: join_with.induct) (auto simp: split_on_append_part split_on_single)

lemma split_once_Some [simp]:
  "split_once c s = Some (a, b) \<longleftrightarrow> s = a @ c # b \<and> c \<notin> set a"
proof (induction s arbitrary: a)
  case (Cons x xs)
  then show ?case by (cases a) auto
qed simp

lemma split_once_None [simp]: "split_once c s = None \<longleftrightarrow> c \<notin> set s"
  by (induction s) auto

lemma str_contains_sublist: "str_contains s p \<longleftrightarrow> sublist p s"
  by (induction s) (auto simp: sublist_Cons_right)

section \<open>Decimal numerals\<close>

fun show_nat :: "nat \<Rightarrow> string" where
  "show_nat n = (if n < 10 then [char_of (48 + n)]
                 else show_nat (n div 10) @ [char_of (48 + n mod 10)])"

declare show_nat.simps [simp del]

lemma show_nat_nonempty [simp]: "show_nat n \<noteq> []"
  by (subst show_nat.simps) simp

lemma digit_char: "n < 10 \<Longrightarrow> is_ascii_digit (char_of (48 + n :: nat))"
proof -
  assume "n < 10"
  then have "n \<in> {0, 1, 2, 3, 4, 5, 6, 7, 8, 9}" by auto
  then show ?thesis by (auto simp: is_ascii_digit_def less_eq_char_def)
qed

lemma show_nat_digits: "c \<in> set (show_nat n) \<Longrightarrow> is_ascii_digit c"
proof (induction n rule: show_nat.induct)
  case (1 n)
  show ?case
  proof (cases "n < 10")
    case True
    with "1.prems" have "c = char_of (48 + n)" by (simp add: show_nat.simps [of n])
    with True show ?thesis by (simp only: digit_char)
  next
    case False
    with "1.prems" have "c \<in> set (show_nat (n div 10)) \<or> c = char_of (48 + n mod 10)"
      by (auto simp: show_nat.simps [of n])
    then show ?thesis
    proof
      assume "c \<in> set (show_nat (n div 10))"
      then show ?thesis by (rule "1.IH" [OF False])
    next
      assume "c = char_of (48 + n mod 10)"
      then show ?thesis by (simp add: digit_char)
    qed
  qed
qed

definition show_int :: "int \<Rightarrow> string" where
  "show_int i = (if i < 0 then CHR ''-'' # show_nat (nat (- i)) else show_nat (nat i))"

definition show_bool :: "bool \<Rightarrow> string" where
  "show_bool b = (if b then ''true'' else ''false'')"

end
