(* ===== verification/Domain_Ids.thy ===== *)
theory Domain_Ids
  imports Rust_Str
begin

text \<open>
  Identifiers, field paths and text limits (\<^verbatim>\<open>pipe-bolt-domain/src/id.rs\<close> and \<^verbatim>\<open>error.rs\<close>). The
  macro \<^verbatim>\<open>define_id!\<close> makes one newtype over \<^verbatim>\<open>String\<close> per kind of identifier; here each is the
  validated string, and the constructor takes the field name the macro is given.
\<close>

section \<open>Errors\<close>

datatype domain_error =
  EmptyField string
| FieldTooLong string nat
| InvalidControlCharacters string
| InvalidTopicFilter string
| InvalidTopicName string
| InvalidFieldPath string
| InvalidBrokerPort
| InvalidKeepAlive

fun domain_error_display :: "domain_error \<Rightarrow> string" where
  "domain_error_display (EmptyField f) = f @ '' must not be empty''"
| "domain_error_display (FieldTooLong f m) = f @ '' is too long: max '' @ show_nat m @ '' bytes''"
| "domain_error_display (InvalidControlCharacters f) = f @ '' contains invalid control characters''"
| "domain_error_display (InvalidTopicFilter r) = ''MQTT topic filter is invalid: '' @ r"
| "domain_error_display (InvalidTopicName r) = ''MQTT topic name is invalid: '' @ r"
| "domain_error_display (InvalidFieldPath r) = ''field path is invalid: '' @ r"
| "domain_error_display InvalidBrokerPort = ''broker port must not be zero''"
| "domain_error_display InvalidKeepAlive = ''keep alive must be at least 5 seconds''"

section \<open>Text and identifiers\<close>

type_synonym tenant_id = string
type_synonym user_id = string
type_synonym project_id = string
type_synonym broker_id = string
type_synonym route_id = string
type_synonym schema_mapping_id = string
type_synonym rule_id = string
type_synonym sink_id = string
type_synonym command_template_id = string
type_synonym command_execution_id = string
type_synonym event_id = string
type_synonym field_path = string

definition max_id_bytes :: nat where
  "max_id_bytes = 128"

definition validate_text :: "string \<Rightarrow> string \<Rightarrow> nat \<Rightarrow> domain_error + unit" where
  "validate_text field v max_bytes =
     (if is_blank v then Inl (EmptyField field)
      else if length v > max_bytes then Inl (FieldTooLong field max_bytes)
      else if has_control v then Inl (InvalidControlCharacters field)
      else Inr ())"

definition is_identifier_byte :: "char \<Rightarrow> bool" where
  "is_identifier_byte b \<longleftrightarrow>
     is_ascii_alphanumeric b \<or> b \<in> {CHR ''-'', CHR ''_'', CHR ''.'', CHR '':''}"

definition validate_identifier :: "string \<Rightarrow> string \<Rightarrow> domain_error + unit" where
  "validate_identifier field v =
     res_bind (validate_text field v max_id_bytes) (\<lambda>_.
       if \<not> list_all is_identifier_byte v then Inl (InvalidControlCharacters field) else Inr ())"

definition id_new :: "string \<Rightarrow> string \<Rightarrow> domain_error + string" where
  "id_new field v = res_bind (validate_identifier field v) (\<lambda>_. Inr v)"

definition is_path_byte :: "char \<Rightarrow> bool" where
  "is_path_byte b \<longleftrightarrow> is_ascii_alphanumeric b \<or> b = CHR ''_'' \<or> b = CHR ''-''"

definition starts_with_char :: "string \<Rightarrow> char \<Rightarrow> bool" where
  "starts_with_char s c \<longleftrightarrow> s \<noteq> [] \<and> hd s = c"

definition ends_with_char :: "string \<Rightarrow> char \<Rightarrow> bool" where
  "ends_with_char s c \<longleftrightarrow> s \<noteq> [] \<and> last s = c"

definition validate_field_path :: "string \<Rightarrow> domain_error + unit" where
  "validate_field_path path =
     res_bind (validate_text ''field_path'' path 256) (\<lambda>_.
       if starts_with_char path CHR ''.'' \<or> ends_with_char path CHR ''.'' \<or> str_contains path ''..''
       then Inl (InvalidFieldPath ''path must contain non-empty dot-separated segments'')
       else try_for_each (\<lambda>segment.
              if \<not> list_all is_path_byte segment
              then Inl (InvalidFieldPath ''path segment contains unsupported characters'')
              else Inr ()) (split_on CHR ''.'' path))"

definition field_path_new :: "string \<Rightarrow> domain_error + field_path" where
  "field_path_new path = res_bind (validate_field_path path) (\<lambda>_. Inr path)"

definition segments :: "field_path \<Rightarrow> string list" where
  "segments path = split_on CHR ''.'' path"

section \<open>What the validators accept\<close>

lemma validate_text_ok [simp]:
  "validate_text field v n = Inr u \<longleftrightarrow> \<not> is_blank v \<and> length v \<le> n \<and> \<not> has_control v"
  by (auto simp: validate_text_def)

lemma not_blank_nonempty: "\<not> is_blank v \<Longrightarrow> v \<noteq> []"
  by auto

text \<open>A string of plain bytes, neither white space nor control characters nor lead bytes, is text.\<close>

lemma plain_no_control:
  "(\<And>c. c \<in> set v \<Longrightarrow> \<not> is_ascii_control c \<and> c \<noteq> CHR 0xC2) \<Longrightarrow> \<not> has_control v"
  by (induction v) auto

lemma identifier_byte_plain:
  "is_identifier_byte c \<Longrightarrow> \<not> is_ascii_control c \<and> c \<noteq> CHR 0xC2"
  "is_identifier_byte c \<Longrightarrow> c \<notin> ws_bytes"
proof -
  assume a: "is_identifier_byte c"
  show "\<not> is_ascii_control c \<and> c \<noteq> CHR 0xC2"
    using a alnum_no_control [of c]
    by (auto simp: is_identifier_byte_def is_ascii_control_def less_eq_char_def)
  have "{CHR ''-'', CHR ''_'', CHR ''.'', CHR '':''} \<inter> ws_bytes = {}"
    by (simp add: ws_bytes_def ws_encodings_def)
  then show "c \<notin> ws_bytes"
    using a alnum_not_ws [of c] unfolding is_identifier_byte_def by blast
qed

lemma path_byte_identifier: "is_path_byte c \<Longrightarrow> is_identifier_byte c"
  by (auto simp: is_path_byte_def is_identifier_byte_def)

lemma identifier_is_text:
  assumes "v \<noteq> []" and "\<forall>c \<in> set v. is_identifier_byte c"
  shows "\<not> is_blank v \<and> \<not> has_control v"
proof
  have hd: "hd v \<in> set v" using assms(1) by simp
  with assms(2) have "hd v \<notin> ws_bytes" by (intro identifier_byte_plain(2)) blast
  with hd show "\<not> is_blank v" by (rule not_blankI)
  show "\<not> has_control v"
    by (rule plain_no_control) (use assms(2) identifier_byte_plain(1) in blast)
qed

text \<open>
  The identifiers are exactly the non-empty strings of at most 128 identifier bytes: the checks for
  blank text and control characters add nothing beyond the empty string.
\<close>

lemma validate_identifier_iff:
  "validate_identifier field v = Inr u \<longleftrightarrow>
     v \<noteq> [] \<and> length v \<le> 128 \<and> (\<forall>c \<in> set v. is_identifier_byte c)"
proof -
  have "\<not> is_blank v \<and> \<not> has_control v" if "v \<noteq> []" "\<forall>c \<in> set v. is_identifier_byte c"
    using that by (rule identifier_is_text)
  then show ?thesis
    by (auto simp: validate_identifier_def max_id_bytes_def list_all_iff)
qed

lemma id_new_iff:
  "id_new field v = Inr w \<longleftrightarrow>
     w = v \<and> v \<noteq> [] \<and> length v \<le> 128 \<and> (\<forall>c \<in> set v. is_identifier_byte c)"
  by (auto simp: id_new_def validate_identifier_iff)

text \<open>The three tests on the dots of a path say that no segment is empty.\<close>

lemma hd_split_on: "hd (split_on c s) = [] \<longleftrightarrow> s = [] \<or> hd s = c"
  by (cases s) (auto split: list.splits)

lemma tl_split_on_Nil:
  "[] \<in> set (tl (split_on c s)) \<longleftrightarrow> (s \<noteq> [] \<and> last s = c) \<or> sublist [c, c] s"
proof (induction s)
  case (Cons x xs)
  have sub: "sublist [c, c] (x # xs) \<longleftrightarrow> (x = c \<and> xs \<noteq> [] \<and> hd xs = c) \<or> sublist [c, c] xs"
    by (cases xs) (auto simp: sublist_Cons_right)
  obtain p ps where ps: "split_on c xs = p # ps" by (cases "split_on c xs") auto
  have p: "p = [] \<longleftrightarrow> xs = [] \<or> hd xs = c" using hd_split_on [of c xs] ps by simp
  show ?case
    using Cons sub ps p by (cases "x = c") auto
qed simp

lemma split_on_Nil:
  "[] \<in> set (split_on c s) \<longleftrightarrow> s = [] \<or> hd s = c \<or> last s = c \<or> sublist [c, c] s"
proof -
  have "[] \<in> set (split_on c s) \<longleftrightarrow> hd (split_on c s) = [] \<or> [] \<in> set (tl (split_on c s))"
    by (cases "split_on c s") auto
  then show ?thesis by (auto simp: hd_split_on tl_split_on_Nil)
qed

lemma validate_field_path_iff:
  "validate_field_path path = Inr u \<longleftrightarrow>
     length path \<le> 256 \<and>
     (\<forall>seg \<in> set (segments path). seg \<noteq> [] \<and> (\<forall>c \<in> set seg. is_path_byte c))"
  (is "?L \<longleftrightarrow> ?R")
proof
  assume L: ?L
  then have "path \<noteq> []" by (auto simp: validate_field_path_def dest: not_blank_nonempty)
  with L show ?R
    using split_on_Nil [of "CHR ''.''" path]
    by (auto simp: validate_field_path_def segments_def starts_with_char_def ends_with_char_def
        str_contains_sublist list_all_iff split: if_splits)
next
  assume R: ?R
  then have no_Nil: "[] \<notin> set (split_on CHR ''.'' path)" by (auto simp: segments_def)
  then have ne: "path \<noteq> []" by auto
  have bytes: "is_path_byte c \<or> c = CHR ''.''" if "c \<in> set path" for c
    using split_on_set [OF that, of "CHR ''.''"] R by (auto simp: segments_def)
  then have ident: "\<forall>c \<in> set path. is_identifier_byte c"
    by (auto simp: is_identifier_byte_def is_path_byte_def)
  then have plain: "\<not> is_blank path \<and> \<not> has_control path"
    using ne by (intro identifier_is_text)
  show ?L
    using R no_Nil ne plain split_on_Nil [of "CHR ''.''" path]
    by (auto simp: validate_field_path_def segments_def starts_with_char_def ends_with_char_def
        str_contains_sublist list_all_iff)
qed

text \<open>Joining the segments of a path gives the path back.\<close>

lemma join_segments: "join_with CHR ''.'' (segments path) = path"
  by (simp add: segments_def)

end
