(* ===== verification/Ordered_Map.thy ===== *)
theory Ordered_Map
  imports Prelude
begin

text \<open>
  \<^verbatim>\<open>BTreeMap<K, V>\<close> as the list of its entries in key order: iteration order is the list order,
  insertion replaces the value of a present key, and lookup is \<^const>\<open>map_of\<close>. The interface its
  clients rely on is the locale \<open>ordered_map\<close>, whose laws the list implementation discharges.
\<close>

type_synonym ('k, 'v) bmap = "('k \<times> 'v) list"

fun bm_insert :: "'k::linorder \<Rightarrow> 'v \<Rightarrow> ('k, 'v) bmap \<Rightarrow> ('k, 'v) bmap" where
  "bm_insert k v [] = [(k, v)]"
| "bm_insert k v ((k', v') # m) =
     (if k < k' then (k, v) # (k', v') # m
      else if k = k' then (k, v) # m
      else (k', v') # bm_insert k v m)"

text \<open>\<^verbatim>\<open>a.extend(b)\<close> and \<^verbatim>\<open>iter.collect::<BTreeMap<_, _>>()\<close>: later entries win.\<close>

definition bm_extend :: "('k::linorder, 'v) bmap \<Rightarrow> ('k \<times> 'v) list \<Rightarrow> ('k, 'v) bmap" where
  "bm_extend m kvs = fold (\<lambda>(k, v). bm_insert k v) kvs m"

definition bm_wf :: "('k::linorder, 'v) bmap \<Rightarrow> bool" where
  "bm_wf m \<longleftrightarrow> sorted_wrt (<) (map fst m)"

lemma bm_wf_Nil [simp]: "bm_wf []"
  by (simp add: bm_wf_def)

lemma bm_wf_Cons: "bm_wf ((k, v) # m) \<longleftrightarrow> (\<forall>k' \<in> fst ` set m. k < k') \<and> bm_wf m"
  by (auto simp: bm_wf_def)

lemma fst_set_bm_insert [simp]: "fst ` set (bm_insert k v m) = insert k (fst ` set m)"
  by (induction k v m rule: bm_insert.induct) auto

lemma bm_wf_insert [simp, intro]: "bm_wf m \<Longrightarrow> bm_wf (bm_insert k v m)"
  by (induction k v m rule: bm_insert.induct) (fastforce simp: bm_wf_Cons)+

lemma map_of_bm_insert [simp]: "map_of (bm_insert k v m) = (map_of m)(k \<mapsto> v)"
  by (induction k v m rule: bm_insert.induct) auto

lemma bm_wf_distinct: "bm_wf m \<Longrightarrow> distinct (map fst m)"
  by (simp add: bm_wf_def strict_sorted_iff)

text \<open>An ordered map is determined by its lookups.\<close>

lemma bm_ext: "bm_wf m \<Longrightarrow> bm_wf m' \<Longrightarrow> map_of m = map_of m' \<Longrightarrow> m = m'"
proof (induction m arbitrary: m')
  case Nil
  then show ?case by (cases m') (auto simp: fun_eq_iff split: if_splits)
next
  case (Cons kv m)
  obtain k v where kv: "kv = (k, v)" by fastforce
  obtain kv' m'' where m': "m' = kv' # m''"
    using Cons.prems(3) kv by (cases m') (auto simp: fun_eq_iff split: if_splits)
  obtain k' v' where kv': "kv' = (k', v')" by fastforce
  have dom: "insert k (fst ` set m) = insert k' (fst ` set m'')"
    using arg_cong [OF Cons.prems(3), of dom]
    by (simp only: dom_map_of_conv_image_fst kv m' kv' list.set image_insert fst_conv)
  have k_least: "\<forall>x \<in> fst ` set m. k < x" and k'_least: "\<forall>x \<in> fst ` set m''. k' < x"
    using Cons.prems(1,2) by (simp_all add: kv m' kv' bm_wf_Cons)
  have k: "k = k'"
    using dom k_least k'_least by (metis insertE insertI1 less_asym)
  have none: "map_of m k = None" "map_of m'' k = None"
    using k_least k'_least k by (auto simp: map_of_eq_None_iff)
  have v: "v = v'" using fun_cong [OF Cons.prems(3), of k] by (simp add: kv m' kv' k)
  have "map_of m x = map_of m'' x" for x
    using fun_cong [OF Cons.prems(3), of x] none by (cases "x = k") (simp_all add: kv m' kv' k)
  then have "m = m''"
    using Cons.IH [of m''] Cons.prems(1,2) by (auto simp: kv m' kv' bm_wf_Cons fun_eq_iff)
  with k v show ?case by (simp add: kv m' kv')
qed

section \<open>The interface\<close>

locale ordered_map =
  fixes empty :: "'m"
    and insert_kv :: "'k \<Rightarrow> 'v \<Rightarrow> 'm \<Rightarrow> 'm"
    and lookup :: "'m \<Rightarrow> 'k \<Rightarrow> 'v option"
    and entries :: "'m \<Rightarrow> ('k \<times> 'v) list"
    and invar :: "'m \<Rightarrow> bool"
  assumes invar_empty: "invar empty"
    and invar_insert: "invar m \<Longrightarrow> invar (insert_kv k v m)"
    and lookup_empty: "lookup empty = (\<lambda>_. None)"
    and lookup_insert: "invar m \<Longrightarrow> lookup (insert_kv k v m) = (lookup m)(k \<mapsto> v)"
    and lookup_entries: "invar m \<Longrightarrow> map_of (entries m) = lookup m"
    and distinct_entries: "invar m \<Longrightarrow> distinct (map fst (entries m))"
    and extensional: "invar m \<Longrightarrow> invar m' \<Longrightarrow> lookup m = lookup m' \<Longrightarrow> m = m'"
begin

definition insert_all :: "('k \<times> 'v) list \<Rightarrow> 'm \<Rightarrow> 'm" where
  "insert_all kvs m = fold (\<lambda>(k, v). insert_kv k v) kvs m"

lemma invar_insert_all: "invar m \<Longrightarrow> invar (insert_all kvs m)"
  unfolding insert_all_def
  by (induction kvs arbitrary: m) (auto simp: invar_insert)

lemma lookup_insert_all: "invar m \<Longrightarrow> lookup (insert_all kvs m) = lookup m ++ map_of (rev kvs)"
  unfolding insert_all_def
  by (induction kvs arbitrary: m) (auto simp: invar_insert lookup_insert map_add_upd_left map_add_assoc)

text \<open>Inserting the same key twice keeps only the last value.\<close>

lemma insert_twice: "invar m \<Longrightarrow> insert_kv k v (insert_kv k w m) = insert_kv k v m"
  by (rule extensional) (auto simp: invar_insert lookup_insert)

text \<open>The number of entries grows by one exactly when the key is new.\<close>

lemma size_insert:
  assumes "invar m"
  shows "length (entries (insert_kv k v m)) =
           (if lookup m k = None then Suc (length (entries m)) else length (entries m))"
proof -
  have card: "length (entries n) = card (dom (lookup n))" if "invar n" for n
    using that by (metis distinct_card distinct_entries dom_map_of_conv_image_fst
        length_map list.set_map lookup_entries)
  have fin: "finite (dom (lookup m))"
    using assms by (metis finite_dom_map_of lookup_entries)
  have "length (entries (insert_kv k v m)) = card (insert k (dom (lookup m)))"
    using assms by (simp add: card invar_insert lookup_insert)
  also have "\<dots> = (if k \<in> dom (lookup m) then card (dom (lookup m)) else Suc (card (dom (lookup m))))"
    using fin by (simp add: card_insert_if)
  finally show ?thesis using assms by (auto simp: card domIff)
qed

end

interpretation bm: ordered_map "[]" bm_insert "\<lambda>m. map_of m" "\<lambda>m. m" bm_wf
  by unfold_locales (auto intro: bm_ext bm_wf_distinct)

lemma bm_extend_insert_all: "bm_extend m kvs = bm.insert_all kvs m"
  by (simp add: bm_extend_def bm.insert_all_def)

lemma bm_wf_extend [simp, intro]: "bm_wf m \<Longrightarrow> bm_wf (bm_extend m kvs)"
  by (simp add: bm_extend_insert_all bm.invar_insert_all)

lemma map_of_bm_extend:
  "bm_wf m \<Longrightarrow> map_of (bm_extend m kvs) = map_of m ++ map_of (rev kvs)"
  by (simp add: bm_extend_insert_all bm.lookup_insert_all)

lemma map_of_rev_distinct: "distinct (map fst kvs) \<Longrightarrow> map_of (rev kvs) = map_of kvs"
  by (rule map_of_inject_set [THEN iffD2]) (simp_all add: rev_map [symmetric])

text \<open>Extending by another ordered map overrides with its entries.\<close>

lemma map_of_bm_extend_wf:
  assumes "bm_wf m" and "bm_wf n"
  shows "map_of (bm_extend m n) = map_of m ++ map_of n"
proof -
  have "map_of (rev n) = map_of n"
    using bm_wf_distinct [OF assms(2)] by (rule map_of_rev_distinct)
  with assms(1) show ?thesis by (simp add: map_of_bm_extend)
qed

lemma bm_extend_Nil [simp]: "bm_extend m [] = m"
  by (simp add: bm_extend_def)

end
