(* ===== verification/Machine.thy ===== *)
theory Machine
  imports Prelude
begin

text \<open>
  Fixed-width integers and durations. \<^verbatim>\<open>u64\<close>, \<^verbatim>\<open>u32\<close> and \<^verbatim>\<open>u16\<close> are words; \<^verbatim>\<open>usize\<close> counts of
  objects in memory are \<^typ>\<open>nat\<close>. A \<^verbatim>\<open>Duration\<close> is its number of nanoseconds, bounded by
  \<^verbatim>\<open>Duration::MAX\<close>, with the saturating product the backoff uses.
\<close>

type_synonym u16 = "16 word"
type_synonym u32 = "32 word"
type_synonym u64 = "64 word"
type_synonym duration = nat

definition u64_max :: nat where
  "u64_max = 2 ^ 64 - 1"

definition checked_add_u64 :: "u64 \<Rightarrow> u64 \<Rightarrow> u64 option" where
  "checked_add_u64 a b = (if unat a + unat b \<le> u64_max then Some (a + b) else None)"

lemma checked_add_u64_Some:
  "checked_add_u64 a b = Some c \<Longrightarrow> unat c = unat a + unat b"
  by (auto simp: checked_add_u64_def u64_max_def unat_word_ariths split: if_splits)

lemma checked_add_u64_None:
  "checked_add_u64 a b = None \<longleftrightarrow> 2 ^ 64 \<le> unat a + unat b"
  by (auto simp: checked_add_u64_def u64_max_def)

text \<open>\<^verbatim>\<open>u64::try_from(usize).unwrap_or(u64::MAX)\<close>\<close>

definition saturating_usize_to_u64 :: "nat \<Rightarrow> u64" where
  "saturating_usize_to_u64 n = (if n > u64_max then of_nat u64_max else of_nat n)"

lemma unat_saturating [simp]: "unat (saturating_usize_to_u64 n) = min n u64_max"
  by (auto simp: saturating_usize_to_u64_def u64_max_def unat_of_nat min_def)

text \<open>\<^verbatim>\<open>AtomicU64::fetch_add(1)\<close> wraps around.\<close>

abbreviation (input) bump :: "u64 \<Rightarrow> u64" where
  "bump n \<equiv> n + 1"

section \<open>Durations\<close>

definition duration_max :: duration where
  "duration_max = u64_max * 10 ^ 9 + 999999999"

definition from_millis :: "nat \<Rightarrow> duration" where
  "from_millis n = n * 10 ^ 6"

definition from_secs :: "nat \<Rightarrow> duration" where
  "from_secs n = n * 10 ^ 9"

definition dur_saturating_mul :: "duration \<Rightarrow> nat \<Rightarrow> duration" where
  "dur_saturating_mul d k = min (d * k) duration_max"

end
