(* ===== verification/Json.thy ===== *)
theory Json
  imports Rust_Str Ordered_Map Machine
begin

text \<open>
  JSON values as the code handles them (\<^verbatim>\<open>serde_json::Value\<close>): an object is an ordered map by key,
  a number is an unsigned integer, a negative integer or a finite binary64 number. Parsing, printing
  and the formatting of a floating-point number belong to the library; they are the fields of the
  record \<open>serde_lib\<close> that the definitions take as an argument.
\<close>

section \<open>Binary64 numbers\<close>

text \<open>
  A binary64 number is its bit pattern. Its order is that of the sign and magnitude of the pattern:
  for numbers that are not NaN the magnitude bits, read as an integer, grow with the absolute value.
\<close>

type_synonym f64 = u64

definition f64_mag :: "f64 \<Rightarrow> nat" where
  "f64_mag w = unat w mod 2 ^ 63"

definition f64_neg :: "f64 \<Rightarrow> bool" where
  "f64_neg w \<longleftrightarrow> 2 ^ 63 \<le> unat w"

definition f64_key :: "f64 \<Rightarrow> int" where
  "f64_key w = (if f64_neg w then - int (f64_mag w) else int (f64_mag w))"

definition f64_is_nan :: "f64 \<Rightarrow> bool" where
  "f64_is_nan w \<longleftrightarrow> f64_mag w > 2047 * 2 ^ 52"

definition f64_lt :: "f64 \<Rightarrow> f64 \<Rightarrow> bool" where
  "f64_lt a b \<longleftrightarrow> \<not> f64_is_nan a \<and> \<not> f64_is_nan b \<and> f64_key a < f64_key b"

definition f64_le :: "f64 \<Rightarrow> f64 \<Rightarrow> bool" where
  "f64_le a b \<longleftrightarrow> \<not> f64_is_nan a \<and> \<not> f64_is_nan b \<and> f64_key a \<le> f64_key b"

definition f64_eq :: "f64 \<Rightarrow> f64 \<Rightarrow> bool" where
  "f64_eq a b \<longleftrightarrow> \<not> f64_is_nan a \<and> \<not> f64_is_nan b \<and> f64_key a = f64_key b"

text \<open>
  \<^verbatim>\<open>n as f64\<close> for an integer: the nearest number with a 53-bit significand, ties to even. With \<open>k\<close>
  bits in \<open>n\<close>, the biased exponent is \<open>k + 1022\<close>; a carry out of the rounded significand moves into
  the exponent field, as the addition below does.
\<close>

fun bit_len :: "nat \<Rightarrow> nat" where
  "bit_len n = (if n = 0 then 0 else Suc (bit_len (n div 2)))"

declare bit_len.simps [simp del]

definition round_shift :: "nat \<Rightarrow> nat \<Rightarrow> nat" where
  "round_shift n s =
     (let q = n div 2 ^ s; r = n mod 2 ^ s; h = 2 ^ (s - 1)
      in if r > h \<or> r = h \<and> odd q then Suc q else q)"

definition nat_to_f64_mag :: "nat \<Rightarrow> nat" where
  "nat_to_f64_mag n =
     (if n = 0 then 0
      else let k = bit_len n in
        (k + 1021) * 2 ^ 52 +
        (if k \<le> 53 then n * 2 ^ (53 - k) else round_shift n (k - 53)))"

definition u64_as_f64 :: "u64 \<Rightarrow> f64" where
  "u64_as_f64 n = of_nat (nat_to_f64_mag (unat n))"

definition i64_as_f64 :: "64 word \<Rightarrow> f64" where
  "i64_as_f64 i =
     (let m = of_nat (nat_to_f64_mag (nat \<bar>sint i\<bar>)) in if sint i < 0 then 2 ^ 63 + m else m)"

lemma bit_len_0 [simp]: "bit_len 0 = 0"
  by (simp add: bit_len.simps)

lemma bit_len_bounds: "n > 0 \<Longrightarrow> 2 ^ (bit_len n - 1) \<le> n \<and> n < 2 ^ bit_len n"
proof (induction n rule: bit_len.induct)
  case (1 n)
  show ?case
  proof (cases "n div 2 = 0")
    case True
    with "1.prems" have "n = 1" by linarith
    then show ?thesis by (simp add: bit_len.simps)
  next
    case False
    then have "0 < bit_len (n div 2)" by (simp add: bit_len.simps [of "n div 2"])
    then obtain j where j: "bit_len (n div 2) = Suc j" by (cases "bit_len (n div 2)") auto
    from "1" False have "2 ^ (bit_len (n div 2) - 1) \<le> n div 2 \<and> n div 2 < 2 ^ bit_len (n div 2)"
      by simp
    with j have "2 ^ Suc j \<le> n \<and> n < 2 ^ Suc (Suc j)" by auto
    with j "1.prems" show ?thesis by (simp add: bit_len.simps [of n])
  qed
qed

lemma bit_len_pos [simp]: "n > 0 \<Longrightarrow> 0 < bit_len n"
  by (simp add: bit_len.simps [of n])

lemma bit_len_mono: "n \<le> m \<Longrightarrow> bit_len n \<le> bit_len m"
proof (cases "n = 0")
  case False
  assume le: "n \<le> m"
  with False have "2 ^ (bit_len n - 1) \<le> n" "m < 2 ^ bit_len m"
    using bit_len_bounds [of n] bit_len_bounds [of m] by auto
  with le have "(2::nat) ^ (bit_len n - 1) < 2 ^ bit_len m" by linarith
  then have "bit_len n - 1 < bit_len m" by (rule power_less_imp_less_exp [rotated]) simp
  then show ?thesis by linarith
qed simp

lemma bit_len_le: "n < 2 ^ k \<Longrightarrow> bit_len n \<le> k"
proof (cases "n = 0")
  case False
  assume "n < 2 ^ k"
  with False have "(2::nat) ^ (bit_len n - 1) < 2 ^ k"
    using bit_len_bounds [of n] by linarith
  then have "bit_len n - 1 < k" by (rule power_less_imp_less_exp [rotated]) simp
  then show ?thesis by linarith
qed simp

text \<open>Rounding is monotone, so the conversion never reverses the order of two integers.\<close>

lemma round_shift_mono: "n \<le> m \<Longrightarrow> round_shift n s \<le> round_shift m s"
proof -
  assume le: "n \<le> m"
  let ?p = "2 ^ s :: nat"
  have q: "n div ?p \<le> m div ?p" using le by (rule div_le_mono)
  show ?thesis
  proof (cases "n div ?p = m div ?p")
    case True
    have "n mod ?p \<le> m mod ?p"
      using le True by (metis add_le_cancel_left div_mult_mod_eq)
    with True show ?thesis by (auto simp: round_shift_def Let_def)
  next
    case False
    with q have "Suc (n div ?p) \<le> m div ?p" by simp
    then show ?thesis by (auto simp: round_shift_def Let_def)
  qed
qed

lemma significand_bounds:
  assumes "n > 0"
  defines "k \<equiv> bit_len n"
  defines "m \<equiv> (if k \<le> 53 then n * 2 ^ (53 - k) else round_shift n (k - 53))"
  shows "2 ^ 52 \<le> m" and "m \<le> 2 ^ 53" and "k \<le> 53 \<Longrightarrow> m < 2 ^ 53"
proof -
  have b: "2 ^ (k - 1) \<le> n" "n < 2 ^ k" and k: "0 < k"
    using bit_len_bounds [OF assms(1)] bit_len_pos [OF assms(1)] by (simp_all add: k_def)
  have small: "2 ^ 52 \<le> n * 2 ^ (53 - k) \<and> n * 2 ^ (53 - k) < 2 ^ 53" if "k \<le> 53"
  proof
    have "(2::nat) ^ 52 = 2 ^ (k - 1) * 2 ^ (53 - k)"
      using k that by (simp add: power_add [symmetric])
    also have "\<dots> \<le> n * 2 ^ (53 - k)" using b by simp
    finally show "2 ^ 52 \<le> n * 2 ^ (53 - k)" .
    have "n * 2 ^ (53 - k) < 2 ^ k * 2 ^ (53 - k)" using b by simp
    also have "\<dots> = 2 ^ 53" using that by (simp add: power_add [symmetric])
    finally show "n * 2 ^ (53 - k) < 2 ^ 53" .
  qed
  have large: "2 ^ 52 \<le> round_shift n (k - 53) \<and> round_shift n (k - 53) \<le> 2 ^ 53" if "\<not> k \<le> 53"
  proof
    let ?s = "k - 53"
    have "(2::nat) ^ 52 = 2 ^ (k - 1) div 2 ^ ?s"
      using that by (simp add: power_diff [symmetric])
    also have "\<dots> \<le> n div 2 ^ ?s" using b(1) by (rule div_le_mono)
    also have "\<dots> \<le> round_shift n ?s" by (simp add: round_shift_def Let_def)
    finally show "2 ^ 52 \<le> round_shift n ?s" .
    have "(2::nat) ^ k = 2 ^ (53 + ?s)" using that by (intro arg_cong [where f = "(^) 2"]) simp
    with b(2) have "n < 2 ^ 53 * 2 ^ ?s" by (simp only: power_add)
    then have "n div 2 ^ ?s < 2 ^ 53" by (simp add: less_mult_imp_div_less)
    then show "round_shift n ?s \<le> 2 ^ 53" by (simp add: round_shift_def Let_def)
  qed
  show "2 ^ 52 \<le> m" "m \<le> 2 ^ 53" "k \<le> 53 \<Longrightarrow> m < 2 ^ 53"
    using small large by (auto simp: m_def)
qed

lemma nat_to_f64_mag_mono: "n \<le> m \<Longrightarrow> nat_to_f64_mag n \<le> nat_to_f64_mag m"
proof (cases "n = 0")
  case False
  assume le: "n \<le> m"
  let ?k = "bit_len n" and ?l = "bit_len m"
  show ?thesis
  proof (cases "?k = ?l")
    case True
    with False le show ?thesis
      by (auto simp: nat_to_f64_mag_def Let_def intro: round_shift_mono)
  next
    case neq: False
    with bit_len_mono [OF le] have "Suc ?k \<le> ?l" by simp
    then have "(Suc ?k + 1021) * 2 ^ 52 \<le> (?l + 1021) * 2 ^ 52" by (intro mult_le_mono1) simp
    with significand_bounds(2) [of n] significand_bounds(1) [of m] False le show ?thesis
      by (auto simp: nat_to_f64_mag_def Let_def)
  qed
qed (simp add: nat_to_f64_mag_def)

text \<open>Below two to the 53 it is exact, hence strictly monotone.\<close>

lemma nat_to_f64_mag_strict: "n < m \<Longrightarrow> m < 2 ^ 53 \<Longrightarrow> nat_to_f64_mag n < nat_to_f64_mag m"
proof -
  assume lt: "n < m" and m: "m < 2 ^ 53"
  let ?k = "bit_len n" and ?l = "bit_len m"
  have l: "?l \<le> 53" using bit_len_le [OF m] .
  have kl: "?k \<le> ?l" using bit_len_mono [of n m] lt by simp
  show ?thesis
  proof (cases "n = 0")
    case True
    with lt show ?thesis by (simp add: nat_to_f64_mag_def Let_def)
  next
    case False
    show ?thesis
    proof (cases "?k = ?l")
      case True
      with False lt l show ?thesis by (simp add: nat_to_f64_mag_def Let_def)
    next
      case neq: False
      with kl have "Suc ?k \<le> ?l" by simp
      then have "(Suc ?k + 1021) * 2 ^ 52 \<le> (?l + 1021) * 2 ^ 52" by (intro mult_le_mono1) simp
      with significand_bounds(3) [of n] significand_bounds(1) [of m] False lt kl l show ?thesis
        by (auto simp: nat_to_f64_mag_def Let_def)
    qed
  qed
qed

lemma nat_to_f64_mag_bound: "n < 2 ^ 64 \<Longrightarrow> nat_to_f64_mag n \<le> 1087 * 2 ^ 52"
proof -
  assume "n < 2 ^ 64"
  then have "bit_len n \<le> 64" by (rule bit_len_le)
  then have "(bit_len n + 1021) * 2 ^ 52 \<le> 1085 * 2 ^ 52" by (intro mult_le_mono1) simp
  with significand_bounds(2) [of n] show ?thesis
    by (cases "n = 0") (auto simp: nat_to_f64_mag_def Let_def)
qed

lemma unat_u64_less: "unat (n :: u64) < 2 ^ 64"
  using unsigned_less [of n, where ?'a = nat] by simp

lemma u64_as_f64_mag: "f64_mag (u64_as_f64 n) = nat_to_f64_mag (unat n)"
  and u64_as_f64_sign: "\<not> f64_neg (u64_as_f64 n)"
proof -
  have b: "nat_to_f64_mag (unat n) < 2 ^ 63"
    using nat_to_f64_mag_bound [of "unat n"] unat_u64_less [of n] by simp
  then have "unat (u64_as_f64 n) = nat_to_f64_mag (unat n)"
    by (simp add: u64_as_f64_def unat_of_nat)
  with b show "f64_mag (u64_as_f64 n) = nat_to_f64_mag (unat n)" "\<not> f64_neg (u64_as_f64 n)"
    by (simp_all add: f64_mag_def f64_neg_def)
qed

lemma u64_as_f64_key: "f64_key (u64_as_f64 n) = int (nat_to_f64_mag (unat n))"
  by (simp add: f64_key_def u64_as_f64_mag u64_as_f64_sign)

lemma u64_as_f64_not_nan: "\<not> f64_is_nan (u64_as_f64 n)"
  using nat_to_f64_mag_bound [of "unat n"] unat_u64_less [of n]
  by (simp add: f64_is_nan_def u64_as_f64_mag)

section \<open>Values\<close>

datatype number =
  PosInt u64
| NegInt "64 word"
| Float f64

datatype json =
  JNull
| JBool bool
| JNumber number
| JString string
| JArray "json list"
| JObject "(string \<times> json) list"

type_synonym json_map = "(string, json) bmap"

text \<open>\<^verbatim>\<open>Number::as_f64\<close> always returns \<^verbatim>\<open>Some\<close> for the three kinds of number.\<close>

fun as_f64 :: "number \<Rightarrow> f64 option" where
  "as_f64 (PosInt n) = Some (u64_as_f64 n)"
| "as_f64 (NegInt i) = Some (i64_as_f64 i)"
| "as_f64 (Float x) = Some x"

text \<open>The library keeps the negative kind for integers below zero.\<close>

fun number_sign_ok :: "number \<Rightarrow> bool" where
  "number_sign_ok (NegInt i) = (sint i < 0)"
| "number_sign_ok _ = True"

text \<open>The integer a number stands for, when it is not a floating-point number.\<close>

fun int_value :: "number \<Rightarrow> int option" where
  "int_value (PosInt n) = Some (uint n)"
| "int_value (NegInt i) = Some (sint i)"
| "int_value (Float x) = None"

definition int_key :: "int \<Rightarrow> int" where
  "int_key i = sgn i * int (nat_to_f64_mag (nat \<bar>i\<bar>))"

lemma nat_to_f64_mag_0 [simp]: "nat_to_f64_mag 0 = 0"
  by (simp add: nat_to_f64_mag_def)

lemma int_key_mono: "i \<le> j \<Longrightarrow> int_key i \<le> int_key j"
proof -
  assume le: "i \<le> j"
  consider "0 < i" | "i \<le> 0" "0 \<le> j" | "j < 0" using le by linarith
  then show ?thesis
  proof cases
    case 1
    with le nat_to_f64_mag_mono [of "nat i" "nat j"] show ?thesis by (simp add: int_key_def)
  next
    case 2
    then show ?thesis by (simp add: int_key_def sgn_if)
  next
    case 3
    with le nat_to_f64_mag_mono [of "nat (- j)" "nat (- i)"] show ?thesis by (simp add: int_key_def)
  qed
qed

lemma int_key_strict: "i < j \<Longrightarrow> \<bar>i\<bar> < 2 ^ 53 \<Longrightarrow> \<bar>j\<bar> < 2 ^ 53 \<Longrightarrow> int_key i < int_key j"
proof -
  assume lt: "i < j" and bi: "\<bar>i\<bar> < 2 ^ 53" and bj: "\<bar>j\<bar> < 2 ^ 53"
  have pos: "0 < nat_to_f64_mag (nat k)" if "0 < k" "k < 2 ^ 53" for k
    using nat_to_f64_mag_strict [of 0 "nat k"] that by simp
  consider "0 < i" | "i \<le> 0" "0 < j" | "i < 0" "j \<le> 0" using lt by linarith
  then show ?thesis
  proof cases
    case 1
    with lt bj nat_to_f64_mag_strict [of "nat i" "nat j"] show ?thesis by (simp add: int_key_def)
  next
    case 2
    with bj pos [of j] show ?thesis by (simp add: int_key_def sgn_if)
  next
    case 3
    then have "nat_to_f64_mag (nat (- j)) < nat_to_f64_mag (nat (- i))"
      using lt bi by (intro nat_to_f64_mag_strict) simp_all
    with 3 show ?thesis by (cases "j = 0") (simp_all add: int_key_def sgn_if)
  qed
qed

lemma nat_abs_sint_less: "nat \<bar>sint (i :: 64 word)\<bar> < 2 ^ 64"
  using sint_greater_eq [of i] sint_less [of i] by simp

lemma i64_as_f64_neg:
  assumes "sint i < 0"
  shows "f64_mag (i64_as_f64 i) = nat_to_f64_mag (nat \<bar>sint i\<bar>)" and "f64_neg (i64_as_f64 i)"
proof -
  let ?m = "nat_to_f64_mag (nat \<bar>sint i\<bar>)"
  have b: "?m < 2 ^ 63" using nat_to_f64_mag_bound [OF nat_abs_sint_less [of i]] by simp
  have "i64_as_f64 i = of_nat (2 ^ 63 + ?m)" using assms by (simp add: i64_as_f64_def Let_def)
  then have "unat (i64_as_f64 i) = 2 ^ 63 + ?m" using b by (simp only: unat_of_nat) simp
  with b show "f64_mag (i64_as_f64 i) = ?m" "f64_neg (i64_as_f64 i)"
    by (simp_all add: f64_mag_def f64_neg_def)
qed

text \<open>The binary64 image of an integer orders as its key.\<close>

lemma as_f64_int:
  assumes "int_value n = Some i" and "number_sign_ok n"
  obtains x where "as_f64 n = Some x" "f64_key x = int_key i" "\<not> f64_is_nan x"
proof (cases n)
  case (PosInt w)
  have "f64_key (u64_as_f64 w) = int_key (uint w)"
  proof (cases "w = 0")
    case False
    then have "0 < uint w" by (metis order_less_le unsigned_eq_0_iff unsigned_greater_eq)
    moreover have "nat \<bar>uint w\<bar> = unat w" by simp
    ultimately show ?thesis using False by (simp add: u64_as_f64_key int_key_def)
  qed (simp add: u64_as_f64_key int_key_def)
  with PosInt assms that show ?thesis using u64_as_f64_not_nan by force
next
  case (NegInt w)
  with assms have neg: "sint w < 0" and i: "i = sint w" by simp_all
  have "f64_key (i64_as_f64 w) = int_key (sint w)"
    using i64_as_f64_neg [OF neg] neg by (simp add: f64_key_def int_key_def)
  moreover have "\<not> f64_is_nan (i64_as_f64 w)"
    using nat_to_f64_mag_bound [OF nat_abs_sint_less [of w]] i64_as_f64_neg [OF neg]
    by (simp add: f64_is_nan_def)
  ultimately show ?thesis using that NegInt i by simp
next
  case (Float x)
  with assms show ?thesis by simp
qed

text \<open>
  Equality of values is structural; two floating-point numbers compare as \<^verbatim>\<open>f64\<close>, so the two
  zeros are equal, and numbers of different kinds are never equal.
\<close>

fun number_eq :: "number \<Rightarrow> number \<Rightarrow> bool" where
  "number_eq (PosInt a) (PosInt b) = (a = b)"
| "number_eq (NegInt a) (NegInt b) = (a = b)"
| "number_eq (Float a) (Float b) = f64_eq a b"
| "number_eq _ _ = False"

fun json_eq :: "json \<Rightarrow> json \<Rightarrow> bool"
  and json_list_eq :: "json list \<Rightarrow> json list \<Rightarrow> bool"
  and json_map_eq :: "(string \<times> json) list \<Rightarrow> (string \<times> json) list \<Rightarrow> bool" where
  "json_eq JNull JNull = True"
| "json_eq (JBool a) (JBool b) = (a = b)"
| "json_eq (JNumber a) (JNumber b) = number_eq a b"
| "json_eq (JString a) (JString b) = (a = b)"
| "json_eq (JArray a) (JArray b) = json_list_eq a b"
| "json_eq (JObject a) (JObject b) = json_map_eq a b"
| "json_eq _ _ = False"
| "json_list_eq [] [] = True"
| "json_list_eq (x # xs) (y # ys) = (json_eq x y \<and> json_list_eq xs ys)"
| "json_list_eq _ _ = False"
| "json_map_eq [] [] = True"
| "json_map_eq ((k, x) # xs) ((l, y) # ys) = (k = l \<and> json_eq x y \<and> json_map_eq xs ys)"
| "json_map_eq _ _ = False"

text \<open>
  The values the parser builds: objects in key order with distinct keys, negative integers below
  zero, finite floating-point numbers.
\<close>

fun number_wf :: "number \<Rightarrow> bool" where
  "number_wf (PosInt n) = True"
| "number_wf (NegInt i) = (sint i < 0)"
| "number_wf (Float x) = (f64_mag x < 2047 * 2 ^ 52)"

fun json_wf :: "json \<Rightarrow> bool" where
  "json_wf (JNumber n) = number_wf n"
| "json_wf (JArray xs) = list_all json_wf xs"
| "json_wf (JObject m) = (bm_wf m \<and> list_all (\<lambda>kv. json_wf (snd kv)) m)"
| "json_wf _ = True"

lemma number_eq_refl: "number_wf n \<Longrightarrow> number_eq n n"
  by (cases n) (auto simp: f64_eq_def f64_is_nan_def)

lemma json_list_eq_refl: "\<forall>x \<in> set xs. json_eq x x \<Longrightarrow> json_list_eq xs xs"
  by (induction xs) auto

lemma json_map_eq_refl: "\<forall>kv \<in> set m. json_eq (snd kv) (snd kv) \<Longrightarrow> json_map_eq m m"
  by (induction m) auto

lemma json_eq_refl: "json_wf v \<Longrightarrow> json_eq v v"
proof (induction v)
  case (JArray xs)
  then show ?case by (auto simp: list_all_iff intro: json_list_eq_refl)
next
  case (JObject m)
  then show ?case by (fastforce simp: list_all_iff intro: json_map_eq_refl)
qed (auto simp: number_eq_refl)

section \<open>The library\<close>

text \<open>
  \<^verbatim>\<open>serde_json::from_slice::<Value>\<close>, \<^verbatim>\<open>serde_json::to_vec\<close> and the shortest decimal of a
  floating-point number, with the text of the error where they fail.
\<close>

record serde_lib =
  from_slice :: "string \<Rightarrow> string + json"
  to_vec :: "json \<Rightarrow> string + string"
  f64_to_string :: "f64 \<Rightarrow> string"

fun number_to_string :: "serde_lib \<Rightarrow> number \<Rightarrow> string" where
  "number_to_string lib (PosInt n) = show_nat (unat n)"
| "number_to_string lib (NegInt i) = show_int (sint i)"
| "number_to_string lib (Float x) = f64_to_string lib x"

text \<open>Documented behaviour: the parser builds well-formed values, and reads back what the printer wrote.\<close>

definition parses_well_formed :: "serde_lib \<Rightarrow> bool" where
  "parses_well_formed lib \<longleftrightarrow> (\<forall>s v. from_slice lib s = Inr v \<longrightarrow> json_wf v)"

definition parses_printed :: "serde_lib \<Rightarrow> bool" where
  "parses_printed lib \<longleftrightarrow>
     (\<forall>v s. json_wf v \<longrightarrow> to_vec lib v = Inr s \<longrightarrow> from_slice lib s = Inr v)"

text \<open>A concrete library for the examples: it reads two fixed texts.\<close>

definition sample_lib :: serde_lib where
  "sample_lib =
     \<lparr>from_slice = (\<lambda>s. if s = ''1'' then Inr (JNumber (PosInt 1))
                         else if s = ''o'' then Inr (JObject [(''t'', JNumber (PosInt 21)), (''u'', JString ''C'')])
                         else Inl ''unexpected text''),
      to_vec = (\<lambda>v. case v of JString s \<Rightarrow> Inr s | _ \<Rightarrow> Inr ''o''),
      f64_to_string = (\<lambda>x. ''0.5'')\<rparr>"

end
