(* ===== verification/Domain_Config.thy ===== *)
theory Domain_Config
  imports Domain_Ids Json
begin

text \<open>
  Project configuration and its validation (\<^verbatim>\<open>config.rs\<close>, \<^verbatim>\<open>rule.rs\<close> and \<^verbatim>\<open>action.rs\<close> of
  \<^verbatim>\<open>pipe-bolt-domain\<close>). Every struct is a record whose fields carry a prefix for the struct; every
  \<^verbatim>\<open>validate\<close> method is a definition that returns the first error the code returns.
\<close>

section \<open>Brokers\<close>

definition max_name_bytes :: nat where "max_name_bytes = 160"
definition max_description_bytes :: nat where "max_description_bytes = 2048"
definition max_topic_bytes :: nat where "max_topic_bytes = 1024"
definition max_host_bytes :: nat where "max_host_bytes = 255"

datatype tls_mode = TlsDisabled | NativeRoots

type_synonym secret_string = string

definition secret_string_new :: "string \<Rightarrow> domain_error + secret_string" where
  "secret_string_new v = res_bind (validate_text ''secret'' v 4096) (\<lambda>_. Inr v)"

text \<open>What a secret serializes to, whatever its value.\<close>

definition secret_string_serialize :: "secret_string \<Rightarrow> string" where
  "secret_string_serialize s = ''<redacted>''"

record mqtt_credentials =
  cr_username :: string
  cr_password :: secret_string

definition mqtt_credentials_validate :: "mqtt_credentials \<Rightarrow> domain_error + unit" where
  "mqtt_credentials_validate c = validate_text ''mqtt_username'' (cr_username c) max_name_bytes"

record reconnect_policy =
  rp_min_delay :: duration
  rp_max_delay :: duration

definition reconnect_policy_default :: reconnect_policy where
  "reconnect_policy_default = \<lparr>rp_min_delay = from_millis 500, rp_max_delay = from_secs 30\<rparr>"

definition reconnect_policy_validate :: "reconnect_policy \<Rightarrow> domain_error + unit" where
  "reconnect_policy_validate p =
     (if rp_min_delay p = 0 then Inl (EmptyField ''reconnect_min_delay'')
      else if rp_max_delay p < rp_min_delay p
      then Inl (InvalidFieldPath ''reconnect max_delay must be greater than or equal to min_delay'')
      else Inr ())"

record broker_connection_config =
  bc_id :: broker_id
  bc_name :: string
  bc_host :: string
  bc_port :: u16
  bc_tls :: tls_mode
  bc_credentials :: "mqtt_credentials option"
  bc_keep_alive :: duration
  bc_clean_session :: bool
  bc_client_id :: string
  bc_reconnect :: reconnect_policy
  bc_enabled :: bool

definition broker_connection_config_validate :: "broker_connection_config \<Rightarrow> domain_error + unit" where
  "broker_connection_config_validate b =
     res_bind (validate_text ''broker_name'' (bc_name b) max_name_bytes) (\<lambda>_.
     res_bind (validate_text ''broker_host'' (bc_host b) max_host_bytes) (\<lambda>_.
     res_bind (validate_text ''broker_client_id'' (bc_client_id b) max_name_bytes) (\<lambda>_.
     if bc_port b = 0 then Inl InvalidBrokerPort
     else if bc_keep_alive b < from_secs 5 then Inl InvalidKeepAlive
     else
       res_bind (opt_check mqtt_credentials_validate (bc_credentials b)) (\<lambda>_.
       res_bind (reconnect_policy_validate (bc_reconnect b)) (\<lambda>_. Inr ())))))"

section \<open>Topics\<close>

type_synonym topic_filter = string
type_synonym topic_name = string

text \<open>The loop over the segments of a filter; \<open>n\<close> is the number of segments, \<open>i\<close> the index.\<close>

fun topic_filter_parts :: "nat \<Rightarrow> nat \<Rightarrow> string list \<Rightarrow> domain_error + unit" where
  "topic_filter_parts n i [] = Inr ()"
| "topic_filter_parts n i (part # parts) =
     (if CHR ''#'' \<in> set part \<and> part \<noteq> ''#''
      then Inl (InvalidTopicFilter ''multi-level wildcard must occupy the whole segment'')
      else if part = ''#'' \<and> i + 1 \<noteq> n
      then Inl (InvalidTopicFilter ''multi-level wildcard must be the last segment'')
      else if CHR ''+'' \<in> set part \<and> part \<noteq> ''+''
      then Inl (InvalidTopicFilter ''single-level wildcard must occupy the whole segment'')
      else topic_filter_parts n (i + 1) parts)"

definition topic_filter_validate :: "topic_filter \<Rightarrow> domain_error + unit" where
  "topic_filter_validate f =
     res_bind (validate_text ''topic_filter'' f max_topic_bytes) (\<lambda>_.
       let parts = split_on CHR ''/'' f in topic_filter_parts (length parts) 0 parts)"

definition topic_filter_new :: "string \<Rightarrow> domain_error + topic_filter" where
  "topic_filter_new v = res_bind (topic_filter_validate v) (\<lambda>_. Inr v)"

definition topic_name_new :: "string \<Rightarrow> domain_error + topic_name" where
  "topic_name_new v =
     res_bind (validate_text ''topic'' v max_topic_bytes) (\<lambda>_.
       if CHR ''+'' \<in> set v \<or> CHR ''#'' \<in> set v
       then Inl (InvalidTopicName ''topic name must not contain wildcards'') else Inr v)"

datatype payload_codec_kind = CodecJson | CodecRaw

datatype mqtt_qos = AtMostOnce | AtLeastOnce | ExactlyOnce

datatype device_id_extraction =
  DeviceNone
| DeviceStatic string
| TopicWildcardIndex nat
| PayloadField field_path

datatype backpressure_policy = DropNewest | DropOldest | RejectPolicy | BlockProducer

record topic_route_config =
  tr_id :: route_id
  tr_broker_id :: broker_id
  tr_name :: string
  tr_topic_filter :: topic_filter
  tr_codec :: payload_codec_kind
  tr_schema_mapping_id :: "schema_mapping_id option"
  tr_device_id :: device_id_extraction
  tr_event_type :: string
  tr_qos :: mqtt_qos
  tr_enabled :: bool
  tr_backpressure :: backpressure_policy

definition topic_route_config_validate :: "topic_route_config \<Rightarrow> domain_error + unit" where
  "topic_route_config_validate r =
     res_bind (validate_text ''route_name'' (tr_name r) max_name_bytes) (\<lambda>_.
     res_bind (validate_text ''event_type'' (tr_event_type r) max_name_bytes) (\<lambda>_.
     topic_filter_validate (tr_topic_filter r)))"

section \<open>Schema mappings, command templates and sinks\<close>

datatype field_value_type = TString | TNumber | TBoolean | TObject | TArray

record field_mapping =
  fm_source :: field_path
  fm_target :: string
  fm_value_type :: field_value_type
  fm_required :: bool
  fm_default :: "json option"

definition field_mapping_validate :: "field_mapping \<Rightarrow> domain_error + unit" where
  "field_mapping_validate f = validate_text ''field_mapping_target'' (fm_target f) max_name_bytes"

record payload_schema_mapping =
  sm_id :: schema_mapping_id
  sm_name :: string
  sm_fields :: "field_mapping list"

definition payload_schema_mapping_validate :: "payload_schema_mapping \<Rightarrow> domain_error + unit" where
  "payload_schema_mapping_validate m =
     res_bind (validate_text ''schema_mapping_name'' (sm_name m) max_name_bytes) (\<lambda>_.
     try_for_each field_mapping_validate (sm_fields m))"

record command_template =
  ct_id :: command_template_id
  ct_name :: string
  ct_broker_id :: broker_id
  ct_topic_template :: string
  ct_payload_template :: json
  ct_qos :: mqtt_qos
  ct_retain :: bool
  ct_enabled :: bool

definition command_template_validate :: "command_template \<Rightarrow> domain_error + unit" where
  "command_template_validate t =
     res_bind (validate_text ''command_template_name'' (ct_name t) max_name_bytes) (\<lambda>_.
     validate_text ''command_topic_template'' (ct_topic_template t) max_topic_bytes)"

datatype http_method = Post | Put | Patch

record http_header_template =
  hh_name :: string
  hh_value :: secret_string

datatype sink_kind =
  Webhook string http_method "http_header_template list" duration
| Database string string

record sink_definition =
  sk_id :: sink_id
  sk_name :: string
  sk_enabled :: bool
  sk_kind :: sink_kind

definition sink_definition_validate :: "sink_definition \<Rightarrow> domain_error + unit" where
  "sink_definition_validate s = validate_text ''sink_name'' (sk_name s) max_name_bytes"

text \<open>Durations on the wire: whole seconds, or whole milliseconds saturated at 64 bits.\<close>

definition duration_seconds_serialize :: "duration \<Rightarrow> u64" where
  "duration_seconds_serialize d = of_nat (d div 10 ^ 9)"

definition duration_seconds_deserialize :: "u64 \<Rightarrow> duration" where
  "duration_seconds_deserialize s = from_secs (unat s)"

definition duration_millis_serialize :: "duration \<Rightarrow> u64" where
  "duration_millis_serialize d = of_nat (min (d div 10 ^ 6) u64_max)"

definition duration_millis_deserialize :: "u64 \<Rightarrow> duration" where
  "duration_millis_deserialize m = from_millis (unat m)"

section \<open>Rules\<close>

datatype action_intent_template =
  TStreamToUi
| TForwardToSink sink_id
| TExecuteCommand command_template_id "(string, json) bmap"
| TDropEvent
| TAddMetadata string string

datatype rule_trigger =
  EventReceived
| RouteMatched route_id
| CommandRequested command_template_id

datatype field_ref =
  FromEvent field_path
| FromPayload field_path
| Extracted string
| DeviceId
| EventType
| TopicRef

datatype value_expr = FieldExpr field_ref | Literal json

datatype condition_expr =
  ExistsC field_ref
| Equals value_expr value_expr
| NotEquals value_expr value_expr
| GreaterThan value_expr value_expr
| GreaterThanOrEqual value_expr value_expr
| LessThan value_expr value_expr
| LessThanOrEqual value_expr value_expr
| ContainsC value_expr value_expr
| AndC "condition_expr list"
| OrC "condition_expr list"
| NotC condition_expr

record rule_definition =
  rd_id :: rule_id
  rd_name :: string
  rd_enabled :: bool
  rd_trigger :: rule_trigger
  rd_condition :: "condition_expr option"
  rd_actions :: "action_intent_template list"

fun validate_field_ref :: "field_ref \<Rightarrow> domain_error + unit" where
  "validate_field_ref (Extracted name) = validate_text ''extracted_field_name'' name 160"
| "validate_field_ref _ = Inr ()"

fun validate_value_expr :: "value_expr \<Rightarrow> domain_error + unit" where
  "validate_value_expr (FieldExpr f) = validate_field_ref f"
| "validate_value_expr (Literal v) = Inr ()"

definition validate_operands :: "value_expr \<Rightarrow> value_expr \<Rightarrow> domain_error + unit" where
  "validate_operands l r =
     res_bind (validate_value_expr l) (\<lambda>_. res_bind (validate_value_expr r) (\<lambda>_. Inr ()))"

fun validate_condition :: "condition_expr \<Rightarrow> domain_error + unit" where
  "validate_condition (AndC cs) =
     (if cs = [] then Inl (InvalidFieldPath ''condition group must not be empty'')
      else try_for_each validate_condition cs)"
| "validate_condition (OrC cs) =
     (if cs = [] then Inl (InvalidFieldPath ''condition group must not be empty'')
      else try_for_each validate_condition cs)"
| "validate_condition (NotC c) = validate_condition c"
| "validate_condition (ExistsC f) = validate_field_ref f"
| "validate_condition (Equals l r) = validate_operands l r"
| "validate_condition (NotEquals l r) = validate_operands l r"
| "validate_condition (GreaterThan l r) = validate_operands l r"
| "validate_condition (GreaterThanOrEqual l r) = validate_operands l r"
| "validate_condition (LessThan l r) = validate_operands l r"
| "validate_condition (LessThanOrEqual l r) = validate_operands l r"
| "validate_condition (ContainsC l r) = validate_operands l r"

fun validate_action_template :: "action_intent_template \<Rightarrow> domain_error + unit" where
  "validate_action_template (TAddMetadata key v) =
     res_bind (validate_text ''metadata_key'' key 128) (\<lambda>_.
     validate_text ''metadata_value'' v 1024)"
| "validate_action_template (TExecuteCommand t params) =
     try_for_each (\<lambda>key. validate_text ''command_param_name'' key 160) (map fst params)"
| "validate_action_template _ = Inr ()"

definition rule_definition_validate :: "rule_definition \<Rightarrow> domain_error + unit" where
  "rule_definition_validate r =
     res_bind (validate_text ''rule_name'' (rd_name r) 160) (\<lambda>_.
     if rd_actions r = [] then Inl (InvalidFieldPath ''rule must define at least one action'')
     else
       res_bind (opt_check validate_condition (rd_condition r)) (\<lambda>_.
       try_for_each validate_action_template (rd_actions r)))"

section \<open>Projects\<close>

record project_config =
  pc_id :: project_id
  pc_tenant_id :: "tenant_id option"
  pc_name :: string
  pc_description :: "string option"
  pc_enabled :: bool
  pc_version :: u64
  pc_brokers :: "broker_connection_config list"
  pc_routes :: "topic_route_config list"
  pc_schema_mappings :: "payload_schema_mapping list"
  pc_rules :: "rule_definition list"
  pc_command_templates :: "command_template list"
  pc_sinks :: "sink_definition list"

definition project_config_validate :: "project_config \<Rightarrow> domain_error + unit" where
  "project_config_validate p =
     res_bind (validate_text ''project_name'' (pc_name p) max_name_bytes) (\<lambda>_.
     res_bind (opt_check (\<lambda>d. validate_text ''project_description'' d max_description_bytes)
                 (pc_description p)) (\<lambda>_.
     res_bind (try_for_each broker_connection_config_validate (pc_brokers p)) (\<lambda>_.
     res_bind (try_for_each topic_route_config_validate (pc_routes p)) (\<lambda>_.
     res_bind (try_for_each payload_schema_mapping_validate (pc_schema_mappings p)) (\<lambda>_.
     res_bind (try_for_each rule_definition_validate (pc_rules p)) (\<lambda>_.
     res_bind (try_for_each command_template_validate (pc_command_templates p)) (\<lambda>_.
     res_bind (try_for_each sink_definition_validate (pc_sinks p)) (\<lambda>_. Inr ()))))))))"

section \<open>What validation guarantees\<close>

text \<open>The shape of a valid filter, level by level.\<close>

definition level_ok :: "string \<Rightarrow> bool" where
  "level_ok part \<longleftrightarrow> (CHR ''#'' \<in> set part \<longrightarrow> part = ''#'') \<and> (CHR ''+'' \<in> set part \<longrightarrow> part = ''+'')"

definition filter_levels_ok :: "string list \<Rightarrow> bool" where
  "filter_levels_ok parts \<longleftrightarrow> list_all level_ok parts \<and> ''#'' \<notin> set (butlast parts)"

lemma topic_filter_parts_iff:
  "i + length parts = n \<Longrightarrow> topic_filter_parts n i parts = Inr u \<longleftrightarrow> filter_levels_ok parts"
proof (induction n i parts rule: topic_filter_parts.induct)
  case (2 n i part parts)
  have idx: "i + 1 \<noteq> n \<longleftrightarrow> parts \<noteq> []" using "2.prems" by (cases parts) auto
  have rest: "filter_levels_ok (part # parts) \<longleftrightarrow>
      level_ok part \<and> (part = ''#'' \<longrightarrow> parts = []) \<and> filter_levels_ok parts"
    by (auto simp: filter_levels_ok_def)
  let ?bad = "(CHR ''#'' \<in> set part \<and> part \<noteq> ''#'') \<or> (part = ''#'' \<and> i + 1 \<noteq> n) \<or>
              (CHR ''+'' \<in> set part \<and> part \<noteq> ''+'')"
  show ?case
  proof (cases ?bad)
    case True
    then have "\<not> filter_levels_ok (part # parts)"
      unfolding rest idx level_ok_def by blast
    moreover have "topic_filter_parts n i (part # parts) \<noteq> Inr u"
      using True unfolding topic_filter_parts.simps by (elim disjE) simp_all
    ultimately show ?thesis by blast
  next
    case False
    then have n: "\<not> (CHR ''#'' \<in> set part \<and> part \<noteq> ''#'')" "\<not> (part = ''#'' \<and> i + 1 \<noteq> n)"
        "\<not> (CHR ''+'' \<in> set part \<and> part \<noteq> ''+'')" by blast+
    have "topic_filter_parts n (i + 1) parts = Inr u \<longleftrightarrow> filter_levels_ok parts"
      by (rule "2.IH" [OF n]) (use "2.prems" in simp)
    moreover have "topic_filter_parts n i (part # parts) = topic_filter_parts n (i + 1) parts"
      using n by (simp only: topic_filter_parts.simps if_False)
    moreover have "level_ok part \<and> (part = ''#'' \<longrightarrow> parts = [])"
      using n unfolding idx level_ok_def by blast
    ultimately show ?thesis unfolding rest by metis
  qed
qed (simp add: filter_levels_ok_def)

lemma topic_filter_validate_iff:
  "topic_filter_validate f = Inr u \<longleftrightarrow>
     \<not> is_blank f \<and> length f \<le> 1024 \<and> \<not> has_control f \<and> filter_levels_ok (split_on CHR ''/'' f)"
  by (auto simp: topic_filter_validate_def max_topic_bytes_def topic_filter_parts_iff Let_def)

lemma topic_name_new_iff:
  "topic_name_new v = Inr t \<longleftrightarrow>
     t = v \<and> \<not> is_blank v \<and> length v \<le> 1024 \<and> \<not> has_control v \<and>
     CHR ''+'' \<notin> set v \<and> CHR ''#'' \<notin> set v"
  by (auto simp: topic_name_new_def max_topic_bytes_def)

text \<open>A valid reconnect policy has a positive lower bound no greater than its upper bound.\<close>

lemma reconnect_policy_validate_iff:
  "reconnect_policy_validate p = Inr u \<longleftrightarrow> 0 < rp_min_delay p \<and> rp_min_delay p \<le> rp_max_delay p"
  by (auto simp: reconnect_policy_validate_def)

text \<open>A condition without an empty group, at any depth.\<close>

fun no_empty_group :: "condition_expr \<Rightarrow> bool" where
  "no_empty_group (AndC cs) = (cs \<noteq> [] \<and> list_all no_empty_group cs)"
| "no_empty_group (OrC cs) = (cs \<noteq> [] \<and> list_all no_empty_group cs)"
| "no_empty_group (NotC c) = no_empty_group c"
| "no_empty_group _ = True"

lemma validate_condition_groups: "validate_condition c = Inr u \<Longrightarrow> no_empty_group c"
  by (induction c) (auto simp: list_all_iff split: if_splits)

lemma project_config_validate_iff:
  "project_config_validate p = Inr u \<longleftrightarrow>
     validate_text ''project_name'' (pc_name p) 160 = Inr () \<and>
     (\<forall>d. pc_description p = Some d \<longrightarrow> validate_text ''project_description'' d 2048 = Inr ()) \<and>
     (\<forall>b \<in> set (pc_brokers p). broker_connection_config_validate b = Inr ()) \<and>
     (\<forall>r \<in> set (pc_routes p). topic_route_config_validate r = Inr ()) \<and>
     (\<forall>m \<in> set (pc_schema_mappings p). payload_schema_mapping_validate m = Inr ()) \<and>
     (\<forall>r \<in> set (pc_rules p). rule_definition_validate r = Inr ()) \<and>
     (\<forall>t \<in> set (pc_command_templates p). command_template_validate t = Inr ()) \<and>
     (\<forall>s \<in> set (pc_sinks p). sink_definition_validate s = Inr ())"
  by (simp add: project_config_validate_def max_name_bytes_def max_description_bytes_def)

text \<open>The durations round trip exactly when they are whole units that fit.\<close>

lemma duration_millis_roundtrip: "duration_millis_serialize (duration_millis_deserialize m) = m"
  using unat_u64_less [of m]
  by (simp add: duration_millis_serialize_def duration_millis_deserialize_def from_millis_def
      u64_max_def min_def)

lemma duration_seconds_roundtrip: "duration_seconds_serialize (duration_seconds_deserialize s) = s"
  by (simp add: duration_seconds_serialize_def duration_seconds_deserialize_def from_secs_def)

end
