(* ===== verification/Domain_Event.thy ===== *)
theory Domain_Event
  imports Domain_Config
begin

text \<open>
  Events, action intents and commands as they travel through the pipeline (\<^verbatim>\<open>event.rs\<close>,
  \<^verbatim>\<open>action.rs\<close> and \<^verbatim>\<open>command.rs\<close> of \<^verbatim>\<open>pipe-bolt-domain\<close>, \<^verbatim>\<open>error.rs\<close> of \<^verbatim>\<open>pipe-bolt-core\<close>). A point in
  time is the integer number of nanoseconds since the epoch.
\<close>

type_synonym timestamp = int

section \<open>Events\<close>

datatype decoded_payload = DecodedJson json | DecodedRaw string

datatype field_value =
  FNull
| FBool bool
| FNumber number
| FString string
| FObject json_map
| FArray "json list"

fun field_value_from_json :: "json \<Rightarrow> field_value" where
  "field_value_from_json JNull = FNull"
| "field_value_from_json (JBool b) = FBool b"
| "field_value_from_json (JNumber n) = FNumber n"
| "field_value_from_json (JString s) = FString s"
| "field_value_from_json (JArray a) = FArray a"
| "field_value_from_json (JObject m) = FObject m"

record raw_payload_ref =
  rw_byte_len :: nat
  rw_content_type :: "string option"
  rw_bytes :: string

record normalization_diagnostic =
  nd_code :: string
  nd_message :: string
  nd_field :: "string option"

record normalized_event =
  ev_id :: event_id
  ev_correlation_id :: string
  ev_project_id :: project_id
  ev_broker_id :: broker_id
  ev_route_id :: route_id
  ev_schema_mapping_id :: "schema_mapping_id option"
  ev_topic :: topic_name
  ev_device_id :: "string option"
  ev_event_type :: string
  ev_received_at :: timestamp
  ev_payload_size_bytes :: nat
  ev_payload :: decoded_payload
  ev_fields :: "(string, field_value) bmap"
  ev_raw :: "raw_payload_ref option"
  ev_normalization_errors :: "normalization_diagnostic list"
  ev_metadata :: "(string, string) bmap"

definition event_field :: "normalized_event \<Rightarrow> string \<Rightarrow> field_value option" where
  "event_field e name = map_of (ev_fields e) name"

section \<open>Action intents\<close>

datatype action_intent =
  StreamToUi event_id
| ForwardToSink event_id sink_id "(string, json) bmap option"
| ExecuteCommand event_id command_template_id "(string, json) bmap" string
| DropEvent event_id "string option"
| AddMetadata event_id string string

section \<open>Commands\<close>

datatype command_source = SourceApi | SourceRule

record command_execution_request =
  cx_project_id :: project_id
  cx_command_execution_id :: command_execution_id
  cx_command_template_id :: command_template_id
  cx_params :: "(string, json) bmap"
  cx_source :: command_source
  cx_actor_id :: "user_id option"
  cx_source_event_id :: "event_id option"
  cx_correlation_id :: string
  cx_reason :: "string option"

record rendered_command_parts =
  rp_project_id :: project_id
  rp_broker_id :: broker_id
  rp_command_template_id :: command_template_id
  rp_command_execution_id :: command_execution_id
  rp_topic :: topic_name
  rp_payload :: string
  rp_qos :: mqtt_qos
  rp_retain :: bool
  rp_correlation_id :: string

record rendered_command =
  rc_project_id :: project_id
  rc_broker_id :: broker_id
  rc_command_template_id :: command_template_id
  rc_command_execution_id :: command_execution_id
  rc_topic :: topic_name
  rc_payload :: string
  rc_qos :: mqtt_qos
  rc_retain :: bool
  rc_payload_size_bytes :: u64
  rc_correlation_id :: string

definition rendered_command_from_parts :: "rendered_command_parts \<Rightarrow> rendered_command" where
  "rendered_command_from_parts p =
     \<lparr>rc_project_id = rp_project_id p, rc_broker_id = rp_broker_id p,
      rc_command_template_id = rp_command_template_id p,
      rc_command_execution_id = rp_command_execution_id p,
      rc_topic = rp_topic p, rc_payload = rp_payload p, rc_qos = rp_qos p,
      rc_retain = rp_retain p,
      rc_payload_size_bytes = saturating_usize_to_u64 (length (rp_payload p)),
      rc_correlation_id = rp_correlation_id p\<rparr>"

section \<open>Errors of the core\<close>

datatype pipeline_error =
  PayloadTooLarge nat nat
| RawPayloadTooLarge nat nat
| InvalidJson string
| JsonTooDeep nat nat
| MappingRequiresJsonObject
| MappingRequiresJson
| MissingRequiredField string string
| TypeMismatch string string string
| TooManyExtractedFields nat nat
| InvalidDeviceIdFieldType
| DeviceIdRequiresJson

datatype dispatch_error =
  DispatchInvalidConfig string
| TooManyIntents nat nat
| TooManyMetadataEntries nat nat
| RealtimeUnavailable
| RealtimeBackpressure
| DispatchInvalidMetadataKey string
| DispatchMetadataValueTooLarge nat nat
| SinkNotFound sink_id
| SinkDisabled sink_id
| UnsupportedSinkKind sink_id
| ForwarderUnavailable
| ForwarderBackpressure
| ForwardPayloadEncode string
| ForwardPayloadTooLarge nat nat
| CommandQueueUnavailable
| CommandQueueBackpressure
| CommandRequestBuild string

datatype rule_error =
  InvalidRule string string
| UnsupportedTrigger string string
| UnsupportedAction string string
| ConditionTooDeep string nat nat
| ConditionTooLarge string nat nat
| EmptyConditionGroup string string
| NonNumericComparison string
| MissingValue string
| TooManyActions string nat nat
| RuleInvalidMetadataKey string string
| RuleMetadataValueTooLarge string nat nat

datatype mqtt_engine_error =
  EngineInvalidConfig string
| EngineInvalidTopicFilter string
| EngineInvalidTopicName string
| ClientError string
| RouterHandler string
| WorkerJoin string
| Decode string
| Pipeline pipeline_error
| Domain string
| Rule rule_error
| Dispatch dispatch_error
| IngressClosed
| IngressQueueFull
| TelemetryClosed
| CommandQueueFull
| CommandQueueClosed

text \<open>The texts of the errors, as their \<^verbatim>\<open>Display\<close> instances write them.\<close>

fun pipeline_error_display :: "pipeline_error \<Rightarrow> string" where
  "pipeline_error_display (PayloadTooLarge actual mx) = ''payload is too large: '' @ show_nat actual @ '' bytes exceeds '' @ show_nat mx @ '' bytes''"
| "pipeline_error_display (RawPayloadTooLarge actual mx) = ''raw payload retention is too large: '' @ show_nat actual @ '' bytes exceeds '' @ show_nat mx @ '' bytes''"
| "pipeline_error_display (InvalidJson msg) = ''invalid JSON payload: '' @ msg"
| "pipeline_error_display (JsonTooDeep actual mx) = ''JSON payload is too deep: depth '' @ show_nat actual @ '' exceeds '' @ show_nat mx"
| "pipeline_error_display MappingRequiresJsonObject = ''schema mapping requires JSON object payload''"
| "pipeline_error_display MappingRequiresJson = ''schema mapping requires JSON payload''"
| "pipeline_error_display (MissingRequiredField target src) = ''required field '' @ [CHR 0x27] @ target @ [CHR 0x27] @ '' is missing at path '' @ [CHR 0x27] @ src @ [CHR 0x27]"
| "pipeline_error_display (TypeMismatch target expected actual) = ''field '' @ [CHR 0x27] @ target @ [CHR 0x27] @ '' type mismatch: expected '' @ expected @ '', got '' @ actual"
| "pipeline_error_display (TooManyExtractedFields actual mx) = ''too many extracted fields: '' @ show_nat actual @ '' exceeds '' @ show_nat mx"
| "pipeline_error_display InvalidDeviceIdFieldType = ''device_id payload field must resolve to string, number, or boolean''"
| "pipeline_error_display DeviceIdRequiresJson = ''payload field device_id extraction requires JSON payload''"

fun dispatch_error_display :: "dispatch_error \<Rightarrow> string" where
  "dispatch_error_display (DispatchInvalidConfig reason) = ''invalid dispatch config: '' @ reason"
| "dispatch_error_display (TooManyIntents actual mx) = ''too many action intents for one event: '' @ show_nat actual @ '' exceeds '' @ show_nat mx"
| "dispatch_error_display (TooManyMetadataEntries actual mx) = ''too many metadata entries for one event: '' @ show_nat actual @ '' exceeds '' @ show_nat mx"
| "dispatch_error_display RealtimeUnavailable = ''realtime stream is unavailable''"
| "dispatch_error_display RealtimeBackpressure = ''realtime stream is full''"
| "dispatch_error_display (DispatchInvalidMetadataKey reason) = ''metadata key is invalid: '' @ reason"
| "dispatch_error_display (DispatchMetadataValueTooLarge actual mx) = ''metadata value is too large: '' @ show_nat actual @ '' exceeds '' @ show_nat mx @ '' bytes''"
| "dispatch_error_display (SinkNotFound sid) = ''sink '' @ [CHR 0x27] @ sid @ [CHR 0x27] @ '' was not found''"
| "dispatch_error_display (SinkDisabled sid) = ''sink '' @ [CHR 0x27] @ sid @ [CHR 0x27] @ '' is disabled''"
| "dispatch_error_display (UnsupportedSinkKind sid) = ''sink '' @ [CHR 0x27] @ sid @ [CHR 0x27] @ '' uses an unsupported sink kind''"
| "dispatch_error_display ForwarderUnavailable = ''forwarder queue is unavailable''"
| "dispatch_error_display ForwarderBackpressure = ''forwarder queue is full''"
| "dispatch_error_display (ForwardPayloadEncode reason) = ''forward payload serialization failed: '' @ reason"
| "dispatch_error_display (ForwardPayloadTooLarge actual mx) = ''forward payload is too large: '' @ show_nat actual @ '' exceeds '' @ show_nat mx @ '' bytes''"
| "dispatch_error_display CommandQueueUnavailable = ''command queue is unavailable''"
| "dispatch_error_display CommandQueueBackpressure = ''command queue is full''"
| "dispatch_error_display (CommandRequestBuild reason) = ''command execution request could not be built: '' @ reason"

fun rule_error_display :: "rule_error \<Rightarrow> string" where
  "rule_error_display (InvalidRule rid reason) = ''rule '' @ [CHR 0x27] @ rid @ [CHR 0x27] @ '' is invalid: '' @ reason"
| "rule_error_display (UnsupportedTrigger rid trigger) = ''rule '' @ [CHR 0x27] @ rid @ [CHR 0x27] @ '' uses unsupported trigger '' @ [CHR 0x27] @ trigger @ [CHR 0x27]"
| "rule_error_display (UnsupportedAction rid action) = ''rule '' @ [CHR 0x27] @ rid @ [CHR 0x27] @ '' uses unsupported action '' @ [CHR 0x27] @ action @ [CHR 0x27]"
| "rule_error_display (ConditionTooDeep rid actual mx) = ''rule '' @ [CHR 0x27] @ rid @ [CHR 0x27] @ '' condition is too deep: depth '' @ show_nat actual @ '' exceeds '' @ show_nat mx"
| "rule_error_display (ConditionTooLarge rid actual mx) = ''rule '' @ [CHR 0x27] @ rid @ [CHR 0x27] @ '' condition has too many nodes: '' @ show_nat actual @ '' exceeds '' @ show_nat mx"
| "rule_error_display (EmptyConditionGroup rid operator) = ''rule '' @ [CHR 0x27] @ rid @ [CHR 0x27] @ '' condition group '' @ [CHR 0x27] @ operator @ [CHR 0x27] @ '' must not be empty''"
| "rule_error_display (NonNumericComparison rid) = ''rule '' @ [CHR 0x27] @ rid @ [CHR 0x27] @ '' comparison requires numeric values''"
| "rule_error_display (MissingValue rid) = ''rule '' @ [CHR 0x27] @ rid @ [CHR 0x27] @ '' value source is not available''"
| "rule_error_display (TooManyActions rid actual mx) = ''rule '' @ [CHR 0x27] @ rid @ [CHR 0x27] @ '' has too many actions: '' @ show_nat actual @ '' exceeds '' @ show_nat mx"
| "rule_error_display (RuleInvalidMetadataKey rid reason) = ''rule '' @ [CHR 0x27] @ rid @ [CHR 0x27] @ '' metadata key is invalid: '' @ reason"
| "rule_error_display (RuleMetadataValueTooLarge rid actual mx) = ''rule '' @ [CHR 0x27] @ rid @ [CHR 0x27] @ '' metadata value is too large: '' @ show_nat actual @ '' exceeds '' @ show_nat mx @ '' bytes''"

fun mqtt_engine_error_display :: "mqtt_engine_error \<Rightarrow> string" where
  "mqtt_engine_error_display (EngineInvalidConfig msg) = ''invalid MQTT config: '' @ msg"
| "mqtt_engine_error_display (EngineInvalidTopicFilter msg) = ''invalid MQTT topic filter: '' @ msg"
| "mqtt_engine_error_display (EngineInvalidTopicName msg) = ''invalid MQTT topic name: '' @ msg"
| "mqtt_engine_error_display (ClientError msg) = ''client error: '' @ msg"
| "mqtt_engine_error_display (RouterHandler msg) = ''router handler error: '' @ msg"
| "mqtt_engine_error_display (WorkerJoin msg) = ''MQTT worker thread join error: '' @ msg"
| "mqtt_engine_error_display (Decode msg) = ''payload decode error: '' @ msg"
| "mqtt_engine_error_display (Pipeline e) = ''pipeline error: '' @ pipeline_error_display e"
| "mqtt_engine_error_display (Domain msg) = ''domain error: '' @ msg"
| "mqtt_engine_error_display (Rule e) = ''rule error: '' @ rule_error_display e"
| "mqtt_engine_error_display (Dispatch e) = ''dispatch error: '' @ dispatch_error_display e"
| "mqtt_engine_error_display IngressClosed = ''ingress queue is closed''"
| "mqtt_engine_error_display IngressQueueFull = ''ingress queue is full''"
| "mqtt_engine_error_display TelemetryClosed = ''telemetry broadcast channel is closed''"
| "mqtt_engine_error_display CommandQueueFull = ''command queue is full''"
| "mqtt_engine_error_display CommandQueueClosed = ''command queue is closed''"

text \<open>\<^verbatim>\<open>From<DomainError> for MqttEngineError\<close>, as the question mark applies it.\<close>

definition engine_domain_error :: "domain_error \<Rightarrow> mqtt_engine_error" where
  "engine_domain_error e = Domain (domain_error_display e)"

text \<open>The size of a rendered command is that of its payload, as long as it fits 64 bits.\<close>

lemma rendered_command_size:
  "length (rp_payload p) < 2 ^ 64 \<Longrightarrow>
   unat (rc_payload_size_bytes (rendered_command_from_parts p)) = length (rp_payload p)"
  by (simp add: rendered_command_from_parts_def u64_max_def)

text \<open>An event for the examples.\<close>

definition sample_event :: normalized_event where
  "sample_event =
     \<lparr>ev_id = ''evt_0'', ev_correlation_id = ''evt_0'', ev_project_id = ''p1'', ev_broker_id = ''b1'',
      ev_route_id = ''r2'', ev_schema_mapping_id = Some ''m1'', ev_topic = ''devices/d7/up'',
      ev_device_id = Some ''d7'', ev_event_type = ''telemetry'', ev_received_at = 0,
      ev_payload_size_bytes = 1,
      ev_payload = DecodedJson (JObject [(''t'', JNumber (PosInt 21)), (''u'', JString ''C'')]),
      ev_fields = [(''temperature'', FNumber (PosInt 21)), (''unit'', FString ''C'')],
      ev_raw = Some \<lparr>rw_byte_len = 1, rw_content_type = Some ''application/json'', rw_bytes = ''o''\<rparr>,
      ev_normalization_errors = [], ev_metadata = []\<rparr>"

end
