(* ===== verification/Topic_Router.thy ===== *)
theory Topic_Router
  imports Domain_Event
begin

text \<open>
  Topic filters and routing: the message envelope (\<^verbatim>\<open>message/envelope.rs\<close>), the handler router of the
  engine (\<^verbatim>\<open>router/matcher.rs\<close>) and the route matcher compiled from a project configuration
  (\<^verbatim>\<open>pipeline/router.rs\<close>). Both matchers are proved to implement the matching relation of MQTT
  topic filters, and the compiled matcher to take the first enabled route.
\<close>

section \<open>Messages\<close>

record mqtt_message =
  mm_topic :: string
  mm_qos :: mqtt_qos
  mm_retain :: bool
  mm_payload :: string
  mm_received_at :: timestamp

definition validate_topic_name :: "string \<Rightarrow> mqtt_engine_error + unit" where
  "validate_topic_name topic =
     (if topic = [] then Inl (EngineInvalidTopicName ''topic name must not be empty'')
      else if CHR ''+'' \<in> set topic \<or> CHR ''#'' \<in> set topic
      then Inl (EngineInvalidTopicName ''topic name must not contain MQTT wildcards'')
      else Inr ())"

definition mqtt_message_new ::
    "string \<Rightarrow> mqtt_qos \<Rightarrow> bool \<Rightarrow> string \<Rightarrow> timestamp \<Rightarrow> mqtt_engine_error + mqtt_message" where
  "mqtt_message_new topic qos retain payload received_at =
     res_bind (validate_topic_name topic) (\<lambda>_.
       Inr \<lparr>mm_topic = topic, mm_qos = qos, mm_retain = retain, mm_payload = payload,
            mm_received_at = received_at\<rparr>)"

section \<open>Captured wildcards\<close>

record topic_params =
  single_level :: "string list"
  multi_level :: "string list"

definition topic_params_default :: topic_params where
  "topic_params_default = \<lparr>single_level = [], multi_level = []\<rparr>"

definition params_single :: "topic_params \<Rightarrow> nat \<Rightarrow> string option" where
  "params_single p i = (if i < length (single_level p) then Some (single_level p ! i) else None)"

definition multi_as_topic :: "topic_params \<Rightarrow> string option" where
  "multi_as_topic p =
     (if multi_level p = [] then None else Some (join_with CHR ''/'' (multi_level p)))"

definition push_single :: "string \<Rightarrow> topic_params \<Rightarrow> topic_params" where
  "push_single v p = p\<lparr>single_level := single_level p @ [v]\<rparr>"

definition set_multi :: "string list \<Rightarrow> topic_params \<Rightarrow> topic_params" where
  "set_multi vs p = p\<lparr>multi_level := vs\<rparr>"

section \<open>Filter levels and the matching loop\<close>

datatype topic_filter_level = Exact string | SingleWildcard | MultiWildcard

definition compile_level :: "string \<Rightarrow> topic_filter_level" where
  "compile_level level =
     (if level = ''+'' then SingleWildcard
      else if level = ''#'' then MultiWildcard
      else Exact level)"

text \<open>
  The loop of \<^verbatim>\<open>matches\<close> over the filter levels with its topic index and the parameters captured so
  far. The slice \<^verbatim>\<open>topic_levels[topic_index..]\<close> is \<open>drop\<close>; it panics only when the index is past
  the length, which \<open>match_levels_index\<close> below excludes.
\<close>

fun match_levels ::
    "topic_filter_level list \<Rightarrow> string list \<Rightarrow> nat \<Rightarrow> topic_params \<Rightarrow> topic_params option" where
  "match_levels [] topic_levels i params =
     (if i = length topic_levels then Some params else None)"
| "match_levels (Exact expected # fs) topic_levels i params =
     (if i < length topic_levels then
        (if expected \<noteq> topic_levels ! i then None else match_levels fs topic_levels (i + 1) params)
      else None)"
| "match_levels (SingleWildcard # fs) topic_levels i params =
     (if i < length topic_levels
      then match_levels fs topic_levels (i + 1) (push_single (topic_levels ! i) params)
      else None)"
| "match_levels (MultiWildcard # fs) topic_levels i params =
     Some (set_multi (drop i topic_levels) params)"

definition filter_matches :: "topic_filter_level list \<Rightarrow> string \<Rightarrow> topic_params option" where
  "filter_matches levels topic =
     (if topic = [] \<or> CHR ''+'' \<in> set topic \<or> CHR ''#'' \<in> set topic then None
      else match_levels levels (split_on CHR ''/'' topic) 0 topic_params_default)"

section \<open>The engine's router\<close>

fun mqtt_filter_levels :: "string \<Rightarrow> nat \<Rightarrow> nat \<Rightarrow> string list \<Rightarrow> mqtt_engine_error + unit" where
  "mqtt_filter_levels flt n i [] = Inr ()"
| "mqtt_filter_levels flt n i (level # ls) =
     (if CHR ''#'' \<in> set level \<and> level \<noteq> ''#''
      then Inl (EngineInvalidTopicFilter
             (''multi-level wildcard must occupy an entire level in'' @ [CHR 0x27] @ flt @ [CHR 0x27]))
      else if CHR ''#'' \<in> set level \<and> i \<noteq> n - 1
      then Inl (EngineInvalidTopicFilter
             (''multi-level wildcard must be the last level in '' @ [CHR 0x27] @ flt @ [CHR 0x27]))
      else if CHR ''+'' \<in> set level \<and> level \<noteq> ''+''
      then Inl (EngineInvalidTopicFilter
             (''single-level wildcard must occupy and entire level in '' @ [CHR 0x27] @ flt @ [CHR 0x27]))
      else mqtt_filter_levels flt n (i + 1) ls)"

definition validate_mqtt_topic_filter :: "string \<Rightarrow> mqtt_engine_error + unit" where
  "validate_mqtt_topic_filter flt =
     (if flt = [] then Inl (EngineInvalidTopicFilter ''topic filter must not be empty'')
      else let levels = split_on CHR ''/'' flt
           in mqtt_filter_levels flt (length levels) 0 levels)"

record topic_filter_compiled =
  tf_raw :: string
  tf_levels :: "topic_filter_level list"

definition topic_filter_parse :: "string \<Rightarrow> mqtt_engine_error + topic_filter_compiled" where
  "topic_filter_parse raw =
     res_bind (validate_mqtt_topic_filter raw) (\<lambda>_.
       Inr \<lparr>tf_raw = raw, tf_levels = map compile_level (split_on CHR ''/'' raw)\<rparr>)"

text \<open>
  A handler is a function of the message and the captured parameters that may fail and leaves a
  trace of its effects in the state \<open>'s\<close>.
\<close>

type_synonym 's route_handler = "mqtt_message \<Rightarrow> topic_params \<Rightarrow> 's \<Rightarrow> (mqtt_engine_error + unit) \<times> 's"

type_synonym 's mqtt_router = "(topic_filter_compiled \<times> 's route_handler) list"

definition router_route :: "string \<Rightarrow> 's route_handler \<Rightarrow> 's mqtt_router \<Rightarrow> mqtt_engine_error + 's mqtt_router" where
  "router_route flt handler routes =
     res_bind (topic_filter_parse flt) (\<lambda>f. Inr (routes @ [(f, handler)]))"

fun router_dispatch ::
    "'s mqtt_router \<Rightarrow> mqtt_message \<Rightarrow> 's \<Rightarrow> (mqtt_engine_error + bool) \<times> 's" where
  "router_dispatch [] m s = (Inr False, s)"
| "router_dispatch ((f, handler) # routes) m s =
     (case filter_matches (tf_levels f) (mm_topic m) of
        Some params \<Rightarrow>
          (case handler m params s of
             (Inl e, s') \<Rightarrow> (Inl e, s')
           | (Inr _, s') \<Rightarrow> (Inr True, s'))
      | None \<Rightarrow> router_dispatch routes m s)"

text \<open>
  The three kinds of handler: a plain function, a raw handler that gets the payload bytes, and a JSON
  handler that is only called when the payload decodes. Decoding to the handler's type is the
  library's; its error text is an argument.
\<close>

definition raw_route_handler ::
    "(mqtt_message \<Rightarrow> string \<Rightarrow> topic_params \<Rightarrow> 's \<Rightarrow> (mqtt_engine_error + unit) \<times> 's) \<Rightarrow> 's route_handler" where
  "raw_route_handler h m params s = h m (mm_payload m) params s"

definition json_route_handler ::
    "(string \<Rightarrow> string + 't) \<Rightarrow>
     (mqtt_message \<Rightarrow> 't \<Rightarrow> topic_params \<Rightarrow> 's \<Rightarrow> (mqtt_engine_error + unit) \<times> 's) \<Rightarrow> 's route_handler" where
  "json_route_handler decode h m params s =
     (case decode (mm_payload m) of
        Inl err \<Rightarrow> (Inl (Decode err), s)
      | Inr v \<Rightarrow> h m v params s)"

section \<open>Routes compiled from a project\<close>

record compiled_config_route =
  cr_config :: topic_route_config
  cr_matcher :: "topic_filter_level list"

record config_route_matcher =
  crm_project_id :: project_id
  crm_routes :: "compiled_config_route list"

record config_route_match =
  crx_project_id :: project_id
  crx_route :: topic_route_config
  crx_params :: topic_params

definition topic_filter_matcher_parse :: "string \<Rightarrow> mqtt_engine_error + topic_filter_level list" where
  "topic_filter_matcher_parse flt =
     res_bind (map_err engine_domain_error (topic_filter_new flt)) (\<lambda>_.
       Inr (map compile_level (split_on CHR ''/'' flt)))"

definition compiled_config_route_new :: "topic_route_config \<Rightarrow> mqtt_engine_error + compiled_config_route" where
  "compiled_config_route_new config =
     res_bind (topic_filter_matcher_parse (tr_topic_filter config)) (\<lambda>matcher.
       Inr \<lparr>cr_config = config, cr_matcher = matcher\<rparr>)"

text \<open>The loop of \<^verbatim>\<open>ConfigRouteMatcher::new\<close> with the set of ids seen and the routes compiled so far.\<close>

fun compile_routes ::
    "route_id set \<Rightarrow> compiled_config_route list \<Rightarrow> topic_route_config list \<Rightarrow>
     mqtt_engine_error + compiled_config_route list" where
  "compile_routes seen compiled [] = Inr compiled"
| "compile_routes seen compiled (route # routes) =
     (if tr_id route \<in> seen then Inl (EngineInvalidConfig ''duplicate route id'')
      else if \<not> tr_enabled route then compile_routes (insert (tr_id route) seen) compiled routes
      else
        res_bind (map_err engine_domain_error (topic_route_config_validate route)) (\<lambda>_.
        res_bind (compiled_config_route_new route) (\<lambda>c.
        compile_routes (insert (tr_id route) seen) (compiled @ [c]) routes)))"

definition config_route_matcher_new ::
    "project_id \<Rightarrow> topic_route_config list \<Rightarrow> mqtt_engine_error + config_route_matcher" where
  "config_route_matcher_new pid routes =
     res_bind (compile_routes {} [] routes) (\<lambda>compiled.
       Inr \<lparr>crm_project_id = pid, crm_routes = compiled\<rparr>)"

fun match_compiled ::
    "project_id \<Rightarrow> compiled_config_route list \<Rightarrow> mqtt_message \<Rightarrow> config_route_match option" where
  "match_compiled pid [] m = None"
| "match_compiled pid (route # routes) m =
     (case filter_matches (cr_matcher route) (mm_topic m) of
        Some params \<Rightarrow>
          Some \<lparr>crx_project_id = pid, crx_route = cr_config route, crx_params = params\<rparr>
      | None \<Rightarrow> match_compiled pid routes m)"

definition match_message :: "config_route_matcher \<Rightarrow> mqtt_message \<Rightarrow> config_route_match option" where
  "match_message matcher m = match_compiled (crm_project_id matcher) (crm_routes matcher) m"

section \<open>The matching relation of MQTT\<close>

text \<open>
  \<open>mqtt_match fs ts ss ms\<close>: the filter levels \<open>fs\<close> match the topic levels \<open>ts\<close>, the plus signs
  capturing \<open>ss\<close> in order and a final number sign capturing the remaining levels \<open>ms\<close>, possibly none.
\<close>

inductive mqtt_match :: "string list \<Rightarrow> string list \<Rightarrow> string list \<Rightarrow> string list \<Rightarrow> bool" where
  match_end: "mqtt_match [] [] [] []"
| match_exact: "f \<noteq> ''+'' \<Longrightarrow> f \<noteq> ''#'' \<Longrightarrow> mqtt_match fs ts ss ms \<Longrightarrow> mqtt_match (f # fs) (f # ts) ss ms"
| match_single: "mqtt_match fs ts ss ms \<Longrightarrow> mqtt_match (''+'' # fs) (t # ts) (t # ss) ms"
| match_multi: "mqtt_match [''#''] ts [] ts"

code_pred mqtt_match .

inductive_simps mqtt_match_Nil: "mqtt_match [] ts ss ms"
inductive_simps mqtt_match_Cons: "mqtt_match (f # fs) ts ss ms"

lemma mqtt_match_plus_count: "mqtt_match fs ts ss ms \<Longrightarrow> length ss = length (filter ((=) ''+'') fs)"
  by (induction rule: mqtt_match.induct) auto

lemma compile_level_simps [simp]:
  "compile_level ''+'' = SingleWildcard" "compile_level ''#'' = MultiWildcard"
  "f \<noteq> ''+'' \<Longrightarrow> f \<noteq> ''#'' \<Longrightarrow> compile_level f = Exact f"
  by (simp_all add: compile_level_def)

text \<open>The loop, started anywhere inside the topic, implements the relation on the levels left.\<close>

lemma match_levels_iff:
  assumes "filter_levels_ok fs" and "i \<le> length ts" and "multi_level p = []"
  shows "match_levels (map compile_level fs) ts i p = Some q \<longleftrightarrow>
           (\<exists>ss. mqtt_match fs (drop i ts) ss (multi_level q) \<and> single_level q = single_level p @ ss)"
  using assms
proof (induction fs arbitrary: i p)
  case Nil
  then show ?case
    by (cases "i = length ts") (auto simp: mqtt_match_Nil)
next
  case (Cons f fs)
  from Cons.prems(1) have ok: "filter_levels_ok fs" and last: "f = ''#'' \<Longrightarrow> fs = []"
    by (auto simp: filter_levels_ok_def split: if_splits)
  show ?case
  proof (cases "f = ''#''")
    case True
    with last Cons.prems(3) show ?thesis
      by (auto simp: mqtt_match_Cons mqtt_match_Nil set_multi_def)
  next
    case no_multi: False
    show ?thesis
    proof (cases "i < length ts")
      case True
      then have d: "drop i ts = ts ! i # drop (i + 1) ts" by (simp add: Cons_nth_drop_Suc)
      have "match_levels (map compile_level fs) ts (i + 1) p' = Some q \<longleftrightarrow>
          (\<exists>ss. mqtt_match fs (drop (i + 1) ts) ss (multi_level q) \<and> single_level q = single_level p' @ ss)"
        if "multi_level p' = []" for p'
        using ok True that by (intro Cons.IH) simp_all
      note step = this
      have "multi_level (push_single (ts ! i) p) = []"
        using Cons.prems(3) by (simp add: push_single_def)
      note single = step [OF this]
      show ?thesis
      proof (cases "f = ''+''")
        case plus: True
        then have "match_levels (map compile_level (f # fs)) ts i p =
            match_levels (map compile_level fs) ts (i + 1) (push_single (ts ! i) p)"
          using True by simp
        with single plus show ?thesis unfolding d
          by (auto simp: mqtt_match_Cons push_single_def)
      next
        case exact: False
        with step [OF Cons.prems(3)] True no_multi show ?thesis unfolding d
          by (auto simp: mqtt_match_Cons)
      qed
    next
      case False
      with Cons.prems(2) no_multi show ?thesis
        by (cases "f = ''+''") (auto simp: mqtt_match_Cons)
    qed
  qed
qed

text \<open>The index never runs past the topic, so the slice of the multi-level case does not panic.\<close>

fun levels_index :: "topic_filter_level list \<Rightarrow> string list \<Rightarrow> nat \<Rightarrow> nat" where
  "levels_index [] ts i = i"
| "levels_index (Exact e # fs) ts i =
     (if i < length ts \<and> e = ts ! i then levels_index fs ts (i + 1) else i)"
| "levels_index (SingleWildcard # fs) ts i =
     (if i < length ts then levels_index fs ts (i + 1) else i)"
| "levels_index (MultiWildcard # fs) ts i = i"

lemma match_levels_index: "i \<le> length ts \<Longrightarrow> levels_index fs ts i \<le> length ts"
  by (induction fs ts i rule: levels_index.induct) auto

lemma filter_matches_iff:
  assumes "filter_levels_ok (split_on CHR ''/'' f)" and "validate_topic_name t = Inr ()"
  shows "filter_matches (map compile_level (split_on CHR ''/'' f)) t = Some p \<longleftrightarrow>
           mqtt_match (split_on CHR ''/'' f) (split_on CHR ''/'' t) (single_level p) (multi_level p)"
proof -
  have "t \<noteq> [] \<and> CHR ''+'' \<notin> set t \<and> CHR ''#'' \<notin> set t"
    using assms(2) by (auto simp: validate_topic_name_def split: if_splits)
  moreover have "multi_level topic_params_default = []" "single_level topic_params_default = []"
    by (simp_all add: topic_params_default_def)
  ultimately show ?thesis
    using match_levels_iff [OF assms(1), of 0 "split_on CHR ''/'' t" topic_params_default p]
    by (simp add: filter_matches_def)
qed

text \<open>A message the engine accepts has a topic without wildcards.\<close>

lemma mqtt_message_new_topic:
  "mqtt_message_new t q r pl at = Inr m \<Longrightarrow> validate_topic_name (mm_topic m) = Inr ()"
  by (auto simp: mqtt_message_new_def)

section \<open>The two validators\<close>

lemma mqtt_filter_levels_iff:
  "i + length parts = n \<Longrightarrow> mqtt_filter_levels f n i parts = Inr u \<longleftrightarrow> topic_filter_parts n i parts = Inr u"
proof (induction f n i parts rule: mqtt_filter_levels.induct)
  case (2 f n i level ls)
  have idx: "i \<noteq> n - 1 \<longleftrightarrow> i + 1 \<noteq> n" using "2.prems" by (cases ls) auto
  have hash: "CHR ''#'' \<in> set level \<and> \<not> (CHR ''#'' \<in> set level \<and> level \<noteq> ''#'') \<longleftrightarrow> level = ''#''"
    by auto
  show ?case
  proof (cases "(CHR ''#'' \<in> set level \<and> level \<noteq> ''#'') \<or> (CHR ''#'' \<in> set level \<and> i \<noteq> n - 1) \<or>
              (CHR ''+'' \<in> set level \<and> level \<noteq> ''+'')")
    case True
    then have "mqtt_filter_levels f n i (level # ls) \<noteq> Inr u"
      unfolding mqtt_filter_levels.simps by (elim disjE) simp_all
    moreover have "topic_filter_parts n i (level # ls) \<noteq> Inr u"
      using True hash idx unfolding topic_filter_parts.simps by (elim disjE) (simp_all split: if_splits)
    ultimately show ?thesis by blast
  next
    case False
    then have n: "\<not> (CHR ''#'' \<in> set level \<and> level \<noteq> ''#'')" "\<not> (CHR ''#'' \<in> set level \<and> i \<noteq> n - 1)"
        "\<not> (CHR ''+'' \<in> set level \<and> level \<noteq> ''+'')" by blast+
    then have n': "\<not> (level = ''#'' \<and> i + 1 \<noteq> n)" using idx hash by blast
    have "mqtt_filter_levels f n (i + 1) ls = Inr u \<longleftrightarrow> topic_filter_parts n (i + 1) ls = Inr u"
      by (rule "2.IH" [OF n]) (use "2.prems" in simp)
    with n n' show ?thesis
      by (simp only: mqtt_filter_levels.simps topic_filter_parts.simps if_False)
  qed
qed simp

lemma validate_mqtt_topic_filter_iff:
  "validate_mqtt_topic_filter f = Inr u \<longleftrightarrow> f \<noteq> [] \<and> filter_levels_ok (split_on CHR ''/'' f)"
  by (simp add: validate_mqtt_topic_filter_def Let_def mqtt_filter_levels_iff topic_filter_parts_iff)

section \<open>The interface of a matcher\<close>

text \<open>
  What a router relies on: a compiled filter knows its levels, and on a topic name without wildcards
  it returns the captures of the matching relation and nothing else. The two routers of the program
  are two instances.
\<close>

locale topic_matcher =
  fixes matches :: "'f \<Rightarrow> string \<Rightarrow> topic_params option"
    and level_names :: "'f \<Rightarrow> string list"
    and compiled :: "'f \<Rightarrow> bool"
  assumes matches_iff: "compiled f \<Longrightarrow> validate_topic_name t = Inr () \<Longrightarrow>
      matches f t = Some p \<longleftrightarrow>
        mqtt_match (level_names f) (split_on CHR ''/'' t) (single_level p) (multi_level p)"
begin

lemma capture_count:
  "compiled f \<Longrightarrow> validate_topic_name t = Inr () \<Longrightarrow> matches f t = Some p \<Longrightarrow>
   length (single_level p) = length (filter ((=) ''+'') (level_names f))"
  by (simp add: matches_iff mqtt_match_plus_count)

text \<open>A wildcard index below the number of plus signs always yields a captured level.\<close>

lemma wildcard_index_available:
  assumes "compiled f" and "validate_topic_name t = Inr ()" and "matches f t = Some p"
    and "i < length (filter ((=) ''+'') (level_names f))"
  shows "\<exists>v. params_single p i = Some v"
  using capture_count [OF assms(1-3)] assms(4) by (simp add: params_single_def)

end

definition engine_filter_ok :: "topic_filter_compiled \<Rightarrow> bool" where
  "engine_filter_ok f \<longleftrightarrow> topic_filter_parse (tf_raw f) = Inr f"

interpretation engine: topic_matcher
  "\<lambda>f t. filter_matches (tf_levels f) t" "\<lambda>f. split_on CHR ''/'' (tf_raw f)" engine_filter_ok
proof
  fix f t p
  assume f: "engine_filter_ok f" and t: "validate_topic_name t = Inr ()"
  then have ok: "filter_levels_ok (split_on CHR ''/'' (tf_raw f))"
    and levels: "tf_levels f = map compile_level (split_on CHR ''/'' (tf_raw f))"
    by (auto simp: engine_filter_ok_def topic_filter_parse_def validate_mqtt_topic_filter_iff)
       (metis topic_filter_compiled.select_convs(2))
  show "filter_matches (tf_levels f) t = Some p \<longleftrightarrow>
      mqtt_match (split_on CHR ''/'' (tf_raw f)) (split_on CHR ''/'' t) (single_level p) (multi_level p)"
    unfolding levels using ok t by (rule filter_matches_iff)
qed

definition config_route_ok :: "compiled_config_route \<Rightarrow> bool" where
  "config_route_ok c \<longleftrightarrow> compiled_config_route_new (cr_config c) = Inr c"

lemma compiled_config_route_new_iff:
  "compiled_config_route_new r = Inr c \<longleftrightarrow>
     topic_filter_validate (tr_topic_filter r) = Inr () \<and>
     c = \<lparr>cr_config = r, cr_matcher = map compile_level (split_on CHR ''/'' (tr_topic_filter r))\<rparr>"
  by (auto simp: compiled_config_route_new_def topic_filter_matcher_parse_def topic_filter_new_def)

interpretation config: topic_matcher
  "\<lambda>c t. filter_matches (cr_matcher c) t" "\<lambda>c. split_on CHR ''/'' (tr_topic_filter (cr_config c))"
  config_route_ok
proof
  fix c t p
  assume c: "config_route_ok c" and t: "validate_topic_name t = Inr ()"
  then have ok: "filter_levels_ok (split_on CHR ''/'' (tr_topic_filter (cr_config c)))"
    by (auto simp: config_route_ok_def compiled_config_route_new_iff topic_filter_validate_iff)
  have levels: "cr_matcher c = map compile_level (split_on CHR ''/'' (tr_topic_filter (cr_config c)))"
    using c unfolding config_route_ok_def compiled_config_route_new_iff
    by (metis compiled_config_route.select_convs(2))
  show "filter_matches (cr_matcher c) t = Some p \<longleftrightarrow>
      mqtt_match (split_on CHR ''/'' (tr_topic_filter (cr_config c))) (split_on CHR ''/'' t)
        (single_level p) (multi_level p)"
    unfolding levels using ok t by (rule filter_matches_iff)
qed

section \<open>Compiling and matching the routes of a project\<close>

definition compiled_route :: "topic_route_config \<Rightarrow> compiled_config_route" where
  "compiled_route r =
     \<lparr>cr_config = r, cr_matcher = map compile_level (split_on CHR ''/'' (tr_topic_filter r))\<rparr>"

lemma compile_routes_iff:
  "compile_routes seen acc routes = Inr out \<longleftrightarrow>
     distinct (map tr_id routes) \<and> tr_id ` set routes \<inter> seen = {} \<and>
     (\<forall>r \<in> set routes. tr_enabled r \<longrightarrow> topic_route_config_validate r = Inr ()) \<and>
     out = acc @ map compiled_route (filter tr_enabled routes)"
proof (induction seen acc routes rule: compile_routes.induct)
  case (2 seen acc route routes)
  have val: "topic_route_config_validate route = Inr () \<Longrightarrow>
      topic_filter_validate (tr_topic_filter route) = Inr ()"
    by (simp add: topic_route_config_validate_def)
  show ?case
  proof (cases "tr_id route \<in> seen")
    case False
    show ?thesis
    proof (cases "tr_enabled route")
      case True
      have "compile_routes seen acc (route # routes) = Inr out \<longleftrightarrow>
          topic_route_config_validate route = Inr () \<and>
          compile_routes (insert (tr_id route) seen) (acc @ [compiled_route route]) routes = Inr out"
        using False True val by (auto simp: compiled_config_route_new_iff compiled_route_def)
      moreover have "topic_route_config_validate route = Inr () \<Longrightarrow>
          compile_routes (insert (tr_id route) seen) (acc @ [compiled_route route]) routes = Inr out \<longleftrightarrow>
          distinct (map tr_id routes) \<and> tr_id ` set routes \<inter> insert (tr_id route) seen = {} \<and>
          (\<forall>r \<in> set routes. tr_enabled r \<longrightarrow> topic_route_config_validate r = Inr ()) \<and>
          out = (acc @ [compiled_route route]) @ map compiled_route (filter tr_enabled routes)"
        using False True val
        by (intro "2.IH"(2) [where x = "()"]) (auto simp: compiled_config_route_new_iff compiled_route_def)
      ultimately show ?thesis using False True by auto
    next
      case dis: False
      with "2.IH"(1) [OF False] False show ?thesis by auto
    qed
  qed simp
qed auto

lemma config_route_matcher_new_iff:
  "config_route_matcher_new pid routes = Inr matcher \<longleftrightarrow>
     distinct (map tr_id routes) \<and>
     (\<forall>r \<in> set routes. tr_enabled r \<longrightarrow> topic_route_config_validate r = Inr ()) \<and>
     matcher = \<lparr>crm_project_id = pid, crm_routes = map compiled_route (filter tr_enabled routes)\<rparr>"
  by (auto simp: config_route_matcher_new_def compile_routes_iff)

definition route_captures :: "topic_route_config \<Rightarrow> string \<Rightarrow> topic_params option" where
  "route_captures r topic = filter_matches (cr_matcher (compiled_route r)) topic"

lemma match_compiled_find:
  "match_compiled pid (map compiled_route rs) m =
     (case find (\<lambda>r. route_captures r (mm_topic m) \<noteq> None) rs of
        None \<Rightarrow> None
      | Some r \<Rightarrow> Some \<lparr>crx_project_id = pid, crx_route = r,
                       crx_params = the (route_captures r (mm_topic m))\<rparr>)"
  by (induction rs) (auto simp: route_captures_def compiled_route_def split: option.splits)

lemma find_split:
  "find P xs = Some x \<longleftrightarrow> (\<exists>ys zs. xs = ys @ x # zs \<and> P x \<and> (\<forall>y \<in> set ys. \<not> P y))"
proof (induction xs)
  case (Cons a xs)
  show ?case
  proof (cases "P a")
    case True
    have "(\<exists>ys zs. a # xs = ys @ x # zs \<and> P x \<and> (\<forall>y \<in> set ys. \<not> P y)) \<longleftrightarrow> a = x"
    proof
      assume "\<exists>ys zs. a # xs = ys @ x # zs \<and> P x \<and> (\<forall>y \<in> set ys. \<not> P y)"
      then obtain ys zs where "a # xs = ys @ x # zs" "\<forall>y \<in> set ys. \<not> P y" by blast
      with True show "a = x" by (cases ys) auto
    next
      assume "a = x"
      with True have "a # xs = [] @ x # xs \<and> P x" by simp
      then show "\<exists>ys zs. a # xs = ys @ x # zs \<and> P x \<and> (\<forall>y \<in> set ys. \<not> P y)" by fastforce
    qed
    with True show ?thesis by simp
  next
    case False
    have "(\<exists>ys zs. a # xs = ys @ x # zs \<and> P x \<and> (\<forall>y \<in> set ys. \<not> P y)) \<longleftrightarrow>
        (\<exists>ys zs. xs = ys @ x # zs \<and> P x \<and> (\<forall>y \<in> set ys. \<not> P y))" (is "?L \<longleftrightarrow> ?R")
    proof
      assume ?L
      then obtain ys zs where e: "a # xs = ys @ x # zs" "P x" "\<forall>y \<in> set ys. \<not> P y" by blast
      with False obtain ys' where "ys = a # ys'" by (cases ys) auto
      with e show ?R by auto
    next
      assume ?R
      then obtain ys zs where "xs = ys @ x # zs" "P x" "\<forall>y \<in> set ys. \<not> P y" by blast
      with False have "a # xs = (a # ys) @ x # zs \<and> P x \<and> (\<forall>y \<in> set (a # ys). \<not> P y)" by simp
      then show ?L by blast
    qed
    with Cons False show ?thesis by simp
  qed
qed simp

lemma find_filter: "find P (filter Q xs) = find (\<lambda>x. Q x \<and> P x) xs"
  by (induction xs) auto

section \<open>Properties\<close>

text \<open>C1: a compiled topic filter matches a topic name exactly when the MQTT matching relation holds,
  and the parameters it returns are the levels the wildcards capture.\<close>

theorem filter_matches_mqtt:
  assumes "validate_mqtt_topic_filter f = Inr ()" and "validate_topic_name t = Inr ()"
  shows "filter_matches (map compile_level (split_on CHR ''/'' f)) t = Some p \<longleftrightarrow>
           mqtt_match (split_on CHR ''/'' f) (split_on CHR ''/'' t) (single_level p) (multi_level p)"
  using assms by (intro filter_matches_iff) (simp_all add: validate_mqtt_topic_filter_iff)

theorem filter_matches_mqtt_witness:
  "filter_matches (map compile_level (split_on CHR ''/'' ''a/+/c/#'')) ''a/b/c/d/e'' =
     Some \<lparr>single_level = [''b''], multi_level = [''d'', ''e'']\<rparr> \<and>
   mqtt_match [''a'', ''+'', ''c'', ''#''] [''a'', ''b'', ''c'', ''d'', ''e''] [''b''] [''d'', ''e'']"
proof
  show m: "filter_matches (map compile_level (split_on CHR ''/'' ''a/+/c/#'')) ''a/b/c/d/e'' =
     Some \<lparr>single_level = [''b''], multi_level = [''d'', ''e'']\<rparr>" by code_simp
  have "validate_mqtt_topic_filter ''a/+/c/#'' = Inr ()" "validate_topic_name ''a/b/c/d/e'' = Inr ()"
    by code_simp+
  from filter_matches_mqtt [OF this, THEN iffD1, OF m]
  show "mqtt_match [''a'', ''+'', ''c'', ''#''] [''a'', ''b'', ''c'', ''d'', ''e''] [''b''] [''d'', ''e'']"
    by simp
qed

text \<open>The validator of the project configuration and the validator of the MQTT engine accept the
  same use of wildcards; the former only adds the limits on text.\<close>

lemma filter_validators_agree:
  "topic_filter_validate f = Inr () \<longleftrightarrow>
     validate_mqtt_topic_filter f = Inr () \<and> \<not> is_blank f \<and> length f \<le> 1024 \<and> \<not> has_control f"
  using not_blank_nonempty [of f]
  by (auto simp: topic_filter_validate_iff validate_mqtt_topic_filter_iff)

text \<open>C2: the matcher of a project picks the first enabled route, in configuration order, whose filter
  captures the topic, with that route's captures and the matcher's project.\<close>

theorem first_enabled_route_wins:
  assumes "config_route_matcher_new pid routes = Inr matcher"
  shows "match_message matcher m = Some x \<longleftrightarrow>
           (\<exists>pre r post params. routes = pre @ r # post \<and> tr_enabled r \<and>
              route_captures r (mm_topic m) = Some params \<and>
              (\<forall>q \<in> set pre. tr_enabled q \<longrightarrow> route_captures q (mm_topic m) = None) \<and>
              x = \<lparr>crx_project_id = pid, crx_route = r, crx_params = params\<rparr>)"
proof -
  let ?hit = "\<lambda>r. tr_enabled r \<and> route_captures r (mm_topic m) \<noteq> None"
  have "match_message matcher m =
      (case find ?hit routes of None \<Rightarrow> None
       | Some r \<Rightarrow> Some \<lparr>crx_project_id = pid, crx_route = r,
                         crx_params = the (route_captures r (mm_topic m))\<rparr>)"
    using assms
    by (simp add: config_route_matcher_new_iff match_message_def match_compiled_find find_filter)
  then have "match_message matcher m = Some x \<longleftrightarrow>
      (\<exists>r. find ?hit routes = Some r \<and>
           x = \<lparr>crx_project_id = pid, crx_route = r, crx_params = the (route_captures r (mm_topic m))\<rparr>)"
    by (auto split: option.splits)
  also have "\<dots> \<longleftrightarrow> (\<exists>pre r post params. routes = pre @ r # post \<and> tr_enabled r \<and>
              route_captures r (mm_topic m) = Some params \<and>
              (\<forall>q \<in> set pre. tr_enabled q \<longrightarrow> route_captures q (mm_topic m) = None) \<and>
              x = \<lparr>crx_project_id = pid, crx_route = r, crx_params = params\<rparr>)"
    unfolding find_split by (fastforce simp del: not_None_eq)
  finally show ?thesis .
qed

definition sample_route :: "string \<Rightarrow> string \<Rightarrow> bool \<Rightarrow> topic_route_config" where
  "sample_route rid flt en =
     \<lparr>tr_id = rid, tr_broker_id = ''b1'', tr_name = ''route'', tr_topic_filter = flt,
      tr_codec = CodecJson, tr_schema_mapping_id = None, tr_device_id = TopicWildcardIndex 0,
      tr_event_type = ''telemetry'', tr_qos = AtLeastOnce, tr_enabled = en,
      tr_backpressure = DropNewest\<rparr>"

definition sample_message :: "string \<Rightarrow> string \<Rightarrow> mqtt_message" where
  "sample_message t p =
     \<lparr>mm_topic = t, mm_qos = AtLeastOnce, mm_retain = False, mm_payload = p, mm_received_at = 0\<rparr>"

lemma sample_simps [simp]:
  "tr_id (sample_route r f e) = r" "tr_enabled (sample_route r f e) = e"
  "mm_topic (sample_message t p) = t" "mm_payload (sample_message t p) = p"
  by (simp_all add: sample_route_def sample_message_def)

definition sample_routes :: "topic_route_config list" where
  "sample_routes = [sample_route ''r1'' ''devices/#'' False, sample_route ''r2'' ''devices/+/up'' True,
                    sample_route ''r3'' ''devices/#'' True]"

theorem first_enabled_route_wins_witness:
  "\<exists>matcher x. config_route_matcher_new ''p1'' sample_routes = Inr matcher \<and>
     match_message matcher (sample_message ''devices/d7/up'' ''1'') = Some x \<and>
     tr_id (crx_route x) = ''r2'' \<and> single_level (crx_params x) = [''d7'']"
proof -
  let ?r = "sample_route ''r2'' ''devices/+/up'' True"
  let ?x = "\<lparr>crx_project_id = ''p1'', crx_route = ?r,
             crx_params = \<lparr>single_level = [''d7''], multi_level = []\<rparr>\<rparr>"
  have valid: "list_all (\<lambda>r. topic_route_config_validate r = Inr ()) sample_routes" by code_simp
  have ids: "distinct (map tr_id sample_routes)" by code_simp
  obtain matcher where new: "config_route_matcher_new ''p1'' sample_routes = Inr matcher"
    using valid ids by (simp add: config_route_matcher_new_iff list_all_iff)
  have hit: "route_captures ?r ''devices/d7/up'' = Some \<lparr>single_level = [''d7''], multi_level = []\<rparr>"
    by code_simp
  have "match_message matcher (sample_message ''devices/d7/up'' ''1'') = Some ?x"
    unfolding first_enabled_route_wins [OF new]
    by (intro exI [of _ "[sample_route ''r1'' ''devices/#'' False]"] exI [of _ ?r]
        exI [of _ "[sample_route ''r3'' ''devices/#'' True]"]
        exI [of _ "\<lparr>single_level = [''d7''], multi_level = []\<rparr>"])
      (simp add: hit sample_routes_def sample_simps)
  with new show ?thesis by auto
qed

text \<open>A matcher is built exactly when the route ids are distinct, disabled routes included, and every
  enabled route is valid; it then holds the enabled routes in order.\<close>

lemma config_route_matcher_new_accepts:
  "config_route_matcher_new pid routes = Inr matcher \<longleftrightarrow>
     distinct (map tr_id routes) \<and>
     list_all (\<lambda>r. topic_route_config_validate r = Inr ()) (filter tr_enabled routes) \<and>
     crm_project_id matcher = pid \<and> map cr_config (crm_routes matcher) = filter tr_enabled routes \<and>
     list_all (\<lambda>c. c = compiled_route (cr_config c)) (crm_routes matcher)"
proof -
  have "map cr_config cs = rs \<and> list_all (\<lambda>c. c = compiled_route (cr_config c)) cs \<longleftrightarrow>
        cs = map compiled_route rs" for cs rs
  proof (induction cs arbitrary: rs)
    case (Cons c cs)
    then show ?case by (cases rs) (auto simp: compiled_route_def)
  qed (auto simp: eq_commute)
  then show ?thesis
    by (cases matcher) (auto simp: config_route_matcher_new_iff list_all_iff)
qed

end
