(* ===== verification/Command_Render.thy ===== *)
theory Command_Render
  imports Topic_Router
begin

text \<open>
  Commands (\<^verbatim>\<open>pipe-bolt-core/src/command.rs\<close>): rendering a template into a topic and a payload, and the
  validation of a direct command request.
\<close>

section \<open>Errors\<close>

datatype template_surface = SurfaceTopic | SurfacePayload

datatype command_render_error =
  EmptyPlaceholder command_template_id template_surface
| UnclosedPlaceholder command_template_id template_surface
| UnopenedPlaceholder command_template_id template_surface
| MissingParameter command_template_id string
| NonScalarParameter command_template_id string
| InvalidTopicSegment command_template_id string string
| RenderInvalidTopic command_template_id string
| RenderInvalidPayload command_template_id string
| RenderPayloadTooLarge command_template_id nat nat

type_synonym command_params = "(string, json) bmap"
type_synonym placeholder_renderer =
  "command_template \<Rightarrow> string \<Rightarrow> command_params \<Rightarrow> command_render_error + string"

section \<open>Placeholders\<close>

definition validate_placeholder_key ::
    "command_template \<Rightarrow> template_surface \<Rightarrow> string \<Rightarrow> command_render_error + unit" where
  "validate_placeholder_key template surface key =
     (if is_blank key then Inl (EmptyPlaceholder (ct_id template) surface) else Inr ())"

definition scalar_param :: "serde_lib \<Rightarrow> placeholder_renderer" where
  "scalar_param lib template key params =
     res_bind (ok_or (MissingParameter (ct_id template) key) (map_of params key)) (\<lambda>v.
     case v of
       JString s \<Rightarrow> Inr s
     | JNumber n \<Rightarrow> Inr (number_to_string lib n)
     | JBool b \<Rightarrow> Inr (show_bool b)
     | _ \<Rightarrow> Inl (NonScalarParameter (ct_id template) key))"

definition topic_param :: "serde_lib \<Rightarrow> placeholder_renderer" where
  "topic_param lib template key params =
     res_bind (scalar_param lib template key params) (\<lambda>v.
     if v = [] then Inl (InvalidTopicSegment (ct_id template) key ''must not be empty'')
     else if CHR ''/'' \<in> set v \<or> CHR ''+'' \<in> set v \<or> CHR ''#'' \<in> set v
     then Inl (InvalidTopicSegment (ct_id template) key
            (''must not contain '' @ [CHR 0x27] @ ''/'' @ [CHR 0x27] @ '', '' @ [CHR 0x27] @ ''+'' @
             [CHR 0x27] @ '', or '' @ [CHR 0x27] @ ''#'' @ [CHR 0x27]))
     else if CHR 0x00 \<in> set v \<or> has_control v
     then Inl (InvalidTopicSegment (ct_id template) key
            ''must not contain null byte or control characters'')
     else Inr v)"

text \<open>The \<^verbatim>\<open>while let\<close> loop: the output so far and the rest of the text.\<close>

function render_loop ::
    "placeholder_renderer \<Rightarrow> command_template \<Rightarrow> template_surface \<Rightarrow> command_params \<Rightarrow> string \<Rightarrow> string \<Rightarrow>
     command_render_error + string" where
  "render_loop render_param template surface params output rest =
     (case split_once CHR ''{'' rest of
        None \<Rightarrow> Inr (output @ rest)
      | Some (before, after_start) \<Rightarrow>
          (case split_once CHR ''}'' after_start of
             None \<Rightarrow> Inl (UnclosedPlaceholder (ct_id template) surface)
           | Some (key, rest') \<Rightarrow>
               res_bind (validate_placeholder_key template surface key) (\<lambda>_.
               res_bind (render_param template key params) (\<lambda>v.
               render_loop render_param template surface params (output @ before @ v) rest'))))"
  by pat_completeness auto
termination
  by (relation "measure (\<lambda>(_, _, _, _, _, rest). length rest)") auto

declare render_loop.simps [simp del]

definition render_text_template ::
    "command_template \<Rightarrow> template_surface \<Rightarrow> string \<Rightarrow> command_params \<Rightarrow> placeholder_renderer \<Rightarrow>
     command_render_error + string" where
  "render_text_template template surface text params render_param =
     res_bind (render_loop render_param template surface params [] text) (\<lambda>output.
     if CHR ''}'' \<in> set output then Inl (UnopenedPlaceholder (ct_id template) surface)
     else Inr output)"

definition render_topic_template ::
    "serde_lib \<Rightarrow> command_template \<Rightarrow> command_params \<Rightarrow> command_render_error + string" where
  "render_topic_template lib template params =
     render_text_template template SurfaceTopic (ct_topic_template template) params (topic_param lib)"

definition exact_placeholder_key :: "string \<Rightarrow> string option" where
  "exact_placeholder_key text =
     (case text of
        [] \<Rightarrow> None
      | c # t \<Rightarrow>
          if c = CHR ''{'' \<and> t \<noteq> [] \<and> last t = CHR ''}'' then Some (butlast t) else None)"

definition render_payload_string ::
    "serde_lib \<Rightarrow> command_template \<Rightarrow> string \<Rightarrow> command_params \<Rightarrow> command_render_error + json" where
  "render_payload_string lib template text params =
     (case exact_placeholder_key text of
        Some key \<Rightarrow>
          res_bind (validate_placeholder_key template SurfacePayload key) (\<lambda>_.
          ok_or (MissingParameter (ct_id template) key) (map_of params key))
      | None \<Rightarrow>
          res_map JString (render_text_template template SurfacePayload text params (scalar_param lib)))"

fun render_payload_value ::
    "serde_lib \<Rightarrow> command_template \<Rightarrow> command_params \<Rightarrow> json \<Rightarrow> command_render_error + json" where
  "render_payload_value lib template params (JString text) = render_payload_string lib template text params"
| "render_payload_value lib template params (JArray vs) =
     res_map JArray (try_collect (render_payload_value lib template params) vs)"
| "render_payload_value lib template params (JObject m) =
     res_map (\<lambda>kvs. JObject (bm_extend [] kvs))
       (try_collect (\<lambda>kv. res_bind (render_payload_value lib template params (snd kv)) (\<lambda>v.
          Inr (fst kv, v))) m)"
| "render_payload_value lib template params v = Inr v"

section \<open>The renderer\<close>

definition default_command_max_payload_bytes :: nat where
  "default_command_max_payload_bytes = 64 * 1024"

record command_render_context =
  cc_project_id :: project_id
  cc_command_execution_id :: command_execution_id
  cc_correlation_id :: string

record command_render_draft =
  cd_topic :: topic_name
  cd_payload :: string
  cd_payload_size_bytes :: u64

definition render_draft ::
    "serde_lib \<Rightarrow> nat \<Rightarrow> command_template \<Rightarrow> command_params \<Rightarrow> command_render_error + command_render_draft" where
  "render_draft lib max_payload template params =
     res_bind (render_topic_template lib template params) (\<lambda>topic_text.
     res_bind (map_err (\<lambda>e. RenderInvalidTopic (ct_id template) (domain_error_display e))
                 (topic_name_new topic_text)) (\<lambda>topic.
     res_bind (render_payload_value lib template params (ct_payload_template template)) (\<lambda>payload_value.
     res_bind (map_err (RenderInvalidPayload (ct_id template)) (to_vec lib payload_value)) (\<lambda>payload.
     if length payload > max_payload
     then Inl (RenderPayloadTooLarge (ct_id template) max_payload (length payload))
     else Inr \<lparr>cd_topic = topic, cd_payload = payload,
               cd_payload_size_bytes = saturating_usize_to_u64 (length payload)\<rparr>))))"

definition render ::
    "serde_lib \<Rightarrow> nat \<Rightarrow> command_render_context \<Rightarrow> command_template \<Rightarrow> command_params \<Rightarrow>
     command_render_error + rendered_command" where
  "render lib max_payload context template params =
     res_bind (render_draft lib max_payload template params) (\<lambda>draft.
     Inr (rendered_command_from_parts
       \<lparr>rp_project_id = cc_project_id context, rp_broker_id = ct_broker_id template,
        rp_command_template_id = ct_id template,
        rp_command_execution_id = cc_command_execution_id context,
        rp_topic = cd_topic draft, rp_payload = cd_payload draft, rp_qos = ct_qos template,
        rp_retain = ct_retain template, rp_correlation_id = cc_correlation_id context\<rparr>))"

section \<open>Direct command requests\<close>

datatype command_payload = PayloadJson json | PayloadText string | PayloadBase64 string | PayloadEmpty

datatype command_validation_error =
  InvalidSegment string string
| CommandInvalidTopic string
| CommandInvalidPayload string
| CommandPayloadTooLarge nat nat

record command_request =
  cmd_device :: string
  cmd_command :: string
  cmd_payload :: command_payload
  cmd_qos :: mqtt_qos
  cmd_retain :: bool

record validated_command =
  vc_device :: string
  vc_command :: string
  vc_topic :: string
  vc_qos :: mqtt_qos
  vc_retain :: bool
  vc_payload :: string

text \<open>Standard base64 decoding is the library's.\<close>

fun command_payload_into_bytes ::
    "serde_lib \<Rightarrow> (string \<Rightarrow> string + string) \<Rightarrow> command_payload \<Rightarrow> command_validation_error + string" where
  "command_payload_into_bytes lib b64 (PayloadJson v) = map_err CommandInvalidPayload (to_vec lib v)"
| "command_payload_into_bytes lib b64 (PayloadText s) = Inr s"
| "command_payload_into_bytes lib b64 (PayloadBase64 s) =
     map_err (\<lambda>e. CommandInvalidPayload (''invalid base64 payload: '' @ e)) (b64 (trim s))"
| "command_payload_into_bytes lib b64 PayloadEmpty = Inr []"

definition normalize_segment :: "string \<Rightarrow> string \<Rightarrow> nat \<Rightarrow> command_validation_error + string" where
  "normalize_segment name v max_len =
     (let s = trim v in
      if s = [] then Inl (InvalidSegment name ''must not be empty'')
      else if length s > max_len then Inl (InvalidSegment name ''is too long'')
      else if CHR ''/'' \<in> set s \<or> CHR ''+'' \<in> set s \<or> CHR ''#'' \<in> set s \<or> CHR 0x00 \<in> set s
      then Inl (InvalidSegment name ''must be a single MQTT topic segment without wildcards'')
      else Inr s)"

definition command_request_validate ::
    "serde_lib \<Rightarrow> (string \<Rightarrow> string + string) \<Rightarrow> command_request \<Rightarrow> command_validation_error + validated_command" where
  "command_request_validate lib b64 req =
     res_bind (normalize_segment ''device'' (cmd_device req) 128) (\<lambda>device.
     res_bind (normalize_segment ''command'' (cmd_command req) 128) (\<lambda>command.
     res_bind (command_payload_into_bytes lib b64 (cmd_payload req)) (\<lambda>payload.
     if length payload > default_command_max_payload_bytes
     then Inl (CommandPayloadTooLarge default_command_max_payload_bytes (length payload))
     else
       let topic = ''devices'' @ ''/'' @ device @ ''/'' @ ''command'' @ ''/'' @ command in
       res_bind (map_err (\<lambda>e. CommandInvalidTopic (mqtt_engine_error_display e))
                   (validate_topic_name topic)) (\<lambda>_.
       Inr \<lparr>vc_device = device, vc_command = command, vc_topic = topic, vc_qos = cmd_qos req,
            vc_retain = cmd_retain req, vc_payload = payload\<rparr>))))"

section \<open>What rendering does\<close>

text \<open>A template text as literal pieces and placeholders.\<close>

datatype template_part = Lit string | Hole string

fun part_text :: "template_part \<Rightarrow> string" where
  "part_text (Lit s) = s"
| "part_text (Hole k) = ''{'' @ k @ ''}''"

definition part_ok :: "(string \<Rightarrow> 'e + string) \<Rightarrow> template_part \<Rightarrow> bool" where
  "part_ok value_of p \<longleftrightarrow>
     (case p of
        Lit s \<Rightarrow> CHR ''{'' \<notin> set s
      | Hole k \<Rightarrow> CHR ''}'' \<notin> set k \<and> \<not> is_blank k \<and> (\<exists>v. value_of k = Inr v))"

definition part_value :: "(string \<Rightarrow> 'e + string) \<Rightarrow> template_part \<Rightarrow> string" where
  "part_value value_of p = (case p of Lit s \<Rightarrow> s | Hole k \<Rightarrow> projr (value_of k))"

lemma part_simps [simp]:
  "part_ok f (Lit s) \<longleftrightarrow> CHR ''{'' \<notin> set s"
  "part_ok f (Hole k) \<longleftrightarrow> CHR ''}'' \<notin> set k \<and> \<not> is_blank k \<and> (\<exists>v. f k = Inr v)"
  "part_value f (Lit s) = s" "part_value f (Hole k) = projr (f k)"
  by (simp_all add: part_ok_def part_value_def)

text \<open>The loop writes the literals unchanged and each placeholder as its parameter's text.\<close>

lemma render_loop_parts:
  "render_loop rp t sf ps out rest = Inr res \<Longrightarrow>
   \<exists>parts. rest = concat (map part_text parts) \<and> list_all (part_ok (\<lambda>k. rp t k ps)) parts \<and>
           res = out @ concat (map (part_value (\<lambda>k. rp t k ps)) parts)"
proof (induction rp t sf ps out rest rule: render_loop.induct)
  case (1 rp t sf ps out rest)
  show ?case
  proof (cases "split_once CHR ''{'' rest")
    case None
    with "1.prems" have "res = out @ rest" "CHR ''{'' \<notin> set rest"
      by (simp_all add: render_loop.simps [of rp t sf ps out rest])
    then show ?thesis
      by (intro exI [of _ "[Lit rest]"]) simp
  next
    case (Some ba)
    obtain before after where ba: "ba = (before, after)" by fastforce
    from Some ba have rest: "rest = before @ CHR ''{'' # after" "CHR ''{'' \<notin> set before" by simp_all
    obtain key rest' where kr: "split_once CHR ''}'' after = Some (key, rest')"
      using "1.prems" Some ba
      by (cases "split_once CHR ''}'' after") (auto simp: render_loop.simps [of rp t sf ps out rest])
    then have after: "after = key @ CHR ''}'' # rest'" "CHR ''}'' \<notin> set key" by simp_all
    from "1.prems" Some ba kr obtain v where v: "rp t key ps = Inr v"
      and valid: "validate_placeholder_key t sf key = Inr ()"
      and step: "render_loop rp t sf ps (out @ before @ v) rest' = Inr res"
      by (auto simp: render_loop.simps [of rp t sf ps out rest])
    from "1.IH" [OF Some ba [symmetric] kr refl valid v step] obtain parts where
      parts: "rest' = concat (map part_text parts)" "list_all (part_ok (\<lambda>k. rp t k ps)) parts"
        "res = (out @ before @ v) @ concat (map (part_value (\<lambda>k. rp t k ps)) parts)"
      by blast
    have "\<not> is_blank key" using valid by (simp add: validate_placeholder_key_def split: if_splits)
    with parts rest after v show ?thesis
      by (intro exI [of _ "Lit before # Hole key # parts"]) simp
  qed
qed

lemma length_split_on: "length (split_on c s) = Suc (count_list s c)"
proof (induction s)
  case (Cons x xs)
  then show ?case by (cases "split_on c xs") auto
qed simp

lemma topic_param_ok:
  "topic_param lib t k ps = Inr v \<Longrightarrow>
   scalar_param lib t k ps = Inr v \<and>
   v \<noteq> [] \<and> CHR ''/'' \<notin> set v \<and> CHR ''+'' \<notin> set v \<and> CHR ''#'' \<notin> set v \<and> \<not> has_control v"
  by (auto simp: topic_param_def split: if_splits)

lemma topic_parts_levels:
  assumes "list_all (part_ok (\<lambda>k. topic_param lib t k ps)) parts"
  shows "count_list (concat (map (part_value (\<lambda>k. topic_param lib t k ps)) parts)) CHR ''/'' =
         (\<Sum>p\<leftarrow>parts. case p of Lit s \<Rightarrow> count_list s CHR ''/'' | Hole k \<Rightarrow> 0)"
  using assms
proof (induction parts)
  case (Cons p parts)
  have "count_list (part_value (\<lambda>k. topic_param lib t k ps) p) CHR ''/'' =
      (case p of Lit s \<Rightarrow> count_list s CHR ''/'' | Hole k \<Rightarrow> 0)"
  proof (cases p)
    case (Hole k)
    with Cons.prems obtain v where "topic_param lib t k ps = Inr v" by auto
    with Hole topic_param_ok [of lib t k ps v] show ?thesis
      by (simp add: count_list_0_iff)
  qed simp
  with Cons show ?case by simp
qed simp

lemma topic_part_texts:
  "list_all (part_ok (\<lambda>k. topic_param lib t k ps)) parts \<Longrightarrow>
   map (part_value (\<lambda>k. topic_param lib t k ps)) parts = map (part_value (\<lambda>k. scalar_param lib t k ps)) parts"
proof (induction parts)
  case (Cons p parts)
  have "part_value (\<lambda>k. topic_param lib t k ps) p = part_value (\<lambda>k. scalar_param lib t k ps) p"
  proof (cases p)
    case (Hole k)
    with Cons.prems obtain v where v: "topic_param lib t k ps = Inr v" by auto
    with topic_param_ok [OF v] show ?thesis by (simp add: Hole)
  qed simp
  with Cons show ?case by simp
qed simp

text \<open>
  A parameter adds no level to the topic and no wildcard: the levels are those the literals of the
  template write.
\<close>

definition topic_text_ok :: "string \<Rightarrow> bool" where
  "topic_text_ok v \<longleftrightarrow>
     v \<noteq> [] \<and> CHR ''/'' \<notin> set v \<and> CHR ''+'' \<notin> set v \<and> CHR ''#'' \<notin> set v \<and> \<not> has_control v"

lemma render_topic_levels:
  assumes "render_topic_template lib t ps = Inr topic"
  shows "\<exists>parts. ct_topic_template t = concat (map part_text parts) \<and>
           topic = concat (map (part_value (\<lambda>k. scalar_param lib t k ps)) parts) \<and>
           (\<forall>s. Lit s \<in> set parts \<longrightarrow> CHR ''{'' \<notin> set s) \<and>
           (\<forall>k. Hole k \<in> set parts \<longrightarrow>
              CHR ''}'' \<notin> set k \<and> (\<exists>v. scalar_param lib t k ps = Inr v \<and> topic_text_ok v)) \<and>
           length (split_on CHR ''/'' topic) =
             Suc (\<Sum>p\<leftarrow>parts. case p of Lit s \<Rightarrow> count_list s CHR ''/'' | Hole k \<Rightarrow> 0)"
proof -
  from assms have "render_loop (topic_param lib) t SurfaceTopic ps [] (ct_topic_template t) = Inr topic"
    by (auto simp: render_topic_template_def render_text_template_def split: if_splits)
  from render_loop_parts [OF this] obtain parts where parts:
    "ct_topic_template t = concat (map part_text parts)"
    "list_all (part_ok (\<lambda>k. topic_param lib t k ps)) parts"
    "topic = concat (map (part_value (\<lambda>k. topic_param lib t k ps)) parts)" by auto
  have ok: "part_ok (\<lambda>k. topic_param lib t k ps) p" if "p \<in> set parts" for p
    using parts(2) that by (simp add: list_all_iff)
  have "\<exists>v. scalar_param lib t k ps = Inr v \<and> topic_text_ok v" if "Hole k \<in> set parts" for k
    using ok [OF that] by (auto simp: topic_text_ok_def dest!: topic_param_ok)
  with parts show ?thesis
    using topic_parts_levels [OF parts(2)]
    by (intro exI [of _ parts]) (auto simp: length_split_on topic_part_texts [OF parts(2)] dest: ok)
qed

text \<open>A template value without braces renders to itself.\<close>

fun no_braces :: "json \<Rightarrow> bool" where
  "no_braces (JString s) = (CHR ''{'' \<notin> set s \<and> CHR ''}'' \<notin> set s)"
| "no_braces (JArray vs) = list_all no_braces vs"
| "no_braces (JObject m) = list_all (\<lambda>kv. no_braces (snd kv)) m"
| "no_braces _ = True"

lemma bm_insert_last: "(\<forall>k' \<in> fst ` set m. k' < k) \<Longrightarrow> bm_insert k v m = m @ [(k, v)]"
  by (induction k v m rule: bm_insert.induct) (auto simp: not_less_iff_gr_or_eq)

lemma bm_extend_sorted:
  "sorted_wrt (<) (map fst (m @ kvs)) \<Longrightarrow> bm_extend m kvs = m @ kvs"
proof (induction kvs arbitrary: m)
  case (Cons kv kvs)
  obtain k v where kv: "kv = (k, v)" by fastforce
  have "\<forall>k' \<in> fst ` set m. k' < k"
    using Cons.prems by (auto simp: kv sorted_wrt_append)
  then have "bm_insert k v m = m @ [(k, v)]" by (rule bm_insert_last)
  with Cons.IH [of "m @ [(k, v)]"] Cons.prems show ?case by (simp add: kv bm_extend_def)
qed simp

lemma bm_extend_wf_id: "bm_wf m \<Longrightarrow> bm_extend [] m = m"
  using bm_extend_sorted [of "[]" m] by (simp add: bm_wf_def)

lemma render_payload_string_plain:
  assumes "CHR ''{'' \<notin> set s" and "CHR ''}'' \<notin> set s"
  shows "render_payload_string lib t s ps = Inr (JString s)"
proof -
  have "exact_placeholder_key s = None"
    using assms(1) by (cases s) (auto simp: exact_placeholder_key_def)
  moreover have "split_once CHR ''{'' s = None" using assms(1) by simp
  ultimately show ?thesis using assms(2)
    by (simp add: render_payload_string_def render_text_template_def render_loop.simps del: split_once_None)
qed

lemma render_payload_plain:
  "json_wf v \<Longrightarrow> no_braces v \<Longrightarrow> render_payload_value lib t ps v = Inr v"
proof (induction v)
  case (JArray vs)
  then have "try_collect (render_payload_value lib t ps) vs = Inr (map id vs)"
    by (intro try_collect_total) (auto simp: list_all_iff)
  then show ?case by simp
next
  case (JObject m)
  have "try_collect (\<lambda>kv. res_bind (render_payload_value lib t ps (snd kv)) (\<lambda>v. Inr (fst kv, v))) m =
      Inr (map id m)"
  proof (rule try_collect_total)
    fix kv assume kv: "kv \<in> set m"
    have "snd kv \<in> Basic_BNFs.snds kv" by (simp add: snds.simps)
    with JObject kv have "render_payload_value lib t ps (snd kv) = Inr (snd kv)"
      by (auto simp: list_all_iff)
    then show "res_bind (render_payload_value lib t ps (snd kv)) (\<lambda>v. Inr (fst kv, v)) = Inr (id kv)"
      by simp
  qed
  with JObject.prems show ?case by (simp add: bm_extend_wf_id)
qed (simp_all add: render_payload_string_plain)

text \<open>Rendering keeps the shape: array lengths and object keys.\<close>

lemma render_payload_array:
  "render_payload_value lib t ps (JArray vs) = Inr w \<Longrightarrow> \<exists>ws. w = JArray ws \<and> length ws = length vs"
  by (auto dest: try_collect_length)

section \<open>Direct requests\<close>

lemma normalize_segment_ok:
  "normalize_segment name v n = Inr s \<Longrightarrow>
   s \<noteq> [] \<and> length s \<le> n \<and> CHR ''/'' \<notin> set s \<and> CHR ''+'' \<notin> set s \<and> CHR ''#'' \<notin> set s"
  by (auto simp: normalize_segment_def Let_def split: if_splits)

section \<open>Properties\<close>

definition sample_template :: command_template where
  "sample_template =
     \<lparr>ct_id = ''t1'', ct_name = ''switch'', ct_broker_id = ''b1'', ct_topic_template = ''devices/{id}/cmd'',
      ct_payload_template = JString ''on'', ct_qos = AtLeastOnce, ct_retain = False, ct_enabled = True\<rparr>"

definition sample_params :: command_params where
  "sample_params = [(''id'', JString ''d7'')]"

lemma sample_render_topic: "render_topic_template sample_lib sample_template sample_params = Inr ''devices/d7/cmd''"
proof -
  have "\<not> is_blank ''id''" by code_simp
  then show ?thesis
    by (simp add: render_topic_template_def render_text_template_def sample_template_def sample_params_def
        render_loop.simps validate_placeholder_key_def topic_param_def scalar_param_def is_ascii_control_def
        less_eq_char_def)
qed

text \<open>C9: a rendered topic is the template with each placeholder replaced by the text of its parameter, and every such
  text is non-empty and has no level separator, no wildcard and no control character, so parameters never add a
  level: the topic has exactly the levels the literal parts of the template write.\<close>

theorem rendered_topic_keeps_levels:
  assumes "render_topic_template lib template params = Inr topic"
  shows "\<exists>parts. ct_topic_template template = concat (map part_text parts) \<and>
           topic = concat (map (part_value (\<lambda>k. scalar_param lib template k params)) parts) \<and>
           (\<forall>s. Lit s \<in> set parts \<longrightarrow> CHR ''{'' \<notin> set s) \<and>
           (\<forall>k. Hole k \<in> set parts \<longrightarrow>
              CHR ''}'' \<notin> set k \<and>
              (\<exists>v. scalar_param lib template k params = Inr v \<and>
                 v \<noteq> [] \<and> CHR ''/'' \<notin> set v \<and> CHR ''+'' \<notin> set v \<and> CHR ''#'' \<notin> set v \<and> \<not> has_control v)) \<and>
           length (split_on CHR ''/'' topic) =
             Suc (\<Sum>p\<leftarrow>parts. case p of Lit s \<Rightarrow> count_list s CHR ''/'' | Hole k \<Rightarrow> 0)"
  using assms unfolding topic_text_ok_def [symmetric] by (rule render_topic_levels)

theorem rendered_topic_keeps_levels_witness:
  "render_topic_template sample_lib sample_template sample_params = Inr ''devices/d7/cmd'' \<and>
   (\<exists>parts. ''devices/{id}/cmd'' = concat (map part_text parts) \<and>
      length (split_on CHR ''/'' ''devices/d7/cmd'') =
        Suc (\<Sum>p\<leftarrow>parts. case p of Lit s \<Rightarrow> count_list s CHR ''/'' | Hole k \<Rightarrow> 0))"
  using rendered_topic_keeps_levels [OF sample_render_topic] sample_render_topic
  by (auto simp: sample_template_def)

text \<open>A rendered command is addressed to the template's broker on a valid topic name without wildcards,
  carries the ids of its request, and its payload is the serialized rendering of the template's payload,
  within the size limit and with its size recorded.\<close>

lemma rendered_command_valid:
  assumes "render lib max_payload ctx template params = Inr cmd" and "max_payload < 2 ^ 64"
  shows "rc_broker_id cmd = ct_broker_id template \<and> rc_project_id cmd = cc_project_id ctx \<and>
         rc_command_execution_id cmd = cc_command_execution_id ctx \<and>
         topic_name_new (rc_topic cmd) = Inr (rc_topic cmd) \<and>
         length (rc_payload cmd) \<le> max_payload \<and>
         unat (rc_payload_size_bytes cmd) = length (rc_payload cmd) \<and>
         (\<exists>v. render_payload_value lib template params (ct_payload_template template) = Inr v \<and>
              to_vec lib v = Inr (rc_payload cmd))"
  using assms
  by (auto simp: render_def render_draft_def rendered_command_from_parts_def topic_name_new_iff u64_max_def
      split: if_splits)

text \<open>A payload template without braces is rendered unchanged, whatever the parameters.\<close>

lemma plain_payload_unchanged:
  assumes "json_wf v" and "no_braces v"
  shows "render_payload_value lib template params v = Inr v"
  using assms by (rule render_payload_plain)

text \<open>A validated command request publishes to a topic of exactly four levels under the fixed namespace,
  whose device and command levels are non-empty, of bounded length and free of separators and wildcards,
  with a payload within the limit.\<close>

lemma command_topic_confined:
  assumes "command_request_validate lib b64 req = Inr cmd"
  shows "split_on CHR ''/'' (vc_topic cmd) = [''devices'', vc_device cmd, ''command'', vc_command cmd] \<and>
         vc_device cmd \<noteq> [] \<and> vc_command cmd \<noteq> [] \<and>
         length (vc_device cmd) \<le> 128 \<and> length (vc_command cmd) \<le> 128 \<and>
         CHR ''+'' \<notin> set (vc_topic cmd) \<and> CHR ''#'' \<notin> set (vc_topic cmd) \<and>
         length (vc_payload cmd) \<le> 64 * 1024"
proof -
  from assms obtain dev com where
    dev: "normalize_segment ''device'' (cmd_device req) 128 = Inr dev" and
    com: "normalize_segment ''command'' (cmd_command req) 128 = Inr com" and
    eq: "vc_device cmd = dev" "vc_command cmd = com"
      "vc_topic cmd = ''devices'' @ ''/'' @ dev @ ''/'' @ ''command'' @ ''/'' @ com"
      "length (vc_payload cmd) \<le> 64 * 1024"
    by (auto simp: command_request_validate_def Let_def default_command_max_payload_bytes_def split: if_splits)
  note d = normalize_segment_ok [OF dev] and c = normalize_segment_ok [OF com]
  have "vc_topic cmd = join_with CHR ''/'' [''devices'', dev, ''command'', com]" by (simp add: eq)
  moreover have "split_on CHR ''/'' (join_with CHR ''/'' [''devices'', dev, ''command'', com]) =
      [''devices'', dev, ''command'', com]"
    using d c by (intro split_join) auto
  ultimately have "split_on CHR ''/'' (vc_topic cmd) = [''devices'', dev, ''command'', com]" by simp
  with d c eq show ?thesis by simp
qed

end
