(* ===== verification/Channel.thy ===== *)
theory Channel
  imports Machine
begin

text \<open>
  Bounded channels. \<^verbatim>\<open>tokio::sync::mpsc\<close> belongs to a library, so the components take its
  \<^verbatim>\<open>try_send\<close> as an argument; \<open>mpsc_law\<close> states its documented behaviour against an abstract view of
  the channel, and \<open>vec_queue\<close> is a concrete queue that behaves so.
\<close>

datatype 'a try_send_error = Full 'a | Closed 'a

type_synonym ('a, 'ch) try_send = "'a \<Rightarrow> 'ch \<Rightarrow> ('a try_send_error + unit) \<times> 'ch"

record 'a vec_queue =
  vq_capacity :: nat
  vq_items :: "'a list"
  vq_closed :: bool

definition vq_try_send :: "('a, 'a vec_queue) try_send" where
  "vq_try_send a q =
     (if vq_closed q then (Inl (Closed a), q)
      else if vq_capacity q \<le> length (vq_items q) then (Inl (Full a), q)
      else (Inr (), q\<lparr>vq_items := vq_items q @ [a]\<rparr>))"

text \<open>A channel behaves, through the view, as the bounded queue does.\<close>

definition mpsc_law :: "('a, 'ch) try_send \<Rightarrow> ('ch \<Rightarrow> 'a vec_queue) \<Rightarrow> bool" where
  "mpsc_law ts view \<longleftrightarrow>
     (\<forall>a ch. fst (ts a ch) = fst (vq_try_send a (view ch)) \<and>
             view (snd (ts a ch)) = snd (vq_try_send a (view ch)))"

lemma vec_queue_mpsc: "mpsc_law vq_try_send id"
  by (simp add: mpsc_law_def)

definition vq_wf :: "'a vec_queue \<Rightarrow> bool" where
  "vq_wf q \<longleftrightarrow> length (vq_items q) \<le> vq_capacity q"

lemma mpsc_law_wf: "mpsc_law ts view \<Longrightarrow> vq_wf (view ch) \<Longrightarrow> vq_wf (view (snd (ts a ch)))"
  by (auto simp: mpsc_law_def vq_wf_def vq_try_send_def)

text \<open>A successful send appends, a failed one changes nothing.\<close>

lemma mpsc_law_items:
  assumes "mpsc_law ts view"
  shows "vq_items (view (snd (ts a ch))) =
           (case fst (ts a ch) of Inr _ \<Rightarrow> vq_items (view ch) @ [a] | Inl _ \<Rightarrow> vq_items (view ch))"
  using assms by (auto simp: mpsc_law_def vq_try_send_def split: sum.splits)

section \<open>Receiving\<close>

text \<open>
  Receiving from a channel of the library, with its documented behaviour: the oldest item; the end once the channel is
  closed and empty; otherwise nothing yet.
\<close>

datatype 'a recv = RecvItem 'a | RecvEnded | RecvPending

type_synonym ('a, 'ch) receiver = "'ch \<Rightarrow> 'a recv \<times> 'ch"

definition vq_recv :: "('a, 'a vec_queue) receiver" where
  "vq_recv q =
     (case vq_items q of
        a # rest \<Rightarrow> (RecvItem a, q\<lparr>vq_items := rest\<rparr>)
      | [] \<Rightarrow> (if vq_closed q then RecvEnded else RecvPending, q))"

definition recv_law :: "('a, 'ch) receiver \<Rightarrow> ('ch \<Rightarrow> 'a vec_queue) \<Rightarrow> bool" where
  "recv_law rx view \<longleftrightarrow> (\<forall>ch. fst (rx ch) = fst (vq_recv (view ch)) \<and> view (snd (rx ch)) = snd (vq_recv (view ch)))"

lemma vec_queue_recv: "recv_law vq_recv id"
  by (simp add: recv_law_def)

lemma recv_law_items:
  assumes "recv_law rx view" "rx ch = (r, ch')"
  shows "case r of RecvItem a \<Rightarrow> vq_items (view ch) = a # vq_items (view ch') | _ \<Rightarrow> vq_items (view ch') = vq_items (view ch)"
proof -
  have "r = fst (vq_recv (view ch))" "view ch' = snd (vq_recv (view ch))"
    using assms by (auto simp: recv_law_def dest!: spec [of _ ch])
  then show ?thesis by (auto simp: vq_recv_def split: list.splits)
qed

end
