(* ===== verification/Mqtt_Engine.thy ===== *)
theory Mqtt_Engine
  imports Command_Render Channel
begin

text \<open>
  The MQTT engine (\<^verbatim>\<open>mqtt/backoff.rs\<close>, \<^verbatim>\<open>config.rs\<close>, \<^verbatim>\<open>bus.rs\<close> and \<^verbatim>\<open>mqtt/engine.rs\<close>): reconnect backoff,
  client configuration, the bounded channels of the bus, and one step of each of its three workers. The
  MQTT client and the channels are the libraries'; their operations are arguments.
\<close>

section \<open>Backoff\<close>

record exponential_backoff =
  eb_min_delay :: duration
  eb_max_delay :: duration
  eb_current_delay :: duration

definition backoff_new :: "duration \<Rightarrow> duration \<Rightarrow> exponential_backoff" where
  "backoff_new mn mx = \<lparr>eb_min_delay = mn, eb_max_delay = mx, eb_current_delay = mn\<rparr>"

definition backoff_reset :: "exponential_backoff \<Rightarrow> exponential_backoff" where
  "backoff_reset b = b\<lparr>eb_current_delay := eb_min_delay b\<rparr>"

definition next_delay :: "exponential_backoff \<Rightarrow> duration \<times> exponential_backoff" where
  "next_delay b =
     (eb_current_delay b,
      b\<lparr>eb_current_delay := min (dur_saturating_mul (eb_current_delay b) 2) (eb_max_delay b)\<rparr>)"

fun delays :: "nat \<Rightarrow> exponential_backoff \<Rightarrow> duration list" where
  "delays 0 b = []"
| "delays (Suc n) b = (case next_delay b of (d, b') \<Rightarrow> d # delays n b')"

definition backoff_ok :: "exponential_backoff \<Rightarrow> bool" where
  "backoff_ok b \<longleftrightarrow> 0 < eb_min_delay b \<and> eb_min_delay b \<le> eb_current_delay b \<and>
     eb_current_delay b \<le> eb_max_delay b \<and> eb_max_delay b \<le> duration_max"

lemma next_delay_doubles:
  "eb_max_delay b \<le> duration_max \<Longrightarrow>
   eb_current_delay (snd (next_delay b)) = min (2 * eb_current_delay b) (eb_max_delay b)"
  by (simp add: next_delay_def dur_saturating_mul_def)

lemma next_delay_ok: "backoff_ok b \<Longrightarrow> backoff_ok (snd (next_delay b))"
  by (auto simp: backoff_ok_def next_delay_def dur_saturating_mul_def)

lemma delays_closed_form:
  assumes "backoff_ok b"
  shows "delays n b = map (\<lambda>i. min (eb_current_delay b * 2 ^ i) (eb_max_delay b)) [0..<n]"
  using assms
proof (induction n arbitrary: b)
  case (Suc n)
  let ?b' = "snd (next_delay b)"
  have mx: "eb_max_delay b \<le> duration_max" "eb_current_delay b \<le> eb_max_delay b"
    using Suc.prems by (simp_all add: backoff_ok_def)
  have cur: "eb_current_delay ?b' = min (2 * eb_current_delay b) (eb_max_delay b)"
    by (rule next_delay_doubles [OF mx(1)])
  have mx': "eb_max_delay ?b' = eb_max_delay b" by (simp add: next_delay_def)
  have step: "min (eb_current_delay ?b' * 2 ^ i) (eb_max_delay b) =
      min (eb_current_delay b * 2 ^ Suc i) (eb_max_delay b)" for i
  proof (cases "2 * eb_current_delay b \<le> eb_max_delay b")
    case True
    then show ?thesis by (simp add: cur mult.commute mult.left_commute)
  next
    case False
    have grow: "eb_max_delay b \<le> eb_max_delay b * 2 ^ i" by simp
    also have "\<dots> \<le> (2 * eb_current_delay b) * 2 ^ i" using False by (intro mult_le_mono1) simp
    finally have "eb_max_delay b \<le> eb_current_delay b * 2 ^ Suc i"
      by (simp add: mult.commute mult.left_commute)
    moreover have "eb_current_delay ?b' = eb_max_delay b" using False by (simp add: cur)
    ultimately show ?thesis using grow by (simp add: min_absorb2)
  qed
  have "delays (Suc n) b = eb_current_delay b # delays n ?b'"
    by (simp add: next_delay_def)
  also have "delays n ?b' = map (\<lambda>i. min (eb_current_delay ?b' * 2 ^ i) (eb_max_delay ?b')) [0..<n]"
    by (rule Suc.IH [OF next_delay_ok [OF Suc.prems]])
  also have "\<dots> = map (\<lambda>i. min (eb_current_delay b * 2 ^ i) (eb_max_delay b)) (map Suc [0..<n])"
    by (simp only: mx' step map_map comp_def)
  finally show ?case
    using mx(2) by (simp add: map_Suc_upt upt_conv_Cons del: upt_Suc)
qed simp

section \<open>Client configuration\<close>

datatype mqtt_tls_mode = MqttTlsDisabled | EnabledWithNativeRoot

record mqtt_subscription =
  ms_topic :: string
  ms_qos :: mqtt_qos

record mqtt_reconnect_config =
  mr_min_delay :: duration
  mr_max_delay :: duration

definition mqtt_reconnect_config_default :: mqtt_reconnect_config where
  "mqtt_reconnect_config_default = \<lparr>mr_min_delay = from_millis 500, mr_max_delay = from_secs 30\<rparr>"

definition mqtt_reconnect_config_validate :: "mqtt_reconnect_config \<Rightarrow> mqtt_engine_error + unit" where
  "mqtt_reconnect_config_validate c =
     (if mr_min_delay c = 0
      then Inl (EngineInvalidConfig ''reconnect min_delay must be greater than zero'')
      else if mr_max_delay c < mr_min_delay c
      then Inl (EngineInvalidConfig ''Reconnect max_delay must be greater than or equal to min_delay'')
      else Inr ())"

record mqtt_client_config =
  mc_client_id :: string
  mc_host :: string
  mc_port :: u16
  mc_username :: "string option"
  mc_password :: "string option"
  mc_keep_alive :: duration
  mc_clean_session :: bool
  mc_tls_mode :: mqtt_tls_mode
  mc_request_channel_capacity :: nat
  mc_subscriptions :: "mqtt_subscription list"
  mc_reconnect :: mqtt_reconnect_config

definition mqtt_client_config_new :: "string \<Rightarrow> string \<Rightarrow> u16 \<Rightarrow> mqtt_client_config" where
  "mqtt_client_config_new client_id host port =
     \<lparr>mc_client_id = client_id, mc_host = host, mc_port = port, mc_username = None,
      mc_password = None, mc_keep_alive = from_secs 30, mc_clean_session = False,
      mc_tls_mode = MqttTlsDisabled, mc_request_channel_capacity = 64, mc_subscriptions = [],
      mc_reconnect = mqtt_reconnect_config_default\<rparr>"

definition with_credentials :: "string \<Rightarrow> string \<Rightarrow> mqtt_client_config \<Rightarrow> mqtt_client_config" where
  "with_credentials u p c = c\<lparr>mc_username := Some u, mc_password := Some p\<rparr>"

definition with_tls :: "mqtt_tls_mode \<Rightarrow> mqtt_client_config \<Rightarrow> mqtt_client_config" where
  "with_tls m c = c\<lparr>mc_tls_mode := m\<rparr>"

definition with_keep_alive :: "duration \<Rightarrow> mqtt_client_config \<Rightarrow> mqtt_client_config" where
  "with_keep_alive d c = c\<lparr>mc_keep_alive := d\<rparr>"

definition with_clean_session :: "bool \<Rightarrow> mqtt_client_config \<Rightarrow> mqtt_client_config" where
  "with_clean_session b c = c\<lparr>mc_clean_session := b\<rparr>"

definition with_reconnect :: "mqtt_reconnect_config \<Rightarrow> mqtt_client_config \<Rightarrow> mqtt_client_config" where
  "with_reconnect r c = c\<lparr>mc_reconnect := r\<rparr>"

definition with_subscription :: "string \<Rightarrow> mqtt_qos \<Rightarrow> mqtt_client_config \<Rightarrow> mqtt_client_config" where
  "with_subscription t q c = c\<lparr>mc_subscriptions := mc_subscriptions c @ [\<lparr>ms_topic = t, ms_qos = q\<rparr>]\<rparr>"

definition mqtt_client_config_validate :: "mqtt_client_config \<Rightarrow> mqtt_engine_error + unit" where
  "mqtt_client_config_validate c =
     (if is_blank (mc_client_id c) then Inl (EngineInvalidConfig ''client_id must not be empty'')
      else if is_blank (mc_host c) then Inl (EngineInvalidConfig ''host must not be empty'')
      else if mc_port c = 0 then Inl (EngineInvalidConfig ''port must not be zero'')
      else if mc_keep_alive c < from_secs 5
      then Inl (EngineInvalidConfig ''keep_alive must be greater than or equal to 5 seconds'')
      else if mc_request_channel_capacity c = 0
      then Inl (EngineInvalidConfig ''request_channel_capacity must be greater than zero'')
      else if (mc_username c \<noteq> None) \<noteq> (mc_password c \<noteq> None)
      then Inl (EngineInvalidConfig ''username and password must be configured together'')
      else
        res_bind (try_for_each (\<lambda>s. map_err (\<lambda>_. EngineInvalidConfig ''subscription topic invalid'')
                    (validate_mqtt_topic_filter (ms_topic s))) (mc_subscriptions c)) (\<lambda>_.
        res_bind (mqtt_reconnect_config_validate (mc_reconnect c)) (\<lambda>_. Inr ())))"

text \<open>The settings handed to \<^verbatim>\<open>rumqttc::MqttOptions\<close>.\<close>

record mqtt_options =
  mo_client_id :: string
  mo_host :: string
  mo_port :: u16
  mo_keep_alive :: duration
  mo_clean_session :: bool
  mo_credentials :: "(string \<times> string) option"
  mo_tls :: bool

definition build_option :: "mqtt_client_config \<Rightarrow> mqtt_engine_error + mqtt_options" where
  "build_option c =
     res_bind (mqtt_client_config_validate c) (\<lambda>_.
     Inr \<lparr>mo_client_id = mc_client_id c, mo_host = mc_host c, mo_port = mc_port c,
          mo_keep_alive = mc_keep_alive c, mo_clean_session = mc_clean_session c,
          mo_credentials = (case (mc_username c, mc_password c) of
                              (Some u, Some p) \<Rightarrow> Some (u, p) | _ \<Rightarrow> None),
          mo_tls = (case mc_tls_mode c of MqttTlsDisabled \<Rightarrow> False | EnabledWithNativeRoot \<Rightarrow> True)\<rparr>)"

section \<open>The bus\<close>

record bus_config =
  bu_ingress_capacity :: nat
  bu_telemetry_capacity :: nat
  bu_command_capacity :: nat

definition bus_config_default :: bus_config where
  "bus_config_default =
     \<lparr>bu_ingress_capacity = 1024, bu_telemetry_capacity = 1024, bu_command_capacity = 256\<rparr>"

record telemetry_event =
  te_topic :: string
  te_payload :: string
  te_received_at :: timestamp

definition telemetry_from_message :: "mqtt_message \<Rightarrow> telemetry_event" where
  "telemetry_from_message m =
     \<lparr>te_topic = mm_topic m, te_payload = mm_payload m, te_received_at = mm_received_at m\<rparr>"

record mqtt_command_context =
  mx_project_id :: project_id
  mx_broker_id :: broker_id
  mx_command_template_id :: command_template_id
  mx_command_execution_id :: command_execution_id
  mx_correlation_id :: string

record mqtt_command =
  mk_topic :: string
  mk_qos :: mqtt_qos
  mk_retain :: bool
  mk_payload :: string
  mk_context :: "mqtt_command_context option"

definition mqtt_command_publish :: "string \<Rightarrow> mqtt_qos \<Rightarrow> bool \<Rightarrow> string \<Rightarrow> mqtt_command" where
  "mqtt_command_publish t q r p =
     \<lparr>mk_topic = t, mk_qos = q, mk_retain = r, mk_payload = p, mk_context = None\<rparr>"

definition mqtt_command_publish_with_context ::
    "mqtt_command_context \<Rightarrow> string \<Rightarrow> mqtt_qos \<Rightarrow> bool \<Rightarrow> string \<Rightarrow> mqtt_command" where
  "mqtt_command_publish_with_context c t q r p =
     \<lparr>mk_topic = t, mk_qos = q, mk_retain = r, mk_payload = p, mk_context = Some c\<rparr>"

datatype mqtt_command_publish_status = PublishPublished | PublishFailed

record mqtt_command_publish_outcome =
  mp_context :: mqtt_command_context
  mp_topic :: string
  mp_status :: mqtt_command_publish_status
  mp_failure_reason :: "string option"

definition try_enqueue_ingress ::
    "(mqtt_message, 'ch) try_send \<Rightarrow> mqtt_message \<Rightarrow> 'ch \<Rightarrow> (mqtt_engine_error + unit) \<times> 'ch" where
  "try_enqueue_ingress ts m ch =
     (case ts m ch of
        (Inl (Full _), ch') \<Rightarrow> (Inl IngressQueueFull, ch')
      | (Inl (Closed _), ch') \<Rightarrow> (Inl IngressClosed, ch')
      | (Inr u, ch') \<Rightarrow> (Inr u, ch'))"

definition bus_try_enqueue_command ::
    "(mqtt_command, 'ch) try_send \<Rightarrow> mqtt_command \<Rightarrow> 'ch \<Rightarrow> (mqtt_engine_error + unit) \<times> 'ch" where
  "bus_try_enqueue_command ts c ch =
     (case ts c ch of
        (Inl (Full _), ch') \<Rightarrow> (Inl CommandQueueFull, ch')
      | (Inl (Closed _), ch') \<Rightarrow> (Inl CommandQueueClosed, ch')
      | (Inr u, ch') \<Rightarrow> (Inr u, ch'))"

text \<open>A broadcast without receivers is not an error: \<open>None\<close> is the library's send error.\<close>

definition publish_telemetry ::
    "(telemetry_event \<Rightarrow> 't \<Rightarrow> nat option \<times> 't) \<Rightarrow> telemetry_event \<Rightarrow> 't \<Rightarrow> (mqtt_engine_error + nat) \<times> 't" where
  "publish_telemetry send e t =
     (case send e t of
        (Some n, t') \<Rightarrow> (Inr n, t')
      | (None, t') \<Rightarrow> (Inr 0, t'))"

section \<open>Handles\<close>

definition handle_try_enqueue_command ::
    "(mqtt_command, 'ch) try_send \<Rightarrow> string \<Rightarrow> mqtt_qos \<Rightarrow> bool \<Rightarrow> string \<Rightarrow> 'ch \<Rightarrow>
     (mqtt_engine_error + unit) \<times> 'ch" where
  "handle_try_enqueue_command ts t q r p ch = bus_try_enqueue_command ts (mqtt_command_publish t q r p) ch"

definition try_enqueue_tracked_command ::
    "(mqtt_command, 'ch) try_send \<Rightarrow> mqtt_command_context \<Rightarrow> string \<Rightarrow> mqtt_qos \<Rightarrow> bool \<Rightarrow> string \<Rightarrow> 'ch \<Rightarrow>
     (mqtt_engine_error + unit) \<times> 'ch" where
  "try_enqueue_tracked_command ts c t q r p ch =
     bus_try_enqueue_command ts (mqtt_command_publish_with_context c t q r p) ch"

record command_queue_receipt =
  qr_device :: string
  qr_command :: string
  qr_topic :: string
  qr_queued_at_ms :: nat

definition unix_time_ms :: "timestamp \<Rightarrow> nat" where
  "unix_time_ms t = nat (t div 10 ^ 6)"

definition validated_command_enqueue ::
    "(mqtt_command, 'ch) try_send \<Rightarrow> timestamp \<Rightarrow> validated_command \<Rightarrow> 'ch \<Rightarrow>
     (mqtt_engine_error + command_queue_receipt) \<times> 'ch" where
  "validated_command_enqueue ts now c ch =
     (case handle_try_enqueue_command ts (vc_topic c) (vc_qos c) (vc_retain c) (vc_payload c) ch of
        (Inl e, ch') \<Rightarrow> (Inl e, ch')
      | (Inr _, ch') \<Rightarrow>
          (Inr \<lparr>qr_device = vc_device c, qr_command = vc_command c, qr_topic = vc_topic c,
                qr_queued_at_ms = unix_time_ms now\<rparr>, ch'))"

section \<open>The workers\<close>

text \<open>
  The client: subscribing and publishing return the library's error text. The connection worker sees
  the events of the library's event loop.
\<close>

record 'cl mqtt_client =
  cl_subscribe :: "string \<Rightarrow> mqtt_qos \<Rightarrow> 'cl \<Rightarrow> (string + unit) \<times> 'cl"
  cl_publish :: "string \<Rightarrow> mqtt_qos \<Rightarrow> bool \<Rightarrow> string \<Rightarrow> 'cl \<Rightarrow> (string + unit) \<times> 'cl"

datatype mqtt_event =
  ConnAck
| IncomingPublish string mqtt_qos bool string
| OtherEvent

definition subscribe_all :: "'cl mqtt_client \<Rightarrow> mqtt_subscription list \<Rightarrow> 'cl \<Rightarrow> 'cl" where
  "subscribe_all client subs s = fold (\<lambda>sub s. snd (cl_subscribe client (ms_topic sub) (ms_qos sub) s)) subs s"

fun handle_mqtt_event ::
    "'cl mqtt_client \<Rightarrow> (mqtt_message, 'ch) try_send \<Rightarrow> mqtt_client_config \<Rightarrow> timestamp \<Rightarrow> mqtt_event \<Rightarrow>
     'cl \<times> 'ch \<Rightarrow> 'cl \<times> 'ch" where
  "handle_mqtt_event client ts config now ConnAck (c, ch) = (subscribe_all client (mc_subscriptions config) c, ch)"
| "handle_mqtt_event client ts config now (IncomingPublish t q r p) (c, ch) =
     (case mqtt_message_new t q r p now of
        Inr m \<Rightarrow> (c, snd (try_enqueue_ingress ts m ch))
      | Inl _ \<Rightarrow> (c, ch))"
| "handle_mqtt_event client ts config now OtherEvent (c, ch) = (c, ch)"

text \<open>One poll of the event loop: the new backoff, the delay to wait for, and the effects.\<close>

definition mqtt_worker_poll ::
    "'cl mqtt_client \<Rightarrow> (mqtt_message, 'ch) try_send \<Rightarrow> mqtt_client_config \<Rightarrow> timestamp \<Rightarrow>
     string + mqtt_event \<Rightarrow> exponential_backoff \<times> 'cl \<times> 'ch \<Rightarrow>
     duration option \<times> exponential_backoff \<times> 'cl \<times> 'ch" where
  "mqtt_worker_poll client ts config now polled st =
     (case st of (b, w) \<Rightarrow>
      (case polled of
         Inr event \<Rightarrow> (None, backoff_reset b, handle_mqtt_event client ts config now event w)
       | Inl _ \<Rightarrow> (case next_delay b of (d, b') \<Rightarrow> (Some d, b', w))))"

text \<open>
  The loop of the connection worker. What its \<^verbatim>\<open>select!\<close> saw is an input: a change of the shutdown signal (whether the
  loop is to end: the sender is gone or the value is true), or a poll of the event loop with, for a failure, how the
  wait before the next poll ended. The result is the delays waited for, whether the loop ended, and the state.
\<close>

datatype wait_end = SleepElapsed | SignalDuringWait bool

fun wait_or_shutdown :: "wait_end \<Rightarrow> bool" where
  "wait_or_shutdown SleepElapsed = False"
| "wait_or_shutdown (SignalDuringWait stop) = stop"

datatype mqtt_wake = MqttSignal bool | MqttPolled timestamp "string + mqtt_event" wait_end

fun run_mqtt_worker ::
    "'cl mqtt_client \<Rightarrow> (mqtt_message, 'ch) try_send \<Rightarrow> mqtt_client_config \<Rightarrow> mqtt_wake list \<Rightarrow>
     exponential_backoff \<times> 'cl \<times> 'ch \<Rightarrow> duration list \<times> bool \<times> exponential_backoff \<times> 'cl \<times> 'ch" where
  "run_mqtt_worker client ts config [] st = ([], False, st)"
| "run_mqtt_worker client ts config (MqttSignal stop # ws) st =
     (if stop then ([], True, st) else run_mqtt_worker client ts config ws st)"
| "run_mqtt_worker client ts config (MqttPolled now polled waited # ws) st =
     (case mqtt_worker_poll client ts config now polled st of
        (None, st') \<Rightarrow> run_mqtt_worker client ts config ws st'
      | (Some d, st') \<Rightarrow>
          if wait_or_shutdown waited then ([d], True, st')
          else (case run_mqtt_worker client ts config ws st' of (ds, r) \<Rightarrow> (d # ds, r)))"

definition router_worker_step ::
    "(telemetry_event \<Rightarrow> 't \<Rightarrow> nat option \<times> 't) \<Rightarrow> 's mqtt_router \<Rightarrow> mqtt_message \<Rightarrow> 's \<times> 't \<Rightarrow> 's \<times> 't" where
  "router_worker_step send router m st =
     (case st of (s, t) \<Rightarrow>
      (snd (router_dispatch router m s), snd (publish_telemetry send (telemetry_from_message m) t)))"

definition report_command_publish_outcome ::
    "(mqtt_command_publish_outcome, 'ch) try_send \<Rightarrow> mqtt_command_publish_outcome \<Rightarrow> 'ch option \<Rightarrow> 'ch option" where
  "report_command_publish_outcome ts o' tx =
     (case tx of None \<Rightarrow> None | Some ch \<Rightarrow> Some (snd (ts o' ch)))"

definition publish_command ::
    "'cl mqtt_client \<Rightarrow> (mqtt_command_publish_outcome, 'ch) try_send \<Rightarrow> mqtt_command \<Rightarrow>
     'cl \<times> 'ch option \<Rightarrow> 'cl \<times> 'ch option" where
  "publish_command client ts c st =
     (case st of (cl, tx) \<Rightarrow>
      (case cl_publish client (mk_topic c) (mk_qos c) (mk_retain c) (mk_payload c) cl of
         (Inr _, cl') \<Rightarrow>
           (case mk_context c of
              Some ctx \<Rightarrow>
                (cl', report_command_publish_outcome ts
                        \<lparr>mp_context = ctx, mp_topic = mk_topic c, mp_status = PublishPublished,
                         mp_failure_reason = None\<rparr> tx)
            | None \<Rightarrow> (cl', tx))
       | (Inl err, cl') \<Rightarrow>
           (case mk_context c of
              Some ctx \<Rightarrow>
                (cl', report_command_publish_outcome ts
                        \<lparr>mp_context = ctx, mp_topic = mk_topic c, mp_status = PublishFailed,
                         mp_failure_reason = Some err\<rparr> tx)
            | None \<Rightarrow> (cl', tx))))"

section \<open>What the engine guarantees\<close>

lemma mqtt_reconnect_config_validate_iff:
  "mqtt_reconnect_config_validate c = Inr u \<longleftrightarrow> 0 < mr_min_delay c \<and> mr_min_delay c \<le> mr_max_delay c"
  by (auto simp: mqtt_reconnect_config_validate_def)

lemma mqtt_client_config_validate_reconnect:
  "mqtt_client_config_validate c = Inr u \<Longrightarrow> mqtt_reconnect_config_validate (mc_reconnect c) = Inr ()"
  by (auto simp: mqtt_client_config_validate_def split: if_splits)

text \<open>A valid configuration starts the backoff inside its bounds.\<close>

lemma backoff_new_ok:
  "mqtt_client_config_validate c = Inr u \<Longrightarrow> mr_max_delay (mc_reconnect c) \<le> duration_max \<Longrightarrow>
   backoff_ok (backoff_new (mr_min_delay (mc_reconnect c)) (mr_max_delay (mc_reconnect c)))"
  using mqtt_client_config_validate_reconnect [of c]
  by (auto simp: backoff_ok_def backoff_new_def mqtt_reconnect_config_validate_iff)

lemma backoff_reset_ok: "backoff_ok b \<Longrightarrow> backoff_ok (backoff_reset b)"
  by (auto simp: backoff_ok_def backoff_reset_def)

definition delay_within :: "exponential_backoff \<Rightarrow> duration option \<Rightarrow> bool" where
  "delay_within b d \<longleftrightarrow> (\<forall>t. d = Some t \<longrightarrow> eb_min_delay b \<le> t \<and> t \<le> eb_max_delay b)"

definition same_bounds :: "exponential_backoff \<Rightarrow> exponential_backoff \<Rightarrow> bool" where
  "same_bounds b b' \<longleftrightarrow> eb_min_delay b' = eb_min_delay b \<and> eb_max_delay b' = eb_max_delay b"

lemma mqtt_worker_poll_ok:
  assumes "mqtt_worker_poll client ts config now polled (b, w) = (d, b', w')" and "backoff_ok b"
  shows "backoff_ok b'" and "same_bounds b b'" and "delay_within b d"
  using assms backoff_reset_ok [OF assms(2)] next_delay_ok [OF assms(2)]
  by (auto simp: mqtt_worker_poll_def delay_within_def same_bounds_def next_delay_def backoff_reset_def
      backoff_ok_def split: sum.splits)

lemma run_mqtt_worker_ok:
  "run_mqtt_worker client ts config ws (b, w) = (ds, r) \<Longrightarrow> backoff_ok b \<Longrightarrow>
   \<forall>d \<in> set ds. eb_min_delay b \<le> d \<and> d \<le> eb_max_delay b"
proof (induction ws arbitrary: b w ds r)
  case (Cons x ws)
  show ?case
  proof (cases x)
    case (MqttSignal stop)
    with Cons show ?thesis by (auto split: if_splits)
  next
    case (MqttPolled now polled waited)
    obtain d b1 w1 where step: "mqtt_worker_poll client ts config now polled (b, w) = (d, b1, w1)"
      by (metis prod_cases3)
    note ok = mqtt_worker_poll_ok [OF step Cons.prems(2)]
    obtain ds1 r1 where rest: "run_mqtt_worker client ts config ws (b1, w1) = (ds1, r1)" by (metis surj_pair)
    from Cons.IH [OF rest ok(1)] ok Cons.prems(1) rest show ?thesis
      by (auto simp: MqttPolled step same_bounds_def delay_within_def split: option.splits if_splits)
  qed
qed simp

text \<open>Publishing a tracked command reports exactly one outcome while there is room for it, with the
  command's context and topic, and the outcome is a success exactly when the client accepted the publish.\<close>

lemma publish_command_report:
  assumes "mpsc_law ts view" and "publish_command client ts c (cl, Some ch) = (cl', tx)"
    and "mk_context c = Some ctx"
    and "length (vq_items (view ch)) < vq_capacity (view ch)" and "\<not> vq_closed (view ch)"
  shows "\<exists>ch' o'. tx = Some ch' \<and> vq_items (view ch') = vq_items (view ch) @ [o'] \<and>
           mp_context o' = ctx \<and> mp_topic o' = mk_topic c \<and>
           (mp_status o' = PublishPublished \<longleftrightarrow>
              (\<exists>u. fst (cl_publish client (mk_topic c) (mk_qos c) (mk_retain c) (mk_payload c) cl) = Inr u))"
proof -
  have items: "vq_items (view (snd (ts o' ch))) = vq_items (view ch) @ [o']" for o'
    using assms(1,4,5) by (simp add: mpsc_law_def vq_try_send_def)
  show ?thesis
    using assms(2,3) items
    by (auto simp: publish_command_def report_command_publish_outcome_def split: prod.splits sum.splits)
qed

section \<open>Properties\<close>

text \<open>The delays of consecutive failures double from the lower bound and stop at the upper bound; no
  product overflows on the way.\<close>

lemma backoff_doubles_to_maximum:
  assumes "0 < mn" and "mn \<le> mx" and "mx \<le> duration_max"
  shows "delays n (backoff_new mn mx) = map (\<lambda>i. min (mn * 2 ^ i) mx) [0..<n]"
  using delays_closed_form [of "backoff_new mn mx" n] assms by (simp add: backoff_ok_def backoff_new_def)

text \<open>C37: under a valid client configuration, whatever the event loop returns, every delay the connection
  worker waits for lies between the two bounds of the configuration.\<close>

theorem reconnect_delays_bounded:
  assumes "mqtt_client_config_validate config = Inr ()"
    and "mr_max_delay (mc_reconnect config) \<le> duration_max"
    and "run_mqtt_worker client ts config wakes
           (backoff_new (mr_min_delay (mc_reconnect config)) (mr_max_delay (mc_reconnect config)), w) = (ds, st)"
    and "d \<in> set ds"
  shows "mr_min_delay (mc_reconnect config) \<le> d \<and> d \<le> mr_max_delay (mc_reconnect config)"
  using run_mqtt_worker_ok [OF assms(3) backoff_new_ok [OF assms(1,2)]] assms(4) by (simp add: backoff_new_def)

definition sample_client :: "nat mqtt_client" where
  "sample_client = \<lparr>cl_subscribe = (\<lambda>t q n. (Inr (), Suc n)), cl_publish = (\<lambda>t q r p n. (Inl ''down'', n))\<rparr>"

theorem reconnect_delays_bounded_witness:
  "\<exists>st. run_mqtt_worker sample_client vq_try_send (mqtt_client_config_new ''c'' ''h'' 1883)
          [MqttPolled 0 (Inl ''refused'') SleepElapsed, MqttSignal False, MqttPolled 1 (Inl ''refused'') SleepElapsed,
           MqttPolled 2 (Inr ConnAck) SleepElapsed]
          (backoff_new (from_millis 500) (from_secs 30), 0, \<lparr>vq_capacity = 1, vq_items = [], vq_closed = False\<rparr>) =
        ([from_millis 500, from_millis 1000], st) \<and>
        from_millis 1000 \<le> from_secs 30"
proof -
  let ?c = "mqtt_client_config_new ''c'' ''h'' 1883"
  let ?q = "\<lparr>vq_capacity = 1, vq_items = [], vq_closed = False\<rparr>"
  have blank: "\<not> is_blank ''c''" "\<not> is_blank ''h''" by code_simp+
  have valid: "mqtt_client_config_validate ?c = Inr ()"
    by (simp add: mqtt_client_config_validate_def mqtt_client_config_new_def blank
        mqtt_reconnect_config_validate_def mqtt_reconnect_config_default_def from_secs_def from_millis_def)
  have r: "mc_reconnect ?c = \<lparr>mr_min_delay = from_millis 500, mr_max_delay = from_secs 30\<rparr>"
    by (simp add: mqtt_client_config_new_def mqtt_reconnect_config_default_def)
  obtain st where run: "run_mqtt_worker sample_client vq_try_send ?c
      [MqttPolled 0 (Inl ''refused'') SleepElapsed, MqttSignal False, MqttPolled 1 (Inl ''refused'') SleepElapsed,
       MqttPolled 2 (Inr ConnAck) SleepElapsed]
      (backoff_new (mr_min_delay (mc_reconnect ?c)) (mr_max_delay (mc_reconnect ?c)), 0, ?q) =
      ([from_millis 500, from_millis 1000], st)"
    by (simp add: r mqtt_worker_poll_def next_delay_def backoff_new_def dur_saturating_mul_def from_millis_def
        from_secs_def duration_max_def u64_max_def)
  have "from_millis 1000 \<le> mr_max_delay (mc_reconnect ?c)"
    using reconnect_delays_bounded [OF valid _ run, of "from_millis 1000"]
    by (simp add: r from_secs_def duration_max_def u64_max_def)
  with run show ?thesis unfolding r mqtt_reconnect_config.select_convs by blast
qed

definition sample_command :: mqtt_command where
  "sample_command =
     mqtt_command_publish_with_context
       \<lparr>mx_project_id = ''p1'', mx_broker_id = ''b1'', mx_command_template_id = ''t1'',
        mx_command_execution_id = ''x1'', mx_correlation_id = ''c''\<rparr> ''devices/d7/cmd'' AtLeastOnce False ''on''"

end
