(* ===== verification/Ip_Addr.thy ===== *)
theory Ip_Addr
  imports Rust_Str Machine
begin

text \<open>
  The part of \<^verbatim>\<open>std::net\<close> the egress policy uses: parsing an IP address from text, as the library's
  recursive-descent parser does, and the classification of addresses. An IPv4 address is its four
  octets, an IPv6 address its eight 16-bit segments, as natural numbers.
\<close>

datatype ip_addr = V4 "nat list" | V6 "nat list"

section \<open>Numbers\<close>

definition hex_digit :: "char \<Rightarrow> nat option" where
  "hex_digit c =
     (let n = (of_char c :: nat) in
      if 48 \<le> n \<and> n \<le> 57 then Some (n - 48)
      else if 97 \<le> n \<and> n \<le> 102 then Some (n - 87)
      else if 65 \<le> n \<and> n \<le> 70 then Some (n - 55)
      else None)"

definition to_digit :: "nat \<Rightarrow> char \<Rightarrow> nat option" where
  "to_digit radix c =
     (case hex_digit c of None \<Rightarrow> None | Some d \<Rightarrow> if d < radix then Some d else None)"

text \<open>The digits at the front of the input: their value, their number and the rest.\<close>

fun read_digits :: "nat \<Rightarrow> nat \<Rightarrow> nat \<Rightarrow> string \<Rightarrow> nat \<times> nat \<times> string" where
  "read_digits radix acc n [] = (acc, n, [])"
| "read_digits radix acc n (c # cs) =
     (case to_digit radix c of
        None \<Rightarrow> (acc, n, c # cs)
      | Some d \<Rightarrow> read_digits radix (acc * radix + d) (n + 1) cs)"

text \<open>
  The bound is that of the result type where the digits can exceed it: three decimal digits and an octet.
  Four hexadecimal digits always fit a segment.
\<close>

definition read_number :: "nat \<Rightarrow> nat \<Rightarrow> bool \<Rightarrow> nat option \<Rightarrow> string \<Rightarrow> (nat \<times> string) option" where
  "read_number radix max_digits allow_zero_prefix bound s =
     (case read_digits radix 0 0 s of
        (v, n, rest) \<Rightarrow>
          if n = 0 \<or> n > max_digits then None
          else if \<not> allow_zero_prefix \<and> hd s = CHR ''0'' \<and> n > 1 then None
          else if (case bound of None \<Rightarrow> False | Some b \<Rightarrow> v > b) then None
          else Some (v, rest))"

fun read_given_char :: "char \<Rightarrow> string \<Rightarrow> string option" where
  "read_given_char c [] = None"
| "read_given_char c (x # xs) = (if x = c then Some xs else None)"

definition read_separator :: "char \<Rightarrow> nat \<Rightarrow> (string \<Rightarrow> 'a option) \<Rightarrow> string \<Rightarrow> 'a option" where
  "read_separator sep i inner s =
     (if i > 0 then (case read_given_char sep s of None \<Rightarrow> None | Some t \<Rightarrow> inner t) else inner s)"

section \<open>Addresses\<close>

fun read_octets :: "nat \<Rightarrow> nat \<Rightarrow> string \<Rightarrow> (nat list \<times> string) option" where
  "read_octets 0 i s = Some ([], s)"
| "read_octets (Suc k) i s =
     (case read_separator CHR ''.'' i (read_number 10 3 False (Some 255)) s of
        None \<Rightarrow> None
      | Some (v, t) \<Rightarrow> map_option (\<lambda>(vs, u). (v # vs, u)) (read_octets k (i + 1) t))"

definition read_ipv4_addr :: "string \<Rightarrow> (nat list \<times> string) option" where
  "read_ipv4_addr s = read_octets 4 0 s"

text \<open>Up to \<open>k\<close> more groups; an embedded IPv4 address takes the place of two and ends the reading.\<close>

fun read_groups :: "nat \<Rightarrow> nat \<Rightarrow> string \<Rightarrow> nat list \<times> bool \<times> string" where
  "read_groups 0 i s = ([], False, s)"
| "read_groups (Suc k) i s =
     (case (if k > 0 then read_separator CHR '':'' i read_ipv4_addr s else None) of
        Some (vs, t) \<Rightarrow> ([vs ! 0 * 256 + vs ! 1, vs ! 2 * 256 + vs ! 3], True, t)
      | None \<Rightarrow>
          (case read_separator CHR '':'' i (read_number 16 4 True None) s of
             None \<Rightarrow> ([], False, s)
           | Some (g, t) \<Rightarrow>
               (case read_groups k (i + 1) t of (gs, v4, u) \<Rightarrow> (g # gs, v4, u))))"

definition read_ipv6_addr :: "string \<Rightarrow> (nat list \<times> string) option" where
  "read_ipv6_addr s =
     (case read_groups 8 0 s of
        (head, head_ipv4, t) \<Rightarrow>
          if length head = 8 then Some (head, t)
          else if head_ipv4 then None
          else
            (case Option.bind (read_given_char CHR '':'' t) (read_given_char CHR '':'') of
               None \<Rightarrow> None
             | Some u \<Rightarrow>
                 (case read_groups (8 - (length head + 1)) 0 u of
                    (tail, _, w) \<Rightarrow>
                      Some (head @ replicate (8 - length head - length tail) 0 @ tail, w))))"

definition parse_ip_addr :: "string \<Rightarrow> ip_addr option" where
  "parse_ip_addr s =
     (case read_ipv4_addr s of
        Some (vs, rest) \<Rightarrow> if rest = [] then Some (V4 vs) else None
      | None \<Rightarrow>
          (case read_ipv6_addr s of
             Some (gs, rest) \<Rightarrow> if rest = [] then Some (V6 gs) else None
           | None \<Rightarrow> None))"

section \<open>Classification\<close>

fun v4_is_private :: "nat list \<Rightarrow> bool" where
  "v4_is_private (a # b # _) = (a = 10 \<or> a = 172 \<and> 16 \<le> b \<and> b \<le> 31 \<or> a = 192 \<and> b = 168)"
| "v4_is_private _ = False"

definition v4_is_loopback :: "nat list \<Rightarrow> bool" where
  "v4_is_loopback o4 \<longleftrightarrow> o4 \<noteq> [] \<and> hd o4 = 127"

definition v4_is_link_local :: "nat list \<Rightarrow> bool" where
  "v4_is_link_local o4 \<longleftrightarrow> take 2 o4 = [169, 254]"

definition v4_is_multicast :: "nat list \<Rightarrow> bool" where
  "v4_is_multicast o4 \<longleftrightarrow> o4 \<noteq> [] \<and> 224 \<le> hd o4 \<and> hd o4 \<le> 239"

definition v4_is_broadcast :: "nat list \<Rightarrow> bool" where
  "v4_is_broadcast o4 \<longleftrightarrow> o4 = [255, 255, 255, 255]"

definition v4_is_documentation :: "nat list \<Rightarrow> bool" where
  "v4_is_documentation o4 \<longleftrightarrow> take 3 o4 \<in> {[192, 0, 2], [198, 51, 100], [203, 0, 113]}"

definition v4_is_unspecified :: "nat list \<Rightarrow> bool" where
  "v4_is_unspecified o4 \<longleftrightarrow> o4 = [0, 0, 0, 0]"

definition v6_is_loopback :: "nat list \<Rightarrow> bool" where
  "v6_is_loopback g \<longleftrightarrow> g = [0, 0, 0, 0, 0, 0, 0, 1]"

definition v6_is_multicast :: "nat list \<Rightarrow> bool" where
  "v6_is_multicast g \<longleftrightarrow> g \<noteq> [] \<and> hd g div 256 = 255"

definition v6_is_unspecified :: "nat list \<Rightarrow> bool" where
  "v6_is_unspecified g \<longleftrightarrow> g = [0, 0, 0, 0, 0, 0, 0, 0]"

text \<open>The high bits of the first segment: a mask of the top \<open>k\<close> of 16 bits.\<close>

definition first_segment_prefix :: "nat \<Rightarrow> nat list \<Rightarrow> nat" where
  "first_segment_prefix k g = hd g div 2 ^ (16 - k) * 2 ^ (16 - k)"

section \<open>Bracketed hosts\<close>

text \<open>No address text begins with a bracket: the bracketed form of a URL host is not one.\<close>

lemma read_digits_bracket: "read_digits r 0 0 (CHR ''['' # s) = (0, 0, CHR ''['' # s)"
  by (simp add: to_digit_def hex_digit_def)

lemma parse_ip_addr_bracket: "parse_ip_addr (CHR ''['' # s) = None"
proof -
  have num: "read_number r m z b (CHR ''['' # s) = None" for r m z b
    by (simp add: read_number_def read_digits_bracket del: read_digits.simps)
  have octets: "read_octets (Suc k) 0 (CHR ''['' # s) = None" for k
    by (simp add: read_separator_def num)
  have v4: "read_ipv4_addr (CHR ''['' # s) = None"
    using octets [of 3] by (simp add: read_ipv4_addr_def)
  have groups: "read_groups (Suc k) 0 (CHR ''['' # s) = ([], False, CHR ''['' # s)" for k
    by (simp add: read_separator_def num v4)
  have "read_groups 8 0 (CHR ''['' # s) = ([], False, CHR ''['' # s)"
    using groups [of 7] by simp
  then have "read_ipv6_addr (CHR ''['' # s) = None" by (simp add: read_ipv6_addr_def)
  with v4 show ?thesis by (simp add: parse_ip_addr_def)
qed

lemma read_octets_length: "read_octets k i s = Some (vs, rest) \<Longrightarrow> length vs = k \<and> (\<forall>v \<in> set vs. v \<le> 255)"
proof (induction k i s arbitrary: vs rest rule: read_octets.induct)
  case (2 k i s)
  from "2.prems" obtain v t ws u where v: "read_separator CHR ''.'' i (read_number 10 3 False (Some 255)) s = Some (v, t)"
    and ws: "read_octets k (i + 1) t = Some (ws, u)" "vs = v # ws"
    by (auto split: option.splits)
  have "v \<le> 255"
    using v by (auto simp: read_separator_def read_number_def split: if_splits option.splits prod.splits)
  with "2.IH" [OF v refl ws(1)] ws(2) show ?case by simp
qed simp

text \<open>An IPv4 address that parses has four octets.\<close>

lemma parse_ip_addr_V4: "parse_ip_addr s = Some (V4 vs) \<Longrightarrow> length vs = 4 \<and> (\<forall>v \<in> set vs. v \<le> 255)"
  by (auto simp: parse_ip_addr_def read_ipv4_addr_def dest: read_octets_length split: option.splits if_splits)

end
