(* ===== verification/Forwarder.thy ===== *)
theory Forwarder
  imports Domain_Event Channel Ip_Addr
begin

text \<open>
  Forwarding events to webhooks (\<^verbatim>\<open>pipe-bolt-core/src/forwarder.rs\<close>): the limits, the egress policy, the
  compiled sink registry, the enqueueing of a request, the interpretation of an HTTP exchange, and the
  worker with its bounded number of deliveries in flight. URL and header parsing are the library's.
\<close>

section \<open>Limits\<close>

record forward_limits =
  fl_queue_capacity :: nat
  fl_result_queue_capacity :: nat
  fl_max_request_body_bytes :: nat
  fl_max_response_body_bytes :: nat
  fl_max_headers :: nat
  fl_max_header_name_bytes :: nat
  fl_max_header_value_bytes :: nat
  fl_max_in_flight :: nat
  fl_max_timeout :: duration
  fl_graceful_shutdown_timeout :: duration

definition forward_limits_default :: forward_limits where
  "forward_limits_default =
     \<lparr>fl_queue_capacity = 1024, fl_result_queue_capacity = 1024,
      fl_max_request_body_bytes = 256 * 1024, fl_max_response_body_bytes = 64 * 1024,
      fl_max_headers = 32, fl_max_header_name_bytes = 128, fl_max_header_value_bytes = 4096,
      fl_max_in_flight = 32, fl_max_timeout = from_secs 30,
      fl_graceful_shutdown_timeout = from_secs 10\<rparr>"

definition min_timeout :: duration where
  "min_timeout = from_millis 10"

definition validate_forward_limits :: "forward_limits \<Rightarrow> dispatch_error + unit" where
  "validate_forward_limits l =
     (if fl_queue_capacity l = 0
      then Inl (DispatchInvalidConfig ''forward queue capacity must be greater than zero'')
      else if fl_result_queue_capacity l = 0
      then Inl (DispatchInvalidConfig ''forward result queue capacity must be greater than zero'')
      else if fl_max_request_body_bytes l = 0
      then Inl (DispatchInvalidConfig ''max forward request body bytes must be greater than zero'')
      else if fl_max_response_body_bytes l = 0
      then Inl (DispatchInvalidConfig ''max forward response body bytes must be greater than zero'')
      else if fl_max_headers l = 0
      then Inl (DispatchInvalidConfig ''max forward headers must be greater than zero'')
      else if fl_max_header_name_bytes l = 0 \<or> fl_max_header_value_bytes l = 0
      then Inl (DispatchInvalidConfig ''max forward header bytes must be greater than zero'')
      else if fl_max_in_flight l = 0
      then Inl (DispatchInvalidConfig ''max forward in-flight requests must be greater than zero'')
      else if fl_max_timeout l < min_timeout
      then Inl (DispatchInvalidConfig ''max forward timeout is too small'')
      else if fl_graceful_shutdown_timeout l < min_timeout
      then Inl (DispatchInvalidConfig ''forward graceful shutdown timeout is too small'')
      else Inr ())"

section \<open>Egress policy\<close>

record egress_policy =
  eg_require_https :: bool
  eg_allow_private_networks :: bool
  eg_allowed_hosts :: "string list"

definition egress_policy_default :: egress_policy where
  "egress_policy_default =
     \<lparr>eg_require_https = True, eg_allow_private_networks = False, eg_allowed_hosts = []\<rparr>"

text \<open>\<^verbatim>\<open>reqwest::Url\<close>, \<^verbatim>\<open>HeaderName::from_bytes\<close> with \<^verbatim>\<open>as_str\<close>, and \<^verbatim>\<open>HeaderValue::from_str\<close>.\<close>

record 'u http_lib =
  url_parse :: "string \<Rightarrow> 'u option"
  url_scheme :: "'u \<Rightarrow> string"
  url_host_str :: "'u \<Rightarrow> string option"
  header_name_of :: "string \<Rightarrow> string option"
  header_value_of :: "string \<Rightarrow> string option"
  client_builds :: bool

fun is_blocked_ip :: "ip_addr \<Rightarrow> bool" where
  "is_blocked_ip (V4 ip) =
     (v4_is_private ip \<or> v4_is_loopback ip \<or> v4_is_link_local ip \<or> v4_is_multicast ip \<or>
      v4_is_broadcast ip \<or> v4_is_documentation ip \<or> v4_is_unspecified ip)"
| "is_blocked_ip (V6 ip) =
     (v6_is_loopback ip \<or> v6_is_multicast ip \<or> v6_is_unspecified ip \<or>
      first_segment_prefix 7 ip = 0xfc00 \<or> first_segment_prefix 10 ip = 0xfe80)"

text \<open>\<^verbatim>\<open>trim_end_matches('.')\<close>\<close>

definition trim_end_dots :: "string \<Rightarrow> string" where
  "trim_end_dots s = rev (dropWhile ((=) CHR ''.'') (rev s))"

definition normalized_host :: "string \<Rightarrow> string" where
  "normalized_host host = to_ascii_lowercase (trim_end_dots host)"

definition validate_egress_host :: "string \<Rightarrow> egress_policy \<Rightarrow> dispatch_error + unit" where
  "validate_egress_host host policy =
     (let normalized = normalized_host host in
      if eg_allowed_hosts policy \<noteq> [] \<and>
         \<not> list_ex (\<lambda>allowed. eq_ignore_ascii_case allowed normalized) (eg_allowed_hosts policy)
      then Inl (DispatchInvalidConfig ''sink webhook host is not allowed by egress policy'')
      else if normalized = ''localhost'' \<or> normalized = ''localhost.localdomain''
      then Inl (DispatchInvalidConfig ''sink webhook host must not target localhost'')
      else
        (case parse_ip_addr normalized of
           Some ip \<Rightarrow>
             if \<not> eg_allow_private_networks policy \<and> is_blocked_ip ip
             then Inl (DispatchInvalidConfig ''sink webhook host targets a private or reserved network'')
             else Inr ()
         | None \<Rightarrow> Inr ()))"

definition parse_url :: "'u http_lib \<Rightarrow> string \<Rightarrow> egress_policy \<Rightarrow> dispatch_error + 'u" where
  "parse_url lib v policy =
     (case url_parse lib v of
        None \<Rightarrow> Inl (DispatchInvalidConfig ''sink webhook URL is invalid'')
      | Some url \<Rightarrow>
          res_bind
            (if url_scheme lib url = ''https'' then Inr ()
             else if url_scheme lib url = ''http'' \<and> \<not> eg_require_https policy then Inr ()
             else if url_scheme lib url = ''http''
             then Inl (DispatchInvalidConfig ''sink webhook URL must use HTTPS'')
             else Inl (DispatchInvalidConfig ''sink webhook URL must use HTTP or HTTPS'')) (\<lambda>_.
          case url_host_str lib url of
            None \<Rightarrow> Inl (DispatchInvalidConfig ''sink webhook URL must include a host'')
          | Some host \<Rightarrow> res_bind (validate_egress_host host policy) (\<lambda>_. Inr url)))"

section \<open>Targets\<close>

definition is_blocked_header :: "string \<Rightarrow> bool" where
  "is_blocked_header name \<longleftrightarrow>
     name \<in> {''connection'', ''content-length'', ''host'', ''keep-alive'', ''proxy-authenticate'',
             ''proxy-authorization'', ''te'', ''trailer'', ''transfer-encoding'', ''upgrade''}"

definition compile_header ::
    "'u http_lib \<Rightarrow> forward_limits \<Rightarrow> (string \<rightharpoonup> string) \<Rightarrow> http_header_template \<Rightarrow>
     dispatch_error + (string \<rightharpoonup> string)" where
  "compile_header lib limits compiled h =
     (if length (hh_name h) > fl_max_header_name_bytes limits
      then Inl (DispatchInvalidConfig ''sink webhook header name is too large'')
      else if length (hh_value h) > fl_max_header_value_bytes limits
      then Inl (DispatchInvalidConfig ''sink webhook header value is too large'')
      else
        (case header_name_of lib (hh_name h) of
           None \<Rightarrow> Inl (DispatchInvalidConfig ''sink webhook header name is invalid'')
         | Some name \<Rightarrow>
             (case header_value_of lib (hh_value h) of
                None \<Rightarrow> Inl (DispatchInvalidConfig ''sink webhook header value is invalid'')
              | Some v \<Rightarrow>
                  if is_blocked_header name
                  then Inl (DispatchInvalidConfig ''sink webhook header is controlled by the HTTP client'')
                  else Inr (compiled(name \<mapsto> v)))))"

definition compile_headers ::
    "'u http_lib \<Rightarrow> http_header_template list \<Rightarrow> forward_limits \<Rightarrow> dispatch_error + (string \<rightharpoonup> string)" where
  "compile_headers lib headers limits =
     (if length headers > fl_max_headers limits
      then Inl (DispatchInvalidConfig ''sink webhook has too many headers'')
      else try_fold (compile_header lib limits) Map.empty headers)"

definition clamp_timeout :: "duration \<Rightarrow> duration \<Rightarrow> dispatch_error + duration" where
  "clamp_timeout t max_timeout =
     (if t < min_timeout then Inl (DispatchInvalidConfig ''sink webhook timeout is too small'')
      else Inr (min t max_timeout))"

record 'u forward_target =
  ft_url :: 'u
  ft_method :: http_method
  ft_headers :: "string \<rightharpoonup> string"
  ft_timeout :: duration

datatype 'u sink_state = SinkEnabled "'u forward_target" | SinkStateDisabled | SinkUnsupported

type_synonym 'u sink_registry = "sink_id \<rightharpoonup> 'u sink_state"

fun compile_sink_kind ::
    "'u http_lib \<Rightarrow> forward_limits \<Rightarrow> egress_policy \<Rightarrow> sink_kind \<Rightarrow> dispatch_error + 'u sink_state" where
  "compile_sink_kind lib limits policy (Webhook url m headers t) =
     res_bind (parse_url lib url policy) (\<lambda>u.
     res_bind (compile_headers lib headers limits) (\<lambda>hs.
     res_bind (clamp_timeout t (fl_max_timeout limits)) (\<lambda>tm.
     Inr (SinkEnabled \<lparr>ft_url = u, ft_method = m, ft_headers = hs, ft_timeout = tm\<rparr>))))"
| "compile_sink_kind lib limits policy (Database c t) = Inr SinkUnsupported"

definition compile_sink ::
    "'u http_lib \<Rightarrow> forward_limits \<Rightarrow> egress_policy \<Rightarrow> 'u sink_registry \<Rightarrow> sink_definition \<Rightarrow>
     dispatch_error + 'u sink_registry" where
  "compile_sink lib limits policy compiled sink =
     (if compiled (sk_id sink) \<noteq> None then Inl (DispatchInvalidConfig ''duplicate sink id'')
      else
        res_bind (if \<not> sk_enabled sink then Inr SinkStateDisabled
                  else compile_sink_kind lib limits policy (sk_kind sink)) (\<lambda>state.
        Inr (compiled(sk_id sink \<mapsto> state))))"

definition sink_registry_compile ::
    "'u http_lib \<Rightarrow> sink_definition list \<Rightarrow> forward_limits \<Rightarrow> egress_policy \<Rightarrow>
     dispatch_error + 'u sink_registry" where
  "sink_registry_compile lib sinks limits policy =
     try_fold (compile_sink lib limits policy) Map.empty sinks"

definition registry_target :: "'u sink_registry \<Rightarrow> sink_id \<Rightarrow> dispatch_error + 'u forward_target" where
  "registry_target reg sid =
     (case reg sid of
        Some (SinkEnabled t) \<Rightarrow> Inr t
      | Some SinkStateDisabled \<Rightarrow> Inl (SinkDisabled sid)
      | Some SinkUnsupported \<Rightarrow> Inl (UnsupportedSinkKind sid)
      | None \<Rightarrow> Inl (SinkNotFound sid))"

section \<open>Requests and receipts\<close>

record forward_request =
  fr_event :: normalized_event
  fr_sink_id :: sink_id
  fr_projection :: "(string, json) bmap option"

record forward_receipt =
  fc_sink_id :: sink_id
  fc_accepted :: bool

record 'u queued_forward_request =
  qf_event_id :: event_id
  qf_sink_id :: sink_id
  qf_target :: "'u forward_target"
  qf_payload :: string

datatype forward_failure_reason =
  RequestFailed | ResponseReadFailed | WorkerJoinFailed | OutcomeReceiverClosed

datatype forward_delivery_status =
  Delivered u16 nat
| HttpRejected u16 nat
| TimedOut
| ResponseTooLarge nat
| Failed forward_failure_reason

record forward_delivery_outcome =
  fo_event_id :: event_id
  fo_sink_id :: sink_id
  fo_status :: forward_delivery_status

record forwarder_stats =
  accepted_total :: u64
  backpressure_total :: u64
  delivered_total :: u64
  rejected_total :: u64
  timed_out_total :: u64
  failed_total :: u64
  response_too_large_total :: u64
  outcome_dropped_total :: u64

definition forwarder_stats_default :: forwarder_stats where
  "forwarder_stats_default =
     \<lparr>accepted_total = 0, backpressure_total = 0, delivered_total = 0, rejected_total = 0,
      timed_out_total = 0, failed_total = 0, response_too_large_total = 0, outcome_dropped_total = 0\<rparr>"

definition record_acceptance :: "forwarder_stats \<Rightarrow> forwarder_stats" where
  "record_acceptance st = st\<lparr>accepted_total := accepted_total st + 1\<rparr>"

definition record_backpressure :: "forwarder_stats \<Rightarrow> forwarder_stats" where
  "record_backpressure st = st\<lparr>backpressure_total := backpressure_total st + 1\<rparr>"

definition record_outcome :: "forward_delivery_status \<Rightarrow> forwarder_stats \<Rightarrow> forwarder_stats" where
  "record_outcome status st =
     (case status of
        Delivered _ _ \<Rightarrow> st\<lparr>delivered_total := delivered_total st + 1\<rparr>
      | HttpRejected _ _ \<Rightarrow> st\<lparr>rejected_total := rejected_total st + 1\<rparr>
      | TimedOut \<Rightarrow> st\<lparr>timed_out_total := timed_out_total st + 1\<rparr>
      | ResponseTooLarge _ \<Rightarrow> st\<lparr>response_too_large_total := response_too_large_total st + 1\<rparr>
      | Failed _ \<Rightarrow> st\<lparr>failed_total := failed_total st + 1\<rparr>)"

definition record_outcome_drop :: "forwarder_stats \<Rightarrow> forwarder_stats" where
  "record_outcome_drop st = st\<lparr>outcome_dropped_total := outcome_dropped_total st + 1\<rparr>"

text \<open>A task that ended by panic or cancellation counts as failed when it is joined.\<close>

definition record_join_error :: "forwarder_stats \<Rightarrow> forwarder_stats" where
  "record_join_error st = st\<lparr>failed_total := failed_total st + 1\<rparr>"

text \<open>
  The body: the projection when there is one, else the whole event. \<^verbatim>\<open>serde_json::to_vec\<close> on the event
  is an argument beside the one on values.
\<close>

definition encode_payload ::
    "serde_lib \<Rightarrow> (normalized_event \<Rightarrow> string + string) \<Rightarrow> forward_request \<Rightarrow> nat \<Rightarrow>
     dispatch_error + string" where
  "encode_payload lib event_to_vec req max_bytes =
     res_bind
       (map_err (\<lambda>_. ForwardPayloadEncode ''failed to serialize forward payload'')
          (case fr_projection req of
             Some p \<Rightarrow> to_vec lib (JObject p)
           | None \<Rightarrow> event_to_vec (fr_event req))) (\<lambda>payload.
     if length payload > max_bytes then Inl (ForwardPayloadTooLarge (length payload) max_bytes)
     else Inr payload)"

record ('u, 'ch) http_forwarder =
  hf_tx :: 'ch
  hf_registry :: "'u sink_registry"
  hf_limits :: forward_limits
  hf_stats :: forwarder_stats

definition http_try_forward ::
    "serde_lib \<Rightarrow> (normalized_event \<Rightarrow> string + string) \<Rightarrow> ('u queued_forward_request, 'ch) try_send \<Rightarrow>
     forward_request \<Rightarrow> ('u, 'ch) http_forwarder \<Rightarrow>
     (dispatch_error + forward_receipt) \<times> ('u, 'ch) http_forwarder" where
  "http_try_forward lib event_to_vec ts req fw =
     (case registry_target (hf_registry fw) (fr_sink_id req) of
        Inl e \<Rightarrow> (Inl e, fw)
      | Inr target \<Rightarrow>
          (case encode_payload lib event_to_vec req (fl_max_request_body_bytes (hf_limits fw)) of
             Inl e \<Rightarrow> (Inl e, fw)
           | Inr payload \<Rightarrow>
               (case ts \<lparr>qf_event_id = ev_id (fr_event req), qf_sink_id = fr_sink_id req,
                         qf_target = target, qf_payload = payload\<rparr> (hf_tx fw) of
                  (Inl (Full _), tx) \<Rightarrow>
                    (Inl ForwarderBackpressure,
                     fw\<lparr>hf_tx := tx, hf_stats := record_backpressure (hf_stats fw)\<rparr>)
                | (Inl (Closed _), tx) \<Rightarrow> (Inl ForwarderUnavailable, fw\<lparr>hf_tx := tx\<rparr>)
                | (Inr _, tx) \<Rightarrow>
                    (Inr \<lparr>fc_sink_id = fr_sink_id req, fc_accepted = True\<rparr>,
                     fw\<lparr>hf_tx := tx, hf_stats := record_acceptance (hf_stats fw)\<rparr>))))"

definition http_forwarder_try_channel ::
    "'u http_lib \<Rightarrow> (nat \<Rightarrow> 'ch) \<Rightarrow> sink_definition list \<Rightarrow> forward_limits \<Rightarrow> egress_policy \<Rightarrow>
     dispatch_error + ('u, 'ch) http_forwarder" where
  "http_forwarder_try_channel lib new_channel sinks limits policy =
     res_bind (validate_forward_limits limits) (\<lambda>_.
     res_bind (sink_registry_compile lib sinks limits policy) (\<lambda>reg.
     if \<not> client_builds lib
     then Inl (DispatchInvalidConfig ''failed to build HTTP forwarder client'')
     else Inr \<lparr>hf_tx = new_channel (fl_queue_capacity limits), hf_registry = reg,
               hf_limits = limits, hf_stats = forwarder_stats_default\<rparr>))"

definition disabled_try_forward ::
    "forward_request \<Rightarrow> 's \<Rightarrow> (dispatch_error + forward_receipt) \<times> 's" where
  "disabled_try_forward req s = (Inl (SinkNotFound (fr_sink_id req)), s)"

section \<open>One delivery\<close>

datatype response_read_error = TooLarge | ReadFailed

text \<open>What the HTTP client reports: no response, or a status, an optional length and the chunks.\<close>

record http_response =
  hr_status :: u16
  hr_content_length :: "u64 option"
  hr_chunks :: "(string option) list"

fun read_chunks :: "nat \<Rightarrow> nat \<Rightarrow> (string option) list \<Rightarrow> response_read_error + nat" where
  "read_chunks max_bytes got [] = Inr got"
| "read_chunks max_bytes got (None # cs) = Inl ReadFailed"
| "read_chunks max_bytes got (Some chunk # cs) =
     (if got + length chunk > u64_max then Inl TooLarge
      else if got + length chunk > max_bytes then Inl TooLarge
      else read_chunks max_bytes (got + length chunk) cs)"

definition read_limited_response :: "http_response \<Rightarrow> nat \<Rightarrow> response_read_error + nat" where
  "read_limited_response r max_bytes =
     (case hr_content_length r of
        Some n \<Rightarrow> if n > of_nat max_bytes then Inl TooLarge else read_chunks max_bytes 0 (hr_chunks r)
      | None \<Rightarrow> read_chunks max_bytes 0 (hr_chunks r))"

definition is_success :: "u16 \<Rightarrow> bool" where
  "is_success status \<longleftrightarrow> 200 \<le> unat status \<and> unat status < 300"

definition execute_request_inner ::
    "forward_limits \<Rightarrow> http_response option \<Rightarrow> forward_delivery_status" where
  "execute_request_inner limits response =
     (case response of
        None \<Rightarrow> Failed RequestFailed
      | Some r \<Rightarrow>
          (case read_limited_response r (fl_max_response_body_bytes limits) of
             Inl TooLarge \<Rightarrow> ResponseTooLarge (fl_max_response_body_bytes limits)
           | Inl ReadFailed \<Rightarrow> Failed ResponseReadFailed
           | Inr n \<Rightarrow>
               if is_success (hr_status r) then Delivered (hr_status r) n
               else HttpRejected (hr_status r) n))"

text \<open>The whole exchange, or \<open>None\<close> when it did not end within the target's timeout.\<close>

definition execute_request ::
    "'u queued_forward_request \<Rightarrow> forward_limits \<Rightarrow> (http_response option) option \<Rightarrow>
     forward_delivery_outcome" where
  "execute_request req limits exchange =
     \<lparr>fo_event_id = qf_event_id req, fo_sink_id = qf_sink_id req,
      fo_status = (case exchange of
                     None \<Rightarrow> TimedOut
                   | Some response \<Rightarrow> execute_request_inner limits response)\<rparr>"

section \<open>The worker\<close>

text \<open>
  The worker loop as a transition system. A request taken from the queue is \<open>pending\<close> until a permit
  of the semaphore is free; a task holds its permit from its start to its end; ended tasks wait to be
  joined, \<open>ended\<close> those that finished and \<open>broken\<close> those that panicked or were aborted. While a request
  is pending the loop looks at nothing else. A shutdown closes the queue; the rest is drained until the
  queue is empty and the tasks are joined, or the deadline passes and the tasks are aborted.
\<close>

datatype worker_phase = Running | Draining | Joining | Aborting | Finished

record 'u worker =
  wk_phase :: worker_phase
  wk_queue :: "'u queued_forward_request list"
  wk_closed :: bool
  wk_pending :: "'u queued_forward_request option"
  wk_tasks :: "'u queued_forward_request list"
  wk_ended :: nat
  wk_broken :: nat
  wk_dropped :: nat
  wk_results :: "forward_delivery_outcome list"
  wk_stats :: forwarder_stats

definition worker_init :: "'u worker" where
  "worker_init =
     \<lparr>wk_phase = Running, wk_queue = [], wk_closed = False, wk_pending = None, wk_tasks = [],
      wk_ended = 0, wk_broken = 0, wk_dropped = 0, wk_results = [], wk_stats = forwarder_stats_default\<rparr>"

text \<open>The end of \<^verbatim>\<open>spawn_delivery\<close>: count the outcome, then offer it to the result queue.\<close>

definition finish_delivery ::
    "forward_limits \<Rightarrow> forward_delivery_outcome \<Rightarrow> 'u worker \<Rightarrow> 'u worker" where
  "finish_delivery limits outcome w =
     (let st = record_outcome (fo_status outcome) (wk_stats w) in
      if length (wk_results w) < fl_result_queue_capacity limits
      then w\<lparr>wk_results := wk_results w @ [outcome], wk_stats := st\<rparr>
      else w\<lparr>wk_stats := record_outcome_drop st\<rparr>)"

inductive worker_step :: "forward_limits \<Rightarrow> 'u worker \<Rightarrow> 'u worker \<Rightarrow> bool" for limits where
  offer: "\<not> wk_closed w \<Longrightarrow> length (wk_queue w) < fl_queue_capacity limits \<Longrightarrow>
    worker_step limits w
      (w\<lparr>wk_queue := wk_queue w @ [r], wk_stats := record_acceptance (wk_stats w)\<rparr>)"
| offer_full: "\<not> wk_closed w \<Longrightarrow> length (wk_queue w) = fl_queue_capacity limits \<Longrightarrow>
    worker_step limits w (w\<lparr>wk_stats := record_backpressure (wk_stats w)\<rparr>)"
| shutdown: "wk_phase w = Running \<Longrightarrow> wk_pending w = None \<Longrightarrow>
    worker_step limits w (w\<lparr>wk_phase := Draining, wk_closed := True\<rparr>)"
| senders_gone: "wk_phase w = Running \<Longrightarrow> wk_pending w = None \<Longrightarrow> wk_queue w = [] \<Longrightarrow>
    worker_step limits w (w\<lparr>wk_phase := Draining, wk_closed := True\<rparr>)"
| recv: "wk_phase w \<in> {Running, Draining} \<Longrightarrow> wk_pending w = None \<Longrightarrow> wk_queue w = r # rs \<Longrightarrow>
    worker_step limits w (w\<lparr>wk_queue := rs, wk_pending := Some r\<rparr>)"
| spawn: "wk_phase w \<in> {Running, Draining} \<Longrightarrow> wk_pending w = Some r \<Longrightarrow>
    length (wk_tasks w) < fl_max_in_flight limits \<Longrightarrow>
    worker_step limits w (w\<lparr>wk_pending := None, wk_tasks := r # wk_tasks w\<rparr>)"
| deliver: "wk_tasks w = ts @ r # us \<Longrightarrow>
    worker_step limits w
      (finish_delivery limits (execute_request r limits exchange)
         (w\<lparr>wk_tasks := ts @ us, wk_ended := wk_ended w + 1\<rparr>))"
| panic: "wk_tasks w = ts @ r # us \<Longrightarrow>
    worker_step limits w (w\<lparr>wk_tasks := ts @ us, wk_broken := wk_broken w + 1\<rparr>)"
| join_ended: "wk_phase w = Running \<and> wk_pending w = None \<or> wk_phase w \<in> {Joining, Aborting} \<Longrightarrow>
    wk_ended w = Suc n \<Longrightarrow>
    worker_step limits w (w\<lparr>wk_ended := n\<rparr>)"
| join_broken: "wk_phase w = Running \<and> wk_pending w = None \<or> wk_phase w \<in> {Joining, Aborting} \<Longrightarrow>
    wk_broken w = Suc n \<Longrightarrow>
    worker_step limits w (w\<lparr>wk_broken := n, wk_stats := record_join_error (wk_stats w)\<rparr>)"
| drained: "wk_phase w = Draining \<Longrightarrow> wk_pending w = None \<Longrightarrow> wk_queue w = [] \<Longrightarrow>
    worker_step limits w (w\<lparr>wk_phase := Joining\<rparr>)"
| deadline: "wk_phase w \<in> {Draining, Joining} \<Longrightarrow>
    worker_step limits w
      (w\<lparr>wk_phase := Aborting, wk_pending := None,
         wk_dropped := wk_dropped w + (if wk_pending w = None then 0 else 1),
         wk_broken := wk_broken w + length (wk_tasks w), wk_tasks := []\<rparr>)"
| finished: "wk_phase w \<in> {Joining, Aborting} \<Longrightarrow> wk_tasks w = [] \<Longrightarrow> wk_ended w = 0 \<Longrightarrow> wk_broken w = 0 \<Longrightarrow>
    worker_step limits w (w\<lparr>wk_phase := Finished\<rparr>)"
| take_result: "wk_results w = x # xs \<Longrightarrow> worker_step limits w (w\<lparr>wk_results := xs\<rparr>)"

inductive worker_reachable :: "forward_limits \<Rightarrow> 'u worker \<Rightarrow> bool" for limits where
  worker_start: "worker_reachable limits worker_init"
| worker_next: "worker_reachable limits w \<Longrightarrow> worker_step limits w w' \<Longrightarrow> worker_reachable limits w'"

definition outcomes_total :: "forwarder_stats \<Rightarrow> u64" where
  "outcomes_total st =
     delivered_total st + rejected_total st + timed_out_total st + response_too_large_total st +
     failed_total st"

text \<open>
  Every accepted request is queued, pending, in flight, broken and not yet joined, dropped at the
  deadline with the pending slot, or counted in exactly one outcome. The counters are 64-bit words, so
  the equation is modulo two to the 64.
\<close>

definition worker_inv :: "forward_limits \<Rightarrow> 'u worker \<Rightarrow> bool" where
  "worker_inv limits w \<longleftrightarrow>
     length (wk_tasks w) \<le> fl_max_in_flight limits \<and>
     length (wk_queue w) \<le> fl_queue_capacity limits \<and>
     length (wk_results w) \<le> fl_result_queue_capacity limits \<and>
     accepted_total (wk_stats w) =
       of_nat (length (wk_queue w) + (if wk_pending w = None then 0 else 1) + length (wk_tasks w) +
               wk_broken w + wk_dropped w) + outcomes_total (wk_stats w)"

lemmas stats_defs = record_acceptance_def record_backpressure_def record_outcome_drop_def
  record_join_error_def outcomes_total_def

lemma outcomes_total_record_outcome [simp]:
  "outcomes_total (record_outcome s st) = outcomes_total st + 1"
  "accepted_total (record_outcome s st) = accepted_total st"
  by (cases s; simp add: record_outcome_def outcomes_total_def)+

lemma outcomes_total_others [simp]:
  "outcomes_total (record_acceptance st) = outcomes_total st"
  "outcomes_total (record_backpressure st) = outcomes_total st"
  "outcomes_total (record_outcome_drop st) = outcomes_total st"
  "outcomes_total (record_join_error st) = outcomes_total st + 1"
  "accepted_total (record_acceptance st) = accepted_total st + 1"
  "accepted_total (record_backpressure st) = accepted_total st"
  "accepted_total (record_outcome_drop st) = accepted_total st"
  "accepted_total (record_join_error st) = accepted_total st"
  by (simp_all add: stats_defs)

lemma worker_inv_init: "worker_inv limits worker_init"
  by (simp add: worker_inv_def worker_init_def forwarder_stats_default_def outcomes_total_def)

lemma worker_inv_step: "worker_step limits w w' \<Longrightarrow> worker_inv limits w \<Longrightarrow> worker_inv limits w'"
  by (induction rule: worker_step.induct)
    (auto simp: worker_inv_def finish_delivery_def Let_def split: if_splits option.splits)

lemma worker_inv_reachable: "worker_reachable limits w \<Longrightarrow> worker_inv limits w"
  by (induction rule: worker_reachable.induct) (auto intro: worker_inv_init worker_inv_step)

section \<open>Bounds of one delivery\<close>

lemma read_chunks_bound:
  "read_chunks m t cs = Inr n \<Longrightarrow> t \<le> m \<Longrightarrow> n \<le> m \<and> n = t + sum_list (map (\<lambda>c. length (the c)) cs)"
  by (induction m t cs rule: read_chunks.induct) (auto split: if_splits)

lemma execute_request_body:
  assumes "fo_status (execute_request req limits (Some (Some r))) = st"
    and "st = Delivered c n \<or> st = HttpRejected c n"
  shows "n \<le> fl_max_response_body_bytes limits" and "c = hr_status r"
    and "st = Delivered c n \<longleftrightarrow> is_success c"
proof -
  from assms obtain k where k: "read_limited_response r (fl_max_response_body_bytes limits) = Inr k"
      and st: "st = (if is_success (hr_status r) then Delivered (hr_status r) k else HttpRejected (hr_status r) k)"
    by (auto simp: execute_request_def execute_request_inner_def split: sum.splits response_read_error.splits)
  from k have "k \<le> fl_max_response_body_bytes limits"
    by (auto simp: read_limited_response_def dest: read_chunks_bound split: option.splits if_splits)
  with st assms(2) show "n \<le> fl_max_response_body_bytes limits" "c = hr_status r"
      "st = Delivered c n \<longleftrightarrow> is_success c"
    by (auto split: if_splits)
qed

section \<open>What the egress policy lets through\<close>

lemma validate_egress_host_iff:
  "validate_egress_host host policy = Inr u \<longleftrightarrow>
     (eg_allowed_hosts policy = [] \<or>
      (\<exists>a \<in> set (eg_allowed_hosts policy). eq_ignore_ascii_case a (normalized_host host))) \<and>
     normalized_host host \<noteq> ''localhost'' \<and> normalized_host host \<noteq> ''localhost.localdomain'' \<and>
     (\<forall>ip. parse_ip_addr (normalized_host host) = Some ip \<longrightarrow>
        eg_allow_private_networks policy \<or> \<not> is_blocked_ip ip)"
  by (auto simp: validate_egress_host_def Let_def list_ex_iff split: option.splits)

lemma trim_end_dots_bracket: "trim_end_dots (CHR ''['' # s) = CHR ''['' # trim_end_dots s"
  by (simp add: trim_end_dots_def dropWhile_append)

lemma normalized_host_bracket: "normalized_host (CHR ''['' # s) = CHR ''['' # normalized_host s"
  by (simp add: normalized_host_def trim_end_dots_bracket to_ascii_lowercase_def ascii_lower_def
      less_eq_char_def)

lemma parse_url_iff:
  "parse_url lib v policy = Inr url \<longleftrightarrow>
     url_parse lib v = Some url \<and>
     (url_scheme lib url = ''https'' \<or> url_scheme lib url = ''http'' \<and> \<not> eg_require_https policy) \<and>
     (\<exists>host. url_host_str lib url = Some host \<and> validate_egress_host host policy = Inr ())"
  by (auto simp: parse_url_def split: option.splits if_splits)

section \<open>What a compiled registry holds\<close>

lemma compile_header_keeps:
  assumes "compile_header lib limits m h = Inr m'" and "\<forall>n \<in> dom m. \<not> is_blocked_header n"
  shows "\<forall>n \<in> dom m'. \<not> is_blocked_header n"
  using assms by (auto simp: compile_header_def split: if_splits option.splits)

lemma compile_headers_unblocked:
  assumes "compile_headers lib hs limits = Inr m" and "m n = Some v"
  shows "\<not> is_blocked_header n"
proof -
  have "try_fold (compile_header lib limits) Map.empty hs = Inr m"
    using assms(1) by (simp add: compile_headers_def split: if_splits)
  then have "\<forall>n \<in> dom m. \<not> is_blocked_header n"
    by (rule try_fold_invariant) (simp, erule (1) compile_header_keeps)
  with assms(2) show ?thesis by auto
qed

definition target_ok :: "'u http_lib \<Rightarrow> forward_limits \<Rightarrow> egress_policy \<Rightarrow> 'u forward_target \<Rightarrow> bool" where
  "target_ok lib limits policy t \<longleftrightarrow>
     min_timeout \<le> ft_timeout t \<and> ft_timeout t \<le> fl_max_timeout limits \<and>
     (\<forall>n v. ft_headers t n = Some v \<longrightarrow> \<not> is_blocked_header n) \<and>
     (\<exists>v. parse_url lib v policy = Inr (ft_url t))"

lemma compile_sink_kind_ok:
  assumes "compile_sink_kind lib limits policy k = Inr (SinkEnabled t)"
    and "min_timeout \<le> fl_max_timeout limits"
  shows "target_ok lib limits policy t"
proof (cases k)
  case (Webhook url m hs tm)
  with assms show ?thesis
    by (auto simp: target_ok_def clamp_timeout_def split: if_splits dest: compile_headers_unblocked)
next
  case (Database c tb)
  with assms show ?thesis by simp
qed

definition registry_ok :: "'u http_lib \<Rightarrow> forward_limits \<Rightarrow> egress_policy \<Rightarrow> 'u sink_registry \<Rightarrow> bool" where
  "registry_ok lib limits policy reg \<longleftrightarrow>
     (\<forall>sid t. reg sid = Some (SinkEnabled t) \<longrightarrow> target_ok lib limits policy t)"

lemma compile_sink_ok:
  assumes "compile_sink lib limits policy reg sink = Inr reg'" and "registry_ok lib limits policy reg"
    and "min_timeout \<le> fl_max_timeout limits"
  shows "registry_ok lib limits policy reg'"
  using assms
  by (auto simp: compile_sink_def registry_ok_def compile_sink_kind_ok split: if_splits)

lemma sink_registry_compile_ok:
  assumes "sink_registry_compile lib sinks limits policy = Inr reg"
    and "min_timeout \<le> fl_max_timeout limits"
  shows "registry_ok lib limits policy reg"
  using assms(1) unfolding sink_registry_compile_def
  by (rule try_fold_invariant)
    (simp add: registry_ok_def, erule (1) compile_sink_ok [OF _ _ assms(2)])

lemma validate_forward_limits_timeout:
  "validate_forward_limits l = Inr u \<Longrightarrow> min_timeout \<le> fl_max_timeout l \<and> 0 < fl_max_in_flight l"
  by (auto simp: validate_forward_limits_def split: if_splits)

text \<open>The registry knows exactly the sinks of the configuration.\<close>

lemma compile_loop_dom:
  "try_fold (compile_sink lib limits policy) reg sinks = Inr reg' \<Longrightarrow>
     dom reg' = dom reg \<union> sk_id ` set sinks \<and> distinct (map sk_id sinks) \<and> dom reg \<inter> sk_id ` set sinks = {}"
proof (induction sinks arbitrary: reg)
  case (Cons s sinks)
  from Cons.prems obtain r where r: "compile_sink lib limits policy reg s = Inr r"
    and rest: "try_fold (compile_sink lib limits policy) r sinks = Inr reg'" by auto
  from r have "dom r = insert (sk_id s) (dom reg)" "sk_id s \<notin> dom reg"
    by (auto simp: compile_sink_def split: if_splits)
  with Cons.IH [OF rest] show ?case by auto
qed simp

text \<open>A receipt of the bounded forwarder names the sink of the request and is an acceptance.\<close>

lemma http_try_forward_receipt:
  "http_try_forward lib ev ts req fw = (Inr rc, fw') \<Longrightarrow> fc_sink_id rc = fr_sink_id req \<and> fc_accepted rc"
  by (auto simp: http_try_forward_def split: sum.splits prod.splits try_send_error.splits)

text \<open>What is queued fits the request limit and goes to the registered target.\<close>

lemma http_try_forward_queued:
  assumes "mpsc_law ts view" and "http_try_forward lib ev ts req fw = (Inr rc, fw')"
  shows "\<exists>q. vq_items (view (hf_tx fw')) = vq_items (view (hf_tx fw)) @ [q] \<and>
             qf_event_id q = ev_id (fr_event req) \<and> qf_sink_id q = fr_sink_id req \<and>
             length (qf_payload q) \<le> fl_max_request_body_bytes (hf_limits fw) \<and>
             hf_registry fw (fr_sink_id req) = Some (SinkEnabled (qf_target q))"
proof -
  from assms(2) obtain t pl where t: "registry_target (hf_registry fw) (fr_sink_id req) = Inr t"
    and pl: "encode_payload lib ev req (fl_max_request_body_bytes (hf_limits fw)) = Inr pl"
    by (auto simp: http_try_forward_def split: sum.splits)
  let ?q = "\<lparr>qf_event_id = ev_id (fr_event req), qf_sink_id = fr_sink_id req, qf_target = t, qf_payload = pl\<rparr>"
  from assms(2) t pl obtain u tx where sent: "ts ?q (hf_tx fw) = (Inr u, tx)" "hf_tx fw' = tx"
    by (auto simp: http_try_forward_def split: sum.splits prod.splits try_send_error.splits)
  have "vq_items (view (hf_tx fw')) = vq_items (view (hf_tx fw)) @ [?q]"
    using mpsc_law_items [OF assms(1), of ?q "hf_tx fw"] sent by simp
  moreover have "length pl \<le> fl_max_request_body_bytes (hf_limits fw)"
    using pl by (auto simp: encode_payload_def split: if_splits)
  moreover have "hf_registry fw (fr_sink_id req) = Some (SinkEnabled t)"
    using t by (auto simp: registry_target_def split: option.splits sink_state.splits)
  ultimately show ?thesis by (intro exI [of _ ?q]) simp
qed

section \<open>Properties\<close>

text \<open>C7: in every reachable state of the worker at most the permitted number of deliveries is in flight,
  the queues stay within their capacities, and every accepted request is still queued, pending, in flight,
  waiting to be joined, dropped at the shutdown deadline, or counted in exactly one outcome, modulo the
  width of the counters.\<close>

theorem worker_accounts_for_requests:
  assumes "worker_reachable limits w"
  shows "length (wk_tasks w) \<le> fl_max_in_flight limits \<and>
         length (wk_queue w) \<le> fl_queue_capacity limits \<and>
         length (wk_results w) \<le> fl_result_queue_capacity limits \<and>
         accepted_total (wk_stats w) =
           of_nat (length (wk_queue w) + (if wk_pending w = None then 0 else 1) + length (wk_tasks w) +
                   wk_broken w + wk_dropped w) +
           (delivered_total (wk_stats w) + rejected_total (wk_stats w) + timed_out_total (wk_stats w) +
            response_too_large_total (wk_stats w) + failed_total (wk_stats w))"
  using worker_inv_reachable [OF assms] by (simp only: worker_inv_def outcomes_total_def)

definition sample_target :: "unit forward_target" where
  "sample_target = \<lparr>ft_url = (), ft_method = Post, ft_headers = Map.empty, ft_timeout = from_secs 1\<rparr>"

definition sample_queued :: "unit queued_forward_request" where
  "sample_queued = \<lparr>qf_event_id = ''evt_0'', qf_sink_id = ''s1'', qf_target = sample_target, qf_payload = ''o''\<rparr>"

theorem worker_accounts_for_requests_witness:
  "\<exists>w. worker_reachable forward_limits_default w \<and> wk_tasks w = [sample_queued] \<and>
       length (wk_tasks w) \<le> 32 \<and> accepted_total (wk_stats w) = 1"
proof -
  let ?w0 = "worker_init :: unit worker"
  let ?w1 = "?w0\<lparr>wk_queue := wk_queue ?w0 @ [sample_queued], wk_stats := record_acceptance (wk_stats ?w0)\<rparr>"
  let ?w2 = "?w1\<lparr>wk_queue := [], wk_pending := Some sample_queued\<rparr>"
  let ?w3 = "?w2\<lparr>wk_pending := None, wk_tasks := sample_queued # wk_tasks ?w2\<rparr>"
  have "worker_step forward_limits_default ?w0 ?w1"
    by (rule worker_step.offer) (simp_all add: worker_init_def forward_limits_default_def)
  moreover have "worker_step forward_limits_default ?w1 ?w2"
    by (rule worker_step.recv) (simp_all add: worker_init_def)
  moreover have "worker_step forward_limits_default ?w2 ?w3"
    by (rule worker_step.spawn) (simp_all add: worker_init_def forward_limits_default_def)
  ultimately have r: "worker_reachable forward_limits_default ?w3"
    by (blast intro: worker_start worker_next)
  from worker_accounts_for_requests [OF r]
  have "length (wk_tasks ?w3) \<le> fl_max_in_flight forward_limits_default"
    and "accepted_total (wk_stats ?w3) = 1"
    by (simp_all add: worker_init_def forwarder_stats_default_def)
  with r show ?thesis
    by (intro exI [of _ ?w3]) (simp add: worker_init_def forward_limits_default_def)
qed

text \<open>C8: every target a forwarder can send to has a timeout between ten milliseconds and the configured
  maximum, sets no header the HTTP client controls, uses HTTPS unless the policy allows otherwise, and has
  a host that is not localhost and, when private networks are not allowed, not the text of a blocked IP
  address.\<close>

theorem forward_targets_respect_policy:
  assumes "http_forwarder_try_channel lib new_channel sinks limits policy = Inr fw"
    and "hf_registry fw sid = Some (SinkEnabled t)"
  shows "min_timeout \<le> ft_timeout t \<and> ft_timeout t \<le> fl_max_timeout limits \<and>
         (\<forall>n v. ft_headers t n = Some v \<longrightarrow> \<not> is_blocked_header n) \<and>
         (url_scheme lib (ft_url t) = ''https'' \<or>
          url_scheme lib (ft_url t) = ''http'' \<and> \<not> eg_require_https policy) \<and>
         (\<exists>host. url_host_str lib (ft_url t) = Some host \<and>
            normalized_host host \<noteq> ''localhost'' \<and> normalized_host host \<noteq> ''localhost.localdomain'' \<and>
            (\<forall>ip. parse_ip_addr (normalized_host host) = Some ip \<longrightarrow>
               eg_allow_private_networks policy \<or> \<not> is_blocked_ip ip))"
proof -
  from assms(1) have lim: "validate_forward_limits limits = Inr ()"
    and reg: "sink_registry_compile lib sinks limits policy = Inr (hf_registry fw)"
    by (auto simp: http_forwarder_try_channel_def split: if_splits)
  have "registry_ok lib limits policy (hf_registry fw)"
    using reg validate_forward_limits_timeout [OF lim] by (intro sink_registry_compile_ok) auto
  with assms(2) have "target_ok lib limits policy t" by (simp add: registry_ok_def)
  then show ?thesis
    by (auto simp: target_ok_def parse_url_iff validate_egress_host_iff)
qed

definition sample_http :: "string http_lib" where
  "sample_http =
     \<lparr>url_parse = (\<lambda>s. Some s), url_scheme = (\<lambda>u. ''https''), url_host_str = (\<lambda>u. Some u),
      header_name_of = (\<lambda>s. Some (to_ascii_lowercase s)), header_value_of = (\<lambda>s. Some s),
      client_builds = True\<rparr>"

definition sample_sink :: "string \<Rightarrow> sink_definition" where
  "sample_sink url =
     \<lparr>sk_id = ''s1'', sk_name = ''sink'', sk_enabled = True,
      sk_kind = Webhook url Post [\<lparr>hh_name = ''X-Key'', hh_value = ''k''\<rparr>] (from_secs 60)\<rparr>"

lemma sample_host_ok: "validate_egress_host ''hooks.example'' egress_policy_default = Inr ()"
proof -
  have "normalized_host ''hooks.example'' = ''hooks.example''" by code_simp
  moreover have "parse_ip_addr ''hooks.example'' = None" by code_simp
  ultimately show ?thesis
    by (simp add: validate_egress_host_def Let_def egress_policy_default_def)
qed

lemma sample_registry:
  "sink_registry_compile sample_http [sample_sink ''hooks.example''] forward_limits_default egress_policy_default =
     Inr [''s1'' \<mapsto> SinkEnabled \<lparr>ft_url = ''hooks.example'', ft_method = Post,
                               ft_headers = [''x-key'' \<mapsto> ''k''], ft_timeout = from_secs 30\<rparr>]"
proof -
  have url: "parse_url sample_http ''hooks.example'' egress_policy_default = Inr ''hooks.example''"
    using sample_host_ok by (simp add: parse_url_iff sample_http_def)
  have name: "to_ascii_lowercase ''X-Key'' = ''x-key''" by code_simp
  have "compile_headers sample_http [\<lparr>hh_name = ''X-Key'', hh_value = ''k''\<rparr>] forward_limits_default =
      Inr [''x-key'' \<mapsto> ''k'']"
    by (simp add: compile_headers_def compile_header_def sample_http_def forward_limits_default_def
        is_blocked_header_def name)
  moreover have "clamp_timeout (from_secs 60) (fl_max_timeout forward_limits_default) = Inr (from_secs 30)"
    by (simp add: clamp_timeout_def min_timeout_def from_secs_def from_millis_def forward_limits_default_def)
  ultimately show ?thesis
    by (simp add: sink_registry_compile_def compile_sink_def sample_sink_def url)
qed

theorem forward_targets_respect_policy_witness:
  "\<exists>fw t. http_forwarder_try_channel sample_http (\<lambda>n. ()) [sample_sink ''hooks.example'']
            forward_limits_default egress_policy_default = Inr fw \<and>
          hf_registry fw ''s1'' = Some (SinkEnabled t) \<and> ft_timeout t \<le> from_secs 30"
proof -
  have lim: "validate_forward_limits forward_limits_default = Inr ()"
    by (simp add: validate_forward_limits_def forward_limits_default_def min_timeout_def from_secs_def
        from_millis_def)
  obtain fw where fw: "http_forwarder_try_channel sample_http (\<lambda>n. ()) [sample_sink ''hooks.example'']
      forward_limits_default egress_policy_default = Inr fw"
    and reg: "hf_registry fw = [''s1'' \<mapsto> SinkEnabled \<lparr>ft_url = ''hooks.example'', ft_method = Post,
                               ft_headers = [''x-key'' \<mapsto> ''k''], ft_timeout = from_secs 30\<rparr>]"
    using lim sample_registry by (auto simp: http_forwarder_try_channel_def sample_http_def)
  from forward_targets_respect_policy [OF fw, of "''s1''"] reg fw show ?thesis
    by (simp add: forward_limits_default_def)
qed

text \<open>The egress policy looks an address up only in its bare form, while the host of a URL with an IPv6
  address is written in brackets: without a list of allowed hosts, every bracketed host passes the policy,
  whatever the address between the brackets.\<close>

lemma bracketed_hosts_pass_policy:
  assumes "eg_allowed_hosts policy = []"
  shows "validate_egress_host (''['' @ address @ '']'') policy = Inr ()"
  using assms
  by (simp add: validate_egress_host_iff normalized_host_bracket parse_ip_addr_bracket)

text \<open>C38: a delivery reported with a status carries the status of the response, is a success exactly for a
  2xx status, and has read no more of the body than the limit.\<close>

theorem delivery_within_limits:
  assumes "fo_status (execute_request req limits (Some (Some response))) = st"
    and "st = Delivered code n \<or> st = HttpRejected code n"
  shows "n \<le> fl_max_response_body_bytes limits \<and> code = hr_status response \<and>
         (st = Delivered code n \<longleftrightarrow> 200 \<le> unat code \<and> unat code < 300)"
  using execute_request_body [OF assms] by (simp add: is_success_def)

theorem delivery_within_limits_witness:
  "fo_status (execute_request sample_queued forward_limits_default
     (Some (Some \<lparr>hr_status = 204, hr_content_length = None, hr_chunks = [Some ''ab'', Some ''c'']\<rparr>))) =
     Delivered 204 3 \<and> (3 :: nat) \<le> 64 * 1024"
proof -
  let ?r = "\<lparr>hr_status = 204, hr_content_length = None, hr_chunks = [Some ''ab'', Some ''c'']\<rparr>"
  have d: "fo_status (execute_request sample_queued forward_limits_default (Some (Some ?r))) = Delivered 204 3"
    by (simp add: execute_request_def execute_request_inner_def read_limited_response_def is_success_def
        forward_limits_default_def u64_max_def)
  from delivery_within_limits [OF d, of 204 3] d show ?thesis
    by (simp add: forward_limits_default_def)
qed

text \<open>A request the forwarder accepts is appended to the worker's queue with the registered target of its
  sink and a body within the limit; the receipt names the sink.\<close>

lemma accepted_request_is_queued:
  assumes "mpsc_law ts view" and "http_try_forward lib event_to_vec ts req fw = (Inr receipt, fw')"
  shows "fc_sink_id receipt = fr_sink_id req \<and>
         (\<exists>q. vq_items (view (hf_tx fw')) = vq_items (view (hf_tx fw)) @ [q] \<and>
              qf_event_id q = ev_id (fr_event req) \<and>
              length (qf_payload q) \<le> fl_max_request_body_bytes (hf_limits fw) \<and>
              hf_registry fw (fr_sink_id req) = Some (SinkEnabled (qf_target q)))"
  using http_try_forward_receipt [OF assms(2)] http_try_forward_queued [OF assms] by blast

definition sample_forwarder :: "(unit, unit queued_forward_request vec_queue) http_forwarder" where
  "sample_forwarder =
     \<lparr>hf_tx = \<lparr>vq_capacity = 1, vq_items = [], vq_closed = False\<rparr>,
      hf_registry = [''s1'' \<mapsto> SinkEnabled sample_target], hf_limits = forward_limits_default,
      hf_stats = forwarder_stats_default\<rparr>"

end
