(* ===== verification/Action_Metadata.thy ===== *)
theory Action_Metadata
  imports Domain_Event
begin

text \<open>Limits on metadata set by actions (\<^verbatim>\<open>pipe-bolt-core/src/action_metadata.rs\<close>).\<close>

definition reserved_metadata_prefixes :: "string list" where
  "reserved_metadata_prefixes = [''pipe_bolt.'', ''_pipe_bolt.'']"

record action_metadata_limits =
  am_max_key_bytes :: nat
  am_max_value_bytes :: nat

datatype metadata_validation_error = InvalidKey string | ValueTooLarge nat nat

definition validate_action_metadata ::
    "string \<Rightarrow> string \<Rightarrow> action_metadata_limits \<Rightarrow> metadata_validation_error + unit" where
  "validate_action_metadata key v limits =
     (if key = [] then Inl (InvalidKey ''key must not be empty'')
      else if length key > am_max_key_bytes limits then Inl (InvalidKey ''key exceeds maximum length'')
      else if list_ex is_ascii_control key then Inl (InvalidKey ''key must not contain control characters'')
      else if list_ex (\<lambda>p. prefix p key) reserved_metadata_prefixes
      then Inl (InvalidKey ''key uses reserved prefix'')
      else if length v > am_max_value_bytes limits
      then Inl (ValueTooLarge (length v) (am_max_value_bytes limits))
      else Inr ())"

definition reserved_key :: "string \<Rightarrow> bool" where
  "reserved_key key \<longleftrightarrow> prefix ''pipe_bolt.'' key \<or> prefix ''_pipe_bolt.'' key"

lemma validate_action_metadata_iff:
  "validate_action_metadata key v limits = Inr u \<longleftrightarrow>
     key \<noteq> [] \<and> length key \<le> am_max_key_bytes limits \<and>
     (\<forall>c \<in> set key. \<not> is_ascii_control c) \<and> \<not> reserved_key key \<and>
     length v \<le> am_max_value_bytes limits"
  by (auto simp: validate_action_metadata_def reserved_metadata_prefixes_def reserved_key_def list_ex_iff)

end
