(* ===== verification/Dispatcher.thy ===== *)
theory Dispatcher
  imports Forwarder Action_Metadata
begin

text \<open>
  Dispatch of action intents (\<^verbatim>\<open>dispatcher/action.rs\<close>). The three side-effect boundaries, the traits
  \<^verbatim>\<open>RealtimeEventSink\<close>, \<^verbatim>\<open>EventForwarder\<close> and \<^verbatim>\<open>CommandRequestQueue\<close>, are arguments of the dispatcher that
  act on a state \<open>'s\<close>; their contracts are the locales below, interpreted on the implementations of the
  program.
\<close>

section \<open>Limits and outcome\<close>

record dispatch_limits =
  dl_max_intents_per_event :: nat
  dl_max_metadata_entries_per_event :: nat
  dl_max_metadata_key_bytes :: nat
  dl_max_metadata_value_bytes :: nat

definition dispatch_limits_default :: dispatch_limits where
  "dispatch_limits_default =
     \<lparr>dl_max_intents_per_event = 128, dl_max_metadata_entries_per_event = 32,
      dl_max_metadata_key_bytes = 128, dl_max_metadata_value_bytes = 1024\<rparr>"

definition dispatch_metadata_limits :: "dispatch_limits \<Rightarrow> action_metadata_limits" where
  "dispatch_metadata_limits l =
     \<lparr>am_max_key_bytes = dl_max_metadata_key_bytes l,
      am_max_value_bytes = dl_max_metadata_value_bytes l\<rparr>"

record realtime_publish_receipt =
  rr_accepted :: bool

record command_request_receipt =
  cq_command_execution_id :: command_execution_id
  cq_command_template_id :: command_template_id
  cq_accepted :: bool

datatype executed_action =
  ExecStreamToUi realtime_publish_receipt
| ExecForwardToSink forward_receipt
| ExecExecuteCommand command_request_receipt
| ExecAddMetadata string
| ExecDropEvent

datatype skipped_action =
  AfterDrop string
| EventMismatch string event_id
| Unsupported string

record failed_action =
  fa_action_type :: string
  fa_error :: dispatch_error

record dispatch_outcome =
  do_event_id :: event_id
  do_executed :: "executed_action list"
  do_skipped :: "skipped_action list"
  do_failed :: "failed_action list"
  do_dropped :: bool
  do_metadata_overlay :: "(string, string) bmap"

definition dispatch_outcome_new :: "event_id \<Rightarrow> dispatch_outcome" where
  "dispatch_outcome_new eid =
     \<lparr>do_event_id = eid, do_executed = [], do_skipped = [], do_failed = [], do_dropped = False,
      do_metadata_overlay = []\<rparr>"

definition outcome_enriched_event :: "dispatch_outcome \<Rightarrow> normalized_event \<Rightarrow> normalized_event" where
  "outcome_enriched_event o' original =
     (if do_metadata_overlay o' = [] then original
      else original\<lparr>ev_metadata := bm_extend (ev_metadata original) (do_metadata_overlay o')\<rparr>)"

section \<open>Boundaries\<close>

type_synonym 's realtime_event_sink =
  "normalized_event \<Rightarrow> 's \<Rightarrow> (dispatch_error + realtime_publish_receipt) \<times> 's"
type_synonym 's event_forwarder =
  "forward_request \<Rightarrow> 's \<Rightarrow> (dispatch_error + forward_receipt) \<times> 's"
type_synonym 's command_request_queue =
  "command_execution_request \<Rightarrow> 's \<Rightarrow> (dispatch_error + command_request_receipt) \<times> 's"

definition bounded_sink_try_channel :: "(nat \<Rightarrow> 'ch) \<Rightarrow> nat \<Rightarrow> dispatch_error + 'ch" where
  "bounded_sink_try_channel new_channel capacity =
     (if capacity = 0
      then Inl (DispatchInvalidConfig ''realtime sink capacity must be greater than zero'')
      else Inr (new_channel capacity))"

definition bounded_sink_try_publish ::
    "(normalized_event, 'ch) try_send \<Rightarrow> 'ch realtime_event_sink" where
  "bounded_sink_try_publish ts event ch =
     (case ts event ch of
        (Inl (Full _), ch') \<Rightarrow> (Inl RealtimeBackpressure, ch')
      | (Inl (Closed _), ch') \<Rightarrow> (Inl RealtimeUnavailable, ch')
      | (Inr _, ch') \<Rightarrow> (Inr \<lparr>rr_accepted = True\<rparr>, ch'))"

definition disabled_try_enqueue_command :: "'s command_request_queue" where
  "disabled_try_enqueue_command req s = (Inl CommandQueueUnavailable, s)"

section \<open>Metadata overlay\<close>

definition validate_metadata :: "string \<Rightarrow> string \<Rightarrow> dispatch_limits \<Rightarrow> dispatch_error + unit" where
  "validate_metadata key v limits =
     map_err (\<lambda>e. case e of
         InvalidKey reason \<Rightarrow> DispatchInvalidMetadataKey reason
       | ValueTooLarge actual mx \<Rightarrow> DispatchMetadataValueTooLarge actual mx)
       (validate_action_metadata key v (dispatch_metadata_limits limits))"

definition insert_metadata ::
    "string \<Rightarrow> string \<Rightarrow> dispatch_limits \<Rightarrow> (string, string) bmap \<Rightarrow>
     dispatch_error + (string, string) bmap" where
  "insert_metadata key v limits overlay =
     res_bind (validate_metadata key v limits) (\<lambda>_.
     if map_of overlay key = None \<and> length overlay \<ge> dl_max_metadata_entries_per_event limits
     then Inl (TooManyMetadataEntries (length overlay + 1) (dl_max_metadata_entries_per_event limits))
     else Inr (bm_insert key v overlay))"

definition enriched_event :: "normalized_event \<Rightarrow> (string, string) bmap \<Rightarrow> normalized_event" where
  "enriched_event original overlay =
     (if overlay = [] then original
      else original\<lparr>ev_metadata := bm_extend (ev_metadata original) overlay\<rparr>)"

section \<open>Dispatch\<close>

fun action_type :: "action_intent \<Rightarrow> string" where
  "action_type (StreamToUi _) = ''stream_to_ui''"
| "action_type (ForwardToSink _ _ _) = ''forward_to_sink''"
| "action_type (ExecuteCommand _ _ _ _) = ''execute_command''"
| "action_type (DropEvent _ _) = ''drop_event''"
| "action_type (AddMetadata _ _ _) = ''add_metadata''"

fun intent_event_id :: "action_intent \<Rightarrow> event_id option" where
  "intent_event_id (StreamToUi e) = Some e"
| "intent_event_id (ForwardToSink e _ _) = Some e"
| "intent_event_id (DropEvent e _) = Some e"
| "intent_event_id (AddMetadata e _ _) = Some e"
| "intent_event_id (ExecuteCommand e _ _ _) = Some e"

definition command_request_from_intent ::
    "string \<Rightarrow> normalized_event \<Rightarrow> command_template_id \<Rightarrow> (string, json) bmap \<Rightarrow> string \<Rightarrow>
     dispatch_error + command_execution_request" where
  "command_request_from_intent uuid event tid params correlation_id =
     res_bind
       (map_err (\<lambda>_. CommandRequestBuild ''generated command execution id is invalid'')
          (id_new ''command_execution_id'' (''command_exec_'' @ uuid))) (\<lambda>xid.
     Inr \<lparr>cx_project_id = ev_project_id event, cx_command_execution_id = xid,
          cx_command_template_id = tid, cx_params = params, cx_source = SourceRule,
          cx_actor_id = None, cx_source_event_id = Some (ev_id event),
          cx_correlation_id = correlation_id,
          cx_reason = Some (''matched event '' @ ev_id event)\<rparr>)"

text \<open>The traits and limits a dispatcher is built from, and the source of fresh UUIDs.\<close>

record 's dispatcher =
  dp_realtime :: "'s realtime_event_sink"
  dp_forwarder :: "'s event_forwarder"
  dp_command_queue :: "'s command_request_queue"
  dp_limits :: dispatch_limits

record 's dispatch_state =
  ds_outcome :: dispatch_outcome
  ds_overlay :: "(string, string) bmap"
  ds_world :: 's

definition push_executed :: "executed_action \<Rightarrow> dispatch_outcome \<Rightarrow> dispatch_outcome" where
  "push_executed a o' = o'\<lparr>do_executed := do_executed o' @ [a]\<rparr>"

definition push_skipped :: "skipped_action \<Rightarrow> dispatch_outcome \<Rightarrow> dispatch_outcome" where
  "push_skipped a o' = o'\<lparr>do_skipped := do_skipped o' @ [a]\<rparr>"

definition push_failed :: "string \<Rightarrow> dispatch_error \<Rightarrow> dispatch_outcome \<Rightarrow> dispatch_outcome" where
  "push_failed ty e o' = o'\<lparr>do_failed := do_failed o' @ [\<lparr>fa_action_type = ty, fa_error = e\<rparr>]\<rparr>"

definition push_result ::
    "string \<Rightarrow> ('r \<Rightarrow> executed_action) \<Rightarrow> dispatch_error + 'r \<Rightarrow> dispatch_outcome \<Rightarrow> dispatch_outcome" where
  "push_result ty mk r o' = (case r of Inl e \<Rightarrow> push_failed ty e o' | Inr x \<Rightarrow> push_executed (mk x) o')"

text \<open>The \<^verbatim>\<open>match\<close> on an intent that is neither after a drop nor for another event.\<close>

fun execute_intent ::
    "'s dispatcher \<Rightarrow> string \<Rightarrow> normalized_event \<Rightarrow> action_intent \<Rightarrow> 's dispatch_state \<Rightarrow> 's dispatch_state" where
  "execute_intent d uuid event (StreamToUi e) s =
     (case dp_realtime d (enriched_event event (ds_overlay s)) (ds_world s) of
        (r, w) \<Rightarrow> s\<lparr>ds_outcome := push_result ''stream_to_ui'' ExecStreamToUi r (ds_outcome s),
                    ds_world := w\<rparr>)"
| "execute_intent d uuid event (ForwardToSink e sid projection) s =
     (case dp_forwarder d
             \<lparr>fr_event = enriched_event event (ds_overlay s), fr_sink_id = sid,
              fr_projection = projection\<rparr> (ds_world s) of
        (r, w) \<Rightarrow> s\<lparr>ds_outcome := push_result ''forward_to_sink'' ExecForwardToSink r (ds_outcome s),
                    ds_world := w\<rparr>)"
| "execute_intent d uuid event (DropEvent e reason) s =
     s\<lparr>ds_outcome := push_executed ExecDropEvent ((ds_outcome s)\<lparr>do_dropped := True\<rparr>)\<rparr>"
| "execute_intent d uuid event (AddMetadata e key v) s =
     (case insert_metadata key v (dp_limits d) (ds_overlay s) of
        Inr overlay \<Rightarrow> s\<lparr>ds_overlay := overlay,
                         ds_outcome := push_executed (ExecAddMetadata key) (ds_outcome s)\<rparr>
      | Inl err \<Rightarrow> s\<lparr>ds_outcome := push_failed ''add_metadata'' err (ds_outcome s)\<rparr>)"
| "execute_intent d uuid event (ExecuteCommand e tid params cid) s =
     (case command_request_from_intent uuid event tid params cid of
        Inl err \<Rightarrow> s\<lparr>ds_outcome := push_failed ''execute_command'' err (ds_outcome s)\<rparr>
      | Inr req \<Rightarrow>
          (case dp_command_queue d req (ds_world s) of
             (r, w) \<Rightarrow> s\<lparr>ds_outcome := push_result ''execute_command'' ExecExecuteCommand r (ds_outcome s),
                         ds_world := w\<rparr>))"

definition dispatch_intent ::
    "'s dispatcher \<Rightarrow> normalized_event \<Rightarrow> string \<times> action_intent \<Rightarrow> 's dispatch_state \<Rightarrow> 's dispatch_state" where
  "dispatch_intent d event ui s =
     (case ui of (uuid, intent) \<Rightarrow>
      if do_dropped (ds_outcome s)
      then s\<lparr>ds_outcome := push_skipped (AfterDrop (action_type intent)) (ds_outcome s)\<rparr>
      else
        (case intent_event_id intent of
           Some aid \<Rightarrow>
             if aid \<noteq> ev_id event
             then s\<lparr>ds_outcome := push_skipped (EventMismatch (action_type intent) aid) (ds_outcome s)\<rparr>
             else execute_intent d uuid event intent s
         | None \<Rightarrow> execute_intent d uuid event intent s))"

text \<open>
  Each intent comes with the UUID that would be generated for it; only \<^verbatim>\<open>ExecuteCommand\<close> uses it.
\<close>

definition dispatch ::
    "'s dispatcher \<Rightarrow> normalized_event \<Rightarrow> (string \<times> action_intent) list \<Rightarrow> 's \<Rightarrow>
     (dispatch_error + dispatch_outcome) \<times> 's" where
  "dispatch d event intents w =
     (if length intents > dl_max_intents_per_event (dp_limits d)
      then (Inl (TooManyIntents (length intents) (dl_max_intents_per_event (dp_limits d))), w)
      else
        let s = fold (dispatch_intent d event) intents
                  \<lparr>ds_outcome = dispatch_outcome_new (ev_id event), ds_overlay = [], ds_world = w\<rparr>
        in (Inr ((ds_outcome s)\<lparr>do_metadata_overlay := ds_overlay s\<rparr>), ds_world s))"

section \<open>Contracts of the boundaries\<close>

locale realtime_sink =
  fixes try_publish :: "'s realtime_event_sink"
  assumes publish_receipt: "try_publish e s = (Inr r, s') \<Longrightarrow> rr_accepted r"

locale forward_boundary =
  fixes try_forward :: "'s event_forwarder"
  assumes forward_receipt: "try_forward req s = (Inr r, s') \<Longrightarrow> fc_sink_id r = fr_sink_id req \<and> fc_accepted r"

locale command_boundary =
  fixes try_enqueue :: "'s command_request_queue"
  assumes enqueue_receipt: "try_enqueue req s = (Inr r, s') \<Longrightarrow>
      cq_command_execution_id r = cx_command_execution_id req \<and>
      cq_command_template_id r = cx_command_template_id req \<and> cq_accepted r"

interpretation bounded_sink: realtime_sink "bounded_sink_try_publish ts" for ts
  by unfold_locales
    (auto simp: bounded_sink_try_publish_def split: sum.splits prod.splits try_send_error.splits)

interpretation http_forward: forward_boundary "http_try_forward lib ev ts" for lib ev ts
  by unfold_locales (rule http_try_forward_receipt)

interpretation disabled_forward: forward_boundary disabled_try_forward
  by unfold_locales (simp add: disabled_try_forward_def)

interpretation disabled_commands: command_boundary disabled_try_enqueue_command
  by unfold_locales (simp add: disabled_try_enqueue_command_def)

text \<open>What an executed action says of the intent it came from.\<close>

fun executes :: "action_intent \<Rightarrow> executed_action \<Rightarrow> bool" where
  "executes (StreamToUi _) (ExecStreamToUi r) = rr_accepted r"
| "executes (ForwardToSink _ sid _) (ExecForwardToSink r) = (fc_sink_id r = sid \<and> fc_accepted r)"
| "executes (ExecuteCommand _ tid _ _) (ExecExecuteCommand r) = (cq_command_template_id r = tid \<and> cq_accepted r)"
| "executes (DropEvent _ _) ExecDropEvent = True"
| "executes (AddMetadata _ key _) (ExecAddMetadata k) = (k = key)"
| "executes _ _ = False"

definition executed_from :: "action_intent list \<Rightarrow> executed_action list \<Rightarrow> bool" where
  "executed_from intents xs \<longleftrightarrow> (\<forall>x \<in> set xs. \<exists>i \<in> set intents. executes i x)"

lemma executed_from_push:
  "executed_from is xs \<Longrightarrow> i \<in> set is \<Longrightarrow> executes i x \<Longrightarrow> executed_from is (xs @ [x])"
  by (auto simp: executed_from_def)

lemmas push_defs = push_executed_def push_skipped_def push_failed_def push_result_def

locale dispatch_boundary =
  realtime_sink try_publish + forward_boundary try_forward + command_boundary try_enqueue
  for try_publish :: "'s realtime_event_sink" and try_forward :: "'s event_forwarder"
    and try_enqueue :: "'s command_request_queue"
begin

definition with_limits :: "dispatch_limits \<Rightarrow> 's dispatcher" where
  "with_limits l = \<lparr>dp_realtime = try_publish, dp_forwarder = try_forward,
                    dp_command_queue = try_enqueue, dp_limits = l\<rparr>"

lemma execute_intent_executed:
  assumes "executed_from is (do_executed (ds_outcome s))" and "i \<in> set is"
  shows "executed_from is (do_executed (ds_outcome (execute_intent (with_limits l) uuid event i s)))"
proof (cases i)
  case (StreamToUi e)
  obtain r w where r: "try_publish (enriched_event event (ds_overlay s)) (ds_world s) = (r, w)"
    by fastforce
  have "rr_accepted x" if "r = Inr x" for x
    using publish_receipt [of "enriched_event event (ds_overlay s)" "ds_world s" x w] r that by simp
  with r assms StreamToUi show ?thesis
    by (cases r) (simp_all add: with_limits_def push_defs executed_from_push)
next
  case (ForwardToSink e sid p)
  let ?q = "\<lparr>fr_event = enriched_event event (ds_overlay s), fr_sink_id = sid, fr_projection = p\<rparr>"
  obtain r w where r: "try_forward ?q (ds_world s) = (r, w)" by fastforce
  have "fc_sink_id x = sid \<and> fc_accepted x" if "r = Inr x" for x
    using forward_receipt [of ?q "ds_world s" x w] r that by simp
  with r assms ForwardToSink show ?thesis
    by (cases r) (simp_all add: with_limits_def push_defs executed_from_push)
next
  case (ExecuteCommand e tid ps cid)
  show ?thesis
  proof (cases "command_request_from_intent uuid event tid ps cid")
    case (Inl err)
    with assms ExecuteCommand show ?thesis by (simp add: push_defs)
  next
    case (Inr q)
    then have q: "cx_command_template_id q = tid" by (auto simp: command_request_from_intent_def)
    obtain r w where r: "try_enqueue q (ds_world s) = (r, w)" by fastforce
    have "cq_command_template_id x = tid \<and> cq_accepted x" if "r = Inr x" for x
      using enqueue_receipt [of q "ds_world s" x w] r that q by simp
    with r Inr assms ExecuteCommand show ?thesis
      by (cases r) (simp_all add: with_limits_def push_defs executed_from_push)
  qed
qed (use assms in \<open>auto simp: with_limits_def push_defs executed_from_push split: sum.splits\<close>)

lemma dispatch_intent_executed:
  assumes "executed_from is (do_executed (ds_outcome s))" and "snd ui \<in> set is"
  shows "executed_from is (do_executed (ds_outcome (dispatch_intent (with_limits l) event ui s)))"
  using assms execute_intent_executed [OF assms]
  by (cases ui) (auto simp: dispatch_intent_def push_skipped_def split: option.splits)

text \<open>Whatever the boundaries do, an executed action is an accepted receipt for one of the intents.\<close>

lemma dispatch_executed:
  assumes "dispatch (with_limits l) event uis w = (Inr out, w')"
  shows "executed_from (map snd uis) (do_executed out)"
proof -
  let ?s = "fold (dispatch_intent (with_limits l) event) uis
              \<lparr>ds_outcome = dispatch_outcome_new (ev_id event), ds_overlay = [], ds_world = w\<rparr>"
  have "executed_from (map snd uis) (do_executed (ds_outcome ?s))"
    by (rule fold_invariant [where Q = "\<lambda>ui. snd ui \<in> set (map snd uis)"])
      (simp, simp add: executed_from_def dispatch_outcome_new_def, erule (1) dispatch_intent_executed)
  moreover have "do_executed out = do_executed (ds_outcome ?s)"
    using assms by (auto simp: dispatch_def Let_def split: if_splits)
  ultimately show ?thesis by simp
qed

end

section \<open>The dispatcher of the program\<close>

text \<open>The three handles a dispatcher owns are independent: the state is one component for each.\<close>

record ('r, 'f, 'c) handles =
  hd_realtime :: 'r
  hd_forwarder :: 'f
  hd_commands :: 'c

definition on_realtime :: "'r realtime_event_sink \<Rightarrow> ('r, 'f, 'c) handles realtime_event_sink" where
  "on_realtime f e h = (case f e (hd_realtime h) of (r, x) \<Rightarrow> (r, h\<lparr>hd_realtime := x\<rparr>))"

definition on_forwarder :: "'f event_forwarder \<Rightarrow> ('r, 'f, 'c) handles event_forwarder" where
  "on_forwarder f e h = (case f e (hd_forwarder h) of (r, x) \<Rightarrow> (r, h\<lparr>hd_forwarder := x\<rparr>))"

definition on_commands :: "'c command_request_queue \<Rightarrow> ('r, 'f, 'c) handles command_request_queue" where
  "on_commands f e h = (case f e (hd_commands h) of (r, x) \<Rightarrow> (r, h\<lparr>hd_commands := x\<rparr>))"

lemma realtime_sink_on: "realtime_sink f \<Longrightarrow> realtime_sink (on_realtime f)"
  by (auto simp: realtime_sink_def on_realtime_def split: prod.splits)

lemma forward_boundary_on: "forward_boundary f \<Longrightarrow> forward_boundary (on_forwarder f)"
  by (fastforce simp: forward_boundary_def on_forwarder_def split: prod.splits)

lemma command_boundary_on: "command_boundary f \<Longrightarrow> command_boundary (on_commands f)"
  by (fastforce simp: command_boundary_def on_commands_def split: prod.splits)

text \<open>\<^verbatim>\<open>ActionDispatcher::new\<close> over the bounded sink and the HTTP forwarder: commands are disabled.\<close>

interpretation plain_dispatcher: dispatch_boundary
  "on_realtime (bounded_sink_try_publish ts)" "on_forwarder (http_try_forward lib ev us)"
  "on_commands disabled_try_enqueue_command" for ts lib ev us
  by (intro dispatch_boundary.intro realtime_sink_on forward_boundary_on command_boundary_on
      bounded_sink.realtime_sink_axioms http_forward.forward_boundary_axioms
      disabled_commands.command_boundary_axioms)

section \<open>Accounting\<close>

definition outcome_size :: "dispatch_outcome \<Rightarrow> nat" where
  "outcome_size o' = length (do_executed o') + length (do_skipped o') + length (do_failed o')"

lemma execute_intent_size:
  "outcome_size (ds_outcome (execute_intent d uuid event i s)) = Suc (outcome_size (ds_outcome s))"
  by (cases i) (auto simp: outcome_size_def push_defs split: prod.splits sum.splits)

lemma dispatch_intent_size:
  "outcome_size (ds_outcome (dispatch_intent d event ui s)) = Suc (outcome_size (ds_outcome s))"
proof -
  have skip: "outcome_size (push_skipped a o') = Suc (outcome_size o')" for a o'
    by (simp add: outcome_size_def push_skipped_def)
  show ?thesis
    by (cases ui) (simp add: dispatch_intent_def execute_intent_size skip split: option.splits)
qed

lemma fold_dispatch_size:
  "outcome_size (ds_outcome (fold (dispatch_intent d event) uis s)) = outcome_size (ds_outcome s) + length uis"
  by (induction uis arbitrary: s) (simp_all add: dispatch_intent_size)

section \<open>After a drop\<close>

text \<open>Once the event is dropped, every further intent is skipped and nothing else changes.\<close>

lemma fold_after_drop:
  "do_dropped (ds_outcome s) \<Longrightarrow>
   fold (dispatch_intent d event) uis s =
     s\<lparr>ds_outcome := (ds_outcome s)\<lparr>do_skipped := do_skipped (ds_outcome s) @
                                      map (\<lambda>ui. AfterDrop (action_type (snd ui))) uis\<rparr>\<rparr>"
proof (induction uis arbitrary: s)
  case (Cons ui uis)
  then show ?case by (cases ui) (simp add: dispatch_intent_def push_skipped_def)
qed simp

lemma dispatch_drop_step:
  "\<not> do_dropped (ds_outcome s) \<Longrightarrow> e = ev_id event \<Longrightarrow>
   dispatch_intent d event (uuid, DropEvent e reason) s =
     s\<lparr>ds_outcome := push_executed ExecDropEvent ((ds_outcome s)\<lparr>do_dropped := True\<rparr>)\<rparr>"
  by (simp add: dispatch_intent_def)

definition drops :: "event_id \<Rightarrow> action_intent \<Rightarrow> bool" where
  "drops eid i \<longleftrightarrow> (case i of DropEvent e _ \<Rightarrow> e = eid | _ \<Rightarrow> False)"

lemma dispatch_intent_dropped:
  "do_dropped (ds_outcome (dispatch_intent d event ui s)) \<longleftrightarrow>
     do_dropped (ds_outcome s) \<or> drops (ev_id event) (snd ui)"
proof (cases ui)
  case (Pair uuid i)
  then show ?thesis
    by (cases i) (auto simp: dispatch_intent_def push_defs drops_def split: prod.splits sum.splits)
qed

lemma fold_dispatch_dropped:
  "do_dropped (ds_outcome (fold (dispatch_intent d event) uis s)) \<longleftrightarrow>
     do_dropped (ds_outcome s) \<or> (\<exists>ui \<in> set uis. drops (ev_id event) (snd ui))"
  by (induction uis arbitrary: s) (auto simp: dispatch_intent_dropped)

section \<open>The overlay\<close>

definition overlay_ok :: "dispatch_limits \<Rightarrow> (string, string) bmap \<Rightarrow> bool" where
  "overlay_ok l m \<longleftrightarrow>
     bm_wf m \<and> length m \<le> dl_max_metadata_entries_per_event l \<and>
     (\<forall>k v. map_of m k = Some v \<longrightarrow>
        \<not> reserved_key k \<and> k \<noteq> [] \<and> length k \<le> dl_max_metadata_key_bytes l \<and>
        length v \<le> dl_max_metadata_value_bytes l)"

lemma overlay_ok_Nil [simp]: "overlay_ok l []"
  by (simp add: overlay_ok_def)

lemma insert_metadata_ok:
  assumes "insert_metadata k v l m = Inr m'" and "overlay_ok l m"
  shows "overlay_ok l m'"
proof -
  from assms(1) have ins: "m' = bm_insert k v m" and valid: "validate_metadata k v l = Inr ()"
    and room: "map_of m k \<noteq> None \<or> length m < dl_max_metadata_entries_per_event l"
    by (auto simp: insert_metadata_def split: if_splits)
  from assms(2) have wf: "bm_wf m" and len: "length m \<le> dl_max_metadata_entries_per_event l"
    by (simp_all add: overlay_ok_def)
  have "length m' \<le> dl_max_metadata_entries_per_event l"
    using bm.size_insert [OF wf, of k v] room len by (auto simp: ins split: if_splits)
  with assms(2) wf valid show ?thesis
    by (auto simp: overlay_ok_def ins validate_metadata_def validate_action_metadata_iff
        dispatch_metadata_limits_def)
qed

lemma dispatch_intent_overlay:
  "overlay_ok (dp_limits d) (ds_overlay s) \<Longrightarrow> overlay_ok (dp_limits d) (ds_overlay (dispatch_intent d event ui s))"
proof (cases ui)
  case (Pair uuid i)
  assume "overlay_ok (dp_limits d) (ds_overlay s)"
  with Pair show ?thesis
    by (cases i)
      (auto simp: dispatch_intent_def push_defs split: prod.splits sum.splits dest: insert_metadata_ok)
qed

lemma fold_dispatch_overlay:
  "overlay_ok (dp_limits d) (ds_overlay s) \<Longrightarrow>
   overlay_ok (dp_limits d) (ds_overlay (fold (dispatch_intent d event) uis s))"
  by (induction uis arbitrary: s) (simp_all add: dispatch_intent_overlay)

lemma enriched_lookup:
  "bm_wf (ev_metadata event) \<Longrightarrow> bm_wf overlay \<Longrightarrow>
   map_of (ev_metadata (enriched_event event overlay)) = map_of (ev_metadata event) ++ map_of overlay"
  by (simp add: enriched_event_def map_of_bm_extend_wf)

section \<open>Confinement\<close>

text \<open>
  What the boundaries are handed: the event with nothing but its metadata changed, and command requests
  of the event's project. Any condition on the world that such calls keep is kept by a dispatch.
\<close>

definition same_but_metadata :: "normalized_event \<Rightarrow> normalized_event \<Rightarrow> bool" where
  "same_but_metadata e e' \<longleftrightarrow> e'\<lparr>ev_metadata := ev_metadata e\<rparr> = e"

lemma enriched_same: "same_but_metadata event (enriched_event event overlay)"
  by (simp add: same_but_metadata_def enriched_event_def)

definition request_for :: "normalized_event \<Rightarrow> command_execution_request \<Rightarrow> bool" where
  "request_for event r \<longleftrightarrow>
     cx_project_id r = ev_project_id event \<and> cx_source_event_id r = Some (ev_id event) \<and>
     cx_source r = SourceRule \<and> cx_actor_id r = None"

definition keeps :: "('s \<Rightarrow> bool) \<Rightarrow> 's dispatcher \<Rightarrow> normalized_event \<Rightarrow> bool" where
  "keeps P d event \<longleftrightarrow>
     (\<forall>e w. same_but_metadata event e \<longrightarrow> P w \<longrightarrow> P (snd (dp_realtime d e w))) \<and>
     (\<forall>r w. same_but_metadata event (fr_event r) \<longrightarrow> P w \<longrightarrow> P (snd (dp_forwarder d r w))) \<and>
     (\<forall>r w. request_for event r \<longrightarrow> P w \<longrightarrow> P (snd (dp_command_queue d r w)))"

lemma execute_intent_keeps:
  assumes "keeps P d event" and "P (ds_world s)"
  shows "P (ds_world (execute_intent d uuid event i s))"
proof (cases i)
  case (ExecuteCommand e tid ps cid)
  have "request_for event q" if "command_request_from_intent uuid event tid ps cid = Inr q" for q
    using that by (auto simp: command_request_from_intent_def request_for_def)
  with assms ExecuteCommand show ?thesis
    by (fastforce simp: keeps_def split: sum.splits prod.splits)
next
  case (StreamToUi e)
  have "P (snd (dp_realtime d (enriched_event event (ds_overlay s)) (ds_world s)))"
    using assms enriched_same unfolding keeps_def by blast
  with StreamToUi show ?thesis by (simp add: case_prod_beta)
next
  case (ForwardToSink e sid p)
  have "P (snd (dp_forwarder d \<lparr>fr_event = enriched_event event (ds_overlay s), fr_sink_id = sid,
                                fr_projection = p\<rparr> (ds_world s)))"
    using assms enriched_same unfolding keeps_def by simp
  with ForwardToSink show ?thesis by (simp add: case_prod_beta)
qed (use assms(2) in \<open>simp_all split: sum.splits\<close>)

lemma fold_dispatch_keeps:
  "keeps P d event \<Longrightarrow> P (ds_world s) \<Longrightarrow> P (ds_world (fold (dispatch_intent d event) uis s))"
proof (induction uis arbitrary: s)
  case (Cons ui uis)
  have "P (ds_world (dispatch_intent d event ui s))"
    using Cons.prems execute_intent_keeps [OF Cons.prems]
    by (cases ui) (simp add: dispatch_intent_def split: option.splits)
  with Cons.IH Cons.prems show ?case by simp
qed simp

section \<open>Properties\<close>

lemma dispatch_outcome_of:
  assumes "dispatch d event uis w = (Inr out, w')"
  obtains s where
    "s = fold (dispatch_intent d event) uis
           \<lparr>ds_outcome = dispatch_outcome_new (ev_id event), ds_overlay = [], ds_world = w\<rparr>"
    "length uis \<le> dl_max_intents_per_event (dp_limits d)"
    "out = (ds_outcome s)\<lparr>do_metadata_overlay := ds_overlay s\<rparr>" "w' = ds_world s"
  using assms by (auto simp: dispatch_def Let_def split: if_splits)

text \<open>A dispatcher whose boundaries accept everything and count the calls.\<close>

definition counting_dispatcher :: "nat dispatcher" where
  "counting_dispatcher =
     \<lparr>dp_realtime = (\<lambda>e n. (Inr \<lparr>rr_accepted = True\<rparr>, Suc n)),
      dp_forwarder = (\<lambda>r n. (Inr \<lparr>fc_sink_id = fr_sink_id r, fc_accepted = True\<rparr>, Suc n)),
      dp_command_queue = (\<lambda>r n. (Inl CommandQueueUnavailable, n)),
      dp_limits = \<lparr>dl_max_intents_per_event = 8, dl_max_metadata_entries_per_event = 1,
                   dl_max_metadata_key_bytes = 8, dl_max_metadata_value_bytes = 8\<rparr>\<rparr>"

definition sample_intents :: "(string \<times> action_intent) list" where
  "sample_intents =
     [(''0'', AddMetadata ''evt_0'' ''level'' ''high''), (''1'', StreamToUi ''evt_0''),
      (''2'', StreamToUi ''evt_9''), (''3'', DropEvent ''evt_0'' None), (''4'', StreamToUi ''evt_0'')]"

definition sample_outcome :: dispatch_outcome where
  "sample_outcome =
     \<lparr>do_event_id = ''evt_0'',
      do_executed = [ExecAddMetadata ''level'', ExecStreamToUi \<lparr>rr_accepted = True\<rparr>, ExecDropEvent],
      do_skipped = [EventMismatch ''stream_to_ui'' ''evt_9'', AfterDrop ''stream_to_ui''],
      do_failed = [], do_dropped = True, do_metadata_overlay = [(''level'', ''high'')]\<rparr>"

lemma sample_dispatch:
  "dispatch counting_dispatcher sample_event sample_intents 0 = (Inr sample_outcome, 1)"
  by code_simp

text \<open>C5: every intent handed to the dispatcher ends in exactly one of the three lists of the outcome, and
  the event counts as dropped exactly when one of them drops it.\<close>

theorem dispatch_accounts_for_intents:
  assumes "dispatch d event uis w = (Inr out, w')"
  shows "length (do_executed out) + length (do_skipped out) + length (do_failed out) = length uis \<and>
         length uis \<le> dl_max_intents_per_event (dp_limits d) \<and>
         do_dropped out = list_ex (\<lambda>ui. drops (ev_id event) (snd ui)) uis"
proof -
  obtain s where s: "s = fold (dispatch_intent d event) uis
           \<lparr>ds_outcome = dispatch_outcome_new (ev_id event), ds_overlay = [], ds_world = w\<rparr>"
    "length uis \<le> dl_max_intents_per_event (dp_limits d)"
    "out = (ds_outcome s)\<lparr>do_metadata_overlay := ds_overlay s\<rparr>"
    using dispatch_outcome_of [OF assms] by blast
  have "outcome_size (ds_outcome s) = length uis"
    by (simp add: s(1) fold_dispatch_size) (simp add: outcome_size_def dispatch_outcome_new_def)
  moreover have "do_dropped (ds_outcome s) = list_ex (\<lambda>ui. drops (ev_id event) (snd ui)) uis"
    by (simp add: s(1) fold_dispatch_dropped list_ex_iff dispatch_outcome_new_def)
  ultimately show ?thesis using s(2,3) by (simp add: outcome_size_def)
qed

theorem dispatch_accounts_for_intents_witness:
  "length (do_executed sample_outcome) + length (do_skipped sample_outcome) + length (do_failed sample_outcome) =
     length sample_intents \<and> do_dropped sample_outcome"
  using dispatch_accounts_for_intents [OF sample_dispatch]
  by (simp add: sample_outcome_def)

text \<open>C6: once an intent drops the event, nothing after it has an effect: the world, the metadata overlay,
  the executed and the failed actions are those of the intents up to the drop, and each later intent is
  skipped as such.\<close>

theorem nothing_executes_after_drop:
  assumes "dispatch d event (pre @ (uuid, DropEvent (ev_id event) reason) # post) w = (Inr out, w')"
    and "\<not> list_ex (\<lambda>ui. drops (ev_id event) (snd ui)) pre"
  shows "\<exists>out1. dispatch d event (pre @ [(uuid, DropEvent (ev_id event) reason)]) w = (Inr out1, w') \<and>
           out = out1\<lparr>do_skipped := do_skipped out1 @ map (\<lambda>ui. AfterDrop (action_type (snd ui))) post\<rparr>"
proof -
  let ?drop = "(uuid, DropEvent (ev_id event) reason)"
  let ?s0 = "\<lparr>ds_outcome = dispatch_outcome_new (ev_id event), ds_overlay = [], ds_world = w\<rparr>"
  let ?s1 = "fold (dispatch_intent d event) (pre @ [?drop]) ?s0"
  have "do_dropped (ds_outcome ?s1)"
    by (simp only: fold_dispatch_dropped) (simp add: drops_def)
  then have rest: "fold (dispatch_intent d event) (pre @ ?drop # post) ?s0 =
      ?s1\<lparr>ds_outcome := (ds_outcome ?s1)\<lparr>do_skipped := do_skipped (ds_outcome ?s1) @
                                      map (\<lambda>ui. AfterDrop (action_type (snd ui))) post\<rparr>\<rparr>"
    using fold_after_drop [of ?s1 d event post] by simp
  have len: "length (pre @ [?drop]) \<le> dl_max_intents_per_event (dp_limits d)"
    using assms(1) by (auto simp: dispatch_def split: if_splits)
  have "dispatch d event (pre @ [?drop]) w =
      (Inr ((ds_outcome ?s1)\<lparr>do_metadata_overlay := ds_overlay ?s1\<rparr>), ds_world ?s1)"
    using len by (simp add: dispatch_def Let_def)
  moreover have "out = ((ds_outcome ?s1)\<lparr>do_metadata_overlay := ds_overlay ?s1\<rparr>)
      \<lparr>do_skipped := do_skipped (ds_outcome ?s1) @ map (\<lambda>ui. AfterDrop (action_type (snd ui))) post\<rparr>"
    and "w' = ds_world ?s1"
    using assms(1) rest by (auto simp: dispatch_def Let_def split: if_splits)
  ultimately show ?thesis by simp
qed

theorem nothing_executes_after_drop_witness:
  "\<exists>out1. dispatch counting_dispatcher sample_event (take 4 sample_intents) 0 = (Inr out1, 1) \<and>
     do_executed out1 = do_executed sample_outcome \<and> length (do_skipped out1) = 1"
proof -
  have d: "dispatch counting_dispatcher sample_event
      ([(''0'', AddMetadata ''evt_0'' ''level'' ''high''), (''1'', StreamToUi ''evt_0''),
        (''2'', StreamToUi ''evt_9'')] @ (''3'', DropEvent (ev_id sample_event) None) #
       [(''4'', StreamToUi ''evt_0'')]) 0 = (Inr sample_outcome, 1)"
    using sample_dispatch by (simp add: sample_intents_def sample_event_def)
  from nothing_executes_after_drop [OF d]
  obtain out1 where run: "dispatch counting_dispatcher sample_event (take 4 sample_intents) 0 = (Inr out1, 1)"
    and out: "sample_outcome = out1\<lparr>do_skipped := do_skipped out1 @ [AfterDrop ''stream_to_ui'']\<rparr>"
    by (auto simp: drops_def sample_intents_def sample_event_def)
  have "do_executed out1 = do_executed sample_outcome" using arg_cong [OF out, of do_executed] by simp
  moreover have "do_skipped sample_outcome = do_skipped out1 @ [AfterDrop ''stream_to_ui'']"
    using arg_cong [OF out, of do_skipped] by simp
  then have "length (do_skipped sample_outcome) = Suc (length (do_skipped out1))" by simp
  then have "length (do_skipped out1) = 1" by (simp add: sample_outcome_def)
  ultimately show ?thesis using run by blast
qed

text \<open>The metadata a dispatch adds is bounded in number and size, never uses a reserved key, and the
  enriched event is the original with exactly those entries overriding its metadata.\<close>

lemma dispatch_metadata_bounded:
  assumes "dispatch d event uis w = (Inr out, w')" and "bm_wf (ev_metadata event)"
  shows "length (do_metadata_overlay out) \<le> dl_max_metadata_entries_per_event (dp_limits d) \<and>
         (\<forall>k v. map_of (do_metadata_overlay out) k = Some v \<longrightarrow>
            \<not> reserved_key k \<and> length k \<le> dl_max_metadata_key_bytes (dp_limits d) \<and>
            length v \<le> dl_max_metadata_value_bytes (dp_limits d)) \<and>
         map_of (ev_metadata (outcome_enriched_event out event)) =
           map_of (ev_metadata event) ++ map_of (do_metadata_overlay out)"
proof -
  obtain s where s: "s = fold (dispatch_intent d event) uis
           \<lparr>ds_outcome = dispatch_outcome_new (ev_id event), ds_overlay = [], ds_world = w\<rparr>"
    "out = (ds_outcome s)\<lparr>do_metadata_overlay := ds_overlay s\<rparr>"
    using dispatch_outcome_of [OF assms(1)] by blast
  have "overlay_ok (dp_limits d) (ds_overlay s)"
    unfolding s(1) by (rule fold_dispatch_overlay) simp
  then have ok: "overlay_ok (dp_limits d) (do_metadata_overlay out)" by (simp add: s(2))
  moreover have "outcome_enriched_event out event = enriched_event event (do_metadata_overlay out)"
    by (simp add: outcome_enriched_event_def enriched_event_def)
  moreover have "map_of (ev_metadata (enriched_event event (do_metadata_overlay out))) =
      map_of (ev_metadata event) ++ map_of (do_metadata_overlay out)"
    using ok assms(2) by (intro enriched_lookup) (simp_all add: overlay_ok_def)
  ultimately show ?thesis by (simp add: overlay_ok_def)
qed

text \<open>The boundaries only ever see the dispatched event with its metadata changed, and command requests
  of that event's project on behalf of the rule engine: whatever condition such calls keep, a dispatch
  keeps.\<close>

lemma dispatch_confined:
  assumes "\<And>e w. same_but_metadata event e \<Longrightarrow> P w \<Longrightarrow> P (snd (dp_realtime d e w))"
    and "\<And>r w. same_but_metadata event (fr_event r) \<Longrightarrow> P w \<Longrightarrow> P (snd (dp_forwarder d r w))"
    and "\<And>r w. cx_project_id r = ev_project_id event \<Longrightarrow> cx_source_event_id r = Some (ev_id event) \<Longrightarrow>
                cx_source r = SourceRule \<Longrightarrow> P w \<Longrightarrow> P (snd (dp_command_queue d r w))"
    and "P w" and "dispatch d event uis w = (result, w')"
  shows "P w'"
proof -
  have "keeps P d event" using assms(1-3) by (auto simp: keeps_def request_for_def)
  from fold_dispatch_keeps [OF this, of "\<lparr>ds_outcome = dispatch_outcome_new (ev_id event),
      ds_overlay = [], ds_world = w\<rparr>" uis] assms(4)
  have "P (ds_world (fold (dispatch_intent d event) uis
      \<lparr>ds_outcome = dispatch_outcome_new (ev_id event), ds_overlay = [], ds_world = w\<rparr>))" by simp
  with assms(4,5) show ?thesis by (auto simp: dispatch_def Let_def split: if_splits)
qed

text \<open>A dispatcher that writes down the project of everything it is handed.\<close>

definition logging_dispatcher :: "project_id list dispatcher" where
  "logging_dispatcher =
     \<lparr>dp_realtime = (\<lambda>e ps. (Inr \<lparr>rr_accepted = True\<rparr>, ev_project_id e # ps)),
      dp_forwarder = (\<lambda>r ps. (Inl (SinkNotFound (fr_sink_id r)), ev_project_id (fr_event r) # ps)),
      dp_command_queue = (\<lambda>r ps. (Inl CommandQueueUnavailable, cx_project_id r # ps)),
      dp_limits = dp_limits counting_dispatcher\<rparr>"

lemma same_but_metadata_project: "same_but_metadata event e \<Longrightarrow> ev_project_id e = ev_project_id event"
  unfolding same_but_metadata_def by (drule arg_cong [where f = ev_project_id]) simp

text \<open>Over the bounded sink and the HTTP forwarder, every executed action of an outcome is an accepted
  receipt for one of the intents, naming its sink or template.\<close>

lemma executed_actions_were_requested:
  assumes "dispatch \<lparr>dp_realtime = on_realtime (bounded_sink_try_publish ts),
                     dp_forwarder = on_forwarder (http_try_forward lib ev us),
                     dp_command_queue = on_commands disabled_try_enqueue_command,
                     dp_limits = limits\<rparr> event uis w = (Inr out, w')"
    and "x \<in> set (do_executed out)"
  shows "\<exists>i \<in> set (map snd uis). executes i x"
  using plain_dispatcher.dispatch_executed [unfolded plain_dispatcher.with_limits_def, OF assms(1)] assms(2)
  by (simp add: executed_from_def)

definition sample_handles ::
    "(normalized_event vec_queue, (unit, unit queued_forward_request vec_queue) http_forwarder, unit) handles" where
  "sample_handles =
     \<lparr>hd_realtime = \<lparr>vq_capacity = 1, vq_items = [], vq_closed = False\<rparr>,
      hd_forwarder = sample_forwarder, hd_commands = ()\<rparr>"

definition sample_dispatcher ::
    "(normalized_event vec_queue, (unit, unit queued_forward_request vec_queue) http_forwarder, unit) handles dispatcher" where
  "sample_dispatcher =
     \<lparr>dp_realtime = on_realtime (bounded_sink_try_publish vq_try_send),
      dp_forwarder = on_forwarder (http_try_forward sample_lib (\<lambda>_. Inr ''o'') vq_try_send),
      dp_command_queue = on_commands disabled_try_enqueue_command,
      dp_limits = \<lparr>dl_max_intents_per_event = 8, dl_max_metadata_entries_per_event = 1,
                   dl_max_metadata_key_bytes = 8, dl_max_metadata_value_bytes = 8\<rparr>\<rparr>"

end
