(* ===== verification/Normalizer.thy ===== *)
theory Normalizer
  imports Topic_Router
begin

text \<open>
  Turning a routed message into a normalized event (\<^verbatim>\<open>pipeline/normalizer.rs\<close> and \<^verbatim>\<open>pipeline/mod.rs\<close>):
  size and depth limits, decoding, device id and field extraction. The JSON parser and the fresh
  UUID are arguments.
\<close>

section \<open>Limits and context\<close>

record normalizer_limits =
  nl_max_payload_size_bytes :: nat
  nl_max_raw_payload_size_bytes :: nat
  nl_max_json_depth :: nat
  nl_max_extracted_fields :: nat
  nl_retain_raw_payload :: bool

definition normalizer_limits_default :: normalizer_limits where
  "normalizer_limits_default =
     \<lparr>nl_max_payload_size_bytes = 256 * 1024, nl_max_raw_payload_size_bytes = 64 * 1024,
      nl_max_json_depth = 32, nl_max_extracted_fields = 128, nl_retain_raw_payload = True\<rparr>"

record normalization_context =
  nc_project_id :: project_id
  nc_route :: topic_route_config
  nc_params :: topic_params
  nc_schema_mapping :: "payload_schema_mapping option"

section \<open>Decoding\<close>

definition validate_payload_size :: "string \<Rightarrow> nat \<Rightarrow> mqtt_engine_error + unit" where
  "validate_payload_size payload max_bytes =
     (if length payload > max_bytes then Inl (Pipeline (PayloadTooLarge (length payload) max_bytes))
      else Inr ())"

text \<open>\<^verbatim>\<open>iter.max().unwrap_or(0)\<close>\<close>

definition max_or_zero :: "nat list \<Rightarrow> nat" where
  "max_or_zero ns = foldr max ns 0"

lemma max_or_zero_simps [simp]:
  "max_or_zero [] = 0" "max_or_zero (n # ns) = max n (max_or_zero ns)"
  by (simp_all add: max_or_zero_def)

lemma max_or_zero_ge: "n \<in> set ns \<Longrightarrow> n \<le> max_or_zero ns"
  by (induction ns) auto

fun json_depth :: "json \<Rightarrow> nat" where
  "json_depth (JArray vs) = max_or_zero (map json_depth vs) + 1"
| "json_depth (JObject m) = max_or_zero (map (\<lambda>kv. json_depth (snd kv)) m) + 1"
| "json_depth _ = 1"

definition decode_payload ::
    "serde_lib \<Rightarrow> payload_codec_kind \<Rightarrow> string \<Rightarrow> nat \<Rightarrow> mqtt_engine_error + decoded_payload" where
  "decode_payload lib codec payload max_json_depth =
     (case codec of
        CodecJson \<Rightarrow>
          res_bind (map_err (\<lambda>err. Pipeline (InvalidJson err)) (from_slice lib payload)) (\<lambda>v.
            let depth = json_depth v in
            if depth > max_json_depth then Inl (Pipeline (JsonTooDeep depth max_json_depth))
            else Inr (DecodedJson v))
      | CodecRaw \<Rightarrow> Inr (DecodedRaw payload))"

fun content_type_for_codec :: "payload_codec_kind \<Rightarrow> string option" where
  "content_type_for_codec CodecJson = Some ''application/json''"
| "content_type_for_codec CodecRaw = None"

definition build_raw_payload_ref ::
    "string \<Rightarrow> payload_codec_kind \<Rightarrow> bool \<Rightarrow> nat \<Rightarrow> mqtt_engine_error + raw_payload_ref option" where
  "build_raw_payload_ref payload codec retain max_bytes =
     (if \<not> retain then Inr None
      else if length payload > max_bytes
      then Inl (Pipeline (RawPayloadTooLarge (length payload) max_bytes))
      else Inr (Some \<lparr>rw_byte_len = length payload, rw_content_type = content_type_for_codec codec,
                      rw_bytes = payload\<rparr>))"

section \<open>Paths into the payload\<close>

text \<open>\<^verbatim>\<open>Value::get\<close> with a string key: only objects have members.\<close>

fun json_get :: "json \<Rightarrow> string \<Rightarrow> json option" where
  "json_get (JObject m) k = map_of m k"
| "json_get _ k = None"

fun get_json_path :: "json \<Rightarrow> string list \<Rightarrow> json option" where
  "get_json_path v [] = Some v"
| "get_json_path v (seg # segs) =
     (case json_get v seg of None \<Rightarrow> None | Some w \<Rightarrow> get_json_path w segs)"

section \<open>Device id\<close>

definition extract_device_id ::
    "serde_lib \<Rightarrow> topic_route_config \<Rightarrow> topic_params \<Rightarrow> decoded_payload \<Rightarrow>
     mqtt_engine_error + string option" where
  "extract_device_id lib route params payload =
     (case tr_device_id route of
        DeviceNone \<Rightarrow> Inr None
      | DeviceStatic v \<Rightarrow> Inr (Some v)
      | TopicWildcardIndex i \<Rightarrow> Inr (params_single params i)
      | PayloadField path \<Rightarrow>
          (case payload of
             DecodedJson v \<Rightarrow>
               (case get_json_path v (segments path) of
                  Some (JString s) \<Rightarrow> Inr (Some s)
                | Some (JNumber n) \<Rightarrow> Inr (Some (number_to_string lib n))
                | Some (JBool b) \<Rightarrow> Inr (Some (show_bool b))
                | Some _ \<Rightarrow> Inl (Pipeline InvalidDeviceIdFieldType)
                | None \<Rightarrow> Inr None)
           | DecodedRaw _ \<Rightarrow> Inl (Pipeline DeviceIdRequiresJson)))"

section \<open>Extracted fields\<close>

fun json_type_name :: "json \<Rightarrow> string" where
  "json_type_name JNull = ''null''"
| "json_type_name (JBool _) = ''boolean''"
| "json_type_name (JNumber _) = ''number''"
| "json_type_name (JString _) = ''string''"
| "json_type_name (JArray _) = ''array''"
| "json_type_name (JObject _) = ''object''"

fun field_value_type_name :: "field_value_type \<Rightarrow> string" where
  "field_value_type_name TString = ''string''"
| "field_value_type_name TNumber = ''number''"
| "field_value_type_name TBoolean = ''boolean''"
| "field_value_type_name TObject = ''object''"
| "field_value_type_name TArray = ''array''"

fun coerce_field_value :: "string \<Rightarrow> json \<Rightarrow> field_value_type \<Rightarrow> mqtt_engine_error + field_value" where
  "coerce_field_value target (JString s) TString = Inr (field_value_from_json (JString s))"
| "coerce_field_value target (JNumber n) TNumber = Inr (field_value_from_json (JNumber n))"
| "coerce_field_value target (JBool b) TBoolean = Inr (field_value_from_json (JBool b))"
| "coerce_field_value target (JObject m) TObject = Inr (field_value_from_json (JObject m))"
| "coerce_field_value target (JArray a) TArray = Inr (field_value_from_json (JArray a))"
| "coerce_field_value target v expected =
     Inl (Pipeline (TypeMismatch target (field_value_type_name expected) (json_type_name v)))"

definition extract_field ::
    "json \<Rightarrow> (string, field_value) bmap \<Rightarrow> field_mapping \<Rightarrow>
     mqtt_engine_error + (string, field_value) bmap" where
  "extract_field payload flds f =
     (case get_json_path payload (segments (fm_source f)) of
        Some v \<Rightarrow>
          res_bind (coerce_field_value (fm_target f) v (fm_value_type f)) (\<lambda>w.
            Inr (bm_insert (fm_target f) w flds))
      | None \<Rightarrow>
          if fm_required f then Inl (Pipeline (MissingRequiredField (fm_target f) (fm_source f)))
          else (case fm_default f of
                  Some d \<Rightarrow>
                    res_bind (coerce_field_value (fm_target f) d (fm_value_type f)) (\<lambda>w.
                      Inr (bm_insert (fm_target f) w flds))
                | None \<Rightarrow> Inr flds))"

definition extract_fields ::
    "payload_schema_mapping option \<Rightarrow> decoded_payload \<Rightarrow> nat \<Rightarrow>
     mqtt_engine_error + (string, field_value) bmap" where
  "extract_fields mapping payload max_fields =
     (case mapping of
        None \<Rightarrow> Inr []
      | Some m \<Rightarrow>
          res_bind (map_err engine_domain_error (payload_schema_mapping_validate m)) (\<lambda>_.
          if length (sm_fields m) > max_fields
          then Inl (Pipeline (TooManyExtractedFields (length (sm_fields m)) max_fields))
          else
            (case payload of
               DecodedRaw _ \<Rightarrow> Inl (Pipeline MappingRequiresJson)
             | DecodedJson (JObject obj) \<Rightarrow>
                 try_fold (extract_field (JObject obj)) [] (sm_fields m)
             | DecodedJson _ \<Rightarrow> Inl (Pipeline MappingRequiresJsonObject))))"

section \<open>The normalizer\<close>

definition normalize ::
    "serde_lib \<Rightarrow> string \<Rightarrow> normalizer_limits \<Rightarrow> mqtt_message \<Rightarrow> normalization_context \<Rightarrow>
     mqtt_engine_error + normalized_event" where
  "normalize lib uuid limits message context =
     res_bind (map_err engine_domain_error (topic_route_config_validate (nc_route context))) (\<lambda>_.
     res_bind (validate_payload_size (mm_payload message) (nl_max_payload_size_bytes limits)) (\<lambda>_.
     res_bind (decode_payload lib (tr_codec (nc_route context)) (mm_payload message)
                 (nl_max_json_depth limits)) (\<lambda>decoded.
     res_bind (extract_device_id lib (nc_route context) (nc_params context) decoded) (\<lambda>device_id.
     res_bind (extract_fields (nc_schema_mapping context) decoded
                 (nl_max_extracted_fields limits)) (\<lambda>flds.
     res_bind (map_err engine_domain_error (topic_name_new (mm_topic message))) (\<lambda>topic.
     res_bind (build_raw_payload_ref (mm_payload message) (tr_codec (nc_route context))
                 (nl_retain_raw_payload limits) (nl_max_raw_payload_size_bytes limits)) (\<lambda>raw.
     res_bind (map_err engine_domain_error (id_new ''event_id'' (''evt_'' @ uuid))) (\<lambda>event_id.
     Inr \<lparr>ev_id = event_id, ev_correlation_id = event_id,
          ev_project_id = nc_project_id context,
          ev_broker_id = tr_broker_id (nc_route context),
          ev_route_id = tr_id (nc_route context),
          ev_schema_mapping_id = map_option sm_id (nc_schema_mapping context),
          ev_topic = topic, ev_device_id = device_id,
          ev_event_type = tr_event_type (nc_route context),
          ev_received_at = mm_received_at message,
          ev_payload_size_bytes = length (mm_payload message),
          ev_payload = decoded, ev_fields = flds, ev_raw = raw,
          ev_normalization_errors = [], ev_metadata = []\<rparr>))))))))"

definition normalize_routed_message ::
    "serde_lib \<Rightarrow> string \<Rightarrow> config_route_matcher \<Rightarrow> normalizer_limits \<Rightarrow> payload_schema_mapping list \<Rightarrow>
     mqtt_message \<Rightarrow> mqtt_engine_error + normalized_event option" where
  "normalize_routed_message lib uuid matcher limits mappings message =
     (case match_message matcher message of
        None \<Rightarrow> Inr None
      | Some rm \<Rightarrow>
          let schema_mapping =
                (case tr_schema_mapping_id (crx_route rm) of
                   None \<Rightarrow> None
                 | Some mid \<Rightarrow> find (\<lambda>m. sm_id m = mid) mappings)
          in res_map Some
               (normalize lib uuid limits message
                  \<lparr>nc_project_id = crx_project_id rm, nc_route = crx_route rm,
                   nc_params = crx_params rm, nc_schema_mapping = schema_mapping\<rparr>))"

section \<open>Depth and paths\<close>

lemma json_depth_pos: "0 < json_depth v"
  by (cases v) auto

lemma json_get_depth: "json_get v k = Some w \<Longrightarrow> json_depth w < json_depth v"
proof (induction v k rule: json_get.induct)
  case (1 m k)
  then have "(k, w) \<in> set m" by (simp add: map_of_SomeD)
  then have "json_depth w \<in> set (map (\<lambda>kv. json_depth (snd kv)) m)" by force
  then show ?case using max_or_zero_ge by fastforce
qed simp_all

text \<open>Each segment of a path descends one level, so no path is longer than the value is deep.\<close>

lemma get_json_path_depth: "get_json_path v segs = Some w \<Longrightarrow> length segs + json_depth w \<le> json_depth v"
proof (induction v segs rule: get_json_path.induct)
  case (2 v seg segs)
  then show ?case by (auto split: option.splits dest!: json_get_depth)
qed simp

section \<open>What extraction yields\<close>

text \<open>The value a mapping entry reads: the member at its path, or its default when the path is absent.\<close>

definition mapped_value :: "json \<Rightarrow> field_mapping \<Rightarrow> json option" where
  "mapped_value payload f =
     (case get_json_path payload (segments (fm_source f)) of
        Some v \<Rightarrow> Some v
      | None \<Rightarrow> if fm_required f then None else fm_default f)"

fun has_type :: "json \<Rightarrow> field_value_type \<Rightarrow> bool" where
  "has_type (JString _) TString = True"
| "has_type (JNumber _) TNumber = True"
| "has_type (JBool _) TBoolean = True"
| "has_type (JObject _) TObject = True"
| "has_type (JArray _) TArray = True"
| "has_type _ _ = False"

lemma coerce_field_value_eq:
  "coerce_field_value target v ty =
     (if has_type v ty then Inr (field_value_from_json v)
      else Inl (Pipeline (TypeMismatch target (field_value_type_name ty) (json_type_name v))))"
  by (cases v; cases ty) simp_all

definition field_ok :: "json \<Rightarrow> field_mapping \<Rightarrow> bool" where
  "field_ok payload f \<longleftrightarrow>
     (fm_required f \<longrightarrow> mapped_value payload f \<noteq> None) \<and>
     (\<forall>v. mapped_value payload f = Some v \<longrightarrow> has_type v (fm_value_type f))"

definition field_entry :: "json \<Rightarrow> field_mapping \<Rightarrow> (string \<times> field_value) list" where
  "field_entry payload f =
     (case mapped_value payload f of
        None \<Rightarrow> [] | Some v \<Rightarrow> [(fm_target f, field_value_from_json v)])"

lemma extract_field_iff:
  "extract_field payload flds f = Inr out \<longleftrightarrow>
     field_ok payload f \<and> out = bm_extend flds (field_entry payload f)"
  by (auto simp: extract_field_def mapped_value_def field_ok_def field_entry_def
      coerce_field_value_eq bm_extend_def split: option.splits if_splits)

text \<open>The loop succeeds exactly when every entry is acceptable, and inserts the entries in order.\<close>

lemma extract_loop_iff:
  "try_fold (extract_field payload) flds fs = Inr out \<longleftrightarrow>
     (\<forall>f \<in> set fs. field_ok payload f) \<and> out = bm_extend flds (concat (map (field_entry payload) fs))"
proof (induction fs arbitrary: flds)
  case Nil
  then show ?case by auto
next
  case (Cons f fs)
  then show ?case by (auto simp: extract_field_iff bm_extend_def)
qed

lemma extract_fields_Some_iff:
  "extract_fields (Some m) (DecodedJson v) n = Inr flds \<longleftrightarrow>
     payload_schema_mapping_validate m = Inr () \<and> length (sm_fields m) \<le> n \<and>
     (\<exists>obj. v = JObject obj) \<and>
     (\<forall>f \<in> set (sm_fields m). field_ok v f) \<and>
     flds = bm_extend [] (concat (map (field_entry v) (sm_fields m)))"
  by (cases v) (auto simp: extract_fields_def extract_loop_iff)

lemma extract_fields_wf: "extract_fields m v n = Inr flds \<Longrightarrow> bm_wf flds"
proof (cases m)
  case (Some m')
  assume a: "extract_fields m v n = Inr flds"
  then obtain j where "v = DecodedJson j"
    using Some by (cases v) (auto simp: extract_fields_def split: if_splits)
  with a Some show ?thesis by (auto simp: extract_fields_Some_iff)
qed (simp add: extract_fields_def)

lemma bm_insert_length: "length (bm_insert k v m) \<le> Suc (length m)"
  by (induction k v m rule: bm_insert.induct) auto

lemma bm_extend_length: "length (bm_extend m kvs) \<le> length m + length kvs"
proof (induction kvs arbitrary: m)
  case (Cons kv kvs)
  obtain k v where kv: "kv = (k, v)" by fastforce
  have "length (bm_extend m (kv # kvs)) = length (bm_extend (bm_insert k v m) kvs)"
    by (simp add: bm_extend_def kv)
  also have "\<dots> \<le> length (bm_insert k v m) + length kvs" by (rule Cons.IH)
  finally show ?case using bm_insert_length [of k v m] by simp
qed simp

lemma field_entries_length: "length (concat (map (field_entry v) fs)) \<le> length fs"
proof (induction fs)
  case (Cons f fs)
  have "length (field_entry v f) \<le> 1" by (simp add: field_entry_def split: option.splits)
  with Cons show ?case by simp
qed simp

text \<open>No more fields than the limit.\<close>

lemma extract_fields_bound: "extract_fields m v n = Inr flds \<Longrightarrow> length flds \<le> n"
proof (cases m)
  case (Some m')
  assume a: "extract_fields m v n = Inr flds"
  then obtain j where j: "v = DecodedJson j"
    using Some by (cases v) (auto simp: extract_fields_def split: if_splits)
  with a Some have "length (sm_fields m') \<le> n"
    and "flds = bm_extend [] (concat (map (field_entry j) (sm_fields m')))"
    by (auto simp: extract_fields_Some_iff)
  moreover have "length (bm_extend [] (concat (map (field_entry j) (sm_fields m')))) \<le> length (sm_fields m')"
    using bm_extend_length [of "[]" "concat (map (field_entry j) (sm_fields m'))"]
      field_entries_length [of j "sm_fields m'"] by simp
  ultimately show ?thesis by simp
qed (simp add: extract_fields_def)

lemma field_entries_keys:
  "fst ` set (concat (map (field_entry v) fs)) \<subseteq> fm_target ` set fs"
  by (auto simp: field_entry_def split: option.splits)

lemma map_of_field_entries:
  "distinct (map fm_target fs) \<Longrightarrow> f \<in> set fs \<Longrightarrow>
   map_of (concat (map (field_entry v) fs)) (fm_target f) =
     map_option field_value_from_json (mapped_value v f)"
proof (induction fs)
  case (Cons g fs)
  show ?case
  proof (cases "f = g")
    case True
    have "fm_target f \<notin> fst ` set (concat (map (field_entry v) fs))"
      using Cons.prems(1) True field_entries_keys [of v fs] by auto
    then have "map_of (concat (map (field_entry v) fs)) (fm_target f) = None"
      by (simp add: map_of_eq_None_iff)
    moreover have "map_of (field_entry v f) (fm_target f) =
        map_option field_value_from_json (mapped_value v f)"
      by (simp add: field_entry_def split: option.splits)
    ultimately show ?thesis unfolding True
      by (cases "mapped_value v g") (simp_all add: map_add_def)
  next
    case False
    with Cons.prems have f: "f \<in> set fs" "fm_target g \<noteq> fm_target f" by auto
    have "map_of (field_entry v g) (fm_target f) = None"
      using f(2) by (simp add: field_entry_def split: option.splits)
    with Cons.IH f(1) Cons.prems(1) show ?thesis
      by (simp add: map_add_def split: option.splits)
  qed
qed simp

lemma distinct_field_entries:
  "distinct (map fm_target fs) \<Longrightarrow> distinct (map fst (concat (map (field_entry v) fs)))"
proof (induction fs)
  case (Cons g fs)
  have "fm_target g \<notin> fst ` set (concat (map (field_entry v) fs))"
    using Cons.prems field_entries_keys [of v fs] by auto
  with Cons show ?case by (auto simp: field_entry_def split: option.splits)
qed simp

text \<open>With distinct targets, each target holds the value its entry resolves to.\<close>

lemma extracted_value:
  assumes "extract_fields (Some m) (DecodedJson v) n = Inr flds"
    and "distinct (map fm_target (sm_fields m))" and "f \<in> set (sm_fields m)"
  shows "map_of flds (fm_target f) = map_option field_value_from_json (mapped_value v f)"
proof -
  let ?es = "concat (map (field_entry v) (sm_fields m))"
  have "map_of flds = map_of ?es"
    using assms(1) distinct_field_entries [OF assms(2), of v]
    by (simp add: extract_fields_Some_iff map_of_bm_extend map_of_rev_distinct)
  then show ?thesis using map_of_field_entries [OF assms(2,3)] by simp
qed

section \<open>Properties\<close>

lemma decode_payload_ok:
  assumes "decode_payload lib codec payload d = Inr v"
  shows "case v of DecodedJson j \<Rightarrow> codec = CodecJson \<and> from_slice lib payload = Inr j \<and> json_depth j \<le> d
         | DecodedRaw b \<Rightarrow> codec = CodecRaw \<and> b = payload"
  using assms by (cases codec) (auto simp: decode_payload_def Let_def split: if_splits)

lemma build_raw_payload_ref_ok:
  "build_raw_payload_ref payload codec retain n = Inr (Some r) \<Longrightarrow>
   retain \<and> rw_bytes r = payload \<and> rw_byte_len r = length payload \<and> length payload \<le> n"
  by (auto simp: build_raw_payload_ref_def split: if_splits)

definition sample_limits :: normalizer_limits where
  "sample_limits =
     \<lparr>nl_max_payload_size_bytes = 16, nl_max_raw_payload_size_bytes = 8, nl_max_json_depth = 4,
      nl_max_extracted_fields = 2, nl_retain_raw_payload = True\<rparr>"

definition sample_mapping :: payload_schema_mapping where
  "sample_mapping =
     \<lparr>sm_id = ''m1'', sm_name = ''mapping'',
      sm_fields = [\<lparr>fm_source = ''t'', fm_target = ''temperature'', fm_value_type = TNumber,
                    fm_required = True, fm_default = None\<rparr>,
                   \<lparr>fm_source = ''x'', fm_target = ''unit'', fm_value_type = TString,
                    fm_required = False, fm_default = Some (JString ''C'')\<rparr>]\<rparr>"

definition sample_context :: normalization_context where
  "sample_context =
     \<lparr>nc_project_id = ''p1'', nc_route = sample_route ''r2'' ''devices/+/up'' True,
      nc_params = \<lparr>single_level = [''d7''], multi_level = []\<rparr>,
      nc_schema_mapping = Some sample_mapping\<rparr>"

lemma sample_normalize:
  "normalize sample_lib ''0'' sample_limits (sample_message ''devices/d7/up'' ''o'') sample_context =
     Inr sample_event"
  by code_simp

text \<open>C3: a normalized event stays within the limits of the normalizer and carries exactly the message:
  its topic, its bytes, the value the parser read from them at a bounded depth, and the project, broker
  and route of the context.\<close>

theorem normalize_faithful:
  assumes "normalize lib uuid limits m ctx = Inr ev"
  shows "length (mm_payload m) \<le> nl_max_payload_size_bytes limits \<and>
         ev_payload_size_bytes ev = length (mm_payload m) \<and>
         ev_project_id ev = nc_project_id ctx \<and>
         ev_broker_id ev = tr_broker_id (nc_route ctx) \<and> ev_route_id ev = tr_id (nc_route ctx) \<and>
         ev_topic ev = mm_topic m \<and> CHR ''+'' \<notin> set (ev_topic ev) \<and> CHR ''#'' \<notin> set (ev_topic ev) \<and>
         (case ev_payload ev of
            DecodedJson v \<Rightarrow> from_slice lib (mm_payload m) = Inr v \<and> json_depth v \<le> nl_max_json_depth limits
          | DecodedRaw b \<Rightarrow> b = mm_payload m) \<and>
         (case ev_raw ev of
            None \<Rightarrow> \<not> nl_retain_raw_payload limits
          | Some r \<Rightarrow> rw_bytes r = mm_payload m \<and> rw_byte_len r = length (mm_payload m) \<and>
                      length (mm_payload m) \<le> nl_max_raw_payload_size_bytes limits) \<and>
         bm_wf (ev_fields ev) \<and> length (ev_fields ev) \<le> nl_max_extracted_fields limits \<and>
         ev_metadata ev = []"
proof -
  from assms obtain decoded device flds raw eid where
    size: "length (mm_payload m) \<le> nl_max_payload_size_bytes limits" and
    dec: "decode_payload lib (tr_codec (nc_route ctx)) (mm_payload m) (nl_max_json_depth limits) = Inr decoded" and
    flds: "extract_fields (nc_schema_mapping ctx) decoded (nl_max_extracted_fields limits) = Inr flds" and
    topic: "topic_name_new (mm_topic m) = Inr (ev_topic ev)" and
    raw: "build_raw_payload_ref (mm_payload m) (tr_codec (nc_route ctx)) (nl_retain_raw_payload limits)
            (nl_max_raw_payload_size_bytes limits) = Inr raw" and
    ev: "ev_payload ev = decoded" "ev_fields ev = flds" "ev_raw ev = raw" "ev_metadata ev = []"
        "ev_payload_size_bytes ev = length (mm_payload m)" "ev_project_id ev = nc_project_id ctx"
        "ev_broker_id ev = tr_broker_id (nc_route ctx)" "ev_route_id ev = tr_id (nc_route ctx)"
    by (auto simp: normalize_def validate_payload_size_def split: if_splits)
  have "case decoded of DecodedJson v \<Rightarrow> from_slice lib (mm_payload m) = Inr v \<and> json_depth v \<le> nl_max_json_depth limits
        | DecodedRaw b \<Rightarrow> b = mm_payload m"
    using decode_payload_ok [OF dec] by (simp split: decoded_payload.splits)
  moreover have "case raw of None \<Rightarrow> \<not> nl_retain_raw_payload limits
        | Some r \<Rightarrow> rw_bytes r = mm_payload m \<and> rw_byte_len r = length (mm_payload m) \<and>
                    length (mm_payload m) \<le> nl_max_raw_payload_size_bytes limits"
    using raw by (auto simp: build_raw_payload_ref_def split: if_splits)
  ultimately show ?thesis
    using size topic ev extract_fields_wf [OF flds] extract_fields_bound [OF flds]
    by (simp add: topic_name_new_iff)
qed

theorem normalize_faithful_witness:
  "\<exists>ev. normalize sample_lib ''0'' sample_limits (sample_message ''devices/d7/up'' ''o'')
          sample_context = Inr ev \<and> ev_topic ev = ''devices/d7/up'' \<and> ev_project_id ev = ''p1'' \<and>
        length (ev_fields ev) \<le> 2"
  using normalize_faithful [OF sample_normalize] sample_normalize
  by (simp add: sample_context_def sample_limits_def)

text \<open>C36: with distinct targets, the extracted fields hold for each mapping entry the member at its path, or
  its default when it is optional and absent; a required entry is always present, and every value has the
  type its entry declares.\<close>

theorem extract_fields_correct:
  assumes "extract_fields (Some mapping) (DecodedJson v) n = Inr flds"
    and "distinct (map fm_target (sm_fields mapping))" and "f \<in> set (sm_fields mapping)"
  shows "map_of flds (fm_target f) =
           map_option field_value_from_json
             (case get_json_path v (segments (fm_source f)) of
                Some w \<Rightarrow> Some w | None \<Rightarrow> if fm_required f then None else fm_default f) \<and>
         (fm_required f \<longrightarrow> get_json_path v (segments (fm_source f)) \<noteq> None) \<and>
         (\<forall>w. map_of flds (fm_target f) = Some (field_value_from_json w) \<longrightarrow> has_type w (fm_value_type f))"
proof -
  have ok: "field_ok v f" using assms(1,3) by (auto simp: extract_fields_Some_iff)
  have inj: "field_value_from_json a = field_value_from_json b \<Longrightarrow> a = b" for a b
    by (cases a; cases b) simp_all
  from extracted_value [OF assms] ok inj show ?thesis
    by (auto simp: field_ok_def mapped_value_def split: option.splits if_splits)
qed

theorem extract_fields_correct_witness:
  "\<exists>flds. extract_fields (Some sample_mapping)
            (DecodedJson (JObject [(''t'', JNumber (PosInt 21)), (''u'', JString ''C'')])) 128 = Inr flds \<and>
          map_of flds ''temperature'' = Some (FNumber (PosInt 21))"
proof -
  let ?f = "\<lparr>fm_source = ''t'', fm_target = ''temperature'', fm_value_type = TNumber, fm_required = True,
             fm_default = None\<rparr>"
  let ?v = "JObject [(''t'', JNumber (PosInt 21)), (''u'', JString ''C'')]"
  let ?flds = "[(''temperature'', FNumber (PosInt 21)), (''unit'', FString ''C'')]"
  have ex: "extract_fields (Some sample_mapping) (DecodedJson ?v) 128 = Inr ?flds" by code_simp
  have "distinct (map fm_target (sm_fields sample_mapping))" "?f \<in> set (sm_fields sample_mapping)"
    by (simp_all add: sample_mapping_def)
  from extract_fields_correct [OF ex this] ex show ?thesis by (auto simp: segments_def)
qed

text \<open>A path never reaches deeper than the value it is applied to, so the depth limit of the payload
  bounds every field path that resolves.\<close>

lemma resolved_path_bounded:
  assumes "decode_payload lib CodecJson payload d = Inr (DecodedJson v)"
    and "get_json_path v segs = Some w"
  shows "length segs < d"
  using decode_payload_ok [OF assms(1)] get_json_path_depth [OF assms(2)] json_depth_pos [of w] by simp

end
