(* ===== verification/Rule_Engine.thy ===== *)
theory Rule_Engine
  imports Normalizer Action_Metadata
begin

text \<open>
  Rules (\<^verbatim>\<open>rule/rules.rs\<close>): compilation with its limits, evaluation of a condition on an event, and the
  action intents of the rules that match.
\<close>

section \<open>Limits\<close>

record rule_engine_limits =
  rl_max_condition_depth :: nat
  rl_max_condition_nodes :: nat
  rl_max_actions_per_rule :: nat
  rl_max_metadata_key_bytes :: nat
  rl_max_metadata_value_bytes :: nat

definition rule_engine_limits_default :: rule_engine_limits where
  "rule_engine_limits_default =
     \<lparr>rl_max_condition_depth = 16, rl_max_condition_nodes = 256, rl_max_actions_per_rule = 16,
      rl_max_metadata_key_bytes = 128, rl_max_metadata_value_bytes = 1024\<rparr>"

definition rule_metadata_limits :: "rule_engine_limits \<Rightarrow> action_metadata_limits" where
  "rule_metadata_limits l =
     \<lparr>am_max_key_bytes = rl_max_metadata_key_bytes l,
      am_max_value_bytes = rl_max_metadata_value_bytes l\<rparr>"

section \<open>Validation\<close>

fun condition_depth :: "condition_expr \<Rightarrow> nat" where
  "condition_depth (AndC cs) = max_or_zero (map condition_depth cs) + 1"
| "condition_depth (OrC cs) = max_or_zero (map condition_depth cs) + 1"
| "condition_depth (NotC c) = condition_depth c + 1"
| "condition_depth _ = 1"

fun condition_nodes :: "condition_expr \<Rightarrow> nat" where
  "condition_nodes (AndC cs) = sum_list (map condition_nodes cs) + 1"
| "condition_nodes (OrC cs) = sum_list (map condition_nodes cs) + 1"
| "condition_nodes (NotC c) = condition_nodes c + 1"
| "condition_nodes _ = 1"

definition validate_metadata_action ::
    "rule_definition \<Rightarrow> string \<Rightarrow> string \<Rightarrow> rule_engine_limits \<Rightarrow> mqtt_engine_error + unit" where
  "validate_metadata_action rule key v limits =
     map_err (\<lambda>err. Rule (case err of
          InvalidKey reason \<Rightarrow> RuleInvalidMetadataKey (rd_id rule) reason
        | ValueTooLarge actual mx \<Rightarrow> RuleMetadataValueTooLarge (rd_id rule) actual mx))
       (validate_action_metadata key v (rule_metadata_limits limits))"

fun validate_action ::
    "rule_definition \<Rightarrow> rule_engine_limits \<Rightarrow> action_intent_template \<Rightarrow> mqtt_engine_error + unit" where
  "validate_action rule limits (TAddMetadata key v) = validate_metadata_action rule key v limits"
| "validate_action rule limits _ = Inr ()"

fun rule_condition_groups :: "rule_definition \<Rightarrow> condition_expr \<Rightarrow> mqtt_engine_error + unit" where
  "rule_condition_groups rule (AndC cs) =
     (if cs = [] then Inl (Rule (EmptyConditionGroup (rd_id rule) ''and''))
      else try_for_each (rule_condition_groups rule) cs)"
| "rule_condition_groups rule (OrC cs) =
     (if cs = [] then Inl (Rule (EmptyConditionGroup (rd_id rule) ''or''))
      else try_for_each (rule_condition_groups rule) cs)"
| "rule_condition_groups rule (NotC c) = rule_condition_groups rule c"
| "rule_condition_groups rule _ = Inr ()"

definition validate_rule_condition ::
    "rule_definition \<Rightarrow> rule_engine_limits \<Rightarrow> condition_expr \<Rightarrow> mqtt_engine_error + unit" where
  "validate_rule_condition rule limits c =
     res_bind (rule_condition_groups rule c) (\<lambda>_.
     if condition_depth c > rl_max_condition_depth limits
     then Inl (Rule (ConditionTooDeep (rd_id rule) (condition_depth c) (rl_max_condition_depth limits)))
     else if condition_nodes c > rl_max_condition_nodes limits
     then Inl (Rule (ConditionTooLarge (rd_id rule) (condition_nodes c) (rl_max_condition_nodes limits)))
     else Inr ())"

fun is_command_requested :: "rule_trigger \<Rightarrow> bool" where
  "is_command_requested (CommandRequested _) = True"
| "is_command_requested _ = False"

definition validate_rule :: "rule_engine_limits \<Rightarrow> rule_definition \<Rightarrow> mqtt_engine_error + unit" where
  "validate_rule limits rule =
     (if is_command_requested (rd_trigger rule)
      then Inl (Rule (UnsupportedTrigger (rd_id rule) ''command_requested''))
      else if rd_actions rule = []
      then Inl (Rule (InvalidRule (rd_id rule) ''rule must define at least one action''))
      else if length (rd_actions rule) > rl_max_actions_per_rule limits
      then Inl (Rule (TooManyActions (rd_id rule) (length (rd_actions rule))
                        (rl_max_actions_per_rule limits)))
      else
        res_bind (try_for_each (validate_action rule limits) (rd_actions rule)) (\<lambda>_.
        res_bind (opt_check (validate_rule_condition rule limits) (rd_condition rule)) (\<lambda>_.
        res_bind (map_err engine_domain_error (rule_definition_validate rule)) (\<lambda>_. Inr ()))))"

type_synonym rule_engine = "rule_definition list"

fun compile_rules ::
    "rule_engine_limits \<Rightarrow> rule_definition list \<Rightarrow> rule_definition list \<Rightarrow> mqtt_engine_error + rule_engine" where
  "compile_rules limits compiled [] = Inr compiled"
| "compile_rules limits compiled (rule # rules) =
     (if \<not> rd_enabled rule then compile_rules limits compiled rules
      else res_bind (validate_rule limits rule) (\<lambda>_.
             compile_rules limits (compiled @ [rule]) rules))"

definition rule_engine_with_limits ::
    "rule_definition list \<Rightarrow> rule_engine_limits \<Rightarrow> mqtt_engine_error + rule_engine" where
  "rule_engine_with_limits rules limits = compile_rules limits [] rules"

definition rule_engine_new :: "rule_definition list \<Rightarrow> mqtt_engine_error + rule_engine" where
  "rule_engine_new rules = rule_engine_with_limits rules rule_engine_limits_default"

section \<open>Values\<close>

fun trigger_matches :: "rule_trigger \<Rightarrow> normalized_event \<Rightarrow> bool" where
  "trigger_matches EventReceived event = True"
| "trigger_matches (RouteMatched rid) event = (rid = ev_route_id event)"
| "trigger_matches (CommandRequested t) event = False"

fun field_value_to_json :: "field_value \<Rightarrow> json" where
  "field_value_to_json FNull = JNull"
| "field_value_to_json (FBool b) = JBool b"
| "field_value_to_json (FNumber n) = JNumber n"
| "field_value_to_json (FString s) = JString s"
| "field_value_to_json (FObject m) = JObject m"
| "field_value_to_json (FArray a) = JArray a"

definition resolve_event_path :: "normalized_event \<Rightarrow> string list \<Rightarrow> json option" where
  "resolve_event_path event segs =
     (case segs of
        [s] \<Rightarrow>
          if s = ''id'' then Some (JString (ev_id event))
          else if s = ''correlation_id'' then Some (JString (ev_correlation_id event))
          else if s = ''project_id'' then Some (JString (ev_project_id event))
          else if s = ''broker_id'' then Some (JString (ev_broker_id event))
          else if s = ''route_id'' then Some (JString (ev_route_id event))
          else if s = ''schema_mapping_id'' then map_option JString (ev_schema_mapping_id event)
          else if s = ''topic'' then Some (JString (ev_topic event))
          else if s = ''device_id'' then map_option JString (ev_device_id event)
          else if s = ''event_type'' then Some (JString (ev_event_type event))
          else if s = ''payload_size_bytes''
          then Some (JNumber (PosInt (of_nat (ev_payload_size_bytes event))))
          else None
      | [s, key] \<Rightarrow>
          if s = ''metadata'' then map_option JString (map_of (ev_metadata event) key)
          else if s = ''fields'' then map_option field_value_to_json (event_field event key)
          else None
      | _ \<Rightarrow> None)"

fun resolve_field :: "field_ref \<Rightarrow> normalized_event \<Rightarrow> json option" where
  "resolve_field (Extracted name) event = map_option field_value_to_json (event_field event name)"
| "resolve_field DeviceId event = map_option JString (ev_device_id event)"
| "resolve_field EventType event = Some (JString (ev_event_type event))"
| "resolve_field TopicRef event = Some (JString (ev_topic event))"
| "resolve_field (FromPayload path) event =
     (case ev_payload event of
        DecodedJson v \<Rightarrow> get_json_path v (segments path)
      | DecodedRaw _ \<Rightarrow> None)"
| "resolve_field (FromEvent path) event = resolve_event_path event (segments path)"

fun resolve_optional_value :: "value_expr \<Rightarrow> normalized_event \<Rightarrow> json option" where
  "resolve_optional_value (Literal v) event = Some v"
| "resolve_optional_value (FieldExpr f) event = resolve_field f event"

definition resolve_value :: "value_expr \<Rightarrow> normalized_event \<Rightarrow> json" where
  "resolve_value e event = (case resolve_optional_value e event of None \<Rightarrow> JNull | Some v \<Rightarrow> v)"

fun value_contains :: "json \<Rightarrow> json \<Rightarrow> bool" where
  "value_contains (JString l) (JString r) = str_contains l r"
| "value_contains (JArray l) r = list_ex (\<lambda>v. json_eq v r) l"
| "value_contains _ _ = False"

fun json_as_f64 :: "json \<Rightarrow> f64 option" where
  "json_as_f64 (JNumber n) = as_f64 n"
| "json_as_f64 _ = None"

definition compare_numbers ::
    "rule_definition \<Rightarrow> value_expr \<Rightarrow> value_expr \<Rightarrow> normalized_event \<Rightarrow> (f64 \<Rightarrow> f64 \<Rightarrow> bool) \<Rightarrow>
     mqtt_engine_error + bool" where
  "compare_numbers rule l r event cmp =
     (case (resolve_optional_value l event, resolve_optional_value r event) of
        (Some lv, Some rv) \<Rightarrow>
          (case json_as_f64 lv of
             None \<Rightarrow> Inl (Rule (NonNumericComparison (rd_id rule)))
           | Some x \<Rightarrow>
               (case json_as_f64 rv of
                  None \<Rightarrow> Inl (Rule (NonNumericComparison (rd_id rule)))
                | Some y \<Rightarrow> Inr (cmp x y)))
      | _ \<Rightarrow> Inr False)"

section \<open>Evaluation\<close>

text \<open>The two short-circuiting loops over a group.\<close>

fun all_until :: "('a \<Rightarrow> 'e + bool) \<Rightarrow> 'a list \<Rightarrow> 'e + bool" where
  "all_until f [] = Inr True"
| "all_until f (x # xs) = res_bind (f x) (\<lambda>b. if \<not> b then Inr False else all_until f xs)"

fun any_until :: "('a \<Rightarrow> 'e + bool) \<Rightarrow> 'a list \<Rightarrow> 'e + bool" where
  "any_until f [] = Inr False"
| "any_until f (x # xs) = res_bind (f x) (\<lambda>b. if b then Inr True else any_until f xs)"

lemma all_until_cong [fundef_cong]:
  "xs = ys \<Longrightarrow> (\<And>x. x \<in> set ys \<Longrightarrow> f x = g x) \<Longrightarrow> all_until f xs = all_until g ys"
  by (induction ys arbitrary: xs) (auto intro!: res_bind_cong)

lemma any_until_cong [fundef_cong]:
  "xs = ys \<Longrightarrow> (\<And>x. x \<in> set ys \<Longrightarrow> f x = g x) \<Longrightarrow> any_until f xs = any_until g ys"
  by (induction ys arbitrary: xs) (auto intro!: res_bind_cong)

fun evaluate_condition ::
    "rule_definition \<Rightarrow> normalized_event \<Rightarrow> condition_expr \<Rightarrow> mqtt_engine_error + bool" where
  "evaluate_condition rule event (ExistsC f) = Inr (resolve_field f event \<noteq> None)"
| "evaluate_condition rule event (Equals l r) =
     Inr (json_eq (resolve_value l event) (resolve_value r event))"
| "evaluate_condition rule event (NotEquals l r) =
     Inr (\<not> json_eq (resolve_value l event) (resolve_value r event))"
| "evaluate_condition rule event (GreaterThan l r) =
     compare_numbers rule l r event (\<lambda>x y. f64_lt y x)"
| "evaluate_condition rule event (GreaterThanOrEqual l r) =
     compare_numbers rule l r event (\<lambda>x y. f64_le y x)"
| "evaluate_condition rule event (LessThan l r) = compare_numbers rule l r event f64_lt"
| "evaluate_condition rule event (LessThanOrEqual l r) = compare_numbers rule l r event f64_le"
| "evaluate_condition rule event (ContainsC l r) =
     Inr (value_contains (resolve_value l event) (resolve_value r event))"
| "evaluate_condition rule event (AndC cs) = all_until (evaluate_condition rule event) cs"
| "evaluate_condition rule event (OrC cs) = any_until (evaluate_condition rule event) cs"
| "evaluate_condition rule event (NotC c) =
     res_bind (evaluate_condition rule event c) (\<lambda>b. Inr (\<not> b))"

fun action_to_intent ::
    "rule_definition \<Rightarrow> normalized_event \<Rightarrow> action_intent_template \<Rightarrow> mqtt_engine_error + action_intent" where
  "action_to_intent rule event TStreamToUi = Inr (StreamToUi (ev_id event))"
| "action_to_intent rule event TDropEvent =
     Inr (DropEvent (ev_id event) (Some (''matched rule '' @ rd_id rule)))"
| "action_to_intent rule event (TAddMetadata key v) = Inr (AddMetadata (ev_id event) key v)"
| "action_to_intent rule event (TForwardToSink sid) = Inr (ForwardToSink (ev_id event) sid None)"
| "action_to_intent rule event (TExecuteCommand t params) =
     Inr (ExecuteCommand (ev_id event) t params (ev_correlation_id event))"

record rule_evaluation =
  re_matched_rules :: "rule_id list"
  re_intents :: "action_intent list"

fun evaluate_rules ::
    "normalized_event \<Rightarrow> rule_evaluation \<Rightarrow> rule_definition list \<Rightarrow> mqtt_engine_error + rule_evaluation" where
  "evaluate_rules event acc [] = Inr acc"
| "evaluate_rules event acc (rule # rules) =
     (if \<not> trigger_matches (rd_trigger rule) event then evaluate_rules event acc rules
      else
        res_bind (case rd_condition rule of
                    Some c \<Rightarrow> evaluate_condition rule event c
                  | None \<Rightarrow> Inr True) (\<lambda>matched.
        if \<not> matched then evaluate_rules event acc rules
        else
          res_bind (try_collect (action_to_intent rule event) (rd_actions rule)) (\<lambda>intents.
          evaluate_rules event
            \<lparr>re_matched_rules = re_matched_rules acc @ [rd_id rule],
             re_intents = re_intents acc @ intents\<rparr> rules)))"

definition rule_evaluate :: "rule_engine \<Rightarrow> normalized_event \<Rightarrow> mqtt_engine_error + rule_evaluation" where
  "rule_evaluate rules event = evaluate_rules event \<lparr>re_matched_rules = [], re_intents = []\<rparr> rules"

section \<open>What a condition means\<close>

definition num_holds :: "(f64 \<Rightarrow> f64 \<Rightarrow> bool) \<Rightarrow> value_expr \<Rightarrow> value_expr \<Rightarrow> normalized_event \<Rightarrow> bool" where
  "num_holds cmp l r event =
     (case (Option.bind (resolve_optional_value l event) json_as_f64,
            Option.bind (resolve_optional_value r event) json_as_f64) of
        (Some x, Some y) \<Rightarrow> cmp x y
      | _ \<Rightarrow> False)"

text \<open>The truth of a condition, with no order of evaluation and no errors.\<close>

fun holds :: "normalized_event \<Rightarrow> condition_expr \<Rightarrow> bool" where
  "holds event (ExistsC f) = (resolve_field f event \<noteq> None)"
| "holds event (Equals l r) = json_eq (resolve_value l event) (resolve_value r event)"
| "holds event (NotEquals l r) = (\<not> json_eq (resolve_value l event) (resolve_value r event))"
| "holds event (GreaterThan l r) = num_holds (\<lambda>x y. f64_lt y x) l r event"
| "holds event (GreaterThanOrEqual l r) = num_holds (\<lambda>x y. f64_le y x) l r event"
| "holds event (LessThan l r) = num_holds f64_lt l r event"
| "holds event (LessThanOrEqual l r) = num_holds f64_le l r event"
| "holds event (ContainsC l r) = value_contains (resolve_value l event) (resolve_value r event)"
| "holds event (AndC cs) = list_all (holds event) cs"
| "holds event (OrC cs) = list_ex (holds event) cs"
| "holds event (NotC c) = (\<not> holds event c)"

text \<open>Every comparison of two values that are present is between numbers.\<close>

definition comparable :: "value_expr \<Rightarrow> value_expr \<Rightarrow> normalized_event \<Rightarrow> bool" where
  "comparable l r event =
     (case (resolve_optional_value l event, resolve_optional_value r event) of
        (Some x, Some y) \<Rightarrow> json_as_f64 x \<noteq> None \<and> json_as_f64 y \<noteq> None
      | _ \<Rightarrow> True)"

fun well_typed :: "normalized_event \<Rightarrow> condition_expr \<Rightarrow> bool" where
  "well_typed event (GreaterThan l r) = comparable l r event"
| "well_typed event (GreaterThanOrEqual l r) = comparable l r event"
| "well_typed event (LessThan l r) = comparable l r event"
| "well_typed event (LessThanOrEqual l r) = comparable l r event"
| "well_typed event (AndC cs) = list_all (well_typed event) cs"
| "well_typed event (OrC cs) = list_all (well_typed event) cs"
| "well_typed event (NotC c) = well_typed event c"
| "well_typed event _ = True"

lemma compare_numbers_eq:
  "compare_numbers rule l r event cmp =
     (if comparable l r event then Inr (num_holds cmp l r event)
      else Inl (Rule (NonNumericComparison (rd_id rule))))"
  by (auto simp: compare_numbers_def comparable_def num_holds_def split: option.splits)

lemma all_until_sound:
  assumes "\<And>x b. x \<in> set xs \<Longrightarrow> f x = Inr b \<Longrightarrow> b = h x" and "all_until f xs = Inr b"
  shows "b = list_all h xs"
  using assms
proof (induction xs)
  case (Cons x xs)
  from Cons.prems(2) obtain c where c: "f x = Inr c" "(if \<not> c then Inr False else all_until f xs) = Inr b"
    by auto
  have hx: "c = h x" using Cons.prems(1) [OF _ c(1)] by simp
  show ?case
  proof (cases c)
    case True
    with c(2) have "all_until f xs = Inr b" by simp
    moreover have "d = h y" if "y \<in> set xs" "f y = Inr d" for y d
      using Cons.prems(1) that by simp
    ultimately have "b = list_all h xs" by (intro Cons.IH)
    with hx True show ?thesis by simp
  next
    case False
    with c hx show ?thesis by simp
  qed
qed simp

lemma any_until_sound:
  assumes "\<And>x b. x \<in> set xs \<Longrightarrow> f x = Inr b \<Longrightarrow> b = h x" and "any_until f xs = Inr b"
  shows "b = list_ex h xs"
  using assms
proof (induction xs)
  case (Cons x xs)
  from Cons.prems(2) obtain c where c: "f x = Inr c" "(if c then Inr True else any_until f xs) = Inr b"
    by auto
  have hx: "c = h x" using Cons.prems(1) [OF _ c(1)] by simp
  show ?case
  proof (cases c)
    case False
    with c(2) have "any_until f xs = Inr b" by simp
    moreover have "d = h y" if "y \<in> set xs" "f y = Inr d" for y d
      using Cons.prems(1) that by simp
    ultimately have "b = list_ex h xs" by (intro Cons.IH)
    with hx False show ?thesis by simp
  next
    case True
    with c hx show ?thesis by simp
  qed
qed simp

text \<open>An answer is the truth of the condition: stopping early never changes it.\<close>

lemma evaluate_condition_sound: "evaluate_condition rule event c = Inr b \<Longrightarrow> b = holds event c"
proof (induction rule event c arbitrary: b rule: evaluate_condition.induct)
  case (9 rule event cs)
  have "b = list_all (holds event) cs"
    by (rule all_until_sound [where f = "evaluate_condition rule event"]) (use 9 in auto)
  then show ?case by simp
next
  case (10 rule event cs)
  have "b = list_ex (holds event) cs"
    by (rule any_until_sound [where f = "evaluate_condition rule event"]) (use 10 in auto)
  then show ?case by simp
qed (auto simp: compare_numbers_eq split: if_splits)

lemma all_until_total:
  "(\<And>x. x \<in> set xs \<Longrightarrow> \<exists>b. f x = Inr b) \<Longrightarrow> \<exists>b. all_until f xs = Inr b"
proof (induction xs)
  case (Cons x xs)
  obtain b where "f x = Inr b" using Cons.prems [of x] by auto
  moreover obtain c where "all_until f xs = Inr c" using Cons.IH Cons.prems by auto
  ultimately show ?case by (cases b) auto
qed (metis all_until.simps(1))

lemma any_until_total:
  "(\<And>x. x \<in> set xs \<Longrightarrow> \<exists>b. f x = Inr b) \<Longrightarrow> \<exists>b. any_until f xs = Inr b"
proof (induction xs)
  case (Cons x xs)
  obtain b where "f x = Inr b" using Cons.prems [of x] by auto
  moreover obtain c where "any_until f xs = Inr c" using Cons.IH Cons.prems by auto
  ultimately show ?case by (cases b) auto
qed (metis any_until.simps(1))

lemma evaluate_condition_total: "well_typed event c \<Longrightarrow> \<exists>b. evaluate_condition rule event c = Inr b"
proof (induction rule event c rule: evaluate_condition.induct)
  case (9 rule event cs)
  then show ?case by (auto simp: list_all_iff intro!: all_until_total)
next
  case (10 rule event cs)
  then show ?case by (auto simp: list_all_iff intro!: any_until_total)
next
  case (11 rule event c)
  then obtain b where "evaluate_condition rule event c = Inr b" by auto
  then show ?case by simp
qed (auto simp: compare_numbers_eq)

lemma all_until_error: "all_until f xs = Inl e \<Longrightarrow> \<exists>x \<in> set xs. f x = Inl e"
  by (induction xs) (auto simp: res_bind_eq_Inl split: if_splits)

lemma any_until_error: "any_until f xs = Inl e \<Longrightarrow> \<exists>x \<in> set xs. f x = Inl e"
  by (induction xs) (auto simp: res_bind_eq_Inl split: if_splits)

text \<open>The only error is a comparison of something that is not a number.\<close>

lemma evaluate_condition_error:
  "evaluate_condition rule event c = Inl e \<Longrightarrow> e = Rule (NonNumericComparison (rd_id rule))"
proof (induction rule event c rule: evaluate_condition.induct)
  case (9 rule event cs)
  from "9.prems" obtain x where "x \<in> set cs" "evaluate_condition rule event x = Inl e"
    by (auto dest: all_until_error)
  then show ?case by (rule "9.IH")
next
  case (10 rule event cs)
  from "10.prems" obtain x where "x \<in> set cs" "evaluate_condition rule event x = Inl e"
    by (auto dest: any_until_error)
  then show ?case by (rule "10.IH")
qed (auto simp: compare_numbers_eq res_bind_eq_Inl split: if_splits)

section \<open>Comparing integers\<close>

text \<open>
  Two integers compare through their binary64 images. The order is never reversed, and it is exact
  while both are below two to the 53 in absolute value.
\<close>

lemma compare_integers:
  assumes "resolve_optional_value l event = Some (JNumber m)" "int_value m = Some i" "number_sign_ok m"
    and "resolve_optional_value r event = Some (JNumber n)" "int_value n = Some j" "number_sign_ok n"
  shows "evaluate_condition rule event (GreaterThan l r) = Inr (int_key j < int_key i)"
    and "evaluate_condition rule event (GreaterThanOrEqual l r) = Inr (int_key j \<le> int_key i)"
    and "evaluate_condition rule event (LessThan l r) = Inr (int_key i < int_key j)"
    and "evaluate_condition rule event (LessThanOrEqual l r) = Inr (int_key i \<le> int_key j)"
proof -
  obtain x where x: "as_f64 m = Some x" "f64_key x = int_key i" "\<not> f64_is_nan x"
    using as_f64_int [OF assms(2,3)] .
  obtain y where y: "as_f64 n = Some y" "f64_key y = int_key j" "\<not> f64_is_nan y"
    using as_f64_int [OF assms(5,6)] .
  show "evaluate_condition rule event (GreaterThan l r) = Inr (int_key j < int_key i)"
    "evaluate_condition rule event (GreaterThanOrEqual l r) = Inr (int_key j \<le> int_key i)"
    "evaluate_condition rule event (LessThan l r) = Inr (int_key i < int_key j)"
    "evaluate_condition rule event (LessThanOrEqual l r) = Inr (int_key i \<le> int_key j)"
    using assms(1,4) x y by (simp_all add: compare_numbers_def f64_lt_def f64_le_def)
qed

lemma int_key_less_iff: "\<bar>i\<bar> < 2 ^ 53 \<Longrightarrow> \<bar>j\<bar> < 2 ^ 53 \<Longrightarrow> int_key i < int_key j \<longleftrightarrow> i < j"
  using int_key_strict [of i j] int_key_mono [of j i] by (cases "i < j") auto

section \<open>What the engine keeps and returns\<close>

lemma rule_condition_groups_iff: "rule_condition_groups rule c = Inr u \<longleftrightarrow> no_empty_group c"
  by (induction rule c rule: rule_condition_groups.induct) (auto simp: list_all_iff)

lemma compile_rules_iff:
  "compile_rules limits acc rules = Inr out \<longleftrightarrow>
     (\<forall>r \<in> set rules. rd_enabled r \<longrightarrow> validate_rule limits r = Inr ()) \<and>
     out = acc @ filter rd_enabled rules"
  by (induction limits acc rules rule: compile_rules.induct) auto

lemma validate_rule_bounds:
  assumes "validate_rule limits r = Inr u"
  shows "0 < length (rd_actions r)" and "length (rd_actions r) \<le> rl_max_actions_per_rule limits"
    and "rd_condition r = Some c \<Longrightarrow> no_empty_group c \<and>
           condition_depth c \<le> rl_max_condition_depth limits \<and>
           condition_nodes c \<le> rl_max_condition_nodes limits"
    and "TAddMetadata k v \<in> set (rd_actions r) \<Longrightarrow> \<not> reserved_key k"
    and "\<not> is_command_requested (rd_trigger r)"
  using assms
  by (fastforce simp: validate_rule_def validate_rule_condition_def rule_condition_groups_iff
      validate_metadata_action_def validate_action_metadata_iff split: if_splits)+

definition rule_fires :: "normalized_event \<Rightarrow> rule_definition \<Rightarrow> bool" where
  "rule_fires event rule \<longleftrightarrow>
     trigger_matches (rd_trigger rule) event \<and>
     (case rd_condition rule of None \<Rightarrow> True | Some c \<Rightarrow> holds event c)"

fun intent_of :: "rule_definition \<Rightarrow> normalized_event \<Rightarrow> action_intent_template \<Rightarrow> action_intent" where
  "intent_of rule event TStreamToUi = StreamToUi (ev_id event)"
| "intent_of rule event TDropEvent = DropEvent (ev_id event) (Some (''matched rule '' @ rd_id rule))"
| "intent_of rule event (TAddMetadata key v) = AddMetadata (ev_id event) key v"
| "intent_of rule event (TForwardToSink sid) = ForwardToSink (ev_id event) sid None"
| "intent_of rule event (TExecuteCommand t params) =
     ExecuteCommand (ev_id event) t params (ev_correlation_id event)"

lemma action_to_intent_eq: "action_to_intent rule event a = Inr (intent_of rule event a)"
  by (cases a) simp_all

lemma collect_intents:
  "try_collect (action_to_intent rule event) as = Inr (map (intent_of rule event) as)"
  by (rule try_collect_total) (rule action_to_intent_eq)

definition rule_intents :: "normalized_event \<Rightarrow> rule_definition \<Rightarrow> action_intent list" where
  "rule_intents event rule = map (intent_of rule event) (rd_actions rule)"

lemma evaluate_rules_result:
  "evaluate_rules event acc rules = Inr out \<Longrightarrow>
     re_matched_rules out = re_matched_rules acc @ map rd_id (filter (rule_fires event) rules) \<and>
     re_intents out = re_intents acc @ concat (map (rule_intents event) (filter (rule_fires event) rules))"
proof (induction rules arbitrary: acc)
  case (Cons rule rules)
  let ?cond = "case rd_condition rule of Some c \<Rightarrow> evaluate_condition rule event c | None \<Rightarrow> Inr True"
  show ?case
  proof (cases "trigger_matches (rd_trigger rule) event")
    case True
    with Cons.prems obtain b where b: "?cond = Inr b" by (cases ?cond) auto
    then have fires: "rule_fires event rule = b"
      using True by (auto simp: rule_fires_def split: option.splits dest: evaluate_condition_sound)
    with Cons.IH Cons.prems True b show ?thesis
      by (cases b) (auto simp: collect_intents rule_intents_def)
  next
    case False
    with Cons.IH Cons.prems show ?thesis by (simp add: rule_fires_def)
  qed
qed simp

lemma evaluate_rules_total:
  assumes "\<And>r c. r \<in> set rules \<Longrightarrow> rd_condition r = Some c \<Longrightarrow> well_typed event c"
  shows "\<exists>out. evaluate_rules event acc rules = Inr out"
  using assms
proof (induction rules arbitrary: acc)
  case (Cons rule rules)
  have IH: "\<exists>out. evaluate_rules event acc' rules = Inr out" for acc'
    by (rule Cons.IH) (erule (1) Cons.prems [OF list.set_intros(2)])
  show ?case
  proof (cases "rd_condition rule")
    case None
    with IH show ?thesis by (auto simp: collect_intents)
  next
    case (Some c)
    with Cons.prems [of rule c] obtain b where "evaluate_condition rule event c = Inr b"
      using evaluate_condition_total [of event c rule] by auto
    with Some IH show ?thesis by (cases b) (auto simp: collect_intents)
  qed
qed simp

fun intent_event :: "action_intent \<Rightarrow> event_id" where
  "intent_event (StreamToUi e) = e"
| "intent_event (ForwardToSink e _ _) = e"
| "intent_event (ExecuteCommand e _ _ _) = e"
| "intent_event (DropEvent e _) = e"
| "intent_event (AddMetadata e _ _) = e"

lemma rule_intents_event: "i \<in> set (rule_intents event rule) \<Longrightarrow> intent_event i = ev_id event"
proof -
  assume "i \<in> set (rule_intents event rule)"
  then obtain a where "i = intent_of rule event a" by (auto simp: rule_intents_def)
  then show ?thesis by (cases a) simp_all
qed

lemma length_concat_bound:
  "(\<And>x. x \<in> set xs \<Longrightarrow> length (f x) \<le> n) \<Longrightarrow> length (concat (map f xs)) \<le> length xs * n"
proof (induction xs)
  case (Cons x xs)
  have "length (f x) \<le> n" "length (concat (map f xs)) \<le> length xs * n"
    using Cons by simp_all
  then show ?case by simp
qed simp

section \<open>Properties\<close>

definition sample_literal :: "nat \<Rightarrow> value_expr" where
  "sample_literal n = Literal (JNumber (PosInt (of_nat n)))"

definition sample_rule :: rule_definition where
  "sample_rule =
     \<lparr>rd_id = ''hot'', rd_name = ''hot device'', rd_enabled = True, rd_trigger = RouteMatched ''r2'',
      rd_condition = Some (AndC [GreaterThan (FieldExpr (Extracted ''temperature'')) (sample_literal 20),
                                 NotC (Equals (FieldExpr DeviceId) (Literal (JString ''d0'')))]),
      rd_actions = [TAddMetadata ''level'' ''high'', TStreamToUi]\<rparr>"

definition sample_rule_limits :: rule_engine_limits where
  "sample_rule_limits =
     \<lparr>rl_max_condition_depth = 4, rl_max_condition_nodes = 8, rl_max_actions_per_rule = 2,
      rl_max_metadata_key_bytes = 16, rl_max_metadata_value_bytes = 16\<rparr>"

lemma sample_rule_simps: "rd_id sample_rule = ''hot''" "rd_enabled sample_rule"
  by (simp_all add: sample_rule_def)

lemma sample_rule_valid: "validate_rule sample_rule_limits sample_rule = Inr ()"
proof -
  have "rule_definition_validate sample_rule = Inr ()"
  proof -
    have blank: "\<not> is_blank ''hot device''" "\<not> is_blank ''temperature''" "\<not> is_blank ''level''" "\<not> is_blank ''high''"
      by code_simp+
    show ?thesis
      by (simp add: rule_definition_validate_def sample_rule_def sample_literal_def validate_operands_def
          validate_text_def blank is_ascii_control_def less_eq_char_def)
  qed
  then show ?thesis
    by (simp add: validate_rule_def sample_rule_def sample_rule_limits_def validate_rule_condition_def
        validate_metadata_action_def validate_action_metadata_iff rule_metadata_limits_def
        reserved_key_def is_ascii_control_def less_eq_char_def)
qed

lemma sample_rule_typed: "rd_condition sample_rule = Some c \<Longrightarrow> well_typed sample_event c"
  by (auto simp: sample_rule_def comparable_def sample_literal_def sample_event_def event_field_def)

lemma sample_hot:
  "evaluate_condition sample_rule sample_event
     (GreaterThan (FieldExpr (Extracted ''temperature'')) (sample_literal 20)) = Inr True"
  using compare_integers(1) [of "FieldExpr (Extracted ''temperature'')" sample_event "PosInt 21" 21
      "sample_literal 20" "PosInt 20" 20 sample_rule] int_key_strict [of 20 21]
  by (simp add: sample_literal_def sample_event_def event_field_def)

lemma sample_fires: "rule_fires sample_event sample_rule"
proof -
  have "holds sample_event (GreaterThan (FieldExpr (Extracted ''temperature'')) (sample_literal 20))"
    using evaluate_condition_sound [OF sample_hot] by (simp only: simp_thms)
  then show ?thesis
    by (simp add: rule_fires_def sample_rule_def resolve_value_def sample_event_def del: holds.simps(4))
qed

text \<open>Evaluating a condition gives its truth, where conjunction and disjunction have no order; the only
  error is a comparison of a value that is not a number, and a condition whose comparisons are all between
  numbers is always evaluated.\<close>

lemma evaluate_condition_meaning:
  "case evaluate_condition rule event c of
     Inr b \<Rightarrow> b = holds event c
   | Inl e \<Rightarrow> e = Rule (NonNumericComparison (rd_id rule)) \<and> \<not> well_typed event c"
proof (cases "evaluate_condition rule event c")
  case (Inl e)
  then have "\<not> well_typed event c" using evaluate_condition_total [of event c rule] by auto
  with Inl evaluate_condition_error [OF Inl] show ?thesis by simp
next
  case (Inr b)
  with evaluate_condition_sound [OF Inr] show ?thesis by simp
qed

text \<open>C4: the engine reports the enabled rules that fire, in configuration order, and the intents of their
  actions, in order; every intent is for the evaluated event, and there are never more of them than the
  action limit allows for the rules of the project.\<close>

theorem rule_evaluate_correct:
  assumes "rule_engine_with_limits rules limits = Inr engine" and "rule_evaluate engine event = Inr out"
  shows "re_matched_rules out = map rd_id (filter (\<lambda>r. rd_enabled r \<and> rule_fires event r) rules) \<and>
         re_intents out = concat (map (rule_intents event) (filter (\<lambda>r. rd_enabled r \<and> rule_fires event r) rules)) \<and>
         list_all (\<lambda>i. intent_event i = ev_id event) (re_intents out) \<and>
         length (re_intents out) \<le> length rules * rl_max_actions_per_rule limits"
proof -
  let ?fired = "filter (\<lambda>r. rd_enabled r \<and> rule_fires event r) rules"
  from assms(1) have eng: "engine = filter rd_enabled rules"
    and valid: "\<forall>r \<in> set rules. rd_enabled r \<longrightarrow> validate_rule limits r = Inr ()"
    by (auto simp: rule_engine_with_limits_def compile_rules_iff)
  have filt: "filter (rule_fires event) (filter rd_enabled rules) = ?fired"
    by (simp add: conj_commute)
  from evaluate_rules_result [OF assms(2) [unfolded rule_evaluate_def]]
  have res: "re_matched_rules out = map rd_id ?fired"
    "re_intents out = concat (map (rule_intents event) ?fired)"
    by (simp_all add: eng filt)
  have "length (rule_intents event r) \<le> rl_max_actions_per_rule limits" if "r \<in> set ?fired" for r
    using that valid validate_rule_bounds(2) [of limits r] by (simp add: rule_intents_def)
  then have "length (concat (map (rule_intents event) ?fired)) \<le> length ?fired * rl_max_actions_per_rule limits"
    by (rule length_concat_bound)
  also have "\<dots> \<le> length rules * rl_max_actions_per_rule limits"
    by (intro mult_le_mono1) simp
  finally show ?thesis
    using res rule_intents_event [of _ event] by (auto simp: list_all_iff)
qed

theorem rule_evaluate_correct_witness:
  "\<exists>out. rule_evaluate [sample_rule] sample_event = Inr out \<and> re_matched_rules out = [''hot''] \<and>
         length (re_intents out) \<le> 2"
proof -
  have eng: "rule_engine_with_limits [sample_rule] sample_rule_limits = Inr [sample_rule]"
    by (simp add: rule_engine_with_limits_def sample_rule_valid) (simp add: sample_rule_def)
  obtain out where out: "rule_evaluate [sample_rule] sample_event = Inr out"
    using evaluate_rules_total [of "[sample_rule]" sample_event] sample_rule_typed by (auto simp: rule_evaluate_def)
  note correct = rule_evaluate_correct [OF eng out]
  have "re_matched_rules out = [''hot'']"
    using correct sample_fires by (simp add: sample_rule_simps)
  moreover have "length (re_intents out) \<le> length [sample_rule] * rl_max_actions_per_rule sample_rule_limits"
    using correct by blast
  ultimately show ?thesis using out by (simp add: sample_rule_limits_def)
qed

text \<open>C39: an evaluation answers for every rule set whose comparisons on this event are between numbers.\<close>

theorem rule_evaluate_answers:
  assumes "\<And>r c. r \<in> set engine \<Longrightarrow> rd_condition r = Some c \<Longrightarrow> well_typed event c"
  shows "\<exists>out. rule_evaluate engine event = Inr out"
  unfolding rule_evaluate_def using assms by (rule evaluate_rules_total)

theorem rule_evaluate_answers_witness: "\<exists>out. rule_evaluate [sample_rule] sample_event = Inr out"
proof (rule rule_evaluate_answers)
  fix r c assume "r \<in> set [sample_rule]" "rd_condition r = Some c"
  then show "well_typed sample_event c" by (simp add: sample_rule_typed)
qed

text \<open>Two integers below two to the 53 in absolute value compare exactly, whatever their signs.\<close>

lemma integer_comparison_exact:
  assumes "resolve_optional_value l event = Some (JNumber m)" "int_value m = Some i" "number_sign_ok m"
    and "resolve_optional_value r event = Some (JNumber n)" "int_value n = Some j" "number_sign_ok n"
    and "\<bar>i\<bar> < 2 ^ 53" and "\<bar>j\<bar> < 2 ^ 53"
  shows "evaluate_condition rule event (GreaterThan l r) = Inr (i > j) \<and>
         evaluate_condition rule event (GreaterThanOrEqual l r) = Inr (i \<ge> j) \<and>
         evaluate_condition rule event (LessThan l r) = Inr (i < j) \<and>
         evaluate_condition rule event (LessThanOrEqual l r) = Inr (i \<le> j)"
  using compare_integers [OF assms(1-6), of rule] int_key_less_iff [OF assms(7,8)]
    int_key_less_iff [OF assms(8,7)] by (simp add: not_less [symmetric])

text \<open>Beyond two to the 53 a comparison goes through the nearest binary64 numbers: it never reports the
  wrong strict order, but it does not tell apart two integers with the same image, such as two to the 53
  and its successor.\<close>

lemma integer_comparison_rounds:
  assumes "resolve_optional_value l event = Some (JNumber m)" "int_value m = Some i" "number_sign_ok m"
    and "resolve_optional_value r event = Some (JNumber n)" "int_value n = Some j" "number_sign_ok n"
    and "evaluate_condition rule event (GreaterThan l r) = Inr True"
  shows "i > j"
  using compare_integers(1) [OF assms(1-6), of rule] assms(7) int_key_mono [of i j]
  by (cases "i \<le> j") auto

lemma int_key_two_53: "int_key (2 ^ 53 + 1) = int_key (2 ^ 53)"
proof -
  have step: "bit_len n = Suc (bit_len (n div 2))" if "n > 0" for n
    using that by (simp add: bit_len.simps [of n])
  have "bit_len (2 ^ 53) = 54" "bit_len (2 ^ 53 + 1) = 54"
    by (simp_all add: step)
  then show ?thesis by (simp add: int_key_def nat_to_f64_mag_def Let_def round_shift_def nat_add_distrib)
qed

text \<open>Every rule of a compiled engine is enabled and within the limits: a non-empty, bounded list of
  actions, a condition without empty groups and of bounded depth and size, no reserved metadata key, and
  no command trigger.\<close>

lemma compiled_rules_bounded:
  assumes "rule_engine_with_limits rules limits = Inr engine" and "r \<in> set engine"
  shows "rd_enabled r \<and> 0 < length (rd_actions r) \<and>
         length (rd_actions r) \<le> rl_max_actions_per_rule limits \<and>
         (\<forall>c. rd_condition r = Some c \<longrightarrow>
            no_empty_group c \<and> condition_depth c \<le> rl_max_condition_depth limits \<and>
            condition_nodes c \<le> rl_max_condition_nodes limits) \<and>
         (\<forall>k v. TAddMetadata k v \<in> set (rd_actions r) \<longrightarrow> \<not> reserved_key k) \<and>
         \<not> is_command_requested (rd_trigger r)"
proof -
  from assms have r: "rd_enabled r" "validate_rule limits r = Inr ()"
    by (auto simp: rule_engine_with_limits_def compile_rules_iff)
  from r(1) validate_rule_bounds [OF r(2)] show ?thesis by blast
qed

end
