(* ===== verification/Storage_Secret.thy ===== *)
theory Storage_Secret
  imports Domain_Config
begin

text \<open>
  Secrets at rest (\<^verbatim>\<open>error.rs\<close> and \<^verbatim>\<open>secret.rs\<close> of \<^verbatim>\<open>pipe-bolt-storage\<close>): the errors of the storage crate,
  the AES-GCM cipher of one key and the keyring with its active key. Base64, AES-256-GCM and the system's
  random numbers are the record \<open>crypto_lib\<close>; \<open>crypto_ok\<close> states what their documentation promises. The
  trait \<^verbatim>\<open>SecretCipher\<close> is the locale \<open>secret_cipher\<close>, interpreted on the cipher and on the keyring.
\<close>

section \<open>Errors\<close>

datatype storage_error =
  SInvalidConfig string
| SInvalidField string string
| SFieldTooLarge string nat nat
| InvalidSecretKey string
| UnknownSecretKey string
| InvalidSecretEncoding string
| SecretCrypto string
| VersionOverflow u64
| NumericOverflow string
| ProjectConfigNotFound string
| VersionConflict string "u64 option" "u64 option"
| InvalidStoredState string
| FailureNotFound string string
| FailureAlreadyResolved string string
| StorageDomain domain_error
| Sqlx string
| MigrationError string
| StorageJson string

text \<open>\<^verbatim>\<open>{:?}\<close> of an \<^verbatim>\<open>Option<u64>\<close>.\<close>

fun debug_u64_option :: "u64 option \<Rightarrow> string" where
  "debug_u64_option None = ''None''"
| "debug_u64_option (Some v) = ''Some('' @ show_nat (unat v) @ '')''"

definition quoted :: "string \<Rightarrow> string" where
  "quoted s = [CHR 0x27] @ s @ [CHR 0x27]"

fun storage_error_display :: "storage_error \<Rightarrow> string" where
  "storage_error_display (SInvalidConfig reason) = ''invalid storage config: '' @ reason"
| "storage_error_display (SInvalidField field reason) = ''invalid field '' @ quoted field @ '': '' @ reason"
| "storage_error_display (SFieldTooLarge field actual mx) =
     ''field '' @ quoted field @ '' is too large: '' @ show_nat actual @ '' bytes exceeds '' @
     show_nat mx @ '' bytes''"
| "storage_error_display (InvalidSecretKey reason) = ''invalid secret key: '' @ reason"
| "storage_error_display (UnknownSecretKey key_id) = ''unknown secret key id '' @ quoted key_id"
| "storage_error_display (InvalidSecretEncoding source) = ''invalid secret encoding: '' @ source"
| "storage_error_display (SecretCrypto operation) = ''secret '' @ operation @ '' failed''"
| "storage_error_display (VersionOverflow version) =
     ''project config version '' @ show_nat (unat version) @ '' exceeds database bigint range''"
| "storage_error_display (NumericOverflow field) =
     ''numeric field '' @ quoted field @ '' exceeds database range''"
| "storage_error_display (ProjectConfigNotFound project_id) =
     ''project config '' @ quoted project_id @ '' was not found''"
| "storage_error_display (VersionConflict project_id expected actual) =
     ''project config version conflict for '' @ quoted project_id @ '': expected '' @
     debug_u64_option expected @ '', actual '' @ debug_u64_option actual"
| "storage_error_display (InvalidStoredState reason) = ''stored state is invalid: '' @ reason"
| "storage_error_display (FailureNotFound project_id failure_id) =
     ''failure '' @ quoted failure_id @ '' was not found for project '' @ quoted project_id"
| "storage_error_display (FailureAlreadyResolved project_id failure_id) =
     ''failure '' @ quoted failure_id @ '' for project '' @ quoted project_id @ '' is already resolved''"
| "storage_error_display (StorageDomain e) = ''domain validation failed: '' @ domain_error_display e"
| "storage_error_display (Sqlx e) = ''database error: '' @ e"
| "storage_error_display (MigrationError e) = ''database migration failed: '' @ e"
| "storage_error_display (StorageJson e) = ''JSON error: '' @ e"

section \<open>UTF-8\<close>

text \<open>What \<^verbatim>\<open>String::from_utf8\<close> accepts: no overlong forms, no surrogates, nothing above U+10FFFF.\<close>

definition byte_in :: "nat \<Rightarrow> nat \<Rightarrow> char \<Rightarrow> bool" where
  "byte_in lo hi c \<longleftrightarrow> lo \<le> of_char c \<and> of_char c \<le> (hi::nat)"

definition cont_byte :: "char \<Rightarrow> bool" where
  "cont_byte c \<longleftrightarrow> byte_in 0x80 0xBF c"

definition utf8_second :: "char \<Rightarrow> char \<Rightarrow> bool" where
  "utf8_second a b \<longleftrightarrow>
     (if of_char a = (0xE0::nat) then byte_in 0xA0 0xBF b
      else if of_char a = (0xED::nat) then byte_in 0x80 0x9F b
      else if of_char a = (0xF0::nat) then byte_in 0x90 0xBF b
      else if of_char a = (0xF4::nat) then byte_in 0x80 0x8F b
      else cont_byte b)"

fun valid_utf8 :: "string \<Rightarrow> bool" where
  "valid_utf8 [] = True"
| "valid_utf8 (a # s) =
     (if byte_in 0x00 0x7F a then valid_utf8 s
      else if byte_in 0xC2 0xDF a then
        (case s of b # t \<Rightarrow> utf8_second a b \<and> valid_utf8 t | _ \<Rightarrow> False)
      else if byte_in 0xE0 0xEF a then
        (case s of b # c # t \<Rightarrow> utf8_second a b \<and> cont_byte c \<and> valid_utf8 t | _ \<Rightarrow> False)
      else if byte_in 0xF0 0xF4 a then
        (case s of b # c # d # t \<Rightarrow> utf8_second a b \<and> cont_byte c \<and> cont_byte d \<and> valid_utf8 t
         | _ \<Rightarrow> False)
      else False)"

section \<open>Cryptography\<close>

record ('k, 'r) crypto_lib =
  b64_encode :: "string \<Rightarrow> string"
  b64_decode :: "string \<Rightarrow> string + string"
  aes_new :: "string \<Rightarrow> 'k option"
  aes_encrypt :: "'k \<Rightarrow> string \<Rightarrow> string \<Rightarrow> string \<Rightarrow> string option"
  aes_decrypt :: "'k \<Rightarrow> string \<Rightarrow> string \<Rightarrow> string \<Rightarrow> string option"
  fill_bytes :: "nat \<Rightarrow> 'r \<Rightarrow> string option \<times> 'r"

text \<open>
  Documented behaviour: decoding inverts encoding, decryption with the key, nonce and associated data of an
  encryption returns the message, and the random bytes fill the buffer.
\<close>

definition crypto_ok :: "('k, 'r) crypto_lib \<Rightarrow> bool" where
  "crypto_ok lib \<longleftrightarrow>
     (\<forall>s. b64_decode lib (b64_encode lib s) = Inr s) \<and>
     (\<forall>k n aad m c. aes_encrypt lib k n aad m = Some c \<longrightarrow> aes_decrypt lib k n aad c = Some m) \<and>
     (\<forall>n r bs r'. fill_bytes lib n r = (Some bs, r') \<longrightarrow> length bs = n)"

definition aes_256_key_bytes :: nat where "aes_256_key_bytes = 32"
definition aes_gcm_nonce_bytes :: nat where "aes_gcm_nonce_bytes = 12"
definition aes_gcm_algorithm :: string where "aes_gcm_algorithm = ''AES-256-GCM''"

record encrypted_secret =
  es_algorithm :: string
  es_key_id :: string
  es_nonce :: string
  es_ciphertext :: string

text \<open>A trait object \<^verbatim>\<open>dyn SecretCipher\<close>: its methods, with the state of the random numbers passed on.\<close>

record 'r secret_cipher_obj =
  sc_key_id :: string
  sc_encrypt :: "string \<Rightarrow> string \<Rightarrow> 'r \<Rightarrow> (storage_error + encrypted_secret) \<times> 'r"
  sc_decrypt :: "encrypted_secret \<Rightarrow> string \<Rightarrow> storage_error + string"

definition is_key_id_byte :: "char \<Rightarrow> bool" where
  "is_key_id_byte c \<longleftrightarrow>
     is_ascii_alphanumeric c \<or> c \<in> {CHR ''_'', CHR ''-'', CHR ''.'', CHR '':''}"

definition validate_key_id :: "string \<Rightarrow> storage_error + unit" where
  "validate_key_id key_id =
     (if is_blank key_id \<or> length key_id > 96
      then Inl (InvalidSecretKey ''key_id must be non-empty and at most 96 bytes'')
      else if \<not> list_all is_key_id_byte key_id
      then Inl (InvalidSecretKey ''key_id contains unsupported characters'')
      else Inr ())"

record 'k aes_gcm_secret_cipher =
  ac_key_id :: string
  ac_cipher :: 'k

definition from_base64_key ::
    "('k, 'r) crypto_lib \<Rightarrow> string \<Rightarrow> string \<Rightarrow> storage_error + 'k aes_gcm_secret_cipher" where
  "from_base64_key lib key_id key_b64 =
     res_bind (validate_key_id key_id) (\<lambda>_.
     res_bind (map_err InvalidSecretEncoding (b64_decode lib key_b64)) (\<lambda>key.
     if length key \<noteq> aes_256_key_bytes
     then Inl (InvalidSecretKey ''AES-256-GCM key must decode to 32 bytes'')
     else
       res_bind (ok_or (InvalidSecretKey ''AES-256-GCM key initialization failed'') (aes_new lib key))
         (\<lambda>cipher. Inr \<lparr>ac_key_id = key_id, ac_cipher = cipher\<rparr>)))"

definition aes_cipher_encrypt ::
    "('k, 'r) crypto_lib \<Rightarrow> 'k aes_gcm_secret_cipher \<Rightarrow> string \<Rightarrow> string \<Rightarrow> 'r \<Rightarrow>
     (storage_error + encrypted_secret) \<times> 'r" where
  "aes_cipher_encrypt lib c plaintext aad r =
     (case fill_bytes lib aes_gcm_nonce_bytes r of
        (None, r') \<Rightarrow> (Inl (SecretCrypto ''encrypt''), r')
      | (Some nonce, r') \<Rightarrow>
          (case aes_encrypt lib (ac_cipher c) nonce aad plaintext of
             None \<Rightarrow> (Inl (SecretCrypto ''encrypt''), r')
           | Some ciphertext \<Rightarrow>
               (Inr \<lparr>es_algorithm = aes_gcm_algorithm, es_key_id = ac_key_id c,
                     es_nonce = b64_encode lib nonce, es_ciphertext = b64_encode lib ciphertext\<rparr>, r')))"

definition aes_cipher_decrypt ::
    "('k, 'r) crypto_lib \<Rightarrow> 'k aes_gcm_secret_cipher \<Rightarrow> encrypted_secret \<Rightarrow> string \<Rightarrow>
     storage_error + string" where
  "aes_cipher_decrypt lib c e aad =
     (if es_algorithm e \<noteq> aes_gcm_algorithm \<or> es_key_id e \<noteq> ac_key_id c
      then Inl (SecretCrypto ''decrypt'')
      else
        res_bind (map_err InvalidSecretEncoding (b64_decode lib (es_nonce e))) (\<lambda>nonce.
        if length nonce \<noteq> aes_gcm_nonce_bytes then Inl (SecretCrypto ''decrypt'')
        else
          res_bind (map_err InvalidSecretEncoding (b64_decode lib (es_ciphertext e))) (\<lambda>ciphertext.
          res_bind (ok_or (SecretCrypto ''decrypt'')
                      (aes_decrypt lib (ac_cipher c) nonce aad ciphertext)) (\<lambda>plaintext.
          if valid_utf8 plaintext then Inr plaintext else Inl (SecretCrypto ''decrypt'')))))"

definition aes_cipher_obj ::
    "('k, 'r) crypto_lib \<Rightarrow> 'k aes_gcm_secret_cipher \<Rightarrow> 'r secret_cipher_obj" where
  "aes_cipher_obj lib c =
     \<lparr>sc_key_id = ac_key_id c, sc_encrypt = aes_cipher_encrypt lib c, sc_decrypt = aes_cipher_decrypt lib c\<rparr>"

section \<open>The keyring\<close>

record 'k storage_keyring =
  kr_active_key_id :: string
  kr_keys :: "(string, 'k aes_gcm_secret_cipher) bmap"

text \<open>One turn of the loop over the configured keys.\<close>

definition keyring_add ::
    "('k, 'r) crypto_lib \<Rightarrow> (string, 'k aes_gcm_secret_cipher) bmap \<Rightarrow> string \<times> string \<Rightarrow>
     storage_error + (string, 'k aes_gcm_secret_cipher) bmap" where
  "keyring_add lib ciphers entry =
     (case entry of (key_id, key_b64) \<Rightarrow>
      res_bind (validate_key_id key_id) (\<lambda>_.
      if map_of ciphers key_id \<noteq> None then Inl (InvalidSecretKey ''duplicate storage key id'')
      else
        res_bind (from_base64_key lib key_id key_b64) (\<lambda>cipher.
        Inr (bm_insert key_id cipher ciphers))))"

definition from_base64_keys ::
    "('k, 'r) crypto_lib \<Rightarrow> string \<Rightarrow> (string \<times> string) list \<Rightarrow> storage_error + 'k storage_keyring" where
  "from_base64_keys lib active_key_id entries =
     res_bind (validate_key_id active_key_id) (\<lambda>_.
     res_bind (try_fold (keyring_add lib) [] entries) (\<lambda>ciphers.
     if map_of ciphers active_key_id = None
     then Inl (InvalidSecretKey ''active key id must exist in keyring'')
     else Inr \<lparr>kr_active_key_id = active_key_id, kr_keys = ciphers\<rparr>))"

definition keyring_single ::
    "('k, 'r) crypto_lib \<Rightarrow> string \<Rightarrow> string \<Rightarrow> storage_error + 'k storage_keyring" where
  "keyring_single lib key_id key_b64 = from_base64_keys lib key_id [(key_id, key_b64)]"

definition active_cipher :: "'k storage_keyring \<Rightarrow> storage_error + 'k aes_gcm_secret_cipher" where
  "active_cipher k =
     ok_or (InvalidSecretKey ''active key id must exist in keyring'') (map_of (kr_keys k) (kr_active_key_id k))"

definition keyring_encrypt ::
    "('k, 'r) crypto_lib \<Rightarrow> 'k storage_keyring \<Rightarrow> string \<Rightarrow> string \<Rightarrow> 'r \<Rightarrow>
     (storage_error + encrypted_secret) \<times> 'r" where
  "keyring_encrypt lib k plaintext aad r =
     (case active_cipher k of
        Inl e \<Rightarrow> (Inl e, r)
      | Inr c \<Rightarrow> aes_cipher_encrypt lib c plaintext aad r)"

definition keyring_decrypt ::
    "('k, 'r) crypto_lib \<Rightarrow> 'k storage_keyring \<Rightarrow> encrypted_secret \<Rightarrow> string \<Rightarrow> storage_error + string" where
  "keyring_decrypt lib k e aad =
     res_bind (ok_or (UnknownSecretKey (es_key_id e)) (map_of (kr_keys k) (es_key_id e))) (\<lambda>c.
     aes_cipher_decrypt lib c e aad)"

definition keyring_obj :: "('k, 'r) crypto_lib \<Rightarrow> 'k storage_keyring \<Rightarrow> 'r secret_cipher_obj" where
  "keyring_obj lib k =
     \<lparr>sc_key_id = kr_active_key_id k, sc_encrypt = keyring_encrypt lib k, sc_decrypt = keyring_decrypt lib k\<rparr>"

section \<open>Laws of the ciphers\<close>

text \<open>
  What the codec relies on: a secret one cipher encrypts is read back by every cipher that \<open>reads\<close> it, and
  an encrypted secret names the key of the cipher.
\<close>

locale secret_cipher =
  fixes obj :: "'c \<Rightarrow> 'r secret_cipher_obj"
    and reads :: "'c \<Rightarrow> 'c \<Rightarrow> bool"
  assumes decrypt_encrypt: "reads d c \<Longrightarrow> valid_utf8 p \<Longrightarrow> sc_encrypt (obj c) p aad r = (Inr e, r') \<Longrightarrow>
      sc_decrypt (obj d) e aad = Inr p"
    and encrypt_key_id: "reads d c \<Longrightarrow> sc_encrypt (obj c) p aad r = (Inr e, r') \<Longrightarrow>
      es_key_id e = sc_key_id (obj c)"

lemma aes_cipher_encrypt_Inr:
  "aes_cipher_encrypt lib c p aad r = (Inr e, r') \<longleftrightarrow>
     (\<exists>nonce ct. fill_bytes lib aes_gcm_nonce_bytes r = (Some nonce, r') \<and>
        aes_encrypt lib (ac_cipher c) nonce aad p = Some ct \<and>
        e = \<lparr>es_algorithm = aes_gcm_algorithm, es_key_id = ac_key_id c,
             es_nonce = b64_encode lib nonce, es_ciphertext = b64_encode lib ct\<rparr>)"
  by (auto simp: aes_cipher_encrypt_def split: prod.splits option.splits)

lemma aes_decrypt_encrypt:
  assumes "crypto_ok lib" "valid_utf8 p" "aes_cipher_encrypt lib c p aad r = (Inr e, r')"
  shows "aes_cipher_decrypt lib c e aad = Inr p"
proof -
  from assms(3) obtain nonce ct where e:
      "fill_bytes lib aes_gcm_nonce_bytes r = (Some nonce, r')"
      "aes_encrypt lib (ac_cipher c) nonce aad p = Some ct"
      "e = \<lparr>es_algorithm = aes_gcm_algorithm, es_key_id = ac_key_id c,
           es_nonce = b64_encode lib nonce, es_ciphertext = b64_encode lib ct\<rparr>"
    by (auto simp: aes_cipher_encrypt_Inr)
  have "length nonce = aes_gcm_nonce_bytes" "aes_decrypt lib (ac_cipher c) nonce aad ct = Some p"
    using assms(1) e(1,2) unfolding crypto_ok_def by blast+
  then show ?thesis using assms(1,2) by (simp add: aes_cipher_decrypt_def e(3) crypto_ok_def)
qed

text \<open>Every entry of a keyring is filed under its own key id, and the active key is present.\<close>

definition keyring_wf :: "'k storage_keyring \<Rightarrow> bool" where
  "keyring_wf k \<longleftrightarrow>
     (\<forall>i c. map_of (kr_keys k) i = Some c \<longrightarrow> ac_key_id c = i) \<and> map_of (kr_keys k) (kr_active_key_id k) \<noteq> None"

text \<open>A keyring reads the secrets of another one when it still has all of its keys.\<close>

definition keyring_reads ::
    "('k, 'r) crypto_lib \<times> 'k storage_keyring \<Rightarrow> ('k, 'r) crypto_lib \<times> 'k storage_keyring \<Rightarrow> bool" where
  "keyring_reads d c \<longleftrightarrow>
     crypto_ok (fst c) \<and> fst d = fst c \<and> keyring_wf (snd c) \<and>
     map_of (kr_keys (snd c)) \<subseteq>\<^sub>m map_of (kr_keys (snd d))"

interpretation aes: secret_cipher "\<lambda>(lib, c). aes_cipher_obj lib c" "\<lambda>d c. crypto_ok (fst c) \<and> d = c"
  by unfold_locales
    (auto simp: aes_cipher_obj_def aes_cipher_encrypt_Inr dest: aes_decrypt_encrypt [unfolded aes_cipher_encrypt_Inr])

lemma keyring_encrypt_Inr:
  "keyring_encrypt lib k p aad r = (Inr e, r') \<longleftrightarrow>
     (\<exists>c. map_of (kr_keys k) (kr_active_key_id k) = Some c \<and> aes_cipher_encrypt lib c p aad r = (Inr e, r'))"
  by (auto simp: keyring_encrypt_def active_cipher_def split: sum.splits)

lemma keyring_decrypt_encrypt:
  assumes "keyring_reads (lib, d) (lib, k)" "valid_utf8 p" "keyring_encrypt lib k p aad r = (Inr e, r')"
  shows "keyring_decrypt lib d e aad = Inr p"
proof -
  from assms(3) obtain c where c: "map_of (kr_keys k) (kr_active_key_id k) = Some c"
      "aes_cipher_encrypt lib c p aad r = (Inr e, r')" by (auto simp: keyring_encrypt_Inr)
  from c(1) assms(1) have "ac_key_id c = kr_active_key_id k" by (simp add: keyring_reads_def keyring_wf_def)
  with c(2) have "es_key_id e = kr_active_key_id k" by (auto simp: aes_cipher_encrypt_Inr)
  with c(1) assms(1) have "map_of (kr_keys d) (es_key_id e) = Some c"
    by (auto simp: keyring_reads_def map_le_def dom_def)
  with aes_decrypt_encrypt [OF _ assms(2) c(2)] assms(1) show ?thesis
    by (simp add: keyring_decrypt_def keyring_reads_def)
qed

interpretation ring: secret_cipher "\<lambda>(lib, k). keyring_obj lib k" keyring_reads
proof (unfold_locales, goal_cases)
  case (1 d c p aad r e r')
  obtain lib k k' where c: "c = (lib, k)" "d = (lib, k')"
    using 1(1) by (cases c; cases d) (auto simp: keyring_reads_def)
  have "keyring_decrypt lib k' e aad = Inr p"
    by (rule keyring_decrypt_encrypt) (use 1 in \<open>simp_all add: c keyring_obj_def\<close>)
  then show ?case by (simp add: c keyring_obj_def)
next
  case (2 d c p aad r e r')
  then show ?case
    by (cases c) (auto simp: keyring_obj_def keyring_encrypt_Inr keyring_reads_def keyring_wf_def
        aes_cipher_encrypt_Inr)
qed

section \<open>What a keyring holds\<close>

text \<open>The loop files each configured key under its id and keeps the ids apart.\<close>

lemma keyring_add_Inr:
  "keyring_add lib m (i, b) = Inr m' \<longleftrightarrow>
     map_of m i = None \<and> (\<exists>c. from_base64_key lib i b = Inr c \<and> m' = bm_insert i c m)"
  by (auto simp: keyring_add_def from_base64_key_def split: if_splits)

lemma keyring_fold_lookup:
  assumes "try_fold (keyring_add lib) m entries = Inr m'"
  shows "map_of m' i = Some c \<longleftrightarrow>
           map_of m i = Some c \<or> (\<exists>b. (i, b) \<in> set entries \<and> from_base64_key lib i b = Inr c)"
  using assms
proof (induction entries arbitrary: m)
  case (Cons x entries)
  obtain j b where x: "x = (j, b)" by fastforce
  from Cons.prems obtain d where d: "map_of m j = None" "from_base64_key lib j b = Inr d"
      "try_fold (keyring_add lib) (bm_insert j d m) entries = Inr m'"
    by (auto simp: x keyring_add_Inr)
  show ?case unfolding Cons.IH [OF d(3)] using d(1,2) by (auto simp: x)
qed simp

lemma from_base64_key_id: "from_base64_key lib i b = Inr c \<Longrightarrow> ac_key_id c = i"
  by (auto simp: from_base64_key_def split: if_splits)

lemma keyring_lookup:
  assumes "from_base64_keys lib a entries = Inr k"
  shows "map_of (kr_keys k) i = Some c \<longleftrightarrow> (\<exists>b. (i, b) \<in> set entries \<and> from_base64_key lib i b = Inr c)"
  using assms by (auto simp: from_base64_keys_def keyring_fold_lookup split: if_splits)

lemma keyring_wf_new: "from_base64_keys lib a entries = Inr k \<Longrightarrow> keyring_wf k"
  unfolding keyring_wf_def
proof (intro conjI allI impI)
  fix i c assume "from_base64_keys lib a entries = Inr k" "map_of (kr_keys k) i = Some c"
  then show "ac_key_id c = i" by (auto simp: keyring_lookup from_base64_key_id)
qed (auto simp: from_base64_keys_def split: if_splits)

lemma keyring_active: "from_base64_keys lib a entries = Inr k \<Longrightarrow> kr_active_key_id k = a"
  by (auto simp: from_base64_keys_def split: if_splits)

text \<open>Adding keys, or making another one active, never loses a secret.\<close>

lemma keyring_reads_more:
  assumes "crypto_ok lib" "from_base64_keys lib a entries = Inr k" "from_base64_keys lib a' entries' = Inr k'"
    and "set entries \<subseteq> set entries'"
  shows "keyring_reads (lib, k') (lib, k)"
  unfolding keyring_reads_def map_le_def
proof (simp add: assms(1) keyring_wf_new [OF assms(2)], intro ballI)
  fix i assume "i \<in> dom (map_of (kr_keys k))"
  then obtain c where c: "map_of (kr_keys k) i = Some c" by blast
  then obtain b where b: "(i, b) \<in> set entries" "from_base64_key lib i b = Inr c"
    by (auto simp: keyring_lookup [OF assms(2)])
  then have "map_of (kr_keys k') i = Some c" using assms(4) by (auto simp: keyring_lookup [OF assms(3)])
  with c show "map_of (kr_keys k) i = map_of (kr_keys k') i" by simp
qed

end
