(* ===== verification/Runtime_Config.thy ===== *)
theory Runtime_Config
  imports Mqtt_Engine Dispatcher Rule_Engine Storage_Secret
begin

text \<open>
  Construction of a project runtime (\<^verbatim>\<open>runtime.rs\<close> of the daemon): its errors and settings, the checks a
  configuration must pass before it runs, and the MQTT client configuration of a broker with the merged
  subscriptions of its routes.
\<close>

section \<open>Errors\<close>

datatype persistence_writer_error =
  PwInvalidConfig string
| PwJoin string
| PwDrainTimeout

fun persistence_writer_error_display :: "persistence_writer_error \<Rightarrow> string" where
  "persistence_writer_error_display (PwInvalidConfig reason) = ''invalid persistence writer config: '' @ reason"
| "persistence_writer_error_display (PwJoin _) = ''persistence writer worker join failed''"
| "persistence_writer_error_display PwDrainTimeout = ''persistence writer shutdown drain timed out''"

datatype runtime_error =
  ProjectDisabled
| RtInvalidConfig string
| MultipleEnabledBrokersUnsupported nat
| DuplicateId string string
| NoEnabledBroker
| NoEnabledRoutesForBroker string
| RouteReferencesUnavailableBroker string string
| RouteReferencesUnknownSchemaMapping string string
| UnsupportedBackpressurePolicy string string
| CommandTemplateReferencesUnavailableBroker string string
| RtCommandTemplateNotFound string
| RtCommandTemplateDisabled string
| RtCommandBrokerUnavailable string
| RtCommandTemplateRender string string
| RtCommandPayloadTooLarge nat nat
| RuleReferencesUnknownSink string string
| RuleReferencesDisabledSink string string
| RuleReferencesUnsupportedSink string string
| RuleReferencesUnknownCommandTemplate string string
| RuleReferencesDisabledCommandTemplate string string
| RtDomain domain_error
| RtMqtt mqtt_engine_error
| RtDispatch dispatch_error
| RtWorkerJoinTimeout string
| RtWorkerJoin string string
| RtPersistenceWriter persistence_writer_error

fun runtime_error_display :: "runtime_error \<Rightarrow> string" where
  "runtime_error_display ProjectDisabled = ''project is disabled''"
| "runtime_error_display (RtInvalidConfig m) = ''invalid runtime config: '' @ m"
| "runtime_error_display (MultipleEnabledBrokersUnsupported n) =
     ''multiple enabled brokers are not supported by this runtime slice: '' @ show_nat n @ '' enabled brokers''"
| "runtime_error_display (DuplicateId collection i) = ''duplicate '' @ collection @ '' id '' @ quoted i"
| "runtime_error_display NoEnabledBroker = ''no enabled broker configured''"
| "runtime_error_display (NoEnabledRoutesForBroker b) = ''broker '' @ quoted b @ '' has no enabled route''"
| "runtime_error_display (RouteReferencesUnavailableBroker r b) =
     ''enabled route '' @ quoted r @ '' references an unknown or disabled broker '' @ quoted b"
| "runtime_error_display (RouteReferencesUnknownSchemaMapping r m) =
     ''enabled route '' @ quoted r @ '' references unknown schema mapping '' @ quoted m"
| "runtime_error_display (UnsupportedBackpressurePolicy r p) =
     ''route '' @ quoted r @ '' uses unsupported backpressure policy '' @ quoted p"
| "runtime_error_display (CommandTemplateReferencesUnavailableBroker t b) =
     ''enabled command template '' @ quoted t @ '' references an unknown or disabled broker '' @ quoted b"
| "runtime_error_display (RtCommandTemplateNotFound t) = ''command template '' @ quoted t @ '' was not found''"
| "runtime_error_display (RtCommandTemplateDisabled t) = ''command template '' @ quoted t @ '' is disabled''"
| "runtime_error_display (RtCommandBrokerUnavailable b) = ''broker '' @ quoted b @ '' is not running''"
| "runtime_error_display (RtCommandTemplateRender t reason) =
     ''command template '' @ quoted t @ '' render failed: '' @ reason"
| "runtime_error_display (RtCommandPayloadTooLarge mx actual) =
     ''command payload is too large: max '' @ show_nat mx @ '' bytes, got '' @ show_nat actual @ '' bytes''"
| "runtime_error_display (RuleReferencesUnknownSink r s) =
     ''enabled rule '' @ quoted r @ '' references unknown sink '' @ quoted s"
| "runtime_error_display (RuleReferencesDisabledSink r s) =
     ''enabled rule '' @ quoted r @ '' references disabled sink '' @ quoted s"
| "runtime_error_display (RuleReferencesUnsupportedSink r s) =
     ''enabled rule '' @ quoted r @ '' references unsupported sink '' @ quoted s"
| "runtime_error_display (RuleReferencesUnknownCommandTemplate r t) =
     ''enabled rule '' @ quoted r @ '' references unknown command template '' @ quoted t"
| "runtime_error_display (RuleReferencesDisabledCommandTemplate r t) =
     ''enabled rule '' @ quoted r @ '' references disabled command template '' @ quoted t"
| "runtime_error_display (RtDomain e) = ''domain config error: '' @ domain_error_display e"
| "runtime_error_display (RtMqtt e) = ''MQTT runtime error: '' @ mqtt_engine_error_display e"
| "runtime_error_display (RtDispatch e) = ''dispatch runtime error: '' @ dispatch_error_display e"
| "runtime_error_display (RtWorkerJoinTimeout n) = ''worker '' @ quoted n @ '' join timed out''"
| "runtime_error_display (RtWorkerJoin n _) = ''worker '' @ quoted n @ '' join failed''"
| "runtime_error_display (RtPersistenceWriter e) =
     ''persistence writer error: '' @ persistence_writer_error_display e"

section \<open>Settings\<close>

record runtime_settings =
  rs_forward_limits :: forward_limits
  rs_egress_policy :: egress_policy
  rs_normalizer_limits :: normalizer_limits
  rs_rule_limits :: rule_engine_limits
  rs_dispatch_limits :: dispatch_limits
  rs_realtime_event_capacity :: nat
  rs_command_queue_capacity :: nat
  rs_command_publish_outcome_capacity :: nat
  rs_realtime_bridge_bind_addr :: "ip_addr \<times> u16"
  rs_worker_join_timeout :: duration

definition runtime_settings_default :: runtime_settings where
  "runtime_settings_default =
     \<lparr>rs_forward_limits = forward_limits_default, rs_egress_policy = egress_policy_default,
      rs_normalizer_limits = normalizer_limits_default, rs_rule_limits = rule_engine_limits_default,
      rs_dispatch_limits = dispatch_limits_default, rs_realtime_event_capacity = 1024,
      rs_command_queue_capacity = 256, rs_command_publish_outcome_capacity = 256,
      rs_realtime_bridge_bind_addr = (V4 [0, 0, 0, 0], 8080), rs_worker_join_timeout = from_secs 10\<rparr>"

definition validate_runtime_settings :: "runtime_settings \<Rightarrow> runtime_error + unit" where
  "validate_runtime_settings s =
     (if rs_realtime_event_capacity s = 0
      then Inl (RtInvalidConfig ''realtime event capacity must be greater than zero'')
      else if rs_worker_join_timeout s = 0
      then Inl (RtInvalidConfig ''worker join timeout must be greater than zero'')
      else if rs_command_queue_capacity s = 0
      then Inl (RtInvalidConfig ''command queue capacity must be greater than zero'')
      else if rs_command_publish_outcome_capacity s = 0
      then Inl (RtInvalidConfig ''command publish outcome capacity must be greater than zero'')
      else Inr ())"

section \<open>Checks of a configuration\<close>

definition insert_unique_id :: "string \<Rightarrow> string set \<Rightarrow> string \<Rightarrow> runtime_error + string set" where
  "insert_unique_id collection seen i =
     (if i \<in> seen then Inl (DuplicateId collection i) else Inr (insert i seen))"

definition unique_ids :: "string \<Rightarrow> string list \<Rightarrow> runtime_error + unit" where
  "unique_ids collection ids =
     res_bind (try_fold (insert_unique_id collection) {} ids) (\<lambda>_. Inr ())"

text \<open>The loop over the rules also validates each of them.\<close>

definition insert_rule_id :: "string set \<Rightarrow> rule_definition \<Rightarrow> runtime_error + string set" where
  "insert_rule_id seen r =
     res_bind (map_err RtDomain (rule_definition_validate r)) (\<lambda>_. insert_unique_id ''rule'' seen (rd_id r))"

definition validate_unique_ids :: "project_config \<Rightarrow> runtime_error + unit" where
  "validate_unique_ids p =
     res_bind (unique_ids ''broker'' (map bc_id (pc_brokers p))) (\<lambda>_.
     res_bind (unique_ids ''route'' (map tr_id (pc_routes p))) (\<lambda>_.
     res_bind (unique_ids ''schema_mapping'' (map sm_id (pc_schema_mappings p))) (\<lambda>_.
     res_bind (try_fold insert_rule_id {} (pc_rules p)) (\<lambda>_.
     res_bind (unique_ids ''command_template'' (map ct_id (pc_command_templates p))) (\<lambda>_.
     res_bind (unique_ids ''sink'' (map sk_id (pc_sinks p))) (\<lambda>_. Inr ()))))))"

definition enabled_brokers :: "project_config \<Rightarrow> broker_connection_config list" where
  "enabled_brokers p = filter bc_enabled (pc_brokers p)"

definition validate_single_enabled_broker :: "project_config \<Rightarrow> runtime_error + unit" where
  "validate_single_enabled_broker p =
     (let n = length (enabled_brokers p) in
      if n = 0 then Inl NoEnabledBroker
      else if n = 1 then Inr ()
      else Inl (MultipleEnabledBrokersUnsupported n))"

fun backpressure_policy_name :: "backpressure_policy \<Rightarrow> string" where
  "backpressure_policy_name DropNewest = ''drop_newest''"
| "backpressure_policy_name DropOldest = ''drop_oldest''"
| "backpressure_policy_name RejectPolicy = ''reject''"
| "backpressure_policy_name BlockProducer = ''block_producer''"

definition validate_enabled_route :: "project_config \<Rightarrow> topic_route_config \<Rightarrow> runtime_error + unit" where
  "validate_enabled_route p r =
     (if tr_broker_id r \<notin> set (map bc_id (enabled_brokers p))
      then Inl (RouteReferencesUnavailableBroker (tr_id r) (tr_broker_id r))
      else
        (case tr_schema_mapping_id r of
           Some m \<Rightarrow>
             if m \<notin> set (map sm_id (pc_schema_mappings p))
             then Inl (RouteReferencesUnknownSchemaMapping (tr_id r) m)
             else if tr_backpressure r \<noteq> RejectPolicy
             then Inl (UnsupportedBackpressurePolicy (tr_id r) (backpressure_policy_name (tr_backpressure r)))
             else Inr ()
         | None \<Rightarrow>
             if tr_backpressure r \<noteq> RejectPolicy
             then Inl (UnsupportedBackpressurePolicy (tr_id r) (backpressure_policy_name (tr_backpressure r)))
             else Inr ()))"

definition validate_routes :: "project_config \<Rightarrow> runtime_error + unit" where
  "validate_routes p =
     (let enabled = filter tr_enabled (pc_routes p) in
      res_bind (try_for_each (validate_enabled_route p) enabled) (\<lambda>_.
      if enabled = [] then
        Inl (NoEnabledRoutesForBroker (case enabled_brokers p of [] \<Rightarrow> ''<none>'' | b # _ \<Rightarrow> bc_id b))
      else Inr ()))"

definition validate_command_templates :: "project_config \<Rightarrow> runtime_error + unit" where
  "validate_command_templates p =
     try_for_each (\<lambda>t.
       if ct_broker_id t \<notin> set (map bc_id (enabled_brokers p))
       then Inl (CommandTemplateReferencesUnavailableBroker (ct_id t) (ct_broker_id t)) else Inr ())
       (filter ct_enabled (pc_command_templates p))"

definition is_webhook :: "sink_kind \<Rightarrow> bool" where
  "is_webhook k = (case k of Webhook _ _ _ _ \<Rightarrow> True | Database _ _ \<Rightarrow> False)"

fun check_sink_reference ::
    "project_config \<Rightarrow> rule_definition \<Rightarrow> action_intent_template \<Rightarrow> runtime_error + unit" where
  "check_sink_reference p r (TForwardToSink sid) =
     (case List.find (\<lambda>s. sk_id s = sid) (pc_sinks p) of
        None \<Rightarrow> Inl (RuleReferencesUnknownSink (rd_id r) sid)
      | Some s \<Rightarrow>
          if \<not> sk_enabled s then Inl (RuleReferencesDisabledSink (rd_id r) sid)
          else if \<not> is_webhook (sk_kind s) then Inl (RuleReferencesUnsupportedSink (rd_id r) sid)
          else Inr ())"
| "check_sink_reference p r _ = Inr ()"

definition validate_rule_sink_references :: "project_config \<Rightarrow> runtime_error + unit" where
  "validate_rule_sink_references p =
     try_for_each (\<lambda>r. try_for_each (check_sink_reference p r) (rd_actions r)) (filter rd_enabled (pc_rules p))"

fun check_command_reference ::
    "project_config \<Rightarrow> rule_definition \<Rightarrow> action_intent_template \<Rightarrow> runtime_error + unit" where
  "check_command_reference p r (TExecuteCommand tid params) =
     (case List.find (\<lambda>t. ct_id t = tid) (pc_command_templates p) of
        None \<Rightarrow> Inl (RuleReferencesUnknownCommandTemplate (rd_id r) tid)
      | Some t \<Rightarrow>
          if \<not> ct_enabled t then Inl (RuleReferencesDisabledCommandTemplate (rd_id r) tid) else Inr ())"
| "check_command_reference p r _ = Inr ()"

definition validate_rule_command_references :: "project_config \<Rightarrow> runtime_error + unit" where
  "validate_rule_command_references p =
     try_for_each (\<lambda>r. try_for_each (check_command_reference p r) (rd_actions r)) (filter rd_enabled (pc_rules p))"

definition validate_runtime_config :: "project_config \<Rightarrow> runtime_error + unit" where
  "validate_runtime_config p =
     res_bind (map_err RtDomain (project_config_validate p)) (\<lambda>_.
     if \<not> pc_enabled p then Inl ProjectDisabled
     else
       res_bind (validate_unique_ids p) (\<lambda>_.
       res_bind (validate_single_enabled_broker p) (\<lambda>_.
       res_bind (validate_routes p) (\<lambda>_.
       res_bind (validate_command_templates p) (\<lambda>_.
       res_bind (validate_rule_sink_references p) (\<lambda>_.
       validate_rule_command_references p))))))"

section \<open>The client configuration of a broker\<close>

fun map_tls_mode :: "tls_mode \<Rightarrow> mqtt_tls_mode" where
  "map_tls_mode TlsDisabled = MqttTlsDisabled"
| "map_tls_mode NativeRoots = EnabledWithNativeRoot"

text \<open>\<^verbatim>\<open>map_qos\<close> maps onto the three constructors of the MQTT client, which are those of \<^typ>\<open>mqtt_qos\<close>.\<close>

fun map_qos :: "mqtt_qos \<Rightarrow> mqtt_qos" where
  "map_qos AtMostOnce = AtMostOnce"
| "map_qos AtLeastOnce = AtLeastOnce"
| "map_qos ExactlyOnce = ExactlyOnce"

fun qos_rank :: "mqtt_qos \<Rightarrow> nat" where
  "qos_rank AtMostOnce = 0"
| "qos_rank AtLeastOnce = 1"
| "qos_rank ExactlyOnce = 2"

definition max_qos :: "mqtt_qos \<Rightarrow> mqtt_qos \<Rightarrow> mqtt_qos" where
  "max_qos l r = (if qos_rank r > qos_rank l then r else l)"

definition merge_subscription ::
    "topic_route_config \<Rightarrow> (string, mqtt_qos) bmap \<Rightarrow> (string, mqtt_qos) bmap" where
  "merge_subscription route subs =
     (case map_of subs (tr_topic_filter route) of
        Some existing \<Rightarrow> bm_insert (tr_topic_filter route) (max_qos existing (map_qos (tr_qos route))) subs
      | None \<Rightarrow> bm_insert (tr_topic_filter route) (map_qos (tr_qos route)) subs)"

definition merged_subscriptions :: "topic_route_config list \<Rightarrow> (string \<times> mqtt_qos) list" where
  "merged_subscriptions routes = fold merge_subscription routes []"

definition build_mqtt_client_config ::
    "broker_connection_config \<Rightarrow> topic_route_config list \<Rightarrow> runtime_error + mqtt_client_config" where
  "build_mqtt_client_config b routes =
     (let c0 = with_reconnect \<lparr>mr_min_delay = rp_min_delay (bc_reconnect b), mr_max_delay = rp_max_delay (bc_reconnect b)\<rparr>
                 (with_tls (map_tls_mode (bc_tls b))
                   (with_clean_session (bc_clean_session b)
                     (with_keep_alive (bc_keep_alive b)
                       (mqtt_client_config_new (bc_client_id b) (bc_host b) (bc_port b)))));
          c1 = (case bc_credentials b of
                  Some cr \<Rightarrow> with_credentials (cr_username cr) (cr_password cr) c0
                | None \<Rightarrow> c0);
          c2 = fold (\<lambda>(t, qos). with_subscription t qos) (merged_subscriptions routes) c1
      in res_bind (map_err RtMqtt (mqtt_client_config_validate c2)) (\<lambda>_. Inr c2))"

definition enabled_routes_for_broker :: "project_config \<Rightarrow> broker_id \<Rightarrow> topic_route_config list" where
  "enabled_routes_for_broker p b = filter (\<lambda>r. tr_enabled r \<and> tr_broker_id r = b) (pc_routes p)"

section \<open>What a validated configuration guarantees\<close>

lemma unique_fold_iff:
  "(\<exists>s. try_fold (insert_unique_id c) seen ids = Inr s) \<longleftrightarrow> distinct ids \<and> seen \<inter> set ids = {}"
  by (induction ids arbitrary: seen) (auto simp: insert_unique_id_def)

lemma unique_ids_iff [simp]: "unique_ids c ids = Inr u \<longleftrightarrow> distinct ids"
  using unique_fold_iff [of c "{}" ids] by (simp add: unique_ids_def)

lemma insert_rule_fold_iff:
  "(\<exists>s. try_fold insert_rule_id seen rules = Inr s) \<longleftrightarrow>
     distinct (map rd_id rules) \<and> seen \<inter> rd_id ` set rules = {} \<and>
     (\<forall>r \<in> set rules. rule_definition_validate r = Inr ())"
  by (induction rules arbitrary: seen) (auto simp: insert_rule_id_def insert_unique_id_def)

lemma insert_rule_iff [simp]:
  "(\<exists>s. try_fold insert_rule_id {} rules = Inr s) \<longleftrightarrow>
     distinct (map rd_id rules) \<and> (\<forall>r \<in> set rules. rule_definition_validate r = Inr ())"
  by (simp add: insert_rule_fold_iff)

lemma find_by_id:
  "distinct (map f xs) \<Longrightarrow>
   (case List.find (\<lambda>x. f x = i) xs of None \<Rightarrow> False | Some x \<Rightarrow> P x) \<longleftrightarrow> (\<exists>x \<in> set xs. f x = i \<and> P x)"
proof (induction xs)
  case (Cons a xs)
  then show ?case
  proof (cases "f a = i")
    case True
    then have "f x \<noteq> i" if "x \<in> set xs" for x using Cons.prems that by (auto simp: rev_image_eqI)
    with True show ?thesis by auto
  qed auto
qed simp

lemma enabled_broker_ids:
  "i \<in> set (map bc_id (enabled_brokers p)) \<longleftrightarrow> (\<exists>b \<in> set (pc_brokers p). bc_enabled b \<and> bc_id b = i)"
  by (auto simp: enabled_brokers_def)

text \<open>A configuration whose parts fit together, said without an order of checks.\<close>

definition route_resolves :: "project_config \<Rightarrow> topic_route_config \<Rightarrow> bool" where
  "route_resolves p r \<longleftrightarrow>
     (\<exists>b \<in> set (pc_brokers p). bc_enabled b \<and> bc_id b = tr_broker_id r) \<and>
     (\<forall>m. tr_schema_mapping_id r = Some m \<longrightarrow> m \<in> sm_id ` set (pc_schema_mappings p)) \<and>
     tr_backpressure r = RejectPolicy"

definition action_resolves :: "project_config \<Rightarrow> action_intent_template \<Rightarrow> bool" where
  "action_resolves p a \<longleftrightarrow>
     (case a of
        TForwardToSink sid \<Rightarrow> \<exists>s \<in> set (pc_sinks p). sk_id s = sid \<and> sk_enabled s \<and> is_webhook (sk_kind s)
      | TExecuteCommand tid _ \<Rightarrow> \<exists>t \<in> set (pc_command_templates p). ct_id t = tid \<and> ct_enabled t
      | _ \<Rightarrow> True)"

definition ids_unique :: "project_config \<Rightarrow> bool" where
  "ids_unique p \<longleftrightarrow>
     distinct (map bc_id (pc_brokers p)) \<and> distinct (map tr_id (pc_routes p)) \<and>
     distinct (map sm_id (pc_schema_mappings p)) \<and> distinct (map rd_id (pc_rules p)) \<and>
     distinct (map ct_id (pc_command_templates p)) \<and> distinct (map sk_id (pc_sinks p))"

definition runnable :: "project_config \<Rightarrow> bool" where
  "runnable p \<longleftrightarrow>
     pc_enabled p \<and> ids_unique p \<and> length (filter bc_enabled (pc_brokers p)) = 1 \<and>
     (\<exists>r \<in> set (pc_routes p). tr_enabled r) \<and>
     (\<forall>r \<in> set (pc_routes p). tr_enabled r \<longrightarrow> route_resolves p r) \<and>
     (\<forall>t \<in> set (pc_command_templates p). ct_enabled t \<longrightarrow>
        (\<exists>b \<in> set (pc_brokers p). bc_enabled b \<and> bc_id b = ct_broker_id t)) \<and>
     (\<forall>r \<in> set (pc_rules p). rd_enabled r \<longrightarrow> (\<forall>a \<in> set (rd_actions r). action_resolves p a))"

lemma validate_unique_ids_iff:
  "project_config_validate p = Inr () \<Longrightarrow> validate_unique_ids p = Inr u \<longleftrightarrow> ids_unique p"
  by (simp add: validate_unique_ids_def ids_unique_def project_config_validate_iff)

lemma validate_single_enabled_broker_iff:
  "validate_single_enabled_broker p = Inr u \<longleftrightarrow> length (filter bc_enabled (pc_brokers p)) = 1"
  by (auto simp: validate_single_enabled_broker_def enabled_brokers_def Let_def)

lemma validate_enabled_route_iff: "validate_enabled_route p r = Inr u \<longleftrightarrow> route_resolves p r"
  unfolding validate_enabled_route_def enabled_broker_ids
  by (auto simp: route_resolves_def split: option.splits)

lemma validate_routes_iff:
  "validate_routes p = Inr u \<longleftrightarrow>
     (\<exists>r \<in> set (pc_routes p). tr_enabled r) \<and> (\<forall>r \<in> set (pc_routes p). tr_enabled r \<longrightarrow> route_resolves p r)"
  by (auto simp: validate_routes_def Let_def validate_enabled_route_iff filter_empty_conv)

lemma validate_command_templates_iff:
  "validate_command_templates p = Inr u \<longleftrightarrow>
     (\<forall>t \<in> set (pc_command_templates p). ct_enabled t \<longrightarrow>
        (\<exists>b \<in> set (pc_brokers p). bc_enabled b \<and> bc_id b = ct_broker_id t))"
  unfolding validate_command_templates_def enabled_broker_ids by (auto split: if_splits)

lemma check_references_iff:
  assumes "ids_unique p"
  shows "check_sink_reference p r a = Inr u \<and> check_command_reference p r a = Inr v \<longleftrightarrow> action_resolves p a"
proof -
  have d: "distinct (map sk_id (pc_sinks p))" "distinct (map ct_id (pc_command_templates p))"
    using assms by (simp_all add: ids_unique_def)
  show ?thesis
  proof (cases a)
    case (TForwardToSink sid)
    then show ?thesis using find_by_id [OF d(1), where i = sid and P = "\<lambda>s. sk_enabled s \<and> is_webhook (sk_kind s)"]
      by (auto simp: action_resolves_def split: option.splits if_splits)
  next
    case (TExecuteCommand tid ps)
    then show ?thesis using find_by_id [OF d(2), where i = tid and P = ct_enabled]
      by (auto simp: action_resolves_def split: option.splits if_splits)
  qed (simp_all add: action_resolves_def)
qed

lemma validate_runtime_config_iff:
  "validate_runtime_config p = Inr u \<longleftrightarrow> project_config_validate p = Inr () \<and> runnable p"
proof (cases "project_config_validate p = Inr () \<and> ids_unique p")
  case True
  have "validate_rule_sink_references p = Inr () \<and> validate_rule_command_references p = Inr () \<longleftrightarrow>
      (\<forall>r \<in> set (pc_rules p). rd_enabled r \<longrightarrow> (\<forall>a \<in> set (rd_actions r). action_resolves p a))"
  proof -
    have "validate_rule_sink_references p = Inr () \<and> validate_rule_command_references p = Inr () \<longleftrightarrow>
        (\<forall>r \<in> set (pc_rules p). rd_enabled r \<longrightarrow> (\<forall>a \<in> set (rd_actions r).
           check_sink_reference p r a = Inr () \<and> check_command_reference p r a = Inr ()))"
      by (auto simp: validate_rule_sink_references_def validate_rule_command_references_def)
    with True show ?thesis by (simp only: check_references_iff)
  qed
  with True show ?thesis
    by (auto simp: validate_runtime_config_def runnable_def validate_unique_ids_iff
        validate_single_enabled_broker_iff validate_routes_iff validate_command_templates_iff)
next
  case False
  then show ?thesis
    by (auto simp: validate_runtime_config_def runnable_def validate_unique_ids_iff split: if_splits)
qed

text \<open>C17: the runtime accepts a configuration exactly when every part of it is valid and the parts fit: the
  project is enabled, no two parts of a kind share an id, one broker is enabled, some route is, and
  every reference of an enabled route, template or rule leads to something that will run.\<close>

theorem validate_runtime_config_exact:
  "validate_runtime_config p = Inr () \<longleftrightarrow> project_config_validate p = Inr () \<and> runnable p"
  by (rule validate_runtime_config_iff)

section \<open>Subscriptions\<close>

text \<open>What one subscription covers: the strongest quality of service among the routes of its filter.\<close>

definition strongest_qos :: "topic_route_config list \<Rightarrow> string \<Rightarrow> mqtt_qos \<Rightarrow> bool" where
  "strongest_qos routes f qos \<longleftrightarrow>
     (\<exists>r \<in> set routes. tr_topic_filter r = f \<and> tr_qos r = qos) \<and>
     (\<forall>r \<in> set routes. tr_topic_filter r = f \<longrightarrow> qos_rank (tr_qos r) \<le> qos_rank qos)"

lemma map_qos_id [simp]: "map_qos q = q"
  by (cases q) simp_all

lemma qos_rank_inject: "qos_rank a = qos_rank b \<longleftrightarrow> a = b"
  by (cases a; cases b) simp_all

lemma strongest_qos_snoc_new:
  "(\<And>q. \<not> strongest_qos routes (tr_topic_filter r) q) \<Longrightarrow>
   strongest_qos (routes @ [r]) (tr_topic_filter r) q \<longleftrightarrow> q = tr_qos r"
proof -
  assume none: "\<And>q. \<not> strongest_qos routes (tr_topic_filter r) q"
  have "tr_topic_filter x \<noteq> tr_topic_filter r" if "x \<in> set routes" for x
  proof
    assume same: "tr_topic_filter x = tr_topic_filter r"
    let ?Q = "\<lambda>n. \<exists>y \<in> set routes. tr_topic_filter y = tr_topic_filter r \<and> qos_rank (tr_qos y) = n"
    have "\<exists>n. ?Q n" using that same by blast
    moreover have "n \<le> 2" if "?Q n" for n
      using that by (metis qos_rank.elims one_le_numeral order_refl zero_le)
    ultimately have "?Q (GREATEST n. ?Q n)" "\<And>n. ?Q n \<Longrightarrow> n \<le> (GREATEST n. ?Q n)"
      by (auto intro: GreatestI_ex_nat [where P = ?Q and b = 2] Greatest_le_nat [where P = ?Q and b = 2])
    then obtain y where "y \<in> set routes" "tr_topic_filter y = tr_topic_filter r"
      "\<And>x. x \<in> set routes \<Longrightarrow> tr_topic_filter x = tr_topic_filter r \<Longrightarrow> qos_rank (tr_qos x) \<le> qos_rank (tr_qos y)"
      by metis
    then have "strongest_qos routes (tr_topic_filter r) (tr_qos y)"
      by (auto simp: strongest_qos_def)
    with none show False by blast
  qed
  then show ?thesis by (auto simp: strongest_qos_def)
qed

lemma strongest_qos_snoc_old:
  "strongest_qos routes (tr_topic_filter r) q' \<Longrightarrow>
   strongest_qos (routes @ [r]) (tr_topic_filter r) q \<longleftrightarrow> q = max_qos q' (tr_qos r)"
  by (auto simp: strongest_qos_def max_qos_def qos_rank_inject)
    (metis order_antisym_conv qos_rank_inject less_imp_le not_le)+

lemma strongest_qos_snoc_other:
  "f \<noteq> tr_topic_filter r \<Longrightarrow> strongest_qos (routes @ [r]) f q \<longleftrightarrow> strongest_qos routes f q"
  by (auto simp: strongest_qos_def)

lemma merged_subscriptions_snoc:
  "merged_subscriptions (routes @ [r]) = merge_subscription r (merged_subscriptions routes)"
  by (simp add: merged_subscriptions_def)

lemma merged_subscriptions_wf: "bm_wf (merged_subscriptions routes)"
proof (induction routes rule: rev_induct)
  case Nil
  then show ?case by (simp add: merged_subscriptions_def)
next
  case (snoc r routes)
  then show ?case
    by (simp add: merged_subscriptions_snoc merge_subscription_def bm_wf_insert split: option.splits)
qed

lemma merged_subscriptions_lookup:
  "map_of (merged_subscriptions routes) f = Some qos \<longleftrightarrow> strongest_qos routes f qos"
proof (induction routes arbitrary: f qos rule: rev_induct)
  case Nil
  then show ?case by (simp add: merged_subscriptions_def strongest_qos_def)
next
  case (snoc r routes)
  let ?f = "tr_topic_filter r" and ?m = "merged_subscriptions routes"
  have wf: "bm_wf ?m" by (rule merged_subscriptions_wf)
  show ?case
  proof (cases "f = ?f")
    case False
    with wf snoc.IH show ?thesis
      by (simp add: merged_subscriptions_snoc merge_subscription_def strongest_qos_snoc_other
          split: option.splits)
  next
    case True
    show ?thesis
    proof (cases "map_of ?m ?f")
      case None
      then have "\<not> strongest_qos routes ?f q" for q using snoc.IH [of ?f q] by simp
      with None True show ?thesis
        by (auto simp: merged_subscriptions_snoc merge_subscription_def strongest_qos_snoc_new)
    next
      case (Some q')
      then have "strongest_qos routes ?f q'" using snoc.IH by simp
      with Some True show ?thesis
        by (auto simp: merged_subscriptions_snoc merge_subscription_def strongest_qos_snoc_old)
    qed
  qed
qed

lemma fold_with_subscription:
  "fold (\<lambda>(t, qos). with_subscription t qos) subs c =
     c\<lparr>mc_subscriptions := mc_subscriptions c @ map (\<lambda>(t, qos). \<lparr>ms_topic = t, ms_qos = qos\<rparr>) subs\<rparr>"
  by (induction subs arbitrary: c) (auto simp: with_subscription_def)

lemma merged_filters: "fst ` set (merged_subscriptions routes) = tr_topic_filter ` set routes"
proof (induction routes rule: rev_induct)
  case Nil
  then show ?case by (simp add: merged_subscriptions_def)
next
  case (snoc r routes)
  then show ?case
    by (auto simp: merged_subscriptions_snoc merge_subscription_def fst_set_bm_insert split: option.splits)
qed

end
