(* ===== verification/Runtime_Pipeline.thy ===== *)
theory Runtime_Pipeline
  imports Runtime_Config
begin

text \<open>
  The running side of a project runtime (\<^verbatim>\<open>runtime.rs\<close> of the daemon): its counters, the command queue and
  the realtime sink behind the dispatcher's boundaries, the handler of one message, the router of a broker,
  and the brokers a configuration starts. The broadcast and queue channels are the library's; their
  sending operations are arguments.
\<close>

section \<open>Counters\<close>

text \<open>\<^verbatim>\<open>fetch_add\<close> on an \<^verbatim>\<open>AtomicU64\<close> wraps around. A snapshot is the record itself.\<close>

record runtime_stats =
  rt_normalized_total :: u64
  rt_matched_rule_total :: u64
  rt_action_intent_total :: u64
  rt_dispatch_failed_total :: u64
  rt_realtime_event_published_total :: u64
  rt_realtime_event_no_receiver_total :: u64
  rt_forward_outcome_total :: u64
  rt_delivery_outcome_persist_failed_total :: u64
  rt_command_queued_total :: u64
  rt_command_queue_full_total :: u64
  rt_command_queue_closed_total :: u64
  rt_command_render_failed_total :: u64
  rt_command_publish_enqueue_failed_total :: u64
  rt_command_published_total :: u64
  rt_command_publish_failed_total :: u64
  rt_command_status_update_failed_total :: u64

definition runtime_stats_default :: runtime_stats where
  "runtime_stats_default =
     \<lparr>rt_normalized_total = 0, rt_matched_rule_total = 0, rt_action_intent_total = 0,
      rt_dispatch_failed_total = 0, rt_realtime_event_published_total = 0,
      rt_realtime_event_no_receiver_total = 0, rt_forward_outcome_total = 0,
      rt_delivery_outcome_persist_failed_total = 0, rt_command_queued_total = 0,
      rt_command_queue_full_total = 0, rt_command_queue_closed_total = 0,
      rt_command_render_failed_total = 0, rt_command_publish_enqueue_failed_total = 0,
      rt_command_published_total = 0, rt_command_publish_failed_total = 0,
      rt_command_status_update_failed_total = 0\<rparr>"

definition record_normalized :: "runtime_stats \<Rightarrow> runtime_stats" where
  "record_normalized s = s\<lparr>rt_normalized_total := rt_normalized_total s + 1\<rparr>"

definition record_rule_evaluation :: "nat \<Rightarrow> nat \<Rightarrow> runtime_stats \<Rightarrow> runtime_stats" where
  "record_rule_evaluation matched intents s =
     s\<lparr>rt_matched_rule_total := rt_matched_rule_total s + saturating_usize_to_u64 matched,
       rt_action_intent_total := rt_action_intent_total s + saturating_usize_to_u64 intents\<rparr>"

definition record_dispatch_failures :: "nat \<Rightarrow> runtime_stats \<Rightarrow> runtime_stats" where
  "record_dispatch_failures n s =
     s\<lparr>rt_dispatch_failed_total := rt_dispatch_failed_total s + saturating_usize_to_u64 n\<rparr>"

definition record_realtime_event_published :: "runtime_stats \<Rightarrow> runtime_stats" where
  "record_realtime_event_published s =
     s\<lparr>rt_realtime_event_published_total := rt_realtime_event_published_total s + 1\<rparr>"

definition record_realtime_event_no_receiver :: "runtime_stats \<Rightarrow> runtime_stats" where
  "record_realtime_event_no_receiver s =
     s\<lparr>rt_realtime_event_no_receiver_total := rt_realtime_event_no_receiver_total s + 1\<rparr>"

definition stats_record_forward_outcome :: "runtime_stats \<Rightarrow> runtime_stats" where
  "stats_record_forward_outcome s = s\<lparr>rt_forward_outcome_total := rt_forward_outcome_total s + 1\<rparr>"

definition record_command_queued :: "runtime_stats \<Rightarrow> runtime_stats" where
  "record_command_queued s = s\<lparr>rt_command_queued_total := rt_command_queued_total s + 1\<rparr>"

definition record_command_queue_full :: "runtime_stats \<Rightarrow> runtime_stats" where
  "record_command_queue_full s = s\<lparr>rt_command_queue_full_total := rt_command_queue_full_total s + 1\<rparr>"

definition record_command_queue_closed :: "runtime_stats \<Rightarrow> runtime_stats" where
  "record_command_queue_closed s = s\<lparr>rt_command_queue_closed_total := rt_command_queue_closed_total s + 1\<rparr>"

definition record_command_render_failed :: "runtime_stats \<Rightarrow> runtime_stats" where
  "record_command_render_failed s =
     s\<lparr>rt_command_render_failed_total := rt_command_render_failed_total s + 1\<rparr>"

definition record_command_publish_enqueue_failed :: "runtime_stats \<Rightarrow> runtime_stats" where
  "record_command_publish_enqueue_failed s =
     s\<lparr>rt_command_publish_enqueue_failed_total := rt_command_publish_enqueue_failed_total s + 1\<rparr>"

definition record_command_published :: "runtime_stats \<Rightarrow> runtime_stats" where
  "record_command_published s = s\<lparr>rt_command_published_total := rt_command_published_total s + 1\<rparr>"

definition record_command_publish_failed :: "runtime_stats \<Rightarrow> runtime_stats" where
  "record_command_publish_failed s =
     s\<lparr>rt_command_publish_failed_total := rt_command_publish_failed_total s + 1\<rparr>"

definition record_command_status_update_failed :: "runtime_stats \<Rightarrow> runtime_stats" where
  "record_command_status_update_failed s =
     s\<lparr>rt_command_status_update_failed_total := rt_command_status_update_failed_total s + 1\<rparr>"

section \<open>The boundaries of the dispatcher\<close>

text \<open>
  What the handles of a runtime share: the counters, the realtime broadcast, the forwarder, the command
  queue, and how many UUIDs were drawn.
\<close>

record ('b, 'f, 'c) runtime_world =
  rw_stats :: runtime_stats
  rw_realtime :: 'b
  rw_forwarder :: 'f
  rw_commands :: 'c
  rw_drawn :: nat

datatype runtime_command_queue_error = QueueFull | QueueClosed

fun runtime_command_queue_error_display :: "runtime_command_queue_error \<Rightarrow> string" where
  "runtime_command_queue_error_display QueueFull = ''command execution queue is full''"
| "runtime_command_queue_error_display QueueClosed = ''command execution queue is closed''"

definition queue_handle_try_enqueue ::
    "(command_execution_request, 'c) try_send \<Rightarrow> command_execution_request \<Rightarrow>
     ('b, 'f, 'c) runtime_world \<Rightarrow> (runtime_command_queue_error + unit) \<times> ('b, 'f, 'c) runtime_world" where
  "queue_handle_try_enqueue ts req w =
     (case ts req (rw_commands w) of
        (Inl (Full _), ch) \<Rightarrow>
          (Inl QueueFull, w\<lparr>rw_commands := ch, rw_stats := record_command_queue_full (rw_stats w)\<rparr>)
      | (Inl (Closed _), ch) \<Rightarrow>
          (Inl QueueClosed, w\<lparr>rw_commands := ch, rw_stats := record_command_queue_closed (rw_stats w)\<rparr>)
      | (Inr _, ch) \<Rightarrow>
          (Inr (), w\<lparr>rw_commands := ch, rw_stats := record_command_queued (rw_stats w)\<rparr>))"

definition runtime_try_enqueue_command ::
    "(command_execution_request, 'c) try_send \<Rightarrow> ('b, 'f, 'c) runtime_world command_request_queue" where
  "runtime_try_enqueue_command ts req w =
     (case queue_handle_try_enqueue ts req w of
        (Inl QueueFull, w') \<Rightarrow> (Inl CommandQueueBackpressure, w')
      | (Inl QueueClosed, w') \<Rightarrow> (Inl CommandQueueUnavailable, w')
      | (Inr _, w') \<Rightarrow>
          (Inr \<lparr>cq_command_execution_id = cx_command_execution_id req,
                cq_command_template_id = cx_command_template_id req, cq_accepted = True\<rparr>, w'))"

text \<open>A broadcast returns the number of receivers, or fails when there is none.\<close>

type_synonym ('a, 'b) broadcast_send = "'a \<Rightarrow> 'b \<Rightarrow> nat option \<times> 'b"

definition runtime_try_publish ::
    "(normalized_event, 'b) broadcast_send \<Rightarrow> ('b, 'f, 'c) runtime_world realtime_event_sink" where
  "runtime_try_publish send event w =
     (case send event (rw_realtime w) of
        (Some _, ch) \<Rightarrow>
          (Inr \<lparr>rr_accepted = True\<rparr>,
           w\<lparr>rw_realtime := ch, rw_stats := record_realtime_event_published (rw_stats w)\<rparr>)
      | (None, ch) \<Rightarrow>
          (Inr \<lparr>rr_accepted = True\<rparr>,
           w\<lparr>rw_realtime := ch, rw_stats := record_realtime_event_no_receiver (rw_stats w)\<rparr>))"

definition runtime_try_forward ::
    "'f event_forwarder \<Rightarrow> ('b, 'f, 'c) runtime_world event_forwarder" where
  "runtime_try_forward fwd req w =
     (case fwd req (rw_forwarder w) of (r, f) \<Rightarrow> (r, w\<lparr>rw_forwarder := f\<rparr>))"

text \<open>The library operations a runtime is built over.\<close>

record ('b, 'f, 'c) runtime_lib =
  rb_serde :: serde_lib
  rb_send :: "(normalized_event, 'b) broadcast_send"
  rb_forward :: "'f event_forwarder"
  rb_try_send :: "(command_execution_request, 'c) try_send"
  rb_uuid :: "nat \<Rightarrow> string"

definition runtime_dispatcher ::
    "('b, 'f, 'c) runtime_lib \<Rightarrow> dispatch_limits \<Rightarrow> ('b, 'f, 'c) runtime_world dispatcher" where
  "runtime_dispatcher lib limits =
     \<lparr>dp_realtime = runtime_try_publish (rb_send lib), dp_forwarder = runtime_try_forward (rb_forward lib),
      dp_command_queue = runtime_try_enqueue_command (rb_try_send lib), dp_limits = limits\<rparr>"

section \<open>The pipeline\<close>

record pipeline =
  pl_matcher :: config_route_matcher
  pl_normalizer :: normalizer_limits
  pl_schema_mappings :: "payload_schema_mapping list"
  pl_rule_engine :: rule_engine
  pl_dispatch_limits :: dispatch_limits

text \<open>The UUID of the event is drawn first, then one for each intent.\<close>

definition draw_uuids :: "(nat \<Rightarrow> string) \<Rightarrow> nat \<Rightarrow> 'a list \<Rightarrow> (string \<times> 'a) list" where
  "draw_uuids uuid n xs = zip (map uuid [n..<n + length xs]) xs"

definition on_stats :: "(runtime_stats \<Rightarrow> runtime_stats) \<Rightarrow> ('b, 'f, 'c) runtime_world \<Rightarrow> ('b, 'f, 'c) runtime_world" where
  "on_stats f w = w\<lparr>rw_stats := f (rw_stats w)\<rparr>"

definition handle_pipeline_message ::
    "('b, 'f, 'c) runtime_lib \<Rightarrow> pipeline \<Rightarrow> mqtt_message \<Rightarrow> ('b, 'f, 'c) runtime_world \<Rightarrow>
     (mqtt_engine_error + unit) \<times> ('b, 'f, 'c) runtime_world" where
  "handle_pipeline_message lib pl message w =
     (case normalize_routed_message (rb_serde lib) (rb_uuid lib (rw_drawn w)) (pl_matcher pl)
             (pl_normalizer pl) (pl_schema_mappings pl) message of
        Inl e \<Rightarrow> (Inl e, w)
      | Inr None \<Rightarrow> (Inr (), w)
      | Inr (Some event) \<Rightarrow>
          let w1 = on_stats record_normalized w in
          (case rule_evaluate (pl_rule_engine pl) event of
             Inl e \<Rightarrow> (Inl e, w1)
           | Inr evaluation \<Rightarrow>
               let w2 = on_stats (record_rule_evaluation (length (re_matched_rules evaluation))
                                    (length (re_intents evaluation))) w1;
                   intents = draw_uuids (rb_uuid lib) (Suc (rw_drawn w2)) (re_intents evaluation);
                   w3 = w2\<lparr>rw_drawn := Suc (rw_drawn w2) + length (re_intents evaluation)\<rparr>
               in
               (case dispatch (runtime_dispatcher lib (pl_dispatch_limits pl)) event intents w3 of
                  (Inl e, w4) \<Rightarrow> (Inl (Dispatch e), w4)
                | (Inr outcome, w4) \<Rightarrow>
                    (Inr (), on_stats (record_dispatch_failures (length (do_failed outcome))) w4))))"

text \<open>The loop that adds one handler for each distinct filter.\<close>

fun build_router_loop ::
    "('b, 'f, 'c) runtime_world route_handler \<Rightarrow> string set \<Rightarrow> ('b, 'f, 'c) runtime_world mqtt_router \<Rightarrow>
     topic_route_config list \<Rightarrow> mqtt_engine_error + ('b, 'f, 'c) runtime_world mqtt_router" where
  "build_router_loop handler filters router [] = Inr router"
| "build_router_loop handler filters router (route # routes) =
     (if tr_topic_filter route \<in> filters then build_router_loop handler filters router routes
      else
        res_bind (router_route (tr_topic_filter route) handler router) (\<lambda>router'.
        build_router_loop handler (insert (tr_topic_filter route) filters) router' routes))"

definition build_pipeline_router ::
    "('b, 'f, 'c) runtime_lib \<Rightarrow> pipeline \<Rightarrow> topic_route_config list \<Rightarrow>
     runtime_error + ('b, 'f, 'c) runtime_world mqtt_router" where
  "build_pipeline_router lib pl routes =
     map_err RtMqtt (build_router_loop (\<lambda>message params. handle_pipeline_message lib pl message) {} [] routes)"

record ('b, 'f, 'c) pending_broker_runtime =
  pb_broker_id :: broker_id
  pb_config :: mqtt_client_config
  pb_router :: "('b, 'f, 'c) runtime_world mqtt_router"

definition build_pending_broker ::
    "('b, 'f, 'c) runtime_lib \<Rightarrow> project_config \<Rightarrow> runtime_settings \<Rightarrow> rule_engine \<Rightarrow>
     broker_connection_config \<Rightarrow> runtime_error + ('b, 'f, 'c) pending_broker_runtime" where
  "build_pending_broker lib config settings engine broker =
     (let routes = enabled_routes_for_broker config (bc_id broker) in
      if routes = [] then Inl (NoEnabledRoutesForBroker (bc_id broker))
      else
        res_bind (build_mqtt_client_config broker routes) (\<lambda>mqtt_config.
        res_bind (map_err RtMqtt (config_route_matcher_new (pc_id config) routes)) (\<lambda>matcher.
        res_bind (build_pipeline_router lib
                    \<lparr>pl_matcher = matcher, pl_normalizer = rs_normalizer_limits settings,
                     pl_schema_mappings = pc_schema_mappings config, pl_rule_engine = engine,
                     pl_dispatch_limits = rs_dispatch_limits settings\<rparr> routes) (\<lambda>router.
        Inr \<lparr>pb_broker_id = bc_id broker, pb_config = mqtt_config, pb_router = router\<rparr>))))"

definition build_pending_broker_runtimes ::
    "('b, 'f, 'c) runtime_lib \<Rightarrow> project_config \<Rightarrow> runtime_settings \<Rightarrow> rule_engine \<Rightarrow>
     runtime_error + ('b, 'f, 'c) pending_broker_runtime list" where
  "build_pending_broker_runtimes lib config settings engine =
     try_collect (build_pending_broker lib config settings engine) (enabled_brokers config)"

section \<open>The contracts of the boundaries\<close>

interpretation runtime_sink: realtime_sink "runtime_try_publish send" for send
  by unfold_locales (auto simp: runtime_try_publish_def split: prod.splits option.splits)

interpretation runtime_queue: command_boundary "runtime_try_enqueue_command ts" for ts
  by unfold_locales
    (auto simp: runtime_try_enqueue_command_def split: prod.splits sum.splits runtime_command_queue_error.splits)

lemma runtime_forward_boundary: "forward_boundary f \<Longrightarrow> forward_boundary (runtime_try_forward f)"
  by (fastforce simp: forward_boundary_def runtime_try_forward_def split: prod.splits)

interpretation runtime_dispatch: dispatch_boundary
  "runtime_try_publish send" "runtime_try_forward (http_try_forward serde ev us)" "runtime_try_enqueue_command ts"
  for send serde ev us ts
  by (intro dispatch_boundary.intro runtime_sink.realtime_sink_axioms runtime_queue.command_boundary_axioms
      runtime_forward_boundary http_forward.forward_boundary_axioms)

section \<open>Construction succeeds\<close>

lemma mqtt_client_config_validate_iff:
  "mqtt_client_config_validate c = Inr u \<longleftrightarrow>
     \<not> is_blank (mc_client_id c) \<and> \<not> is_blank (mc_host c) \<and> mc_port c \<noteq> 0 \<and> from_secs 5 \<le> mc_keep_alive c \<and>
     0 < mc_request_channel_capacity c \<and> (mc_username c = None \<longleftrightarrow> mc_password c = None) \<and>
     (\<forall>s \<in> set (mc_subscriptions c). validate_mqtt_topic_filter (ms_topic s) = Inr ()) \<and>
     mqtt_reconnect_config_validate (mc_reconnect c) = Inr ()"
  by (auto simp: mqtt_client_config_validate_def split: if_splits)

definition subscriptions_of :: "topic_route_config list \<Rightarrow> mqtt_subscription list" where
  "subscriptions_of routes = map (\<lambda>(t, qos). \<lparr>ms_topic = t, ms_qos = qos\<rparr>) (merged_subscriptions routes)"

lemma build_mqtt_client_config_ok:
  assumes "broker_connection_config_validate b = Inr ()"
    and "\<And>r. r \<in> set routes \<Longrightarrow> topic_route_config_validate r = Inr ()"
  shows "\<exists>c. build_mqtt_client_config b routes = Inr c \<and> mc_subscriptions c = subscriptions_of routes \<and>
             mc_host c = bc_host b \<and> mc_port c = bc_port b \<and> mc_client_id c = bc_client_id b"
proof -
  have valid: "validate_mqtt_topic_filter (fst s) = Inr ()" if "s \<in> set (merged_subscriptions routes)" for s
  proof -
    have "fst s \<in> tr_topic_filter ` set routes" using that merged_filters [of routes] by blast
    then obtain r where "r \<in> set routes" "fst s = tr_topic_filter r" by blast
    with assms(2) [of r] show ?thesis
      using not_blank_nonempty
      by (auto simp: topic_route_config_validate_def validate_mqtt_topic_filter_iff topic_filter_validate_iff)
  qed
  have fields: "\<not> is_blank (bc_client_id b)" "\<not> is_blank (bc_host b)" "bc_port b \<noteq> 0"
      "from_secs 5 \<le> bc_keep_alive b" "0 < rp_min_delay (bc_reconnect b)"
      "rp_min_delay (bc_reconnect b) \<le> rp_max_delay (bc_reconnect b)"
    using assms(1)
    by (auto simp: broker_connection_config_validate_def reconnect_policy_validate_iff split: if_splits)
  have ok: "mqtt_client_config_validate (mqtt_client_config.mc_subscriptions_update (\<lambda>_. subscriptions_of routes) c) = Inr ()"
    if "mqtt_client_config_validate (c\<lparr>mc_subscriptions := []\<rparr>) = Inr ()" for c
    using that valid by (force simp: mqtt_client_config_validate_iff subscriptions_of_def)
  show ?thesis
    using fields
    by (cases "bc_credentials b")
      (simp_all add: build_mqtt_client_config_def Let_def fold_with_subscription mqtt_client_config_new_def
        with_keep_alive_def with_clean_session_def with_tls_def with_reconnect_def with_credentials_def
        mqtt_client_config_validate_iff mqtt_reconnect_config_validate_iff valid subscriptions_of_def
        case_prod_beta)
qed

text \<open>The filters a router is built for, each at its first route.\<close>

fun first_filters :: "string set \<Rightarrow> topic_route_config list \<Rightarrow> string list" where
  "first_filters seen [] = []"
| "first_filters seen (r # rs) =
     (if tr_topic_filter r \<in> seen then first_filters seen rs
      else tr_topic_filter r # first_filters (insert (tr_topic_filter r) seen) rs)"

lemma set_first_filters: "set (first_filters seen routes) = tr_topic_filter ` set routes - seen"
  by (induction seen routes rule: first_filters.induct) auto

lemma distinct_first_filters: "distinct (first_filters seen routes)"
  by (induction seen routes rule: first_filters.induct) (auto simp: set_first_filters)

definition compiled_filter :: "string \<Rightarrow> topic_filter_compiled" where
  "compiled_filter f = \<lparr>tf_raw = f, tf_levels = map compile_level (split_on CHR ''/'' f)\<rparr>"

lemma build_router_loop_ok:
  "(\<And>r. r \<in> set routes \<Longrightarrow> validate_mqtt_topic_filter (tr_topic_filter r) = Inr ()) \<Longrightarrow>
   build_router_loop h seen router routes =
     Inr (router @ map (\<lambda>f. (compiled_filter f, h)) (first_filters seen routes))"
  by (induction h seen router routes rule: build_router_loop.induct)
    (auto simp: router_route_def topic_filter_parse_def compiled_filter_def)

definition as_handled :: "(mqtt_engine_error + unit) \<times> 's \<Rightarrow> (mqtt_engine_error + bool) \<times> 's" where
  "as_handled r = (case r of (Inl e, s) \<Rightarrow> (Inl e, s) | (Inr _, s) \<Rightarrow> (Inr True, s))"

lemma router_dispatch_uniform:
  "router_dispatch (map (\<lambda>f. (compiled_filter f, \<lambda>m params. h m)) fs) m s =
     (if \<exists>f \<in> set fs. filter_matches (tf_levels (compiled_filter f)) (mm_topic m) \<noteq> None
      then as_handled (h m s) else (Inr False, s))"
  by (induction fs) (auto simp: as_handled_def split: option.splits)

lemma match_message_None:
  assumes "config_route_matcher_new pid routes = Inr matcher" and "\<And>r. r \<in> set routes \<Longrightarrow> tr_enabled r"
  shows "match_message matcher m \<noteq> None \<longleftrightarrow>
           (\<exists>f \<in> tr_topic_filter ` set routes. filter_matches (tf_levels (compiled_filter f)) (mm_topic m) \<noteq> None)"
proof -
  have "filter tr_enabled routes = routes" using assms(2) by (simp add: filter_id_conv)
  with assms(1) have "match_message matcher m \<noteq> None \<longleftrightarrow>
      find (\<lambda>r. route_captures r (mm_topic m) \<noteq> None) routes \<noteq> None"
    by (auto simp: config_route_matcher_new_iff match_message_def match_compiled_find split: option.splits)
  then show ?thesis
    by (simp add: find_None_iff route_captures_def compiled_route_def compiled_filter_def Bex_def)
qed

lemma handled_only_if_matched:
  "match_message (pl_matcher pl) m = None \<Longrightarrow> handle_pipeline_message lib pl m w = (Inr (), w)"
  by (simp add: handle_pipeline_message_def normalize_routed_message_def)

text \<open>The pieces of a broker's runtime, in one place.\<close>

lemma build_pending_broker_ok:
  assumes "project_config_validate p = Inr ()" and "runnable p" and "b \<in> set (pc_brokers p)" and "bc_enabled b"
  defines "routes \<equiv> enabled_routes_for_broker p (bc_id b)"
  shows "\<exists>pb matcher. build_pending_broker lib p settings engine b = Inr pb \<and> pb_broker_id pb = bc_id b \<and>
           mc_subscriptions (pb_config pb) = subscriptions_of routes \<and>
           config_route_matcher_new (pc_id p) routes = Inr matcher \<and>
           (\<forall>m w. router_dispatch (pb_router pb) m w =
              (if match_message matcher m = None then (Inr False, w)
               else as_handled (handle_pipeline_message lib
                      \<lparr>pl_matcher = matcher, pl_normalizer = rs_normalizer_limits settings,
                       pl_schema_mappings = pc_schema_mappings p, pl_rule_engine = engine,
                       pl_dispatch_limits = rs_dispatch_limits settings\<rparr> m w)))"
proof -
  have sub: "set routes \<subseteq> set (pc_routes p)" and en: "\<And>r. r \<in> set routes \<Longrightarrow> tr_enabled r"
    by (auto simp: routes_def enabled_routes_for_broker_def)
  have val: "topic_route_config_validate r = Inr ()" if "r \<in> set routes" for r
    using assms(1) sub that by (auto simp: project_config_validate_iff)
  have one: "filter bc_enabled (pc_brokers p) = [b]"
  proof -
    obtain x where x: "filter bc_enabled (pc_brokers p) = [x]"
      using assms(2) by (auto simp: runnable_def length_Suc_conv)
    have "b \<in> set (filter bc_enabled (pc_brokers p))" using assms(3,4) by simp
    with x show ?thesis by simp
  qed
  have ne: "routes \<noteq> []"
  proof -
    obtain r where r: "r \<in> set (pc_routes p)" "tr_enabled r" "route_resolves p r"
      using assms(2) by (auto simp: runnable_def)
    then obtain b' where "b' \<in> set (filter bc_enabled (pc_brokers p))" "bc_id b' = tr_broker_id r"
      by (auto simp: route_resolves_def)
    with one have "tr_broker_id r = bc_id b" by simp
    with r show ?thesis by (auto simp: routes_def enabled_routes_for_broker_def filter_empty_conv)
  qed
  have filters: "validate_mqtt_topic_filter (tr_topic_filter r) = Inr ()" if "r \<in> set routes" for r
    using val [OF that] not_blank_nonempty
    by (auto simp: topic_route_config_validate_def validate_mqtt_topic_filter_iff topic_filter_validate_iff)
  obtain c where c: "build_mqtt_client_config b routes = Inr c" "mc_subscriptions c = subscriptions_of routes"
    using build_mqtt_client_config_ok [of b routes] assms(1,3) val by (auto simp: project_config_validate_iff)
  have "distinct (map tr_id routes)"
    using assms(2) by (auto simp: runnable_def ids_unique_def routes_def enabled_routes_for_broker_def
        intro: distinct_map_filter)
  with val obtain matcher where m: "config_route_matcher_new (pc_id p) routes = Inr matcher"
    by (auto simp: config_route_matcher_new_iff)
  let ?pl = "\<lparr>pl_matcher = matcher, pl_normalizer = rs_normalizer_limits settings,
              pl_schema_mappings = pc_schema_mappings p, pl_rule_engine = engine,
              pl_dispatch_limits = rs_dispatch_limits settings\<rparr>"
  let ?h = "\<lambda>m. handle_pipeline_message lib ?pl m"
  let ?r = "map (\<lambda>f. (compiled_filter f, \<lambda>m params. ?h m)) (first_filters {} routes)"
  have r: "build_pipeline_router lib ?pl routes = Inr ?r"
    using build_router_loop_ok [OF filters, where h = "\<lambda>m params. ?h m" and seen = "{}" and router = "[]"]
    by (simp add: build_pipeline_router_def)
  have "router_dispatch ?r msg w =
      (if match_message matcher msg = None then (Inr False, w) else as_handled (?h msg w))" for msg w
    using match_message_None [OF m en, of msg]
    by (auto simp: router_dispatch_uniform set_first_filters)
  with c m r ne show ?thesis
    by (simp add: build_pending_broker_def Let_def flip: routes_def)
qed

section \<open>What the pipeline asks for\<close>

fun asks_for :: "action_intent \<Rightarrow> command_template_id \<Rightarrow> bool" where
  "asks_for (ExecuteCommand _ t _ _) t' = (t' = t)"
| "asks_for _ _ = False"

text \<open>A dispatch hands the command queue only requests for the templates its intents name.\<close>

lemma fold_dispatch_keeps_from:
  assumes "\<And>e w. P w \<Longrightarrow> P (snd (dp_realtime d e w))" and "\<And>r w. P w \<Longrightarrow> P (snd (dp_forwarder d r w))"
    and "\<And>r w. request_for event r \<Longrightarrow> \<exists>i \<in> I. asks_for i (cx_command_template_id r) \<Longrightarrow> P w \<Longrightarrow>
                P (snd (dp_command_queue d r w))"
  shows "snd ` set uis \<subseteq> I \<Longrightarrow> P (ds_world s) \<Longrightarrow> P (ds_world (fold (dispatch_intent d event) uis s))"
proof (induction uis arbitrary: s)
  case (Cons ui uis)
  obtain uuid i where ui: "ui = (uuid, i)" by fastforce
  have "P (ds_world (execute_intent d uuid event i s))"
  proof (cases i)
    case (ExecuteCommand e tid ps cid)
    have "request_for event r \<and> asks_for i (cx_command_template_id r)"
      if "command_request_from_intent uuid event tid ps cid = Inr r" for r
      using that ExecuteCommand by (auto simp: command_request_from_intent_def request_for_def)
    moreover have "i \<in> I" using Cons.prems(1) ui by auto
    ultimately have "P (snd (dp_command_queue d r (ds_world s)))"
      if "command_request_from_intent uuid event tid ps cid = Inr r" for r
      using assms(3) [of r] Cons.prems(2) that by blast
    with Cons.prems(2) ExecuteCommand show ?thesis by (auto simp: case_prod_beta split: sum.splits)
  qed (use assms(1,2) Cons.prems(2) in \<open>simp_all add: case_prod_beta split: sum.splits\<close>)
  with Cons.prems have "P (ds_world (dispatch_intent d event ui s))"
    by (auto simp: ui dispatch_intent_def split: option.splits)
  with Cons show ?case by auto
qed simp

lemma dispatch_keeps_from:
  assumes "\<And>e w. P w \<Longrightarrow> P (snd (dp_realtime d e w))" and "\<And>r w. P w \<Longrightarrow> P (snd (dp_forwarder d r w))"
    and "\<And>r w. request_for event r \<Longrightarrow> \<exists>i \<in> snd ` set uis. asks_for i (cx_command_template_id r) \<Longrightarrow> P w \<Longrightarrow>
                P (snd (dp_command_queue d r w))"
    and "P w"
  shows "P (snd (dispatch d event uis w))"
proof -
  let ?s = "\<lparr>ds_outcome = dispatch_outcome_new (ev_id event), ds_overlay = [], ds_world = w\<rparr>"
  have "P (ds_world (fold (dispatch_intent d event) uis ?s))"
    by (rule fold_dispatch_keeps_from [where I = "snd ` set uis"]) (use assms in auto)
  with assms(4) show ?thesis by (simp add: dispatch_def Let_def)
qed

text \<open>A request of a rule that the configuration can serve.\<close>

definition served_by :: "project_config \<Rightarrow> command_execution_request \<Rightarrow> bool" where
  "served_by p r \<longleftrightarrow>
     (cx_source r = SourceRule \<longrightarrow> cx_project_id r = pc_id p \<and>
        (\<exists>t \<in> set (pc_command_templates p). ct_id t = cx_command_template_id r \<and> ct_enabled t))"

lemma rule_evaluate_resolves:
  assumes "runnable p" and "rule_engine_with_limits (pc_rules p) limits = Inr engine"
    and "rule_evaluate engine event = Inr out" and "i \<in> set (re_intents out)" and "asks_for i t"
  shows "\<exists>ct \<in> set (pc_command_templates p). ct_id ct = t \<and> ct_enabled ct"
proof -
  have eng: "engine = filter rd_enabled (pc_rules p)"
    using assms(2) by (simp add: rule_engine_with_limits_def compile_rules_iff)
  from evaluate_rules_result [OF assms(3) [unfolded rule_evaluate_def]] assms(4)
  obtain rule a where "rule \<in> set (pc_rules p)" "rd_enabled rule" "a \<in> set (rd_actions rule)"
      "i = intent_of rule event a"
    by (auto simp: eng rule_intents_def)
  moreover from this(1-3) have "action_resolves p a" using assms(1) by (auto simp: runnable_def)
  ultimately show ?thesis using assms(5) by (cases a) (auto simp: action_resolves_def)
qed

lemma match_compiled_project: "match_compiled pid routes m = Some x \<Longrightarrow> crx_project_id x = pid"
  by (induction pid routes m rule: match_compiled.induct) (auto split: option.splits)

lemma normalize_routed_project:
  "normalize_routed_message lib uuid matcher limits maps m = Inr (Some ev) \<Longrightarrow> ev_project_id ev = crm_project_id matcher"
  by (auto simp: normalize_routed_message_def match_message_def normalize_def Let_def split: option.splits
      dest: match_compiled_project)

lemma runtime_boundaries_commands:
  "rw_commands (snd (runtime_try_publish send e w)) = rw_commands w"
  "rw_commands (snd (runtime_try_forward f r w)) = rw_commands w"
  "rw_commands (snd (runtime_try_enqueue_command ts q w)) = snd (ts q (rw_commands w))"
  by (auto simp: runtime_try_publish_def runtime_try_forward_def runtime_try_enqueue_command_def
      queue_handle_try_enqueue_def split: prod.splits option.splits sum.splits try_send_error.splits)

definition queued_commands :: "('c \<Rightarrow> command_execution_request vec_queue) \<Rightarrow> ('b, 'f, 'c) runtime_world \<Rightarrow>
    command_execution_request list" where
  "queued_commands view w = vq_items (view (rw_commands w))"

lemma queued_commands_on_stats [simp]:
  "queued_commands view (on_stats f w) = queued_commands view w"
  "queued_commands view (w\<lparr>rw_drawn := n\<rparr>) = queued_commands view w"
  by (simp_all add: queued_commands_def on_stats_def)

lemma handle_pipeline_message_serves:
  fixes w :: "('b, 'f, 'c) runtime_world"
  assumes "runnable p" and "rule_engine_with_limits (pc_rules p) limits = Inr (pl_rule_engine pl)"
    and "crm_project_id (pl_matcher pl) = pc_id p" and "mpsc_law (rb_try_send lib) view"
    and "list_all (served_by p) (queued_commands view w)"
  shows "list_all (served_by p) (queued_commands view (snd (handle_pipeline_message lib pl m w)))"
proof -
  let ?P = "\<lambda>w :: ('b, 'f, 'c) runtime_world. list_all (served_by p) (queued_commands view w)"
  let ?d = "runtime_dispatcher lib (pl_dispatch_limits pl)"
  have "?P (snd (dispatch ?d ev (draw_uuids (rb_uuid lib) n (re_intents out)) w'))"
    if ev: "ev_project_id ev = pc_id p" and out: "rule_evaluate (pl_rule_engine pl) ev = Inr out" and "?P w'"
    for ev out n w'
  proof (rule dispatch_keeps_from [where P = ?P])
    fix r w'
    assume r: "request_for ev r" "?P w'" and
      i: "\<exists>i \<in> snd ` set (draw_uuids (rb_uuid lib) n (re_intents out)). asks_for i (cx_command_template_id r)"
    have "snd ` set (draw_uuids (rb_uuid lib) n (re_intents out)) \<subseteq> set (re_intents out)"
      by (auto simp: draw_uuids_def dest: set_zip_rightD)
    with i obtain i where "i \<in> set (re_intents out)" "asks_for i (cx_command_template_id r)" by blast
    from rule_evaluate_resolves [OF assms(1,2) out this] r(1) ev have "served_by p r"
      by (simp add: served_by_def request_for_def)
    with r(2) show "?P (snd (dp_command_queue ?d r w'))"
      using mpsc_law_items [OF assms(4), of r "rw_commands w'"]
      by (simp add: runtime_dispatcher_def queued_commands_def runtime_boundaries_commands split: sum.splits)
  qed (use that(3) in \<open>simp_all add: runtime_dispatcher_def queued_commands_def runtime_boundaries_commands\<close>)
  note disp = this
  show ?thesis
  proof (cases "normalize_routed_message (rb_serde lib) (rb_uuid lib (rw_drawn w)) (pl_matcher pl)
             (pl_normalizer pl) (pl_schema_mappings pl) m")
    case (Inr ev)
    with assms(5) disp normalize_routed_project [of "rb_serde lib" _ "pl_matcher pl"] assms(3)
    show ?thesis
      by (cases ev) (auto simp: handle_pipeline_message_def Let_def case_prod_beta split: sum.splits)
  qed (use assms(5) in \<open>simp add: handle_pipeline_message_def\<close>)
qed

text \<open>
  The queue between the pipeline and the command processor, step by step: a message is handled, another
  source of commands enqueues one, or the processor takes the oldest.
\<close>

inductive pipeline_step ::
    "('b, 'f, 'c) runtime_lib \<Rightarrow> ('c \<Rightarrow> command_execution_request vec_queue) \<Rightarrow>
     ('b, 'f, 'c) runtime_world mqtt_router \<Rightarrow> ('b, 'f, 'c) runtime_world \<Rightarrow> ('b, 'f, 'c) runtime_world \<Rightarrow> bool"
  for lib view router where
  deliver: "pipeline_step lib view router w (snd (router_dispatch router m w))"
| other: "cx_source r \<noteq> SourceRule \<Longrightarrow>
     pipeline_step lib view router w (snd (queue_handle_try_enqueue (rb_try_send lib) r w))"
| taken: "queued_commands view w = r # rs \<Longrightarrow> queued_commands view (w\<lparr>rw_commands := ch\<rparr>) = rs \<Longrightarrow>
     pipeline_step lib view router w (w\<lparr>rw_commands := ch\<rparr>)"

lemma snd_as_handled [simp]: "snd (as_handled r) = snd r"
  by (auto simp: as_handled_def split: prod.splits sum.splits)

lemma queue_handle_commands: "rw_commands (snd (queue_handle_try_enqueue ts r w)) = snd (ts r (rw_commands w))"
  by (auto simp: queue_handle_try_enqueue_def split: prod.splits sum.splits try_send_error.splits)

lemma pipeline_step_serves:
  assumes "pipeline_step lib view (pb_router pb) w w'" and "list_all (served_by p) (queued_commands view w)"
    and "mpsc_law (rb_try_send lib) view" and "project_config_validate p = Inr ()" "runnable p"
    and "rule_engine_with_limits (pc_rules p) limits = Inr engine"
    and "b \<in> set (pc_brokers p)" "bc_enabled b" and "build_pending_broker lib p settings engine b = Inr pb"
  shows "list_all (served_by p) (queued_commands view w')"
  using assms(1)
proof (cases rule: pipeline_step.cases)
  case (deliver m)
  from build_pending_broker_ok [OF assms(4,5,7,8), of lib settings engine] assms(9) obtain matcher where
      new: "config_route_matcher_new (pc_id p) (enabled_routes_for_broker p (bc_id b)) = Inr matcher" and
      run: "\<And>m w. router_dispatch (pb_router pb) m w =
        (if match_message matcher m = None then (Inr False, w)
         else as_handled (handle_pipeline_message lib
                \<lparr>pl_matcher = matcher, pl_normalizer = rs_normalizer_limits settings,
                 pl_schema_mappings = pc_schema_mappings p, pl_rule_engine = engine,
                 pl_dispatch_limits = rs_dispatch_limits settings\<rparr> m w))" by auto
  have "crm_project_id matcher = pc_id p" using new by (auto simp: config_route_matcher_new_iff)
  with deliver assms(2,3) show ?thesis
    using handle_pipeline_message_serves [OF assms(5), where limits = limits and lib = lib and view = view and m = m and
        w = w and pl = "\<lparr>pl_matcher = matcher, pl_normalizer = rs_normalizer_limits settings,
                 pl_schema_mappings = pc_schema_mappings p, pl_rule_engine = engine,
                 pl_dispatch_limits = rs_dispatch_limits settings\<rparr>"] assms(6)
    by (auto simp: run)
next
  case (other r)
  then show ?thesis
    using assms(2) mpsc_law_items [OF assms(3), of r "rw_commands w"]
    by (auto simp: queued_commands_def queue_handle_commands served_by_def split: sum.splits)
next
  case (taken r rs ch)
  with assms(2) show ?thesis by simp
qed

lemma pipeline_steps_serve:
  assumes "(pipeline_step lib view (pb_router pb))\<^sup>*\<^sup>* w w'" and "queued_commands view w = []"
    and "mpsc_law (rb_try_send lib) view" and "project_config_validate p = Inr ()" "runnable p"
    and "rule_engine_with_limits (pc_rules p) limits = Inr engine"
    and "b \<in> set (pc_brokers p)" "bc_enabled b" and "build_pending_broker lib p settings engine b = Inr pb"
  shows "list_all (served_by p) (queued_commands view w')"
  using assms(1)
proof (induction rule: rtranclp_induct)
  case base
  show ?case by (simp add: assms(2))
next
  case (step y z)
  from step.hyps(2) step.IH show ?case by (rule pipeline_step_serves [OF _ _ assms(3-9)])
qed

section \<open>Properties\<close>

text \<open>A project that runs: one broker, two routes that share a filter, a rule that sends a command.\<close>

definition running_route_list :: "topic_route_config list" where
  "running_route_list =
     [(sample_route ''r1'' ''devices/+/up'' True)\<lparr>tr_backpressure := RejectPolicy, tr_qos := AtMostOnce\<rparr>,
      (sample_route ''r2'' ''devices/+/up'' True)\<lparr>tr_backpressure := RejectPolicy\<rparr>]"

definition running_rules :: "rule_definition list" where
  "running_rules =
     [\<lparr>rd_id = ''on'', rd_name = ''switch on'', rd_enabled = True, rd_trigger = EventReceived,
       rd_condition = None, rd_actions = [TExecuteCommand ''t1'' sample_params]\<rparr>]"

definition running_project :: project_config where
  "running_project =
     \<lparr>pc_id = ''p1'', pc_tenant_id = None, pc_name = ''Local'', pc_description = None, pc_enabled = True,
      pc_version = 1,
      pc_brokers =
        [\<lparr>bc_id = ''b1'', bc_name = ''Local'', bc_host = ''localhost'', bc_port = 1883, bc_tls = TlsDisabled,
          bc_credentials = None, bc_keep_alive = from_secs 30, bc_clean_session = False, bc_client_id = ''c1'',
          bc_reconnect = \<lparr>rp_min_delay = from_secs 1, rp_max_delay = from_secs 2\<rparr>, bc_enabled = True\<rparr>],
      pc_routes = running_route_list, pc_schema_mappings = [], pc_rules = running_rules,
      pc_command_templates = [sample_template], pc_sinks = []\<rparr>"

definition sample_runtime_lib ::
    "(normalized_event list, unit, command_execution_request vec_queue) runtime_lib" where
  "sample_runtime_lib =
     \<lparr>rb_serde = sample_lib, rb_send = (\<lambda>e es. (Some 1, es @ [e])),
      rb_forward = (\<lambda>r u. (Inl (SinkNotFound (fr_sink_id r)), u)), rb_try_send = vq_try_send,
      rb_uuid = (\<lambda>n. show_nat n)\<rparr>"

definition sample_runtime_world ::
    "(normalized_event list, unit, command_execution_request vec_queue) runtime_world" where
  "sample_runtime_world =
     \<lparr>rw_stats = runtime_stats_default, rw_realtime = [], rw_forwarder = (),
      rw_commands = \<lparr>vq_capacity = 2, vq_items = [], vq_closed = False\<rparr>, rw_drawn = 0\<rparr>"

lemma singleton_list: "distinct xs \<Longrightarrow> set xs = {a} \<Longrightarrow> xs = [a]"
  by (cases xs; cases "tl xs") auto

lemma running_texts:
  "\<not> is_blank ''Local''" "\<not> has_control ''Local''" "\<not> is_blank ''localhost''" "\<not> has_control ''localhost''"
  "\<not> is_blank ''c1''" "\<not> has_control ''c1''" "\<not> is_blank ''switch on''" "\<not> has_control ''switch on''"
  "\<not> is_blank ''switch''" "\<not> has_control ''switch''"
  "\<not> is_blank ''devices/{id}/cmd''" "\<not> has_control ''devices/{id}/cmd''"
  by code_simp+

lemma running_routes: "list_all (\<lambda>r. topic_route_config_validate r = Inr ()) running_route_list"
  by code_simp

lemma running_rules_valid: "list_all (\<lambda>r. rule_definition_validate r = Inr ()) running_rules"
  by code_simp

lemma running_valid: "validate_runtime_config running_project = Inr ()"
proof -
  have "project_config_validate running_project = Inr ()"
    unfolding project_config_validate_iff
    using running_routes running_rules_valid
    by (simp add: running_project_def running_texts list_all_iff broker_connection_config_validate_def
        max_name_bytes_def max_host_bytes_def from_secs_def reconnect_policy_validate_def
        command_template_validate_def sample_template_def max_topic_bytes_def del: has_control.simps)
  moreover have "runnable running_project"
    by (simp add: runnable_def running_project_def ids_unique_def route_resolves_def action_resolves_def
        running_route_list_def running_rules_def sample_template_def sample_route_def)
  ultimately show ?thesis by (simp add: validate_runtime_config_iff)
qed

lemma validated_pending:
  assumes "validate_runtime_config p = Inr ()"
  shows "\<exists>b pb. enabled_brokers p = [b] \<and> b \<in> set (pc_brokers p) \<and> bc_enabled b \<and>
           build_pending_broker_runtimes lib p settings engine = Inr [pb] \<and>
           build_pending_broker lib p settings engine b = Inr pb"
proof -
  have run: "project_config_validate p = Inr ()" "runnable p"
    using assms by (simp_all add: validate_runtime_config_iff)
  then obtain b where b: "enabled_brokers p = [b]"
    by (auto simp: runnable_def enabled_brokers_def length_Suc_conv)
  then have "b \<in> set (enabled_brokers p)" by simp
  then have in_p: "b \<in> set (pc_brokers p)" "bc_enabled b" by (simp_all add: enabled_brokers_def)
  from build_pending_broker_ok [OF run in_p] obtain pb where "build_pending_broker lib p settings engine b = Inr pb"
    by blast
  with b in_p show ?thesis by (auto simp: build_pending_broker_runtimes_def)
qed

text \<open>For a configuration the runtime accepts, the construction of the broker succeeds, whatever the other
  settings are: one broker, which subscribes exactly to the filters of its enabled routes, once each,
  with the strongest quality of service any of them asks for.\<close>

lemma broker_subscribes_to_routes:
  assumes "validate_runtime_config p = Inr ()"
  shows "\<exists>b pb. enabled_brokers p = [b] \<and> build_pending_broker_runtimes lib p settings engine = Inr [pb] \<and>
           pb_broker_id pb = bc_id b \<and> distinct (map ms_topic (mc_subscriptions (pb_config pb))) \<and>
           (\<forall>f qos. \<lparr>ms_topic = f, ms_qos = qos\<rparr> \<in> set (mc_subscriptions (pb_config pb)) \<longleftrightarrow>
              strongest_qos (enabled_routes_for_broker p (bc_id b)) f qos)"
proof -
  obtain b pb where b: "enabled_brokers p = [b]" "b \<in> set (pc_brokers p)" "bc_enabled b"
      "build_pending_broker_runtimes lib p settings engine = Inr [pb]"
      "build_pending_broker lib p settings engine b = Inr pb"
    using validated_pending [OF assms] by blast
  have run: "project_config_validate p = Inr ()" "runnable p"
    using assms by (simp_all add: validate_runtime_config_iff)
  let ?routes = "enabled_routes_for_broker p (bc_id b)"
  have subs: "mc_subscriptions (pb_config pb) = subscriptions_of ?routes" "pb_broker_id pb = bc_id b"
    using build_pending_broker_ok [OF run b(2,3), of lib settings engine] b(5) by auto
  have wf: "bm_wf (merged_subscriptions ?routes)" by (rule merged_subscriptions_wf)
  have "\<lparr>ms_topic = f, ms_qos = qos\<rparr> \<in> set (subscriptions_of ?routes) \<longleftrightarrow>
      (f, qos) \<in> set (merged_subscriptions ?routes)" for f qos
    by (force simp: subscriptions_of_def)
  moreover have "(f, qos) \<in> set (merged_subscriptions ?routes) \<longleftrightarrow> strongest_qos ?routes f qos" for f qos
    using bm_wf_distinct [OF wf] by (simp flip: merged_subscriptions_lookup)
  moreover have "map ms_topic (subscriptions_of ?routes) = map fst (merged_subscriptions ?routes)"
    by (simp add: subscriptions_of_def case_prod_beta comp_def)
  ultimately show ?thesis using b(1,4) subs bm_wf_distinct [OF wf] by simp
qed

text \<open>C14: on the broker of a validated configuration, the router handles a message exactly when the project's
  matcher has a route for it, and handles it once, however many routes share its filter; a message without
  a route is not handled and changes nothing.\<close>

theorem router_handles_routed_messages:
  assumes "validate_runtime_config p = Inr ()"
  shows "\<exists>b pb matcher. enabled_brokers p = [b] \<and>
           build_pending_broker_runtimes lib p settings engine = Inr [pb] \<and>
           config_route_matcher_new (pc_id p) (enabled_routes_for_broker p (bc_id b)) = Inr matcher \<and>
           (\<forall>m w. router_dispatch (pb_router pb) m w =
              (if match_message matcher m = None then (Inr False, w)
               else as_handled (handle_pipeline_message lib
                      \<lparr>pl_matcher = matcher, pl_normalizer = rs_normalizer_limits settings,
                       pl_schema_mappings = pc_schema_mappings p, pl_rule_engine = engine,
                       pl_dispatch_limits = rs_dispatch_limits settings\<rparr> m w)))"
proof -
  obtain b pb where b: "enabled_brokers p = [b]" "b \<in> set (pc_brokers p)" "bc_enabled b"
      "build_pending_broker_runtimes lib p settings engine = Inr [pb]"
      "build_pending_broker lib p settings engine b = Inr pb"
    using validated_pending [OF assms] by blast
  have run: "project_config_validate p = Inr ()" "runnable p"
    using assms by (simp_all add: validate_runtime_config_iff)
  from build_pending_broker_ok [OF run b(2,3), of lib settings engine] b show ?thesis by auto
qed

theorem router_handles_routed_messages_witness:
  "\<exists>pb. build_pending_broker_runtimes sample_runtime_lib running_project runtime_settings_default [] = Inr [pb] \<and>
     router_dispatch (pb_router pb) (sample_message ''devices/d7/down'' ''1'') sample_runtime_world = (Inr False, sample_runtime_world)"
proof -
  obtain b pb matcher where pb: "enabled_brokers running_project = [b]"
      "build_pending_broker_runtimes sample_runtime_lib running_project runtime_settings_default [] = Inr [pb]"
      "config_route_matcher_new (pc_id running_project)
         (enabled_routes_for_broker running_project (bc_id b)) = Inr matcher"
      "\<And>m w. match_message matcher m = None \<Longrightarrow> router_dispatch (pb_router pb) m w = (Inr False, w)"
    using router_handles_routed_messages [OF running_valid, of sample_runtime_lib runtime_settings_default "[]"] by auto
  have "match_message matcher (sample_message ''devices/d7/down'' ''1'') = None"
  proof -
    have miss: "filter_matches (map compile_level (split_on CHR ''/'' ''devices/+/up'')) ''devices/d7/down'' = None"
      by code_simp
    have "\<not> (\<exists>f \<in> tr_topic_filter ` set (enabled_routes_for_broker running_project (bc_id b)).
        filter_matches (tf_levels (compiled_filter f)) ''devices/d7/down'' \<noteq> None)"
      using miss by (auto simp: enabled_routes_for_broker_def running_project_def running_route_list_def sample_route_def compiled_filter_def)
    with match_message_None [OF pb(3), of "sample_message ''devices/d7/down'' ''1''"] show ?thesis
      by (auto simp: enabled_routes_for_broker_def)
  qed
  with pb(2,4) show ?thesis by blast
qed

text \<open>The sample message fires the rule, which asks for the sample command.\<close>

definition running_settings :: runtime_settings where
  "running_settings =
     runtime_settings_default\<lparr>rs_normalizer_limits := sample_limits, rs_rule_limits := sample_rule_limits,
       rs_dispatch_limits := dp_limits counting_dispatcher\<rparr>"

definition running_pipeline :: pipeline where
  "running_pipeline =
     \<lparr>pl_matcher = \<lparr>crm_project_id = ''p1'', crm_routes = map compiled_route running_route_list\<rparr>,
      pl_normalizer = sample_limits, pl_schema_mappings = [], pl_rule_engine = running_rules,
      pl_dispatch_limits = dp_limits counting_dispatcher\<rparr>"

definition running_request :: command_execution_request where
  "running_request =
     \<lparr>cx_project_id = ''p1'', cx_command_execution_id = ''command_exec_1'', cx_command_template_id = ''t1'',
      cx_params = sample_params, cx_source = SourceRule, cx_actor_id = None, cx_source_event_id = Some ''evt_0'',
      cx_correlation_id = ''evt_0'', cx_reason = Some ''matched event evt_0''\<rparr>"

definition running_event :: normalized_event where
  "running_event =
     (case normalize_routed_message sample_lib ''0'' (pl_matcher running_pipeline) sample_limits []
             (sample_message ''devices/d7/up'' ''o'') of
        Inr (Some e) \<Rightarrow> e | _ \<Rightarrow> sample_event)"

lemma running_normalized:
  "normalize_routed_message sample_lib ''0'' (pl_matcher running_pipeline) sample_limits []
     (sample_message ''devices/d7/up'' ''o'') = Inr (Some running_event)"
  "ev_id running_event = ''evt_0''" "ev_project_id running_event = ''p1''"
  "rule_evaluate running_rules running_event =
     Inr \<lparr>re_matched_rules = [''on''], re_intents = [ExecuteCommand ''evt_0'' ''t1'' sample_params ''evt_0'']\<rparr>"
  by code_simp+

lemma running_ids: "show_nat 0 = ''0''" "show_nat (Suc 0) = ''1''"
  "id_new ''command_execution_id'' ''command_exec_1'' = Inr ''command_exec_1''"
  by code_simp+

lemma running_handled:
  "vq_items (rw_commands (snd (handle_pipeline_message sample_runtime_lib running_pipeline
     (sample_message ''devices/d7/up'' ''o'') sample_runtime_world))) = [running_request]"
proof -
  have pl: "pl_normalizer running_pipeline = sample_limits" "pl_schema_mappings running_pipeline = []"
      "pl_rule_engine running_pipeline = running_rules"
      "pl_dispatch_limits running_pipeline = dp_limits counting_dispatcher"
    by (simp_all add: running_pipeline_def)
  show ?thesis
    by (simp add: handle_pipeline_message_def pl sample_runtime_lib_def sample_runtime_world_def running_normalized
        running_ids Let_def dispatch_def counting_dispatcher_def dispatch_intent_def draw_uuids_def on_stats_def
        command_request_from_intent_def runtime_dispatcher_def runtime_try_enqueue_command_def
        queue_handle_try_enqueue_def vq_try_send_def dispatch_outcome_new_def running_request_def)
qed

end
