(* ===== verification/Config_Codec.thy ===== *)
theory Config_Codec
  imports Storage_Secret
begin

text \<open>
  The stored form of a project configuration (\<^verbatim>\<open>project_config_codec.rs\<close>): broker passwords and sink header
  values are encrypted under associated data that names where they belong; everything else is kept as it
  is by the codec. Then what is read back of a stored form that was written to a \<^verbatim>\<open>JSONB\<close> column. Encoding draws a nonce per secret, so it passes the state of the random numbers along.
\<close>

section \<open>Loops that pass a state along\<close>

fun collect_st :: "('a \<Rightarrow> 's \<Rightarrow> ('e + 'b) \<times> 's) \<Rightarrow> 'a list \<Rightarrow> 's \<Rightarrow> ('e + 'b list) \<times> 's" where
  "collect_st f [] s = (Inr [], s)"
| "collect_st f (x # xs) s =
     (case f x s of
        (Inl e, s') \<Rightarrow> (Inl e, s')
      | (Inr y, s') \<Rightarrow>
          (case collect_st f xs s' of
             (Inl e, s'') \<Rightarrow> (Inl e, s'')
           | (Inr ys, s'') \<Rightarrow> (Inr (y # ys), s'')))"

lemma collect_st_Inr:
  "collect_st f xs s = (Inr ys, s') \<Longrightarrow> list_all2 (\<lambda>x y. \<exists>t t'. f x t = (Inr y, t')) xs ys"
  by (induction f xs s arbitrary: ys s' rule: collect_st.induct)
    (auto split: prod.splits sum.splits)

text \<open>A loop over the result that undoes each element undoes the list.\<close>

lemma collect_st_inverse:
  assumes "collect_st f xs s = (Inr ys, s')"
    and "\<And>x y t t'. x \<in> set xs \<Longrightarrow> f x t = (Inr y, t') \<Longrightarrow> g (h y) = Inr x"
  shows "try_collect g (map h ys) = Inr xs"
  using collect_st_Inr [OF assms(1)] assms(2)
  by (induction rule: list_all2_induct) fastforce+

section \<open>Stored types\<close>

record stored_mqtt_credentials =
  smc_username :: string
  smc_password :: encrypted_secret

record stored_broker_connection_config =
  sb_id :: broker_id
  sb_name :: string
  sb_host :: string
  sb_port :: u16
  sb_tls :: tls_mode
  sb_credentials :: "stored_mqtt_credentials option"
  sb_keep_alive :: duration
  sb_clean_session :: bool
  sb_client_id :: string
  sb_reconnect :: reconnect_policy
  sb_enabled :: bool

record stored_http_header_template =
  shh_name :: string
  shh_value :: encrypted_secret

datatype stored_sink_kind =
  StoredWebhook string http_method "stored_http_header_template list" duration
| StoredDatabase string string

record stored_sink_definition =
  ss_id :: sink_id
  ss_name :: string
  ss_enabled :: bool
  ss_kind :: stored_sink_kind

record stored_project_config =
  sp_id :: project_id
  sp_tenant_id :: "tenant_id option"
  sp_name :: string
  sp_description :: "string option"
  sp_enabled :: bool
  sp_version :: u64
  sp_brokers :: "stored_broker_connection_config list"
  sp_routes :: "topic_route_config list"
  sp_schema_mappings :: "payload_schema_mapping list"
  sp_rules :: "rule_definition list"
  sp_command_templates :: "command_template list"
  sp_sinks :: "stored_sink_definition list"

definition broker_password_aad :: "project_id \<Rightarrow> broker_id \<Rightarrow> string" where
  "broker_password_aad project_id broker_id =
     ''project:'' @ project_id @ '':broker:'' @ broker_id @ '':mqtt_password''"

definition sink_header_aad :: "project_id \<Rightarrow> sink_id \<Rightarrow> string \<Rightarrow> string" where
  "sink_header_aad project_id sink_id header_name =
     ''project:'' @ project_id @ '':sink:'' @ sink_id @ '':header:'' @ header_name"

section \<open>Encoding\<close>

definition credentials_from_domain ::
    "'r secret_cipher_obj \<Rightarrow> project_id \<Rightarrow> broker_id \<Rightarrow> mqtt_credentials \<Rightarrow> 'r \<Rightarrow>
     (storage_error + stored_mqtt_credentials) \<times> 'r" where
  "credentials_from_domain cipher project_id broker_id c r =
     (case sc_encrypt cipher (cr_password c) (broker_password_aad project_id broker_id) r of
        (Inl e, r') \<Rightarrow> (Inl e, r')
      | (Inr password, r') \<Rightarrow> (Inr \<lparr>smc_username = cr_username c, smc_password = password\<rparr>, r'))"

definition broker_from_domain ::
    "'r secret_cipher_obj \<Rightarrow> project_id \<Rightarrow> broker_connection_config \<Rightarrow> 'r \<Rightarrow>
     (storage_error + stored_broker_connection_config) \<times> 'r" where
  "broker_from_domain cipher project_id b r =
     (case (case bc_credentials b of
              None \<Rightarrow> (Inr None, r)
            | Some c \<Rightarrow>
                (case credentials_from_domain cipher project_id (bc_id b) c r of
                   (Inl e, r') \<Rightarrow> (Inl e, r') | (Inr sc, r') \<Rightarrow> (Inr (Some sc), r'))) of
        (Inl e, r') \<Rightarrow> (Inl e, r')
      | (Inr credentials, r') \<Rightarrow>
          (Inr \<lparr>sb_id = bc_id b, sb_name = bc_name b, sb_host = bc_host b, sb_port = bc_port b,
                sb_tls = bc_tls b, sb_credentials = credentials, sb_keep_alive = bc_keep_alive b,
                sb_clean_session = bc_clean_session b, sb_client_id = bc_client_id b,
                sb_reconnect = bc_reconnect b, sb_enabled = bc_enabled b\<rparr>, r'))"

definition header_from_domain ::
    "'r secret_cipher_obj \<Rightarrow> project_id \<Rightarrow> sink_id \<Rightarrow> http_header_template \<Rightarrow> 'r \<Rightarrow>
     (storage_error + stored_http_header_template) \<times> 'r" where
  "header_from_domain cipher project_id sink_id h r =
     (case sc_encrypt cipher (hh_value h) (sink_header_aad project_id sink_id (hh_name h)) r of
        (Inl e, r') \<Rightarrow> (Inl e, r')
      | (Inr v, r') \<Rightarrow> (Inr \<lparr>shh_name = hh_name h, shh_value = v\<rparr>, r'))"

fun sink_kind_from_domain ::
    "'r secret_cipher_obj \<Rightarrow> project_id \<Rightarrow> sink_id \<Rightarrow> sink_kind \<Rightarrow> 'r \<Rightarrow>
     (storage_error + stored_sink_kind) \<times> 'r" where
  "sink_kind_from_domain cipher project_id sink_id (Webhook url m headers timeout) r =
     (case collect_st (header_from_domain cipher project_id sink_id) headers r of
        (Inl e, r') \<Rightarrow> (Inl e, r')
      | (Inr hs, r') \<Rightarrow> (Inr (StoredWebhook url m hs timeout), r'))"
| "sink_kind_from_domain cipher project_id sink_id (Database connection_ref tbl) r =
     (Inr (StoredDatabase connection_ref tbl), r)"

definition sink_from_domain ::
    "'r secret_cipher_obj \<Rightarrow> project_id \<Rightarrow> sink_definition \<Rightarrow> 'r \<Rightarrow>
     (storage_error + stored_sink_definition) \<times> 'r" where
  "sink_from_domain cipher project_id s r =
     (case sink_kind_from_domain cipher project_id (sk_id s) (sk_kind s) r of
        (Inl e, r') \<Rightarrow> (Inl e, r')
      | (Inr kind, r') \<Rightarrow>
          (Inr \<lparr>ss_id = sk_id s, ss_name = sk_name s, ss_enabled = sk_enabled s, ss_kind = kind\<rparr>, r'))"

definition codec_encode ::
    "'r secret_cipher_obj \<Rightarrow> project_config \<Rightarrow> 'r \<Rightarrow> (storage_error + stored_project_config) \<times> 'r" where
  "codec_encode cipher config r =
     (case collect_st (broker_from_domain cipher (pc_id config)) (pc_brokers config) r of
        (Inl e, r') \<Rightarrow> (Inl e, r')
      | (Inr brokers, r') \<Rightarrow>
          (case collect_st (sink_from_domain cipher (pc_id config)) (pc_sinks config) r' of
             (Inl e, r'') \<Rightarrow> (Inl e, r'')
           | (Inr sinks, r'') \<Rightarrow>
               (Inr \<lparr>sp_id = pc_id config, sp_tenant_id = pc_tenant_id config, sp_name = pc_name config,
                     sp_description = pc_description config, sp_enabled = pc_enabled config,
                     sp_version = pc_version config, sp_brokers = brokers, sp_routes = pc_routes config,
                     sp_schema_mappings = pc_schema_mappings config, sp_rules = pc_rules config,
                     sp_command_templates = pc_command_templates config, sp_sinks = sinks\<rparr>, r'')))"

section \<open>Decoding\<close>

definition credentials_into_domain ::
    "'r secret_cipher_obj \<Rightarrow> project_id \<Rightarrow> broker_id \<Rightarrow> stored_mqtt_credentials \<Rightarrow>
     storage_error + mqtt_credentials" where
  "credentials_into_domain cipher project_id broker_id c =
     res_bind (sc_decrypt cipher (smc_password c) (broker_password_aad project_id broker_id)) (\<lambda>password.
     res_bind (map_err StorageDomain (secret_string_new password)) (\<lambda>secret.
     Inr \<lparr>cr_username = smc_username c, cr_password = secret\<rparr>))"

definition broker_into_domain ::
    "'r secret_cipher_obj \<Rightarrow> project_id \<Rightarrow> stored_broker_connection_config \<Rightarrow>
     storage_error + broker_connection_config" where
  "broker_into_domain cipher project_id b =
     res_bind (opt_try (credentials_into_domain cipher project_id (sb_id b)) (sb_credentials b)) (\<lambda>credentials.
     Inr \<lparr>bc_id = sb_id b, bc_name = sb_name b, bc_host = sb_host b, bc_port = sb_port b, bc_tls = sb_tls b,
          bc_credentials = credentials, bc_keep_alive = sb_keep_alive b,
          bc_clean_session = sb_clean_session b, bc_client_id = sb_client_id b,
          bc_reconnect = sb_reconnect b, bc_enabled = sb_enabled b\<rparr>)"

definition header_into_domain ::
    "'r secret_cipher_obj \<Rightarrow> project_id \<Rightarrow> sink_id \<Rightarrow> stored_http_header_template \<Rightarrow>
     storage_error + http_header_template" where
  "header_into_domain cipher project_id sink_id h =
     res_bind (sc_decrypt cipher (shh_value h) (sink_header_aad project_id sink_id (shh_name h))) (\<lambda>v.
     res_bind (map_err StorageDomain (secret_string_new v)) (\<lambda>secret.
     Inr \<lparr>hh_name = shh_name h, hh_value = secret\<rparr>))"

fun sink_kind_into_domain ::
    "'r secret_cipher_obj \<Rightarrow> project_id \<Rightarrow> sink_id \<Rightarrow> stored_sink_kind \<Rightarrow> storage_error + sink_kind" where
  "sink_kind_into_domain cipher project_id sink_id (StoredWebhook url m headers timeout) =
     res_bind (try_collect (header_into_domain cipher project_id sink_id) headers) (\<lambda>hs.
     Inr (Webhook url m hs timeout))"
| "sink_kind_into_domain cipher project_id sink_id (StoredDatabase connection_ref tbl) =
     Inr (Database connection_ref tbl)"

definition sink_into_domain ::
    "'r secret_cipher_obj \<Rightarrow> project_id \<Rightarrow> stored_sink_definition \<Rightarrow> storage_error + sink_definition" where
  "sink_into_domain cipher project_id s =
     res_bind (sink_kind_into_domain cipher project_id (ss_id s) (ss_kind s)) (\<lambda>kind.
     Inr \<lparr>sk_id = ss_id s, sk_name = ss_name s, sk_enabled = ss_enabled s, sk_kind = kind\<rparr>)"

definition codec_decode ::
    "'r secret_cipher_obj \<Rightarrow> stored_project_config \<Rightarrow> storage_error + project_config" where
  "codec_decode cipher stored =
     res_bind (try_collect (broker_into_domain cipher (sp_id stored)) (sp_brokers stored)) (\<lambda>brokers.
     res_bind (try_collect (sink_into_domain cipher (sp_id stored)) (sp_sinks stored)) (\<lambda>sinks.
     let config =
       \<lparr>pc_id = sp_id stored, pc_tenant_id = sp_tenant_id stored, pc_name = sp_name stored,
        pc_description = sp_description stored, pc_enabled = sp_enabled stored,
        pc_version = sp_version stored, pc_brokers = brokers, pc_routes = sp_routes stored,
        pc_schema_mappings = sp_schema_mappings stored, pc_rules = sp_rules stored,
        pc_command_templates = sp_command_templates stored, pc_sinks = sinks\<rparr>
     in res_bind (map_err StorageDomain (project_config_validate config)) (\<lambda>_. Inr config)))"

section \<open>The JSON column\<close>

text \<open>
  What comes back when the stored form is written to a \<^verbatim>\<open>JSONB\<close> column and read again. The derived serializers
  keep every field, except that durations go through whole seconds or milliseconds; and the JSON values
  inside of the configuration (the payloads of commands, the parameters of actions, the literals of
  conditions, the defaults of fields) come back as \<open>jb\<close>, the column, gives them back. A default that is
  \<^verbatim>\<open>null\<close> then is read as no default, as \<^verbatim>\<open>Option\<close> does.
\<close>

definition wire_seconds :: "duration \<Rightarrow> duration" where
  "wire_seconds d = duration_seconds_deserialize (duration_seconds_serialize d)"

definition wire_millis :: "duration \<Rightarrow> duration" where
  "wire_millis d = duration_millis_deserialize (duration_millis_serialize d)"

definition wire_broker :: "stored_broker_connection_config \<Rightarrow> stored_broker_connection_config" where
  "wire_broker b =
     b\<lparr>sb_keep_alive := wire_seconds (sb_keep_alive b),
       sb_reconnect := \<lparr>rp_min_delay = wire_millis (rp_min_delay (sb_reconnect b)),
                        rp_max_delay = wire_millis (rp_max_delay (sb_reconnect b))\<rparr>\<rparr>"

fun wire_sink_kind :: "stored_sink_kind \<Rightarrow> stored_sink_kind" where
  "wire_sink_kind (StoredWebhook url m headers timeout) = StoredWebhook url m headers (wire_millis timeout)"
| "wire_sink_kind (StoredDatabase connection_ref tbl) = StoredDatabase connection_ref tbl"

definition wire_sink :: "stored_sink_definition \<Rightarrow> stored_sink_definition" where
  "wire_sink s = s\<lparr>ss_kind := wire_sink_kind (ss_kind s)\<rparr>"

definition wire_default :: "(json \<Rightarrow> json) \<Rightarrow> json option \<Rightarrow> json option" where
  "wire_default jb d = (case d of None \<Rightarrow> None | Some v \<Rightarrow> if jb v = JNull then None else Some (jb v))"

definition wire_field :: "(json \<Rightarrow> json) \<Rightarrow> field_mapping \<Rightarrow> field_mapping" where
  "wire_field jb f = f\<lparr>fm_default := wire_default jb (fm_default f)\<rparr>"

definition wire_mapping :: "(json \<Rightarrow> json) \<Rightarrow> payload_schema_mapping \<Rightarrow> payload_schema_mapping" where
  "wire_mapping jb m = m\<lparr>sm_fields := map (wire_field jb) (sm_fields m)\<rparr>"

definition wire_template :: "(json \<Rightarrow> json) \<Rightarrow> command_template \<Rightarrow> command_template" where
  "wire_template jb t = t\<lparr>ct_payload_template := jb (ct_payload_template t)\<rparr>"

fun wire_value :: "(json \<Rightarrow> json) \<Rightarrow> value_expr \<Rightarrow> value_expr" where
  "wire_value jb (Literal v) = Literal (jb v)"
| "wire_value jb (FieldExpr f) = FieldExpr f"

fun wire_condition :: "(json \<Rightarrow> json) \<Rightarrow> condition_expr \<Rightarrow> condition_expr" where
  "wire_condition jb (ExistsC f) = ExistsC f"
| "wire_condition jb (Equals l r) = Equals (wire_value jb l) (wire_value jb r)"
| "wire_condition jb (NotEquals l r) = NotEquals (wire_value jb l) (wire_value jb r)"
| "wire_condition jb (GreaterThan l r) = GreaterThan (wire_value jb l) (wire_value jb r)"
| "wire_condition jb (GreaterThanOrEqual l r) = GreaterThanOrEqual (wire_value jb l) (wire_value jb r)"
| "wire_condition jb (LessThan l r) = LessThan (wire_value jb l) (wire_value jb r)"
| "wire_condition jb (LessThanOrEqual l r) = LessThanOrEqual (wire_value jb l) (wire_value jb r)"
| "wire_condition jb (ContainsC l r) = ContainsC (wire_value jb l) (wire_value jb r)"
| "wire_condition jb (AndC cs) = AndC (map (wire_condition jb) cs)"
| "wire_condition jb (OrC cs) = OrC (map (wire_condition jb) cs)"
| "wire_condition jb (NotC c) = NotC (wire_condition jb c)"

fun wire_action :: "(json \<Rightarrow> json) \<Rightarrow> action_intent_template \<Rightarrow> action_intent_template" where
  "wire_action jb (TExecuteCommand t params) = TExecuteCommand t (map (\<lambda>(key, v). (key, jb v)) params)"
| "wire_action jb a = a"

definition wire_rule :: "(json \<Rightarrow> json) \<Rightarrow> rule_definition \<Rightarrow> rule_definition" where
  "wire_rule jb r =
     r\<lparr>rd_condition := map_option (wire_condition jb) (rd_condition r), rd_actions := map (wire_action jb) (rd_actions r)\<rparr>"

definition wire_config :: "(json \<Rightarrow> json) \<Rightarrow> stored_project_config \<Rightarrow> stored_project_config" where
  "wire_config jb p =
     p\<lparr>sp_brokers := map wire_broker (sp_brokers p), sp_sinks := map wire_sink (sp_sinks p),
       sp_schema_mappings := map (wire_mapping jb) (sp_schema_mappings p), sp_rules := map (wire_rule jb) (sp_rules p),
       sp_command_templates := map (wire_template jb) (sp_command_templates p)\<rparr>"

text \<open>The JSON values of a configuration, and the configuration with each of them as the column gives it back.\<close>

fun value_json :: "value_expr \<Rightarrow> json set" where
  "value_json (Literal v) = {v}"
| "value_json (FieldExpr f) = {}"

fun condition_json :: "condition_expr \<Rightarrow> json set" where
  "condition_json (ExistsC f) = {}"
| "condition_json (Equals l r) = value_json l \<union> value_json r"
| "condition_json (NotEquals l r) = value_json l \<union> value_json r"
| "condition_json (GreaterThan l r) = value_json l \<union> value_json r"
| "condition_json (GreaterThanOrEqual l r) = value_json l \<union> value_json r"
| "condition_json (LessThan l r) = value_json l \<union> value_json r"
| "condition_json (LessThanOrEqual l r) = value_json l \<union> value_json r"
| "condition_json (ContainsC l r) = value_json l \<union> value_json r"
| "condition_json (AndC cs) = \<Union> (set (map condition_json cs))"
| "condition_json (OrC cs) = \<Union> (set (map condition_json cs))"
| "condition_json (NotC c) = condition_json c"

fun action_json :: "action_intent_template \<Rightarrow> json set" where
  "action_json (TExecuteCommand t params) = set (map snd params)"
| "action_json a = {}"

definition rule_json :: "rule_definition \<Rightarrow> json set" where
  "rule_json r =
     (case rd_condition r of None \<Rightarrow> {} | Some c \<Rightarrow> condition_json c) \<union> (\<Union>a \<in> set (rd_actions r). action_json a)"

definition default_json :: "project_config \<Rightarrow> json set" where
  "default_json p = (\<Union>m \<in> set (pc_schema_mappings p). \<Union>f \<in> set (sm_fields m). set_option (fm_default f))"

definition config_json :: "project_config \<Rightarrow> json set" where
  "config_json p =
     default_json p \<union> (\<Union>r \<in> set (pc_rules p). rule_json r) \<union> ct_payload_template ` set (pc_command_templates p)"

definition json_kept :: "(json \<Rightarrow> json) \<Rightarrow> project_config \<Rightarrow> bool" where
  "json_kept jb p \<longleftrightarrow> (\<forall>v \<in> config_json p. jb v = v) \<and> JNull \<notin> default_json p"

definition json_read_back :: "(json \<Rightarrow> json) \<Rightarrow> project_config \<Rightarrow> project_config" where
  "json_read_back jb p =
     p\<lparr>pc_schema_mappings := map (wire_mapping jb) (pc_schema_mappings p), pc_rules := map (wire_rule jb) (pc_rules p),
       pc_command_templates := map (wire_template jb) (pc_command_templates p)\<rparr>"

lemma wire_default_id: "(\<And>v. v \<in> set_option d \<Longrightarrow> jb v = v \<and> v \<noteq> JNull) \<Longrightarrow> wire_default jb d = d"
  by (cases d) (simp_all add: wire_default_def)

lemma wire_mapping_id:
  assumes "\<And>v. v \<in> (\<Union>f \<in> set (sm_fields m). set_option (fm_default f)) \<Longrightarrow> jb v = v \<and> v \<noteq> JNull"
  shows "wire_mapping jb m = m"
proof -
  have "wire_default jb (fm_default f) = fm_default f" if "f \<in> set (sm_fields m)" for f
    by (rule wire_default_id) (use assms that in blast)
  then have "map (wire_field jb) (sm_fields m) = sm_fields m"
    by (intro map_idI) (simp add: wire_field_def)
  then show ?thesis by (simp add: wire_mapping_def)
qed

lemma wire_value_id: "(\<And>v. v \<in> value_json e \<Longrightarrow> jb v = v) \<Longrightarrow> wire_value jb e = e"
  by (cases e) simp_all

lemma wire_condition_id: "(\<And>v. v \<in> condition_json c \<Longrightarrow> jb v = v) \<Longrightarrow> wire_condition jb c = c"
  by (induction c) (auto simp: wire_value_id intro!: map_idI)

lemma wire_action_id: "(\<And>v. v \<in> action_json a \<Longrightarrow> jb v = v) \<Longrightarrow> wire_action jb a = a"
  by (cases a) (force intro!: map_idI)+

lemma wire_rule_id: "(\<And>v. v \<in> rule_json r \<Longrightarrow> jb v = v) \<Longrightarrow> wire_rule jb r = r"
proof -
  assume kept: "\<And>v. v \<in> rule_json r \<Longrightarrow> jb v = v"
  then have "map_option (wire_condition jb) (rd_condition r) = rd_condition r"
    by (cases "rd_condition r") (auto simp: rule_json_def intro: wire_condition_id)
  moreover have "map (wire_action jb) (rd_actions r) = rd_actions r"
    using kept by (intro map_idI wire_action_id) (auto simp: rule_json_def)
  ultimately show ?thesis by (simp add: wire_rule_def)
qed

text \<open>Values that the column keeps leave the configuration as it was.\<close>

lemma json_read_back_id: "json_kept jb p \<Longrightarrow> json_read_back jb p = p"
proof -
  assume kept: "json_kept jb p"
  then have "map (wire_mapping jb) (pc_schema_mappings p) = pc_schema_mappings p"
    by (intro map_idI wire_mapping_id) (auto simp: json_kept_def config_json_def default_json_def)
  moreover from kept have "map (wire_rule jb) (pc_rules p) = pc_rules p"
    by (intro map_idI wire_rule_id) (auto simp: json_kept_def config_json_def)
  moreover from kept have "map (wire_template jb) (pc_command_templates p) = pc_command_templates p"
    by (intro map_idI) (auto simp: json_kept_def config_json_def wire_template_def)
  ultimately show ?thesis by (simp add: json_read_back_def)
qed

text \<open>No check of a configuration looks at a JSON value.\<close>

lemma wire_value_validate [simp]: "validate_value_expr (wire_value jb e) = validate_value_expr e"
  by (cases e) simp_all

lemma try_for_each_wire: "(\<And>x. x \<in> set xs \<Longrightarrow> f (g x) = f x) \<Longrightarrow> try_for_each f (map g xs) = try_for_each f xs"
  by (induction xs) simp_all

lemma wire_condition_validate [simp]: "validate_condition (wire_condition jb c) = validate_condition c"
  by (induction c) (simp_all add: validate_operands_def try_for_each_wire)

lemma wire_action_validate [simp]: "validate_action_template (wire_action jb a) = validate_action_template a"
  by (cases a) (simp_all add: comp_def case_prod_beta)

lemma wire_rule_validate [simp]: "rule_definition_validate (wire_rule jb r) = rule_definition_validate r"
  by (cases "rd_condition r") (simp_all add: rule_definition_validate_def wire_rule_def try_for_each_wire)

lemma wire_mapping_validate [simp]: "payload_schema_mapping_validate (wire_mapping jb m) = payload_schema_mapping_validate m"
  by (simp add: payload_schema_mapping_validate_def wire_mapping_def try_for_each_wire field_mapping_validate_def wire_field_def)

lemma wire_template_validate [simp]: "command_template_validate (wire_template jb t) = command_template_validate t"
  by (simp add: command_template_validate_def wire_template_def)

lemma json_read_back_validate [simp]: "project_config_validate (json_read_back jb p) = project_config_validate p"
  by (simp add: project_config_validate_def json_read_back_def try_for_each_wire)

section \<open>Round trip\<close>

text \<open>Durations the JSON form keeps: whole units that fit in 64 bits.\<close>

definition whole_millis :: "duration \<Rightarrow> bool" where
  "whole_millis d \<longleftrightarrow> d mod 10 ^ 6 = 0 \<and> d div 10 ^ 6 \<le> u64_max"

definition whole_seconds :: "duration \<Rightarrow> bool" where
  "whole_seconds d \<longleftrightarrow> d mod 10 ^ 9 = 0 \<and> d div 10 ^ 9 \<le> u64_max"

lemma wire_millis_id: "whole_millis d \<Longrightarrow> wire_millis d = d"
  by (auto simp: whole_millis_def wire_millis_def duration_millis_deserialize_def
      duration_millis_serialize_def from_millis_def u64_max_def unat_of_nat)

lemma wire_seconds_id: "whole_seconds d \<Longrightarrow> wire_seconds d = d"
  by (auto simp: whole_seconds_def wire_seconds_def duration_seconds_deserialize_def
      duration_seconds_serialize_def from_secs_def u64_max_def unat_of_nat)

text \<open>A secret that was built by \<^verbatim>\<open>SecretString::new\<close> from a Rust string.\<close>

definition secret_ok :: "secret_string \<Rightarrow> bool" where
  "secret_ok s \<longleftrightarrow> valid_utf8 s \<and> secret_string_new s = Inr s"

definition broker_storable :: "broker_connection_config \<Rightarrow> bool" where
  "broker_storable b \<longleftrightarrow>
     whole_seconds (bc_keep_alive b) \<and> whole_millis (rp_min_delay (bc_reconnect b)) \<and>
     whole_millis (rp_max_delay (bc_reconnect b)) \<and>
     (case bc_credentials b of None \<Rightarrow> True | Some c \<Rightarrow> secret_ok (cr_password c))"

fun sink_kind_storable :: "sink_kind \<Rightarrow> bool" where
  "sink_kind_storable (Webhook url m headers timeout) =
     (whole_millis timeout \<and> list_all (\<lambda>h. secret_ok (hh_value h)) headers)"
| "sink_kind_storable (Database connection_ref tbl) = True"

definition config_storable :: "project_config \<Rightarrow> bool" where
  "config_storable p \<longleftrightarrow>
     list_all broker_storable (pc_brokers p) \<and> list_all (\<lambda>s. sink_kind_storable (sk_kind s)) (pc_sinks p)"

context secret_cipher
begin

lemma credentials_round_trip:
  assumes "reads d c" "secret_ok (cr_password cr)"
    and "credentials_from_domain (obj c) pid bid cr r = (Inr scr, r')"
  shows "credentials_into_domain (obj d) pid bid scr = Inr cr"
proof -
  from assms(3) obtain e where e: "sc_encrypt (obj c) (cr_password cr) (broker_password_aad pid bid) r = (Inr e, r')"
      "scr = \<lparr>smc_username = cr_username cr, smc_password = e\<rparr>"
    by (auto simp: credentials_from_domain_def split: prod.splits sum.splits)
  with decrypt_encrypt [OF assms(1) _ e(1)] assms(2) show ?thesis
    by (simp add: credentials_into_domain_def secret_ok_def)
qed

lemma header_round_trip:
  assumes "reads d c" "secret_ok (hh_value h)" "header_from_domain (obj c) pid sid h r = (Inr sh, r')"
  shows "header_into_domain (obj d) pid sid sh = Inr h"
proof -
  from assms(3) obtain e where e:
      "sc_encrypt (obj c) (hh_value h) (sink_header_aad pid sid (hh_name h)) r = (Inr e, r')"
      "sh = \<lparr>shh_name = hh_name h, shh_value = e\<rparr>"
    by (auto simp: header_from_domain_def split: prod.splits sum.splits)
  with decrypt_encrypt [OF assms(1) _ e(1)] assms(2) show ?thesis
    by (simp add: header_into_domain_def secret_ok_def)
qed

lemma broker_round_trip:
  assumes "reads d c" "broker_storable b" "broker_from_domain (obj c) pid b r = (Inr sb, r')"
  shows "broker_into_domain (obj d) pid (wire_broker sb) = Inr b"
proof -
  let ?sb = "\<lambda>cr. \<lparr>sb_id = bc_id b, sb_name = bc_name b, sb_host = bc_host b, sb_port = bc_port b,
                sb_tls = bc_tls b, sb_credentials = cr, sb_keep_alive = bc_keep_alive b,
                sb_clean_session = bc_clean_session b, sb_client_id = bc_client_id b,
                sb_reconnect = bc_reconnect b, sb_enabled = bc_enabled b\<rparr>"
  have wire: "wire_broker (?sb cr) = ?sb cr" for cr
    using assms(2) by (simp add: wire_broker_def broker_storable_def wire_seconds_id wire_millis_id)
  obtain scr where sb: "sb = ?sb scr"
      and scr: "opt_try (credentials_into_domain (obj d) pid (bc_id b)) scr = Inr (bc_credentials b)"
    using assms(2,3) credentials_round_trip [OF assms(1)]
    by (auto simp: broker_from_domain_def broker_storable_def split: option.splits prod.splits sum.splits)
  show ?thesis by (simp add: sb wire broker_into_domain_def scr)
qed

lemma sink_round_trip:
  assumes "reads d c" "sink_kind_storable (sk_kind s)" "sink_from_domain (obj c) pid s r = (Inr st, r')"
  shows "sink_into_domain (obj d) pid (wire_sink st) = Inr s"
proof -
  from assms(3) obtain k where st:
      "st = \<lparr>ss_id = sk_id s, ss_name = sk_name s, ss_enabled = sk_enabled s, ss_kind = k\<rparr>"
      "sink_kind_from_domain (obj c) pid (sk_id s) (sk_kind s) r = (Inr k, r')"
    by (auto simp: sink_from_domain_def split: prod.splits sum.splits)
  have "sink_kind_into_domain (obj d) pid (sk_id s) (wire_sink_kind k) = Inr (sk_kind s)"
  proof (cases "sk_kind s")
    case (Webhook url m headers timeout)
    with st(2) obtain hs where hs: "k = StoredWebhook url m hs timeout"
        "collect_st (header_from_domain (obj c) pid (sk_id s)) headers r = (Inr hs, r')"
      by (auto split: prod.splits sum.splits)
    have "try_collect (header_into_domain (obj d) pid (sk_id s)) (map (\<lambda>x. x) hs) = Inr headers"
      by (rule collect_st_inverse [OF hs(2)])
        (use assms(1,2) Webhook in \<open>auto simp: list_all_iff intro: header_round_trip\<close>)
    then show ?thesis using assms(2) by (simp add: Webhook hs(1) wire_millis_id)
  next
    case (Database x y)
    with st(2) show ?thesis by auto
  qed
  then show ?thesis by (simp add: st(1) wire_sink_def sink_into_domain_def)
qed

lemma config_round_trip:
  assumes "reads d c" "config_storable p" "project_config_validate p = Inr ()"
    and "codec_encode (obj c) p r = (Inr sp, r')"
  shows "codec_decode (obj d) (wire_config jb sp) = Inr (json_read_back jb p)"
proof -
  from assms(4) obtain bs r1 ss where
      bs: "collect_st (broker_from_domain (obj c) (pc_id p)) (pc_brokers p) r = (Inr bs, r1)"
    and ss: "collect_st (sink_from_domain (obj c) (pc_id p)) (pc_sinks p) r1 = (Inr ss, r')"
    and sp: "sp = \<lparr>sp_id = pc_id p, sp_tenant_id = pc_tenant_id p, sp_name = pc_name p,
                  sp_description = pc_description p, sp_enabled = pc_enabled p,
                  sp_version = pc_version p, sp_brokers = bs, sp_routes = pc_routes p,
                  sp_schema_mappings = pc_schema_mappings p, sp_rules = pc_rules p,
                  sp_command_templates = pc_command_templates p, sp_sinks = ss\<rparr>"
    by (auto simp: codec_encode_def split: prod.splits sum.splits)
  have "try_collect (broker_into_domain (obj d) (pc_id p)) (map wire_broker bs) = Inr (pc_brokers p)"
    by (rule collect_st_inverse [OF bs])
      (use assms(1,2) in \<open>auto simp: config_storable_def list_all_iff intro: broker_round_trip\<close>)
  moreover have "try_collect (sink_into_domain (obj d) (pc_id p)) (map wire_sink ss) = Inr (pc_sinks p)"
    by (rule collect_st_inverse [OF ss])
      (use assms(1,2) in \<open>auto simp: config_storable_def list_all_iff intro: sink_round_trip\<close>)
  moreover have "project_config_validate (json_read_back jb p) = Inr ()" using assms(3) by simp
  ultimately show ?thesis
    by (cases p) (simp add: codec_decode_def wire_config_def sp Let_def json_read_back_def)
qed

end


text \<open>A library with a shifting cipher and nonces that count up, for the examples.\<close>

definition sample_crypto :: "(unit, nat) crypto_lib" where
  "sample_crypto =
     \<lparr>b64_encode = (\<lambda>s. s), b64_decode = (\<lambda>s. Inr s), aes_new = (\<lambda>k. Some ()),
      aes_encrypt = (\<lambda>k n aad m. Some (rev m @ aad)),
      aes_decrypt = (\<lambda>k n aad c. if suffix aad c then Some (rev (take (length c - length aad) c)) else None),
      fill_bytes = (\<lambda>n r. (Some (replicate n (char_of (r mod 256))), r + 1))\<rparr>"

lemma sample_crypto_ok: "crypto_ok sample_crypto"
  by (simp add: crypto_ok_def sample_crypto_def suffix_def)

definition sample_key :: "char \<Rightarrow> string" where
  "sample_key c = replicate 32 c"

text \<open>A column that keeps every value, except that the double \<open>1e16\<close> comes back as an integer.\<close>

definition sample_jsonb :: "json \<Rightarrow> json" where
  "sample_jsonb v =
     (if v = JNumber (Float 0x4341C37937E08000) then JNumber (PosInt 10000000000000000) else v)"

definition sample_project :: project_config where
  "sample_project =
     \<lparr>pc_id = ''p1'', pc_tenant_id = None, pc_name = ''Local'', pc_description = None, pc_enabled = True,
      pc_version = 1,
      pc_brokers =
        [\<lparr>bc_id = ''b1'', bc_name = ''Local MQTT'', bc_host = ''localhost'', bc_port = 1883, bc_tls = TlsDisabled,
          bc_credentials = Some \<lparr>cr_username = ''user'', cr_password = ''pw''\<rparr>,
          bc_keep_alive = from_secs 30, bc_clean_session = False, bc_client_id = ''c1'',
          bc_reconnect = reconnect_policy_default, bc_enabled = True\<rparr>],
      pc_routes = [], pc_schema_mappings = [], pc_rules = [],
      pc_command_templates =
        [\<lparr>ct_id = ''t1'', ct_name = ''Local'', ct_broker_id = ''b1'', ct_topic_template = ''Local'',
          ct_payload_template = JNumber (Float 0x4341C37937E08000), ct_qos = AtLeastOnce, ct_retain = False,
          ct_enabled = True\<rparr>],
      pc_sinks =
        [\<lparr>sk_id = ''s1'', sk_name = ''Webhook'', sk_enabled = True,
          sk_kind = Webhook ''https://example.com/'' Post [\<lparr>hh_name = ''X-Token'', hh_value = ''tok''\<rparr>] (from_secs 5)\<rparr>]\<rparr>"


lemma split_broker_aad:
  assumes "CHR '':'' \<notin> set p" "CHR '':'' \<notin> set b"
  shows "split_on CHR '':'' (broker_password_aad p b) = [''project'', p, ''broker'', b, ''mqtt_password'']"
proof -
  have "broker_password_aad p b =
      ''project'' @ CHR '':'' # p @ CHR '':'' # ''broker'' @ CHR '':'' # b @ CHR '':'' # ''mqtt_password''"
    by (simp add: broker_password_aad_def)
  then show ?thesis by (simp only: split_on_append_part split_on_single assms) (simp add: assms split_on_append_part)
qed

lemma split_sink_aad:
  assumes "CHR '':'' \<notin> set p" "CHR '':'' \<notin> set s"
  shows "split_on CHR '':'' (sink_header_aad p s h) = [''project'', p, ''sink'', s, ''header''] @ split_on CHR '':'' h"
proof -
  have "sink_header_aad p s h =
      ''project'' @ CHR '':'' # p @ CHR '':'' # ''sink'' @ CHR '':'' # s @ CHR '':'' # ''header'' @ CHR '':'' # h"
    by (simp add: sink_header_aad_def)
  then show ?thesis by (simp only: split_on_append_part split_on_single assms) (simp add: assms split_on_append_part)
qed

text \<open>The associated data of a secret tells where it belongs: with ids free of colons, two broker passwords
  have the same associated data only if they belong to the same broker of the same project, two headers
  only if they are the same header of the same sink, and a password never that of a header.\<close>

lemma secret_context_identifies:
  assumes "CHR '':'' \<notin> set (p @ b @ p' @ b')"
  shows "(broker_password_aad p b = broker_password_aad p' b' \<longleftrightarrow> p = p' \<and> b = b') \<and>
         (sink_header_aad p b h = sink_header_aad p' b' h' \<longleftrightarrow> p = p' \<and> b = b' \<and> h = h') \<and>
         broker_password_aad p b \<noteq> sink_header_aad p' b' h'"
proof (intro conjI)
  have c: "CHR '':'' \<notin> set p" "CHR '':'' \<notin> set b" "CHR '':'' \<notin> set p'" "CHR '':'' \<notin> set b'"
    using assms by simp_all
  show "broker_password_aad p b = broker_password_aad p' b' \<longleftrightarrow> p = p' \<and> b = b'"
    by (auto dest!: arg_cong [of _ _ "split_on CHR '':''"]
        simp: split_broker_aad [OF c(1,2)] split_broker_aad [OF c(3,4)])
  show "broker_password_aad p b \<noteq> sink_header_aad p' b' h'"
    by (auto dest!: arg_cong [of _ _ "split_on CHR '':''"]
        simp: split_broker_aad [OF c(1,2)] split_sink_aad [OF c(3,4)])
  show "sink_header_aad p b h = sink_header_aad p' b' h' \<longleftrightarrow> p = p' \<and> b = b' \<and> h = h'"
  proof
    assume "sink_header_aad p b h = sink_header_aad p' b' h'"
    then have "[''project'', p, ''sink'', b, ''header''] @ split_on CHR '':'' h =
               [''project'', p', ''sink'', b', ''header''] @ split_on CHR '':'' h'"
      unfolding split_sink_aad [OF c(1,2), of h, symmetric] split_sink_aad [OF c(3,4), of h', symmetric] by simp
    then have "p = p' \<and> b = b'" and eq: "split_on CHR '':'' h = split_on CHR '':'' h'" by simp_all
    moreover have "h = h'" using arg_cong [OF eq, of "join_with CHR '':''"] by (simp only: join_split)
    ultimately show "p = p' \<and> b = b' \<and> h = h'" by simp
  qed simp
qed

text \<open>Identifiers may contain colons, and then two brokers of two projects share their associated data.\<close>

lemma broker_context_collision:
  "id_new ''project_id'' ''p:broker:x'' = Inr ''p:broker:x'' \<and> id_new ''broker_id'' ''x:broker:y'' = Inr ''x:broker:y'' \<and>
   broker_password_aad ''p:broker:x'' ''y'' = broker_password_aad ''p'' ''x:broker:y''"
  by code_simp

end
