(* ===== verification/Storage_Model.thy ===== *)
theory Storage_Model
  imports Config_Codec Domain_Event
begin

text \<open>
  The records of the storage crate (\<^verbatim>\<open>model.rs\<close>) and the checks and conversions of \<^verbatim>\<open>postgres.rs\<close> that need no
  database: names of enumerations as stored, bounds on texts, and the conversions between Rust's unsigned
  integers and the signed columns. Instants are integers.
\<close>

type_synonym i64 = "64 word"
type_synonym i32 = "32 word"

definition default_operational_list_limit :: u32 where "default_operational_list_limit = 100"
definition max_operational_list_limit :: u32 where "max_operational_list_limit = 500"

record audit_context =
  au_actor_id :: "user_id option"
  au_reason :: "string option"

definition audit_context_system :: "string \<Rightarrow> audit_context" where
  "audit_context_system reason = \<lparr>au_actor_id = None, au_reason = Some reason\<rparr>"

record project_config_write_result =
  wr_project_id :: project_id
  wr_version :: u64
  wr_revision_id :: string
  wr_config_hash :: string

datatype audit_status = AuditSucceeded | AuditFailed

fun audit_status_as_str :: "audit_status \<Rightarrow> string" where
  "audit_status_as_str AuditSucceeded = ''succeeded''"
| "audit_status_as_str AuditFailed = ''failed''"

record new_audit_event =
  na_project_id :: "project_id option"
  na_actor_id :: "user_id option"
  na_action :: string
  na_target_type :: string
  na_target_id :: string
  na_status :: audit_status
  na_reason :: "string option"
  na_metadata :: json_map

record audit_event_record =
  ae_audit_event_id :: string
  ae_project_id :: "project_id option"
  ae_actor_id :: "user_id option"
  ae_action :: string
  ae_target_type :: string
  ae_target_id :: string
  ae_status :: audit_status
  ae_reason :: "string option"
  ae_metadata :: json_map
  ae_occurred_at :: timestamp

datatype sink_delivery_status =
  SdDelivered u16 nat
| SdHttpRejected u16 nat
| SdTimedOut
| SdResponseTooLarge nat
| SdFailed string

fun sink_delivery_status_name :: "sink_delivery_status \<Rightarrow> string" where
  "sink_delivery_status_name (SdDelivered _ _) = ''delivered''"
| "sink_delivery_status_name (SdHttpRejected _ _) = ''http_rejected''"
| "sink_delivery_status_name SdTimedOut = ''timed_out''"
| "sink_delivery_status_name (SdResponseTooLarge _) = ''response_too_large''"
| "sink_delivery_status_name (SdFailed _) = ''failed''"

fun sink_delivery_is_failure :: "sink_delivery_status \<Rightarrow> bool" where
  "sink_delivery_is_failure (SdDelivered _ _) = False"
| "sink_delivery_is_failure _ = True"

record new_sink_delivery_outcome =
  ns_project_id :: project_id
  ns_event_id :: event_id
  ns_sink_id :: sink_id
  ns_status :: sink_delivery_status
  ns_correlation_id :: "string option"
  ns_duration_ms :: "u64 option"
  ns_attempt :: u16

record sink_delivery_outcome_record =
  so_delivery_id :: string
  so_project_id :: project_id
  so_event_id :: event_id
  so_sink_id :: sink_id
  so_status :: string
  so_http_status :: "u16 option"
  so_response_body_bytes :: "u64 option"
  so_failure_reason :: "string option"
  so_correlation_id :: "string option"
  so_duration_ms :: "u64 option"
  so_attempt :: u16
  so_occurred_at :: timestamp

datatype command_execution_status = CxQueued | CxPublished | CxFailed

fun command_execution_status_as_str :: "command_execution_status \<Rightarrow> string" where
  "command_execution_status_as_str CxQueued = ''queued''"
| "command_execution_status_as_str CxPublished = ''published''"
| "command_execution_status_as_str CxFailed = ''failed''"

record new_command_execution =
  nx_command_execution_id :: command_execution_id
  nx_project_id :: project_id
  nx_command_template_id :: command_template_id
  nx_broker_id :: broker_id
  nx_actor_id :: "user_id option"
  nx_status :: command_execution_status
  nx_topic :: string
  nx_qos :: mqtt_qos
  nx_retain :: bool
  nx_payload_size_bytes :: u64
  nx_failure_reason :: "string option"
  nx_reason :: "string option"

record command_execution_record =
  ce_command_execution_id :: command_execution_id
  ce_project_id :: project_id
  ce_command_template_id :: command_template_id
  ce_broker_id :: broker_id
  ce_actor_id :: "user_id option"
  ce_status :: command_execution_status
  ce_topic :: string
  ce_qos :: mqtt_qos
  ce_retain :: bool
  ce_payload_size_bytes :: u64
  ce_failure_reason :: "string option"
  ce_occurred_at :: timestamp
  ce_audit_event_id :: string

datatype failure_severity = SevWarning | SevError | SevCritical

fun failure_severity_as_str :: "failure_severity \<Rightarrow> string" where
  "failure_severity_as_str SevWarning = ''warning''"
| "failure_severity_as_str SevError = ''error''"
| "failure_severity_as_str SevCritical = ''critical''"

record new_failure_event =
  nf_project_id :: project_id
  nf_event_id :: "event_id option"
  nf_sink_id :: "sink_id option"
  nf_component :: string
  nf_failure_kind :: string
  nf_severity :: failure_severity
  nf_message :: string
  nf_details :: json_map

record failure_event_record =
  fe_failure_id :: string
  fe_project_id :: project_id
  fe_event_id :: "event_id option"
  fe_sink_id :: "sink_id option"
  fe_component :: string
  fe_failure_kind :: string
  fe_severity :: failure_severity
  fe_message :: string
  fe_details :: json_map
  fe_occurred_at :: timestamp
  fe_resolved_at :: "timestamp option"
  fe_resolution :: "string option"

record operational_list_query =
  ol_limit :: u32
  ol_before :: "timestamp option"

definition operational_list_query_default :: operational_list_query where
  "operational_list_query_default = \<lparr>ol_limit = default_operational_list_limit, ol_before = None\<rparr>"

text \<open>\<^verbatim>\<open>u32::clamp(1, MAX)\<close>\<close>

definition clamp_limit :: "u32 \<Rightarrow> u32" where
  "clamp_limit n = (if n < 1 then 1 else if n > max_operational_list_limit then max_operational_list_limit else n)"

definition operational_sanitized :: "operational_list_query \<Rightarrow> operational_list_query" where
  "operational_sanitized q = q\<lparr>ol_limit := clamp_limit (ol_limit q)\<rparr>"

record failure_list_query =
  fq_limit :: u32
  fq_before :: "timestamp option"
  fq_unresolved_only :: bool

definition failure_list_query_default :: failure_list_query where
  "failure_list_query_default =
     \<lparr>fq_limit = default_operational_list_limit, fq_before = None, fq_unresolved_only = False\<rparr>"

definition failure_sanitized :: "failure_list_query \<Rightarrow> failure_list_query" where
  "failure_sanitized q = q\<lparr>fq_limit := clamp_limit (fq_limit q)\<rparr>"

record retention_config =
  rt_audit_days :: u16
  rt_delivery_days :: u16
  rt_failure_days :: u16

definition retention_config_default :: retention_config where
  "retention_config_default = \<lparr>rt_audit_days = 365, rt_delivery_days = 90, rt_failure_days = 365\<rparr>"

section \<open>Checks\<close>

definition max_identifier_bytes :: nat where "max_identifier_bytes = 96"
definition max_target_id_bytes :: nat where "max_target_id_bytes = 256"
definition max_reason_bytes :: nat where "max_reason_bytes = 1024"
definition max_message_bytes :: nat where "max_message_bytes = 2048"
definition max_metadata_json_bytes :: nat where "max_metadata_json_bytes = 16 * 1024"
definition max_details_json_bytes :: nat where "max_details_json_bytes = 16 * 1024"

record postgres_storage_config =
  pg_database_url :: string
  pg_max_connections :: u32
  pg_acquire_timeout :: duration
  pg_idle_timeout :: duration
  pg_max_lifetime :: duration

definition postgres_storage_config_new :: "string \<Rightarrow> storage_error + postgres_storage_config" where
  "postgres_storage_config_new database_url =
     (if is_blank database_url then Inl (SInvalidConfig ''database_url must not be empty'')
      else Inr \<lparr>pg_database_url = database_url, pg_max_connections = 8, pg_acquire_timeout = from_secs 5,
                pg_idle_timeout = from_secs 300, pg_max_lifetime = from_secs 1800\<rparr>)"

definition validate_pg_config :: "postgres_storage_config \<Rightarrow> storage_error + unit" where
  "validate_pg_config c =
     (if is_blank (pg_database_url c) then Inl (SInvalidConfig ''database_url must not be empty'')
      else if pg_max_connections c = 0 then Inl (SInvalidConfig ''max_connections must be greater than zero'')
      else if pg_acquire_timeout c = 0 \<or> pg_idle_timeout c = 0 \<or> pg_max_lifetime c = 0
      then Inl (SInvalidConfig ''pool timeouts must be greater than zero'')
      else Inr ())"

definition validate_bounded_text :: "string \<Rightarrow> string \<Rightarrow> nat \<Rightarrow> storage_error + unit" where
  "validate_bounded_text field v max_bytes =
     (if is_blank v then Inl (SInvalidField field ''must not be empty'')
      else if length v > max_bytes then Inl (SFieldTooLarge field (length v) max_bytes)
      else Inr ())"

definition validate_storage_identifier :: "string \<Rightarrow> string \<Rightarrow> storage_error + unit" where
  "validate_storage_identifier field v =
     res_bind (validate_bounded_text field v max_identifier_bytes) (\<lambda>_.
     if \<not> list_all is_key_id_byte v then Inl (SInvalidField field ''identifier contains unsupported characters'')
     else Inr ())"

definition validate_json_object_size :: "serde_lib \<Rightarrow> string \<Rightarrow> json_map \<Rightarrow> nat \<Rightarrow> storage_error + unit" where
  "validate_json_object_size lib field v max_bytes =
     res_bind (map_err StorageJson (to_vec lib (JObject v))) (\<lambda>bytes.
     if length bytes > max_bytes then Inl (SFieldTooLarge field (length bytes) max_bytes) else Inr ())"

definition validate_sink_delivery_outcome :: "new_sink_delivery_outcome \<Rightarrow> storage_error + unit" where
  "validate_sink_delivery_outcome o1 =
     res_bind (opt_check (\<lambda>c. validate_bounded_text ''correlation_id'' c max_target_id_bytes)
                 (ns_correlation_id o1)) (\<lambda>_.
     case ns_status o1 of
       SdFailed reason \<Rightarrow> validate_bounded_text ''failure_reason'' reason max_reason_bytes
     | _ \<Rightarrow> Inr ())"

definition validate_command_execution :: "new_command_execution \<Rightarrow> storage_error + unit" where
  "validate_command_execution x =
     res_bind (validate_bounded_text ''topic'' (nx_topic x) 1024) (\<lambda>_.
     res_bind (opt_check (\<lambda>r. validate_bounded_text ''reason'' r max_reason_bytes) (nx_reason x)) (\<lambda>_.
     opt_check (\<lambda>r. validate_bounded_text ''failure_reason'' r max_reason_bytes) (nx_failure_reason x)))"

definition validate_retention :: "retention_config \<Rightarrow> storage_error + unit" where
  "validate_retention r =
     (if rt_audit_days r = 0 \<or> rt_delivery_days r = 0 \<or> rt_failure_days r = 0
      then Inl (SInvalidConfig ''retention days must be greater than zero'') else Inr ())"

section \<open>Conversions\<close>

definition version_to_i64 :: "u64 \<Rightarrow> storage_error + i64" where
  "version_to_i64 v = (if unat v < 2 ^ 63 then Inr v else Inl (VersionOverflow v))"

definition i64_to_u64 :: "string \<Rightarrow> i64 \<Rightarrow> storage_error + u64" where
  "i64_to_u64 field v = (if 0 \<le> sint v then Inr v else Inl (NumericOverflow field))"

definition u64_to_i64 :: "string \<Rightarrow> u64 \<Rightarrow> storage_error + i64" where
  "u64_to_i64 field v = (if unat v < 2 ^ 63 then Inr v else Inl (NumericOverflow field))"

definition usize_to_i64 :: "string \<Rightarrow> nat \<Rightarrow> storage_error + i64" where
  "usize_to_i64 field n = (if n < 2 ^ 63 then Inr (of_nat n) else Inl (NumericOverflow field))"

definition i32_to_u16 :: "string \<Rightarrow> i32 \<Rightarrow> storage_error + u16" where
  "i32_to_u16 field v =
     (if 0 \<le> sint v \<and> sint v < 2 ^ 16 then Inr (ucast v) else Inl (NumericOverflow field))"

definition optional_i64_to_u64 :: "string \<Rightarrow> i64 option \<Rightarrow> storage_error + u64 option" where
  "optional_i64_to_u64 field v = opt_try (i64_to_u64 field) v"

definition optional_i32_to_u16 :: "string \<Rightarrow> i32 option \<Rightarrow> storage_error + u16 option" where
  "optional_i32_to_u16 field v = opt_try (i32_to_u16 field) v"

definition value_to_object :: "string \<Rightarrow> json \<Rightarrow> storage_error + json_map" where
  "value_to_object field v =
     (case v of JObject m \<Rightarrow> Inr m
      | _ \<Rightarrow> Inl (SInvalidField field ''stored JSON value must be an object''))"

definition parse_audit_status :: "string \<Rightarrow> storage_error + audit_status" where
  "parse_audit_status v =
     (if v = ''succeeded'' then Inr AuditSucceeded
      else if v = ''failed'' then Inr AuditFailed
      else Inl (InvalidStoredState ''unknown audit status''))"

definition parse_failure_severity :: "string \<Rightarrow> storage_error + failure_severity" where
  "parse_failure_severity v =
     (if v = ''warning'' then Inr SevWarning
      else if v = ''error'' then Inr SevError
      else if v = ''critical'' then Inr SevCritical
      else Inl (InvalidStoredState ''unknown failure severity''))"

fun mqtt_qos_name :: "mqtt_qos \<Rightarrow> string" where
  "mqtt_qos_name AtMostOnce = ''at_most_once''"
| "mqtt_qos_name AtLeastOnce = ''at_least_once''"
| "mqtt_qos_name ExactlyOnce = ''exactly_once''"

fun delivery_http_status :: "sink_delivery_status \<Rightarrow> u16 option" where
  "delivery_http_status (SdDelivered s _) = Some s"
| "delivery_http_status (SdHttpRejected s _) = Some s"
| "delivery_http_status _ = None"

fun delivery_response_body_bytes :: "sink_delivery_status \<Rightarrow> nat option" where
  "delivery_response_body_bytes (SdDelivered _ n) = Some n"
| "delivery_response_body_bytes (SdHttpRejected _ n) = Some n"
| "delivery_response_body_bytes _ = None"

fun delivery_failure_reason :: "sink_delivery_status \<Rightarrow> string option" where
  "delivery_failure_reason (SdDelivered _ _) = None"
| "delivery_failure_reason (SdHttpRejected s _) = Some (''http_'' @ show_nat (unat s))"
| "delivery_failure_reason SdTimedOut = Some ''timed_out''"
| "delivery_failure_reason (SdResponseTooLarge mx) = Some (''response_too_large:'' @ show_nat mx)"
| "delivery_failure_reason (SdFailed reason) = Some reason"

definition delivery_failure_severity :: "string \<Rightarrow> failure_severity" where
  "delivery_failure_severity status_name = (if status_name = ''http_rejected'' then SevWarning else SevError)"

section \<open>Lemmas\<close>

lemma sint_nonneg: "0 \<le> sint (v::i64) \<longleftrightarrow> unat v < 9223372036854775808"
proof -
  have lt: "uint v < 18446744073709551616" using uint_lt2p [of v] by simp
  have "0 \<le> sint v \<longleftrightarrow> even (uint v div 9223372036854775808)"
    by (simp add: sint_uint bit_iff_odd)
  also have "\<dots> \<longleftrightarrow> uint v < 9223372036854775808"
  proof (cases "uint v < 9223372036854775808")
    case False
    with lt have "uint v div 9223372036854775808 = 1" by (intro int_div_pos_eq [of _ _ _ "uint v - 9223372036854775808"]) auto
    with False show ?thesis by simp
  qed (simp add: div_pos_pos_trivial)
  finally show ?thesis by (simp add: nat_less_iff flip: nat_uint_eq)
qed

lemma version_round_trip: "version_to_i64 v = Inr i \<Longrightarrow> i64_to_u64 f i = Inr v"
  by (auto simp: version_to_i64_def i64_to_u64_def sint_nonneg split: if_splits)

lemma audit_status_round_trip: "parse_audit_status (audit_status_as_str s) = Inr s"
  by (cases s) (simp_all add: parse_audit_status_def)

lemma failure_severity_round_trip: "parse_failure_severity (failure_severity_as_str s) = Inr s"
  by (cases s) (simp_all add: parse_failure_severity_def)

lemma validate_bounded_text_ok [simp]:
  "validate_bounded_text field v n = Inr u \<longleftrightarrow> \<not> is_blank v \<and> length v \<le> n"
  by (auto simp: validate_bounded_text_def)

lemma clamp_limit_range: "1 \<le> clamp_limit n \<and> clamp_limit n \<le> 500"
  by (auto simp: clamp_limit_def max_operational_list_limit_def word_less_nat_alt word_le_nat_alt not_less Suc_le_eq unat_gt_0)

end
