(* ===== verification/Storage_Db.thy ===== *)
theory Storage_Db
  imports Storage_Model
begin

text \<open>
  The PostgreSQL store (\<^verbatim>\<open>postgres.rs\<close>, with the schema of \<^verbatim>\<open>migrations\<close>). The tables are a record, an SQL statement
  is a function on it that also checks the constraints of its table, and a method of \<^verbatim>\<open>PostgresStorage\<close> is a
  function on a world that holds the tables. Every call to the database may fail: \<open>st_fault\<close> tells which
  calls do, and whether a failing commit (or a statement outside a transaction) took effect before the
  connection was lost. A transaction that is dropped leaves the tables as they were. Statements run one
  after the other; \<open>st_now\<close> is the time of a transaction, \<open>st_uuid\<close> the generated uuids, and \<open>st_digest\<close> the
  hash of the stored JSON. A statement that the database refuses for what the model does not look at (a NUL
  character in a text or a JSON document, say) is one of the failing calls of \<open>st_fault\<close>.

  A \<^verbatim>\<open>JSONB\<close> column does not keep a JSON value as it was written: its numbers are of type \<^verbatim>\<open>NUMERIC\<close>, so a double
  such as \<open>1e16\<close> is read again as an integer and \<open>-0.0\<close> as \<open>0.0\<close>. \<open>st_jsonb\<close> is what the column and the parser
  give back for a value. \<open>st_unreadable\<close> tells which instants the driver cannot decode.
\<close>

section \<open>Tables\<close>

record config_row =
  cw_tenant_id :: "string option"
  cw_name :: string
  cw_enabled :: bool
  cw_version :: i64
  cw_config_hash :: string
  cw_config :: stored_project_config
  cw_updated_at :: timestamp

record revision_row =
  rv_revision_id :: string
  rv_project_id :: string
  rv_version :: i64
  rv_config_hash :: string
  rv_config :: stored_project_config
  rv_actor_id :: "string option"
  rv_reason :: "string option"

record audit_row =
  aw_audit_event_id :: string
  aw_project_id :: "string option"
  aw_actor_id :: "string option"
  aw_action :: string
  aw_target_type :: string
  aw_target_id :: string
  aw_status :: string
  aw_reason :: "string option"
  aw_metadata :: json
  aw_occurred_at :: timestamp

record delivery_row =
  dw_delivery_id :: string
  dw_project_id :: string
  dw_event_id :: string
  dw_sink_id :: string
  dw_status :: string
  dw_http_status :: "i32 option"
  dw_response_body_bytes :: "i64 option"
  dw_failure_reason :: "string option"
  dw_correlation_id :: "string option"
  dw_duration_ms :: "i64 option"
  dw_attempt :: i32
  dw_occurred_at :: timestamp

record command_row =
  mw_command_execution_id :: string
  mw_project_id :: string
  mw_command_template_id :: string
  mw_broker_id :: string
  mw_actor_id :: "string option"
  mw_status :: string
  mw_topic :: string
  mw_qos :: string
  mw_retain :: bool
  mw_payload_size_bytes :: i64
  mw_failure_reason :: "string option"
  mw_occurred_at :: timestamp

record failure_row =
  fw_failure_id :: string
  fw_project_id :: string
  fw_event_id :: "string option"
  fw_sink_id :: "string option"
  fw_component :: string
  fw_failure_kind :: string
  fw_severity :: string
  fw_message :: string
  fw_details :: json
  fw_occurred_at :: timestamp
  fw_resolved_at :: "timestamp option"
  fw_resolution :: "string option"

record database =
  db_configs :: "string \<rightharpoonup> config_row"
  db_revisions :: "revision_row list"
  db_audits :: "audit_row list"
  db_deliveries :: "delivery_row list"
  db_commands :: "command_row list"
  db_failures :: "failure_row list"

section \<open>Statements and transactions\<close>

record 'r storage =
  st_cipher :: "'r secret_cipher_obj"
  st_serde :: serde_lib
  st_digest :: "stored_project_config \<Rightarrow> string + string"
  st_jsonb :: "json \<Rightarrow> json"
  st_jsonb_bytes :: "json \<Rightarrow> nat"
  st_uuid :: "nat \<Rightarrow> string"
  st_fault :: "nat \<Rightarrow> (string \<times> bool) option"
  st_now :: "nat \<Rightarrow> timestamp"
  st_unreadable :: "timestamp \<Rightarrow> string option"

record 'r world =
  wd_db :: database
  wd_rng :: 'r
  wd_uuids :: nat
  wd_calls :: nat

type_synonym ('r, 'a) dbm = "'r world \<Rightarrow> (storage_error + 'a) \<times> 'r world"

type_synonym 'a stmt = "database \<Rightarrow> string + 'a \<times> database"

definition db_lift :: "storage_error + 'a \<Rightarrow> ('r, 'a) dbm" where
  "db_lift r w = (r, w)"

definition db_bind :: "('r, 'a) dbm \<Rightarrow> ('a \<Rightarrow> ('r, 'b) dbm) \<Rightarrow> ('r, 'b) dbm" where
  "db_bind m f w = (case m w of (Inl e, w') \<Rightarrow> (Inl e, w') | (Inr x, w') \<Rightarrow> f x w')"

definition count_call :: "'r world \<Rightarrow> 'r world" where
  "count_call w = w\<lparr>wd_calls := Suc (wd_calls w)\<rparr>"

definition run_stmt :: "'a stmt \<Rightarrow> ('r, 'a) dbm" where
  "run_stmt stmt w =
     (case stmt (wd_db w) of
        Inl e \<Rightarrow> (Inl (Sqlx e), w)
      | Inr (x, db) \<Rightarrow> (Inr x, w\<lparr>wd_db := db\<rparr>))"

text \<open>A statement inside a transaction, and one that commits by itself.\<close>

definition sql :: "'r storage \<Rightarrow> 'a stmt \<Rightarrow> ('r, 'a) dbm" where
  "sql s stmt w =
     (case st_fault s (wd_calls w) of
        Some (e, _) \<Rightarrow> (Inl (Sqlx e), count_call w)
      | None \<Rightarrow> run_stmt stmt (count_call w))"

definition sql_auto :: "'r storage \<Rightarrow> 'a stmt \<Rightarrow> ('r, 'a) dbm" where
  "sql_auto s stmt w =
     (case st_fault s (wd_calls w) of
        Some (e, applied) \<Rightarrow>
          (Inl (Sqlx e), if applied then snd (run_stmt stmt (count_call w)) else count_call w)
      | None \<Rightarrow> run_stmt stmt (count_call w))"

definition transaction :: "'r storage \<Rightarrow> (timestamp \<Rightarrow> ('r, 'a) dbm) \<Rightarrow> ('r, 'a) dbm" where
  "transaction s body w =
     (case st_fault s (wd_calls w) of
        Some (e, _) \<Rightarrow> (Inl (Sqlx e), count_call w)
      | None \<Rightarrow>
          (case body (st_now s (wd_calls w)) (count_call w) of
             (Inl e, w2) \<Rightarrow> (Inl e, w2\<lparr>wd_db := wd_db w\<rparr>)
           | (Inr x, w2) \<Rightarrow>
               (case st_fault s (wd_calls w2) of
                  Some (e, applied) \<Rightarrow>
                    (Inl (Sqlx e), if applied then count_call w2 else (count_call w2)\<lparr>wd_db := wd_db w\<rparr>)
                | None \<Rightarrow> (Inr x, count_call w2))))"

definition generated_id :: "'r storage \<Rightarrow> string \<Rightarrow> ('r, string) dbm" where
  "generated_id s pre w =
     (Inr (pre @ ''_'' @ st_uuid s (wd_uuids w)), w\<lparr>wd_uuids := Suc (wd_uuids w)\<rparr>)"

section \<open>Statements of the tables\<close>

text \<open>A violated constraint is reported by the name of the table.\<close>

definition config_row_ok :: "config_row \<Rightarrow> bool" where
  "config_row_ok r \<longleftrightarrow> 0 \<le> sint (cw_version r) \<and> 1 \<le> length (cw_config_hash r) \<and> length (cw_config_hash r) \<le> 128"

definition insert_config_stmt :: "string \<Rightarrow> config_row \<Rightarrow> nat stmt" where
  "insert_config_stmt pid row db =
     (if \<not> config_row_ok row then Inl ''project_configs''
      else if db_configs db pid \<noteq> None then Inr (0, db)
      else Inr (1, db\<lparr>db_configs := (db_configs db)(pid \<mapsto> row)\<rparr>))"

definition update_config_stmt :: "string \<Rightarrow> config_row \<Rightarrow> i64 \<Rightarrow> nat stmt" where
  "update_config_stmt pid row expected db =
     (case db_configs db pid of
        None \<Rightarrow> Inr (0, db)
      | Some old \<Rightarrow>
          if cw_version old \<noteq> expected then Inr (0, db)
          else if \<not> config_row_ok row then Inl ''project_configs''
          else Inr (1, db\<lparr>db_configs := (db_configs db)(pid \<mapsto> row)\<rparr>))"

definition select_config_stmt :: "string \<Rightarrow> config_row option stmt" where
  "select_config_stmt pid db = Inr (db_configs db pid, db)"

definition insert_revision_stmt :: "revision_row \<Rightarrow> unit stmt" where
  "insert_revision_stmt row db =
     (if rv_revision_id row \<in> set (map rv_revision_id (db_revisions db)) \<or> db_configs db (rv_project_id row) = None \<or>
         sint (rv_version row) < 0 \<or> rv_config_hash row = [] \<or> length (rv_config_hash row) > 128 \<or>
         (rv_project_id row, rv_version row) \<in> set (map (\<lambda>r. (rv_project_id r, rv_version r)) (db_revisions db))
      then Inl ''project_config_revisions''
      else Inr ((), db\<lparr>db_revisions := db_revisions db @ [row]\<rparr>))"

definition len_between :: "nat \<Rightarrow> nat \<Rightarrow> string \<Rightarrow> bool" where
  "len_between lo hi t \<longleftrightarrow> lo \<le> length t \<and> length t \<le> hi"

definition opt_len :: "nat \<Rightarrow> string option \<Rightarrow> bool" where
  "opt_len n t = (case t of None \<Rightarrow> True | Some t \<Rightarrow> length t \<le> n)"

definition is_json_object :: "json \<Rightarrow> bool" where
  "is_json_object v = (case v of JObject _ \<Rightarrow> True | _ \<Rightarrow> False)"

definition insert_audit_stmt :: "'r storage \<Rightarrow> audit_row \<Rightarrow> unit stmt" where
  "insert_audit_stmt s row db =
     (if aw_audit_event_id row \<in> set (map aw_audit_event_id (db_audits db)) \<or>
         (case aw_project_id row of None \<Rightarrow> False | Some p \<Rightarrow> db_configs db p = None) \<or>
         \<not> len_between 1 96 (aw_action row) \<or> \<not> len_between 1 96 (aw_target_type row) \<or>
         \<not> len_between 1 256 (aw_target_id row) \<or> aw_status row \<notin> {''succeeded'', ''failed''} \<or>
         \<not> opt_len 1024 (aw_reason row) \<or> \<not> is_json_object (aw_metadata row) \<or>
         st_jsonb_bytes s (aw_metadata row) > 16384
      then Inl ''audit_events''
      else Inr ((), db\<lparr>db_audits := db_audits db @ [row]\<rparr>))"

definition insert_delivery_stmt :: "delivery_row \<Rightarrow> unit stmt" where
  "insert_delivery_stmt row db =
     (if dw_delivery_id row \<in> set (map dw_delivery_id (db_deliveries db)) \<or> db_configs db (dw_project_id row) = None \<or>
         \<not> opt_len 256 (dw_correlation_id row) \<or>
         dw_status row \<notin> {''delivered'', ''http_rejected'', ''timed_out'', ''response_too_large'', ''failed''} \<or>
         (case dw_http_status row of None \<Rightarrow> False | Some n \<Rightarrow> sint n < 100 \<or> sint n > 599) \<or>
         (case dw_response_body_bytes row of None \<Rightarrow> False | Some n \<Rightarrow> sint n < 0) \<or>
         (case dw_duration_ms row of None \<Rightarrow> False | Some n \<Rightarrow> sint n < 0) \<or> sint (dw_attempt row) < 1
      then Inl ''sink_delivery_outcomes''
      else Inr ((), db\<lparr>db_deliveries := db_deliveries db @ [row]\<rparr>))"

definition insert_command_stmt :: "command_row \<Rightarrow> timestamp stmt" where
  "insert_command_stmt row db =
     (if mw_command_execution_id row \<in> set (map mw_command_execution_id (db_commands db)) \<or>
         db_configs db (mw_project_id row) = None \<or> mw_status row \<notin> {''queued'', ''published'', ''failed''} \<or>
         \<not> len_between 1 1024 (mw_topic row) \<or>
         mw_qos row \<notin> {''at_most_once'', ''at_least_once'', ''exactly_once''} \<or>
         sint (mw_payload_size_bytes row) < 0 \<or> \<not> opt_len 1024 (mw_failure_reason row)
      then Inl ''command_executions''
      else Inr (mw_occurred_at row, db\<lparr>db_commands := db_commands db @ [row]\<rparr>))"

definition set_command_status :: "string \<Rightarrow> string \<Rightarrow> string option \<Rightarrow> command_row \<Rightarrow> command_row" where
  "set_command_status cid status reason row =
     (if mw_command_execution_id row = cid then row\<lparr>mw_status := status, mw_failure_reason := reason\<rparr> else row)"

definition update_command_stmt :: "string \<Rightarrow> string \<Rightarrow> string option \<Rightarrow> unit stmt" where
  "update_command_stmt cid status reason db =
     (if cid \<in> set (map mw_command_execution_id (db_commands db)) \<and> \<not> opt_len 1024 reason
      then Inl ''command_executions''
      else Inr ((), db\<lparr>db_commands := map (set_command_status cid status reason) (db_commands db)\<rparr>))"

definition insert_failure_stmt :: "'r storage \<Rightarrow> failure_row \<Rightarrow> unit stmt" where
  "insert_failure_stmt s row db =
     (if fw_failure_id row \<in> set (map fw_failure_id (db_failures db)) \<or> db_configs db (fw_project_id row) = None \<or>
         \<not> len_between 1 96 (fw_component row) \<or> \<not> len_between 1 96 (fw_failure_kind row) \<or>
         fw_severity row \<notin> {''warning'', ''error'', ''critical''} \<or> \<not> len_between 1 2048 (fw_message row) \<or>
         \<not> is_json_object (fw_details row) \<or> st_jsonb_bytes s (fw_details row) > 16384 \<or>
         \<not> opt_len 2048 (fw_resolution row)
      then Inl ''failure_events''
      else Inr ((), db\<lparr>db_failures := db_failures db @ [row]\<rparr>))"

definition open_failure :: "string \<Rightarrow> string \<Rightarrow> failure_row \<Rightarrow> bool" where
  "open_failure pid fid r \<longleftrightarrow> fw_failure_id r = fid \<and> fw_project_id r = pid \<and> fw_resolved_at r = None"

text \<open>\<^verbatim>\<open>UPDATE .. RETURNING project_id\<close>, whose first row is fetched; the key makes it the only one.\<close>

definition resolve_failure_stmt :: "string \<Rightarrow> string \<Rightarrow> string \<Rightarrow> timestamp \<Rightarrow> string option stmt" where
  "resolve_failure_stmt pid fid resolution now db =
     (case filter (open_failure pid fid) (db_failures db) of
        [] \<Rightarrow> Inr (None, db)
      | row # _ \<Rightarrow>
          if length resolution > 2048 then Inl ''failure_events''
          else Inr (Some (fw_project_id row),
                 db\<lparr>db_failures := map (\<lambda>r. if open_failure pid fid r
                       then r\<lparr>fw_resolved_at := Some now, fw_resolution := Some resolution\<rparr> else r) (db_failures db)\<rparr>))"

definition select_failure_stmt :: "string \<Rightarrow> string \<Rightarrow> failure_row option stmt" where
  "select_failure_stmt pid fid db =
     Inr (List.find (\<lambda>r. fw_failure_id r = fid \<and> fw_project_id r = pid) (db_failures db), db)"

text \<open>
  \<^verbatim>\<open>WHERE .. ORDER BY occurred_at DESC LIMIT n\<close>; rows of the same instant come in an order the database
  chooses, here the reverse of insertion.
\<close>

definition newest_first :: "('a \<Rightarrow> timestamp) \<Rightarrow> nat \<Rightarrow> 'a list \<Rightarrow> 'a list" where
  "newest_first at n rows = take n (rev (sort_key at rows))"

definition before_ok :: "timestamp option \<Rightarrow> timestamp \<Rightarrow> bool" where
  "before_ok b t = (case b of None \<Rightarrow> True | Some b \<Rightarrow> t < b)"

end
