(* ===== verification/Config_Store.thy ===== *)
theory Config_Store
  imports Storage_Ops
begin

text \<open>
  Project configurations in the store as a versioned register: an update is a compare-and-swap on the
  version, and whatever sequence of methods runs, the revisions of a project are its versions without gaps.
\<close>

section \<open>What a write does to the tables\<close>

text \<open>The audit entry of a write touches only the audit table.\<close>

lemma insert_audit_event_tx_effect:
  "insert_audit_event_tx s now ev w = (Inr i, w') \<Longrightarrow> \<exists>row. wd_db w' = (wd_db w)\<lparr>db_audits := db_audits (wd_db w) @ [row]\<rparr>"
  by (auto simp: insert_audit_event_tx_def insert_audit_stmt_def split: if_splits)

lemma insert_config_revision_tx_effect:
  assumes "insert_config_revision_tx s config encoded audit w = (Inr write, w')"
    and "version_to_i64 (pc_version config) = Inr version"
  shows "\<exists>row. wd_db w' = (wd_db w)\<lparr>db_revisions := db_revisions (wd_db w) @ [row]\<rparr> \<and>
           rv_project_id row = pc_id config \<and> rv_version row = version \<and>
           rv_config row = en_config encoded \<and> wr_version write = pc_version config \<and>
           wr_project_id write = pc_id config \<and>
           (pc_id config, rv_version row) \<notin> set (map (\<lambda>r. (rv_project_id r, rv_version r)) (db_revisions (wd_db w)))"
  using assms
  by (auto simp: insert_config_revision_tx_def insert_revision_stmt_def split: if_splits)

text \<open>One write: a row of the configuration table, a revision and an audit entry.\<close>

definition written ::
    "string \<Rightarrow> i64 \<Rightarrow> stored_project_config \<Rightarrow> database \<Rightarrow> database \<Rightarrow> bool" where
  "written pid version stored db db' \<longleftrightarrow>
     (\<exists>row rv au. cw_version row = version \<and> cw_config row = stored \<and> rv_project_id rv = pid \<and>
        rv_version rv = version \<and> rv_config rv = stored \<and>
        (pid, version) \<notin> set (map (\<lambda>r. (rv_project_id r, rv_version r)) (db_revisions db)) \<and>
        db' = db\<lparr>db_configs := (db_configs db)(pid \<mapsto> row), db_revisions := db_revisions db @ [rv],
                db_audits := db_audits db @ [au]\<rparr>)"

definition the_version :: "u64 \<Rightarrow> u64" where
  "the_version v = (if v = 0 then 1 else v)"

text \<open>The last two statements of both writes, after the row of the configuration was set.\<close>

lemma write_tail_effect:
  assumes "db_bind (insert_config_revision_tx s config encoded audit) (\<lambda>write.
           db_bind (insert_config_audit_tx s now config write expected audit action) (\<lambda>_.
           db_lift (Inr write))) w = (Inr x, w')"
    and "wd_db w = db\<lparr>db_configs := (db_configs db)(pc_id config \<mapsto> config_row_of config encoded version now')\<rparr>"
    and "version_to_i64 (pc_version config) = Inr version"
  shows "written (pc_id config) version (en_config encoded) db (wd_db w') \<and>
         wr_project_id x = pc_id config \<and> wr_version x = pc_version config"
proof -
  from assms(1) obtain w1 where
      rev: "insert_config_revision_tx s config encoded audit w = (Inr x, w1)" and
      aud: "insert_config_audit_tx s now config x expected audit action w1 = (Inr (), w')" by auto
  from insert_config_revision_tx_effect [OF rev assms(3)] obtain rv where
      rv: "wd_db w1 = (wd_db w)\<lparr>db_revisions := db_revisions (wd_db w) @ [rv]\<rparr>"
        "rv_project_id rv = pc_id config" "rv_version rv = version" "rv_config rv = en_config encoded"
        "wr_version x = pc_version config" "wr_project_id x = pc_id config"
        "(pc_id config, rv_version rv) \<notin> set (map (\<lambda>r. (rv_project_id r, rv_version r)) (db_revisions (wd_db w)))"
    by blast
  from aud obtain i where "insert_audit_event_tx s now
       \<lparr>na_project_id = Some (pc_id config), na_actor_id = au_actor_id audit, na_action = action,
        na_target_type = ''project_config'', na_target_id = pc_id config, na_status = AuditSucceeded,
        na_reason = au_reason audit, na_metadata = config_audit_metadata x expected\<rparr> w1 = (Inr i, w')"
    by (auto simp: insert_config_audit_tx_def)
  from insert_audit_event_tx_effect [OF this] obtain au where
      au: "wd_db w' = (wd_db w1)\<lparr>db_audits := db_audits (wd_db w1) @ [au]\<rparr>" by blast
  have "written (pc_id config) version (en_config encoded) db (wd_db w')"
    unfolding written_def
    by (rule exI [of _ "config_row_of config encoded version now'"], rule exI [of _ rv], rule exI [of _ au])
      (use rv assms(2) in \<open>auto simp: au config_row_of_def\<close>)
  with rv show ?thesis by simp
qed

text \<open>The bodies of the two transactions.\<close>

lemma create_body_effect:
  assumes "db_bind (db_lift (version_to_i64 (pc_version config))) (\<lambda>version.
        db_bind (sql s (insert_config_stmt (pc_id config) (config_row_of config encoded version now))) (\<lambda>rows.
        if rows = 0 then
          db_bind (current_project_version_tx s (pc_id config)) (\<lambda>actual_version.
          db_lift (Inl (VersionConflict (pc_id config) None actual_version)))
        else
          db_bind (insert_config_revision_tx s config encoded audit) (\<lambda>write.
          db_bind (insert_config_audit_tx s now config write None audit action) (\<lambda>_.
          db_lift (Inr write))))) w = (Inr x, w')"
  shows "db_configs (wd_db w) (pc_id config) = None \<and>
         (\<exists>version. version_to_i64 (pc_version config) = Inr version \<and>
            written (pc_id config) version (en_config encoded) (wd_db w) (wd_db w')) \<and>
         wr_project_id x = pc_id config \<and> wr_version x = pc_version config"
proof -
  from assms obtain version where v: "version_to_i64 (pc_version config) = Inr version" by auto
  with assms obtain rows w1 where
      ins: "sql s (insert_config_stmt (pc_id config) (config_row_of config encoded version now)) w = (Inr rows, w1)" and
      rest: "(if rows = 0 then
          db_bind (current_project_version_tx s (pc_id config)) (\<lambda>actual_version.
          db_lift (Inl (VersionConflict (pc_id config) None actual_version)))
        else
          db_bind (insert_config_revision_tx s config encoded audit) (\<lambda>write.
          db_bind (insert_config_audit_tx s now config write None audit action) (\<lambda>_.
          db_lift (Inr write)))) w1 = (Inr x, w')"
    by (auto simp del: sql_Inr)
  from rest have "rows \<noteq> 0" by (auto simp del: sql_Inr split: if_splits)
  with ins have none: "db_configs (wd_db w) (pc_id config) = None"
    and w1: "wd_db w1 = (wd_db w)\<lparr>db_configs := (db_configs (wd_db w))(pc_id config \<mapsto> config_row_of config encoded version now)\<rparr>"
    by (auto simp: insert_config_stmt_def split: if_splits)
  have "db_bind (insert_config_revision_tx s config encoded audit) (\<lambda>write.
          db_bind (insert_config_audit_tx s now config write None audit action) (\<lambda>_.
          db_lift (Inr write))) w1 = (Inr x, w')"
    using rest by (simp only: \<open>rows \<noteq> 0\<close> if_False)
  from write_tail_effect [OF this w1 v] none v show ?thesis by blast
qed

definition update_body ::
    "'r storage \<Rightarrow> project_config \<Rightarrow> encoded_project_config \<Rightarrow> u64 \<Rightarrow> audit_context \<Rightarrow> timestamp \<Rightarrow>
     ('r, project_config_write_result) dbm" where
  "update_body s config encoded expected_version audit now =
     db_bind (db_lift (version_to_i64 (pc_version config))) (\<lambda>version.
     db_bind (db_lift (version_to_i64 expected_version)) (\<lambda>expected.
     db_bind (sql s (update_config_stmt (pc_id config) (config_row_of config encoded version now) expected)) (\<lambda>rows.
     if rows = 0 then
       db_bind (current_project_version_tx s (pc_id config)) (\<lambda>actual_version.
       db_lift (Inl (VersionConflict (pc_id config) (Some expected_version) actual_version)))
     else
       db_bind (insert_config_revision_tx s config encoded audit) (\<lambda>write.
       db_bind (insert_config_audit_tx s now config write (Some expected_version) audit ''project_config.update'') (\<lambda>_.
       db_lift (Inr write))))))"

lemma version_to_i64_Inr [simp]: "version_to_i64 v = Inr i \<longleftrightarrow> i = v \<and> unat v < 9223372036854775808"
  by (auto simp: version_to_i64_def)

lemma update_body_effect:
  assumes "update_body s config encoded expected audit now w = (Inr x, w')"
  shows "(\<exists>old. db_configs (wd_db w) (pc_id config) = Some old \<and> cw_version old = expected) \<and>
         unat (pc_version config) < 2 ^ 63 \<and>
         written (pc_id config) (pc_version config) (en_config encoded) (wd_db w) (wd_db w') \<and>
         wr_project_id x = pc_id config \<and> wr_version x = pc_version config"
proof -
  let ?row = "config_row_of config encoded (pc_version config) now"
  from assms have v: "unat (pc_version config) < 9223372036854775808"
    by (auto simp: update_body_def simp del: sql_Inr)
  from assms obtain rows w1 where
      upd: "sql s (update_config_stmt (pc_id config) ?row expected) w = (Inr rows, w1)" and
      rest: "(if rows = 0 then
          db_bind (current_project_version_tx s (pc_id config)) (\<lambda>actual_version.
          db_lift (Inl (VersionConflict (pc_id config) (Some expected) actual_version)))
        else
          db_bind (insert_config_revision_tx s config encoded audit) (\<lambda>write.
          db_bind (insert_config_audit_tx s now config write (Some expected) audit ''project_config.update'') (\<lambda>_.
          db_lift (Inr write)))) w1 = (Inr x, w')"
    by (auto simp: update_body_def simp del: sql_Inr)
  from rest have "rows \<noteq> 0" by (auto simp del: sql_Inr split: if_splits)
  with upd have old: "\<exists>old. db_configs (wd_db w) (pc_id config) = Some old \<and> cw_version old = expected"
    and w1: "wd_db w1 = (wd_db w)\<lparr>db_configs := (db_configs (wd_db w))(pc_id config \<mapsto> ?row)\<rparr>"
    by (auto simp: update_config_stmt_def split: if_splits option.splits)
  have "db_bind (insert_config_revision_tx s config encoded audit) (\<lambda>write.
          db_bind (insert_config_audit_tx s now config write (Some expected) audit ''project_config.update'') (\<lambda>_.
          db_lift (Inr write))) w1 = (Inr x, w')"
    using rest by (simp only: \<open>rows \<noteq> 0\<close> if_False)
  from write_tail_effect [OF this w1] old v show ?thesis by simp
qed

lemma update_unfold:
  "update_project_config s config expected audit =
     db_bind (db_lift (ok_or (VersionOverflow expected) (checked_add_u64 expected 1))) (\<lambda>next.
     db_bind (db_lift (map_err StorageDomain (project_config_validate (config\<lparr>pc_version := next\<rparr>)))) (\<lambda>_.
     db_bind (encode_project_config s (config\<lparr>pc_version := next\<rparr>)) (\<lambda>encoded.
     transaction s (update_body s (config\<lparr>pc_version := next\<rparr>) encoded expected audit))))"
  unfolding update_project_config_def update_body_def [abs_def] Let_def by simp

lemma encode_project_config_codec:
  assumes "encode_project_config s c w = (Inr enc, w1)"
  shows "\<exists>r'. codec_encode (st_cipher s) c (wd_rng w) = (Inr (en_config enc), r')"
proof -
  obtain res r' where cr: "codec_encode (st_cipher s) c (wd_rng w) = (res, r')" by fastforce
  then have "db_encode s c w = (res, w\<lparr>wd_rng := r'\<rparr>)" by (simp add: db_encode_def)
  with assms have "res = Inr (en_config enc)" by (auto simp: encode_project_config_def)
  with cr show ?thesis by blast
qed

lemma update_effect:
  assumes "update_project_config s config expected audit w = (res, w')"
  shows "wd_db w' = wd_db w \<and> (\<forall>x. res \<noteq> Inr x) \<or>
         (\<exists>old stored r r' next. db_configs (wd_db w) (pc_id config) = Some old \<and> cw_version old = expected \<and>
            checked_add_u64 expected 1 = Some next \<and> unat next < 2 ^ 63 \<and>
            codec_encode (st_cipher s) (config\<lparr>pc_version := next\<rparr>) r = (Inr stored, r') \<and>
            project_config_validate (config\<lparr>pc_version := next\<rparr>) = Inr () \<and>
            written (pc_id config) next stored (wd_db w) (wd_db w') \<and>
            (\<forall>x. res = Inr x \<longrightarrow> wr_project_id x = pc_id config \<and> wr_version x = next))"
proof (cases "\<exists>next enc w1. checked_add_u64 expected 1 = Some next \<and>
    project_config_validate (config\<lparr>pc_version := next\<rparr>) = Inr () \<and>
    encode_project_config s (config\<lparr>pc_version := next\<rparr>) w = (Inr enc, w1)")
  case False
  then have "wd_db w' = wd_db w \<and> (\<forall>x. res \<noteq> Inr x)"
    using assms unfolding update_unfold
    by (cases res) (auto simp: db_bind_Inl dest: encode_project_config_db)
  then show ?thesis by blast
next
  case True
  then obtain nxt enc w1 where n: "checked_add_u64 expected 1 = Some nxt"
      "project_config_validate (config\<lparr>pc_version := nxt\<rparr>) = Inr ()"
      "encode_project_config s (config\<lparr>pc_version := nxt\<rparr>) w = (Inr enc, w1)" by blast
  let ?c = "config\<lparr>pc_version := nxt\<rparr>"
  have w1: "wd_db w1 = wd_db w" using n(3) by (rule encode_project_config_db)
  have "transaction s (update_body s ?c enc expected audit) w1 = (res, w')"
    using assms by (simp only: update_unfold db_bind_def db_lift_def n ok_or.simps map_err.simps prod.case sum.case)
  from transaction_effect [OF this] consider (same) "wd_db w' = wd_db w1 \<and> (\<forall>x. res \<noteq> Inr x)"
    | (run) x w2 where "update_body s ?c enc expected audit (st_now s (wd_calls w1)) (count_call w1) = (Inr x, w2)"
        "wd_db w' = wd_db w2" "res = Inr x \<or> (\<exists>n e. st_fault s n = Some (e, True) \<and> res = Inl (Sqlx e))" by blast
  then show ?thesis
  proof cases
    case same
    with w1 show ?thesis by simp
  next
    case (run x w2)
    obtain r' where r: "codec_encode (st_cipher s) ?c (wd_rng w) = (Inr (en_config enc), r')"
      using encode_project_config_codec [OF n(3)] by blast
    from update_body_effect [OF run(1)] w1 obtain old where
        b: "db_configs (wd_db w) (pc_id config) = Some old" "cw_version old = expected" "unat nxt < 2 ^ 63"
          "written (pc_id config) nxt (en_config enc) (wd_db w) (wd_db w2)"
          "wr_project_id x = pc_id config" "wr_version x = nxt" by auto
    from run(3) b(5,6) have "\<forall>y. res = Inr y \<longrightarrow> wr_project_id y = pc_id config \<and> wr_version y = nxt" by auto
    with b(1-4) n r run(2) show ?thesis by metis
  qed
qed

definition create_body ::
    "'r storage \<Rightarrow> project_config \<Rightarrow> encoded_project_config \<Rightarrow> audit_context \<Rightarrow> timestamp \<Rightarrow>
     ('r, project_config_write_result) dbm" where
  "create_body s config encoded audit now =
     db_bind (db_lift (version_to_i64 (pc_version config))) (\<lambda>version.
     db_bind (sql s (insert_config_stmt (pc_id config) (config_row_of config encoded version now))) (\<lambda>rows.
     if rows = 0 then
       db_bind (current_project_version_tx s (pc_id config)) (\<lambda>actual_version.
       db_lift (Inl (VersionConflict (pc_id config) None actual_version)))
     else
       db_bind (insert_config_revision_tx s config encoded audit) (\<lambda>write.
       db_bind (insert_config_audit_tx s now config write None audit ''project_config.create'') (\<lambda>_.
       db_lift (Inr write)))))"

definition initial_config :: "project_config \<Rightarrow> project_config" where
  "initial_config config = (if pc_version config = 0 then config\<lparr>pc_version := 1\<rparr> else config)"

lemma initial_config_id [simp]: "pc_id (initial_config c) = pc_id c"
  by (simp add: initial_config_def)

lemma create_unfold:
  "create_project_config s config audit =
     db_bind (db_lift (map_err StorageDomain (project_config_validate (initial_config config)))) (\<lambda>_.
     db_bind (encode_project_config s (initial_config config)) (\<lambda>encoded.
     transaction s (create_body s (initial_config config) encoded audit)))"
  unfolding create_project_config_def create_body_def [abs_def] initial_config_def Let_def by simp

lemma create_effect:
  assumes "create_project_config s config audit w = (res, w')"
  shows "wd_db w' = wd_db w \<and> (\<forall>x. res \<noteq> Inr x) \<or>
         (\<exists>stored r r'. db_configs (wd_db w) (pc_id config) = None \<and>
            unat (pc_version (initial_config config)) < 2 ^ 63 \<and>
            codec_encode (st_cipher s) (initial_config config) r = (Inr stored, r') \<and>
            project_config_validate (initial_config config) = Inr () \<and>
            written (pc_id config) (pc_version (initial_config config)) stored (wd_db w) (wd_db w') \<and>
            (\<forall>x. res = Inr x \<longrightarrow> wr_project_id x = pc_id config \<and> wr_version x = pc_version (initial_config config)))"
proof (cases "\<exists>enc w1. project_config_validate (initial_config config) = Inr () \<and>
    encode_project_config s (initial_config config) w = (Inr enc, w1)")
  case False
  then have "wd_db w' = wd_db w \<and> (\<forall>x. res \<noteq> Inr x)"
    using assms unfolding create_unfold
    by (cases res) (auto simp: db_bind_Inl dest: encode_project_config_db)
  then show ?thesis by blast
next
  case True
  let ?c = "initial_config config"
  from True obtain enc w1 where n: "project_config_validate ?c = Inr ()"
      "encode_project_config s ?c w = (Inr enc, w1)" by blast
  have w1: "wd_db w1 = wd_db w" using n(2) by (rule encode_project_config_db)
  have "transaction s (create_body s ?c enc audit) w1 = (res, w')"
    using assms by (simp only: create_unfold db_bind_def db_lift_def n map_err.simps prod.case sum.case)
  from transaction_effect [OF this] consider (same) "wd_db w' = wd_db w1 \<and> (\<forall>x. res \<noteq> Inr x)"
    | (run) x w2 where "create_body s ?c enc audit (st_now s (wd_calls w1)) (count_call w1) = (Inr x, w2)"
        "wd_db w' = wd_db w2" "res = Inr x \<or> (\<exists>n e. st_fault s n = Some (e, True) \<and> res = Inl (Sqlx e))" by blast
  then show ?thesis
  proof cases
    case same
    with w1 show ?thesis by simp
  next
    case (run x w2)
    obtain r' where r: "codec_encode (st_cipher s) ?c (wd_rng w) = (Inr (en_config enc), r')"
      using encode_project_config_codec [OF n(2)] by blast
    from create_body_effect [OF run(1) [unfolded create_body_def]] w1 have
        b: "db_configs (wd_db w) (pc_id config) = None" "unat (pc_version ?c) < 2 ^ 63"
          "written (pc_id config) (pc_version ?c) (en_config enc) (wd_db w) (wd_db w2)"
          "wr_project_id x = pc_id config" "wr_version x = pc_version ?c" by auto
    from run(3) b(4,5) have "\<forall>y. res = Inr y \<longrightarrow> wr_project_id y = pc_id config \<and> wr_version y = pc_version ?c" by auto
    with b(1-3) n r run(2) show ?thesis by metis
  qed
qed

section \<open>The versioned register\<close>

text \<open>The abstract state: for each project its version and its stored configuration.\<close>

definition register :: "database \<Rightarrow> project_id \<rightharpoonup> u64 \<times> stored_project_config" where
  "register db p = map_option (\<lambda>r. (cw_version r, cw_config r)) (db_configs db p)"

definition reg_create ::
    "project_id \<Rightarrow> u64 \<Rightarrow> stored_project_config \<Rightarrow> (project_id \<rightharpoonup> u64 \<times> stored_project_config) \<Rightarrow>
     (project_id \<rightharpoonup> u64 \<times> stored_project_config) option" where
  "reg_create p v c reg = (if reg p = None then Some (reg(p \<mapsto> (v, c))) else None)"

definition reg_cas ::
    "project_id \<Rightarrow> u64 \<Rightarrow> stored_project_config \<Rightarrow> (project_id \<rightharpoonup> u64 \<times> stored_project_config) \<Rightarrow>
     (project_id \<rightharpoonup> u64 \<times> stored_project_config) option" where
  "reg_cas p expected c reg =
     (if map_option fst (reg p) = Some expected then Some (reg(p \<mapsto> (expected + 1, c))) else None)"

lemma register_written: "written p v c db db' \<Longrightarrow> register db' = (register db)(p \<mapsto> (v, c))"
  by (auto simp: written_def register_def)

lemma checked_add_Some: "checked_add_u64 a b = Some c \<Longrightarrow> c = a + b"
  by (auto simp: checked_add_u64_def split: if_splits)

text \<open>A conflict is reported with the version that was found, and it is not the expected one.\<close>

lemma current_project_version_tx_Inr:
  "current_project_version_tx s p w = (Inr a, w') \<Longrightarrow> wd_db w' = wd_db w \<and> a = map_option fst (register (wd_db w) p)"
  by (auto simp: current_project_version_tx_def select_config_stmt_def register_def opt_try_eq_Inr i64_to_u64_def
      split: if_splits)

fun is_conflict :: "storage_error \<Rightarrow> bool" where
  "is_conflict (VersionConflict _ _ _) = True"
| "is_conflict _ = False"

lemma sql_no_conflict: "sql s stmt w = (Inl e, w') \<Longrightarrow> \<not> is_conflict e"
  by (auto simp: sql_def run_stmt_def split: option.splits sum.splits prod.splits)

lemma lift_no_conflict:
  "db_lift (map_err StorageDomain r1) w = (Inl e, w') \<Longrightarrow> \<not> is_conflict e"
  "db_lift (map_err StorageJson r2) w = (Inl e, w') \<Longrightarrow> \<not> is_conflict e"
  "validate_bounded_text f t n = Inl e \<Longrightarrow> \<not> is_conflict e"
  "validate_storage_identifier f t = Inl e \<Longrightarrow> \<not> is_conflict e"
  "validate_json_object_size lib f m n = Inl e \<Longrightarrow> \<not> is_conflict e"
  "version_to_i64 v = Inl e \<Longrightarrow> \<not> is_conflict e"
  "opt_try (\<lambda>r. i64_to_u64 f (cw_version r)) row = Inl e \<Longrightarrow> \<not> is_conflict e"
  by (auto simp: validate_bounded_text_def validate_storage_identifier_def validate_json_object_size_def
      version_to_i64_def i64_to_u64_def res_bind_eq_Inl split: if_splits)
    (cases row; auto simp: i64_to_u64_def split: if_splits)

lemma opt_reason_no_conflict:
  "opt_check (\<lambda>r. validate_bounded_text f r n) t = Inl e \<Longrightarrow> \<not> is_conflict e"
  by (cases t) (auto dest: lift_no_conflict(3))

lemma insert_audit_no_conflict: "insert_audit_event_tx s now ev w = (Inl e, w') \<Longrightarrow> \<not> is_conflict e"
  by (auto simp: insert_audit_event_tx_def db_bind_Inl
      dest!: lift_no_conflict sql_no_conflict opt_reason_no_conflict simp del: sql_Inr)

lemma insert_revision_no_conflict:
  "insert_config_revision_tx s c enc audit w = (Inl e, w') \<Longrightarrow> \<not> is_conflict e"
  by (auto simp: insert_config_revision_tx_def db_bind_Inl
      dest!: lift_no_conflict sql_no_conflict simp del: sql_Inr version_to_i64_Inr)

lemma current_version_no_conflict:
  "current_project_version_tx s p w = (Inl e, w') \<Longrightarrow> \<not> is_conflict e"
  by (auto simp: current_project_version_tx_def db_bind_Inl
      dest!: lift_no_conflict(7) sql_no_conflict simp del: sql_Inr)

lemma update_body_conflict:
  assumes "update_body s config encoded expected audit now w = (Inl (VersionConflict p e a), w')"
  shows "p = pc_id config \<and> e = Some expected \<and> a = map_option fst (register (wd_db w) p) \<and> a \<noteq> Some expected"
proof -
  let ?row = "config_row_of config encoded (pc_version config) now"
  have tail: "db_bind (insert_config_revision_tx s config encoded audit) (\<lambda>write.
       db_bind (insert_config_audit_tx s now config write (Some expected) audit ''project_config.update'') (\<lambda>_.
       db_lift (Inr write))) w1 \<noteq> (Inl (VersionConflict p e a), w')" for w1
    using insert_revision_no_conflict insert_audit_no_conflict
    by (fastforce simp: db_bind_Inl insert_config_audit_tx_def)
  obtain rows w1 where
      upd: "sql s (update_config_stmt (pc_id config) ?row expected) w = (Inr rows, w1)" and
      rest: "(if rows = 0 then
       db_bind (current_project_version_tx s (pc_id config)) (\<lambda>actual_version.
       db_lift (Inl (VersionConflict (pc_id config) (Some expected) actual_version)))
     else
       db_bind (insert_config_revision_tx s config encoded audit) (\<lambda>write.
       db_bind (insert_config_audit_tx s now config write (Some expected) audit ''project_config.update'') (\<lambda>_.
       db_lift (Inr write)))) w1 = (Inl (VersionConflict p e a), w')"
    using assms unfolding update_body_def
    by (auto simp: db_bind_Inl [of "db_lift _"] db_bind_Inl [of "sql _ _"] simp del: sql_Inr
        dest!: lift_no_conflict(6) sql_no_conflict)
  have rows: "rows = 0" using rest tail by (auto split: if_splits)
  with upd have db: "wd_db w1 = wd_db w" "map_option fst (register (wd_db w) (pc_id config)) \<noteq> Some expected"
    by (auto simp: update_config_stmt_def register_def split: if_splits option.splits)
  from rest rows obtain w2 where "current_project_version_tx s (pc_id config) w1 = (Inr a, w2)"
      "p = pc_id config" "e = Some expected"
    by (auto simp: db_bind_Inl dest!: current_version_no_conflict)
  with current_project_version_tx_Inr [OF this(1)] db show ?thesis by simp
qed

lemma transaction_conflict:
  assumes "transaction s body w = (Inl e, w')" "is_conflict e"
  shows "\<exists>w2. body (st_now s (wd_calls w)) (count_call w) = (Inl e, w2)"
  using assms by (auto simp: transaction_def split: option.splits prod.splits sum.splits)

lemma collect_st_Inl: "collect_st f xs s = (Inl e, s') \<Longrightarrow> \<exists>x t t'. f x t = (Inl e, t')"
  by (induction f xs s arbitrary: s' rule: collect_st.induct) (auto split: prod.splits sum.splits)

text \<open>Encryption under a keyring fails only with errors about secrets.\<close>

lemma keyring_encrypt_no_conflict: "sc_encrypt (keyring_obj lib k) p aad r = (Inl e, r') \<Longrightarrow> \<not> is_conflict e"
  by (auto simp: keyring_obj_def keyring_encrypt_def active_cipher_def aes_cipher_encrypt_def
      split: sum.splits prod.splits option.splits)

lemma broker_encode_no_conflict:
  "broker_from_domain (keyring_obj lib k) p b r = (Inl e, r') \<Longrightarrow> \<not> is_conflict e"
  by (auto simp: broker_from_domain_def credentials_from_domain_def dest!: keyring_encrypt_no_conflict
      split: option.splits prod.splits sum.splits)

lemma header_encode_no_conflict:
  "header_from_domain (keyring_obj lib k) p sid h r = (Inl e, r') \<Longrightarrow> \<not> is_conflict e"
  by (auto simp: header_from_domain_def dest!: keyring_encrypt_no_conflict split: prod.splits sum.splits)

lemma sink_encode_no_conflict:
  "sink_from_domain (keyring_obj lib k) p sk r = (Inl e, r') \<Longrightarrow> \<not> is_conflict e"
  by (cases "sk_kind sk")
    (auto simp: sink_from_domain_def dest!: collect_st_Inl header_encode_no_conflict split: prod.splits sum.splits)

lemma codec_encode_no_conflict:
  "codec_encode (keyring_obj lib k) c r = (Inl e, r') \<Longrightarrow> \<not> is_conflict e"
  by (auto simp: codec_encode_def dest!: collect_st_Inl broker_encode_no_conflict sink_encode_no_conflict
      split: prod.splits sum.splits)

lemma encode_no_conflict:
  assumes "st_cipher s = keyring_obj lib k" "encode_project_config s c w = (Inl e, w')"
  shows "\<not> is_conflict e"
proof -
  obtain res r' where cr: "codec_encode (keyring_obj lib k) c (wd_rng w) = (res, r')" by fastforce
  then have "db_encode s c w = (res, w\<lparr>wd_rng := r'\<rparr>)" by (simp add: db_encode_def assms(1))
  with assms(2) have "res = Inl e \<or> (\<exists>t. e = StorageJson t)" by (auto simp: encode_project_config_def hash_config_json_def db_bind_Inl)
  with cr codec_encode_no_conflict show ?thesis by fastforce
qed

lemma update_conflict:
  assumes "st_cipher s = keyring_obj lib k"
    and "update_project_config s config expected audit w = (Inl (VersionConflict p e a), w')"
  shows "p = pc_id config \<and> e = Some expected \<and> a = map_option fst (register (wd_db w) p) \<and> a \<noteq> Some expected"
proof -
  from assms(2) obtain nxt enc w1 where
      c: "encode_project_config s (config\<lparr>pc_version := nxt\<rparr>) w = (Inr enc, w1)"
      "transaction s (update_body s (config\<lparr>pc_version := nxt\<rparr>) enc expected audit) w1 =
         (Inl (VersionConflict p e a), w')"
    unfolding update_unfold by (auto simp: db_bind_Inl dest!: encode_no_conflict [OF assms(1)])
  from transaction_conflict [OF c(2)] obtain w2 where
    "update_body s (config\<lparr>pc_version := nxt\<rparr>) enc expected audit (st_now s (wd_calls w1)) (count_call w1) =
       (Inl (VersionConflict p e a), w2)"
    by auto
  from update_body_conflict [OF this] encode_project_config_db [OF c(1)] show ?thesis by auto
qed

text \<open>C18: an update of a project configuration is a compare-and-swap on its version: it succeeds only on the
  expected version, which becomes its successor without overflow; a reported conflict names the version
  found, which is another one; and an error leaves the register as it was.\<close>

theorem update_is_compare_and_swap:
  assumes "no_lost_commits s" and "st_cipher s = keyring_obj lib k"
    and "update_project_config s config expected audit w = (res, w')"
  shows "case res of
      Inr x \<Rightarrow> wr_project_id x = pc_id config \<and> unat (wr_version x) = Suc (unat expected) \<and>
        (\<exists>stored. reg_cas (pc_id config) expected stored (register (wd_db w)) = Some (register (wd_db w')))
    | Inl (VersionConflict p e a) \<Rightarrow> register (wd_db w') = register (wd_db w) \<and> p = pc_id config \<and> e = Some expected \<and>
        a = map_option fst (register (wd_db w) p) \<and>
        (\<forall>stored. reg_cas p expected stored (register (wd_db w)) = None)
    | Inl _ \<Rightarrow> register (wd_db w') = register (wd_db w)"
proof (cases res)
  case (Inr x)
  with update_effect [OF assms(3)] obtain old stored nxt where
      u: "db_configs (wd_db w) (pc_id config) = Some old" "cw_version old = expected"
        "checked_add_u64 expected 1 = Some nxt" "written (pc_id config) nxt stored (wd_db w) (wd_db w')"
        "wr_project_id x = pc_id config" "wr_version x = nxt" by blast
  have "reg_cas (pc_id config) expected stored (register (wd_db w)) = Some (register (wd_db w'))"
    using u(1,2) checked_add_Some [OF u(3)] register_written [OF u(4)] by (simp add: reg_cas_def register_def)
  moreover have "unat (wr_version x) = Suc (unat expected)"
    using checked_add_u64_Some [OF u(3)] u(6) by simp
  ultimately show ?thesis using u(5) Inr by auto
next
  case (Inl e)
  have same: "wd_db w' = wd_db w"
    using assms Inl unfolding update_unfold
    by (auto simp: db_bind_Inl dest!: encode_project_config_db transaction_Inl_db [OF assms(1)])
  show ?thesis
  proof (cases "is_conflict e")
    case True
    then obtain p e' a where e: "e = VersionConflict p e' a" by (cases e) auto
    from update_conflict [OF assms(2), of config expected audit w p e' a w'] assms(3) Inl e same show ?thesis
      by (auto simp: reg_cas_def)
  qed (use same Inl in \<open>cases e; simp\<close>)
qed

section \<open>A store for the examples\<close>

definition empty_database :: database where
  "empty_database =
     \<lparr>db_configs = Map.empty, db_revisions = [], db_audits = [], db_deliveries = [], db_commands = [], db_failures = []\<rparr>"

definition sample_ring :: "unit storage_keyring" where
  "sample_ring = \<lparr>kr_active_key_id = ''k'', kr_keys = [(''k'', \<lparr>ac_key_id = ''k'', ac_cipher = ()\<rparr>)]\<rparr>"

definition sample_storage :: "nat storage" where
  "sample_storage =
     \<lparr>st_cipher = keyring_obj sample_crypto sample_ring, st_serde = sample_lib, st_digest = (\<lambda>_. Inr ''d''),
      st_jsonb = sample_jsonb, st_jsonb_bytes = (\<lambda>_. 2), st_uuid = (\<lambda>n. replicate n CHR ''u''), st_fault = (\<lambda>_. None), st_now = int,
      st_unreadable = (\<lambda>_. None)\<rparr>"

definition sample_world :: "nat world" where
  "sample_world = \<lparr>wd_db = empty_database, wd_rng = 0, wd_uuids = 0, wd_calls = 0\<rparr>"

definition small_project :: project_config where
  "small_project =
     \<lparr>pc_id = ''p1'', pc_tenant_id = None, pc_name = ''Local'', pc_description = None, pc_enabled = True,
      pc_version = 0, pc_brokers = [], pc_routes = [], pc_schema_mappings = [], pc_rules = [],
      pc_command_templates = [], pc_sinks = []\<rparr>"

definition sample_audit :: audit_context where
  "sample_audit = \<lparr>au_actor_id = None, au_reason = None\<rparr>"

definition created_world :: "nat world" where
  "created_world = snd (create_project_config sample_storage small_project sample_audit sample_world)"

lemma sample_texts:
  "\<not> is_blank ''Local''" "\<not> has_control ''Local''" "\<not> is_blank ''project_config.create''"
  "\<not> is_blank ''project_config.update''" "\<not> is_blank ''project_config''" "\<not> is_blank ''p1''"
  "list_all is_key_id_byte ''project_config.create''" "list_all is_key_id_byte ''project_config.update''"
  "list_all is_key_id_byte ''project_config''"
  by code_simp+

lemma sample_name: "validate_text ''project_name'' ''Local'' 160 = Inr ()"
  using sample_texts(1,2) by simp

lemmas store_eval =
  small_project_def sample_storage_def sample_world_def sample_audit_def db_bind_def db_lift_def
  project_config_validate_def max_name_bytes_def sample_texts sample_name encode_project_config_def hash_config_json_def db_encode_def
  codec_encode_def transaction_def count_call_def version_to_i64_def sql_def run_stmt_def insert_config_stmt_def
  config_row_of_def config_row_ok_def empty_database_def insert_config_revision_tx_def generated_id_def
  insert_revision_stmt_def insert_config_audit_tx_def insert_audit_event_tx_def validate_storage_identifier_def
  validate_bounded_text_def max_identifier_bytes_def max_target_id_bytes_def max_metadata_json_bytes_def
  validate_json_object_size_def sample_lib_def config_audit_metadata_def insert_some_def insert_audit_stmt_def
  len_between_def opt_len_def is_json_object_def Let_def

lemma create_sample:
  "fst (create_project_config sample_storage small_project sample_audit sample_world) =
     Inr \<lparr>wr_project_id = ''p1'', wr_version = 1, wr_revision_id = ''config_revision_'', wr_config_hash = ''sha256:d''\<rparr>"
  by (simp add: create_project_config_def store_eval del: has_control.simps list.pred_inject)

lemma update_sample:
  "fst (update_project_config sample_storage small_project 1 sample_audit created_world) =
     Inr \<lparr>wr_project_id = ''p1'', wr_version = 2, wr_revision_id = ''config_revision_uu'', wr_config_hash = ''sha256:d''\<rparr>"
  "fst (update_project_config sample_storage small_project 7 sample_audit created_world) =
     Inl (VersionConflict ''p1'' (Some 7) (Some 1))"
  by (simp_all add: created_world_def create_project_config_def update_project_config_def update_config_stmt_def
      current_project_version_tx_def select_config_stmt_def i64_to_u64_def checked_add_u64_def u64_max_def store_eval
      del: has_control.simps list.pred_inject)

lemma sample_storage_safe: "no_lost_commits sample_storage" "st_cipher sample_storage = keyring_obj sample_crypto sample_ring"
  by (simp_all add: no_lost_commits_def sample_storage_def)

theorem update_is_compare_and_swap_witness:
  "\<exists>stored. reg_cas ''p1'' 1 stored (register (wd_db created_world)) =
     Some (register (wd_db (snd (update_project_config sample_storage small_project 1 sample_audit created_world))))"
proof -
  let ?u = "update_project_config sample_storage small_project 1 sample_audit created_world"
  have e: "?u = (Inr \<lparr>wr_project_id = ''p1'', wr_version = 2, wr_revision_id = ''config_revision_uu'',
                     wr_config_hash = ''sha256:d''\<rparr>, snd ?u)" by (simp add: update_sample prod_eq_iff)
  have "pc_id small_project = ''p1''" by (simp add: small_project_def)
  with update_is_compare_and_swap [OF sample_storage_safe e] show ?thesis by simp
qed

text \<open>C21: when one of the ten methods of the store that write reports an error, the tables are as they were, unless the
  database applied a commit whose acknowledgement was lost. One method can also fail after its commit: recording
  a command execution decodes the instant of the row last, so for it the instants have to be readable.\<close>

theorem failed_write_leaves_no_trace:
  assumes "no_lost_commits s"
    and "create_project_config s config audit w = (Inl e, w') \<or>
         update_project_config s config expected audit w = (Inl e, w') \<or>
         record_sink_delivery_outcome s delivery w = (Inl e, w') \<or>
         record_command_execution s execution w = (Inl e, w') \<and> (\<forall>t. st_unreadable s t = None) \<or>
         mark_command_execution_failed s cid reason w = (Inl e, w') \<or>
         mark_command_execution_published s cid w = (Inl e, w') \<or>
         record_audit_event s event w = (Inl e, w') \<or>
         record_failure_event s failure w = (Inl e, w') \<or>
         resolve_failure s pid failure_id resolution audit w = (Inl e, w') \<or>
         delete_expired_operational_rows s pid retention w = (Inl e, w')"
  shows "wd_db w' = wd_db w"
  using assms(2)
proof (elim disjE)
  show "create_project_config s config audit w = (Inl e, w') \<Longrightarrow> wd_db w' = wd_db w"
    by (auto simp: create_project_config_def Let_def db_bind_Inl
        dest!: encode_project_config_db transaction_Inl_db [OF assms(1)])
  show "update_project_config s config expected audit w = (Inl e, w') \<Longrightarrow> wd_db w' = wd_db w"
    by (auto simp: update_project_config_def Let_def db_bind_Inl
        dest!: encode_project_config_db transaction_Inl_db [OF assms(1)])
  show "record_sink_delivery_outcome s delivery w = (Inl e, w') \<Longrightarrow> wd_db w' = wd_db w"
    by (auto simp: record_sink_delivery_outcome_def db_bind_Inl dest!: transaction_Inl_db [OF assms(1)])
  show "record_command_execution s execution w = (Inl e, w') \<and> (\<forall>t. st_unreadable s t = None) \<Longrightarrow> wd_db w' = wd_db w"
    by (auto simp: record_command_execution_def read_instant_def db_bind_Inl dest!: transaction_Inl_db [OF assms(1)])
  show "mark_command_execution_published s cid w = (Inl e, w') \<Longrightarrow> wd_db w' = wd_db w"
    by (auto simp: mark_command_execution_published_def dest!: sql_auto_Inl_db [OF assms(1)])
  show "record_audit_event s event w = (Inl e, w') \<Longrightarrow> wd_db w' = wd_db w"
    by (auto simp: record_audit_event_def dest!: transaction_Inl_db [OF assms(1)])
  show "record_failure_event s failure w = (Inl e, w') \<Longrightarrow> wd_db w' = wd_db w"
    by (auto simp: record_failure_event_def dest!: transaction_Inl_db [OF assms(1)])
  show "mark_command_execution_failed s cid reason w = (Inl e, w') \<Longrightarrow> wd_db w' = wd_db w"
    by (auto simp: mark_command_execution_failed_def db_bind_Inl dest!: sql_auto_Inl_db [OF assms(1)])
  show "resolve_failure s pid failure_id resolution audit w = (Inl e, w') \<Longrightarrow> wd_db w' = wd_db w"
    by (auto simp: resolve_failure_def db_bind_Inl dest!: transaction_Inl_db [OF assms(1)])
  show "delete_expired_operational_rows s pid retention w = (Inl e, w') \<Longrightarrow> wd_db w' = wd_db w"
    by (auto simp: delete_expired_operational_rows_def db_bind_Inl dest!: transaction_Inl_db [OF assms(1)])
qed

theorem failed_write_leaves_no_trace_witness:
  "isl (fst (update_project_config sample_storage small_project 7 sample_audit created_world)) \<and>
   wd_db (snd (update_project_config sample_storage small_project 7 sample_audit created_world)) = wd_db created_world"
proof -
  let ?u = "update_project_config sample_storage small_project 7 sample_audit created_world"
  have e: "?u = (Inl (VersionConflict ''p1'' (Some 7) (Some 1)), snd ?u)" by (simp add: update_sample prod_eq_iff)
  have "wd_db (snd ?u) = wd_db created_world"
    by (rule failed_write_leaves_no_trace [OF sample_storage_safe(1)], rule disjI2, rule disjI1, rule e)
  with update_sample(2) show ?thesis by simp
qed

section \<open>Revisions\<close>

definition revisions_of :: "database \<Rightarrow> project_id \<Rightarrow> revision_row list" where
  "revisions_of db p = filter (\<lambda>r. rv_project_id r = p) (db_revisions db)"

text \<open>The revisions of a project are its versions from the first to the current one, and the newest holds the
  current configuration; a project without a configuration has none.\<close>

definition revisions_ok :: "database \<Rightarrow> project_id \<Rightarrow> bool" where
  "revisions_ok db p \<longleftrightarrow>
     (case register db p of
        None \<Rightarrow> revisions_of db p = []
      | Some (v, stored) \<Rightarrow>
          (\<exists>first \<le> unat v. map (\<lambda>r. unat (rv_version r)) (revisions_of db p) = [first ..< Suc (unat v)]) \<and>
          rv_config (last (revisions_of db p)) = stored)"

text \<open>The methods that change the tables, with any arguments, results and failures.\<close>

inductive store_step :: "'r storage \<Rightarrow> 'r world \<Rightarrow> 'r world \<Rightarrow> bool" for s where
  create: "create_project_config s config audit w = (res, w') \<Longrightarrow> store_step s w w'"
| update: "update_project_config s config expected audit w = (res, w') \<Longrightarrow> store_step s w w'"
| delivery: "record_sink_delivery_outcome s x w = (res, w') \<Longrightarrow> store_step s w w'"
| command: "record_command_execution s y w = (res, w') \<Longrightarrow> store_step s w w'"
| failed: "mark_command_execution_failed s cid reason w = (res, w') \<Longrightarrow> store_step s w w'"
| published: "mark_command_execution_published s cid w = (res, w') \<Longrightarrow> store_step s w w'"
| audit: "record_audit_event s ev w = (res, w') \<Longrightarrow> store_step s w w'"
| failure: "record_failure_event s fev w = (res, w') \<Longrightarrow> store_step s w w'"
| resolve: "resolve_failure s pid fid resolution audit w = (res, w') \<Longrightarrow> store_step s w w'"
| expire: "delete_expired_operational_rows s pid retention w = (res, w') \<Longrightarrow> store_step s w w'"
| load: "load_project_config s pid w = (res, w') \<Longrightarrow> store_step s w w'"

text \<open>The part of the tables only the two writes of configurations touch.\<close>

definition config_part :: "database \<Rightarrow> (string \<rightharpoonup> config_row) \<times> revision_row list" where
  "config_part db = (db_configs db, db_revisions db)"

definition leaves_configs :: "('r, 'a) dbm \<Rightarrow> bool" where
  "leaves_configs m \<longleftrightarrow> (\<forall>w. config_part (wd_db (snd (m w))) = config_part (wd_db w))"

named_theorems leaves

lemma leaves_bind [leaves]:
  "leaves_configs m \<Longrightarrow> (\<And>x. leaves_configs (f x)) \<Longrightarrow> leaves_configs (db_bind m f)"
  unfolding leaves_configs_def db_bind_def by (auto split: prod.splits sum.splits) (metis snd_conv)+

lemma leaves_lift [leaves]: "leaves_configs (db_lift r)"
  by (simp add: leaves_configs_def db_lift_def)

lemma leaves_id [leaves]: "leaves_configs (generated_id s pre)"
  by (simp add: leaves_configs_def generated_id_def)

definition stmt_leaves :: "'a stmt \<Rightarrow> bool" where
  "stmt_leaves stmt \<longleftrightarrow> (\<forall>db x db'. stmt db = Inr (x, db') \<longrightarrow> config_part db' = config_part db)"

lemma leaves_sql [leaves]: "stmt_leaves stmt \<Longrightarrow> leaves_configs (sql s stmt)"
  by (auto simp: stmt_leaves_def leaves_configs_def sql_def run_stmt_def split: option.splits sum.splits prod.splits)

lemma leaves_sql_auto [leaves]: "stmt_leaves stmt \<Longrightarrow> leaves_configs (sql_auto s stmt)"
  by (auto simp: stmt_leaves_def leaves_configs_def sql_auto_def run_stmt_def
      split: option.splits sum.splits prod.splits)

lemma leaves_transaction [leaves]:
  assumes "\<And>now. leaves_configs (body now)"
  shows "leaves_configs (transaction s body)"
  unfolding leaves_configs_def
proof
  fix w
  obtain res w' where t: "transaction s body w = (res, w')" by fastforce
  have "config_part (wd_db (snd (body now (count_call w)))) = config_part (wd_db w)" for now
    using assms by (simp add: leaves_configs_def)
  with transaction_effect [OF t] t show "config_part (wd_db (snd (transaction s body w))) = config_part (wd_db w)"
    by (metis snd_conv)
qed

lemma stmt_leaves_all [leaves]:
  "stmt_leaves (insert_audit_stmt s arow)" "stmt_leaves (insert_delivery_stmt drow)"
  "stmt_leaves (insert_command_stmt crow)" "stmt_leaves (update_command_stmt cid st reason)"
  "stmt_leaves (insert_failure_stmt s frow)" "stmt_leaves (resolve_failure_stmt pid fid res now)"
  "stmt_leaves (select_failure_stmt pid fid)" "stmt_leaves (select_config_stmt pid)"
  by (auto simp: stmt_leaves_def config_part_def insert_audit_stmt_def insert_delivery_stmt_def
      insert_command_stmt_def update_command_stmt_def insert_failure_stmt_def resolve_failure_stmt_def
      select_failure_stmt_def select_config_stmt_def split: if_splits list.splits)

lemma leaves_methods:
  "leaves_configs (insert_audit_event_tx s now ev)" "leaves_configs (insert_failure_event_tx s now fev)"
  unfolding insert_audit_event_tx_def insert_failure_event_tx_def by (intro leaves)+

lemma leaves_operations:
  "leaves_configs (record_sink_delivery_outcome s x)" "leaves_configs (record_command_execution s y)"
  "leaves_configs (mark_command_execution_failed s cid reason)" "leaves_configs (mark_command_execution_published s cid)"
  "leaves_configs (record_audit_event s ev)" "leaves_configs (record_failure_event s fev)"
  "leaves_configs (resolve_failure s pid fid resolution audit)"
  "leaves_configs (delete_expired_operational_rows s pid retention)" "leaves_configs (load_project_config s pid)"
  unfolding record_sink_delivery_outcome_def record_command_execution_def mark_command_execution_failed_def
    mark_command_execution_published_def record_audit_event_def record_failure_event_def resolve_failure_def
    delete_expired_operational_rows_def load_project_config_def
  by (intro leaves leaves_methods; auto intro!: leaves leaves_methods simp: stmt_leaves_def config_part_def
      split: option.splits)+

lemma revisions_ok_cong:
  "register db' p = register db p \<Longrightarrow> revisions_of db' p = revisions_of db p \<Longrightarrow> revisions_ok db' p = revisions_ok db p"
  by (auto simp: revisions_ok_def split: option.split)

lemma revisions_ok_config_part:
  assumes "config_part db' = config_part db"
  shows "revisions_ok db' p = revisions_ok db p"
proof -
  show ?thesis
    by (rule revisions_ok_cong) (use assms in \<open>simp_all add: register_def revisions_of_def config_part_def\<close>)
qed

lemma leaves_step:
  "leaves_configs m \<Longrightarrow> m w = (res, w') \<Longrightarrow> revisions_ok (wd_db w) p \<Longrightarrow> revisions_ok (wd_db w') p"
  unfolding leaves_configs_def by (metis revisions_ok_config_part snd_conv)

lemma revisions_ok_written:
  assumes "written p v c db db'" and "revisions_ok db q"
    and "q = p \<Longrightarrow> (case register db p of None \<Rightarrow> True | Some (u, _) \<Rightarrow> unat v = Suc (unat u))"
  shows "revisions_ok db' q"
proof (cases "q = p")
  case False
  have "revisions_ok db' q = revisions_ok db q"
    by (rule revisions_ok_cong)
      (use False assms(1) register_written [OF assms(1)] in \<open>auto simp: written_def revisions_of_def\<close>)
  with assms(2) show ?thesis by simp
next
  case True
  obtain rv where rv: "rv_version rv = v" "rv_config rv = c" "revisions_of db' p = revisions_of db p @ [rv]"
    using assms(1) by (auto simp: written_def revisions_of_def)
  have reg: "register db' p = Some (v, c)" using register_written [OF assms(1)] by simp
  show ?thesis
  proof (cases "register db p")
    case None
    with assms(2) True rv reg show ?thesis by (auto simp: revisions_ok_def)
  next
    case (Some uc)
    obtain u d where uc: "uc = (u, d)" by fastforce
    with Some assms(2,3) True obtain first where
        f: "first \<le> unat u" "map (\<lambda>r. unat (rv_version r)) (revisions_of db p) = [first ..< Suc (unat u)]"
          "unat v = Suc (unat u)" by (auto simp: revisions_ok_def)
    then have "map (\<lambda>r. unat (rv_version r)) (revisions_of db' p) = [first ..< Suc (unat v)]"
      by (simp add: rv)
    with f(1,3) rv reg True show ?thesis by (auto simp: revisions_ok_def intro!: exI [of _ first])
  qed
qed

lemma store_step_revisions:
  assumes "store_step s w w'" "revisions_ok (wd_db w) p"
  shows "revisions_ok (wd_db w') p"
  using assms(1)
proof cases
  case (create config audit res)
  from create_effect [OF create] assms(2) revisions_ok_written [of "pc_id config" _ _ "wd_db w" "wd_db w'" p]
  show ?thesis by (auto simp: register_def)
next
  case (update config expected audit res)
  from update_effect [OF update] consider (same) "wd_db w' = wd_db w"
    | (new) old nxt stored where "db_configs (wd_db w) (pc_id config) = Some old" "cw_version old = expected"
        "checked_add_u64 expected 1 = Some nxt" "written (pc_id config) nxt stored (wd_db w) (wd_db w')" by blast
  then show ?thesis
  proof cases
    case new
    show ?thesis
      by (rule revisions_ok_written [OF new(4) assms(2)])
        (use new checked_add_u64_Some [OF new(3)] in \<open>simp add: register_def\<close>)
  qed (use assms(2) in simp)
qed (erule leaves_operations [THEN leaves_step, OF _ assms(2)])+

text \<open>C20: from an empty database, whatever the methods of the store are called with and however they fail, lost
  commits included, the revisions of every project are its versions without gaps up to the current one, and
  the newest revision is the current configuration.\<close>

theorem revisions_gapless:
  assumes "(store_step s)\<^sup>*\<^sup>* w w'" and "db_configs (wd_db w) = Map.empty" and "db_revisions (wd_db w) = []"
  shows "revisions_ok (wd_db w') p"
  using assms(1)
proof (induction rule: rtranclp_induct)
  case base
  show ?case using assms(2,3) by (simp add: revisions_ok_def register_def revisions_of_def)
qed (rule store_step_revisions)

theorem revisions_gapless_witness:
  "map rv_version (revisions_of (wd_db (snd (update_project_config sample_storage small_project 1 sample_audit created_world))) ''p1'') = [1, 2] \<and>
   revisions_ok (wd_db (snd (update_project_config sample_storage small_project 1 sample_audit created_world))) ''p1''"
proof
  let ?u = "update_project_config sample_storage small_project 1 sample_audit created_world"
  show "map rv_version (revisions_of (wd_db (snd ?u)) ''p1'') = [1, 2]"
    by (simp add: created_world_def create_project_config_def update_project_config_def update_config_stmt_def
        revisions_of_def checked_add_u64_def u64_max_def store_eval del: has_control.simps list.pred_inject)
  have a: "store_step sample_storage sample_world created_world"
    by (rule store_step.create [of _ small_project sample_audit]) (simp add: created_world_def prod_eq_iff)
  have b: "store_step sample_storage created_world (snd ?u)"
    by (rule store_step.update [of _ small_project 1 sample_audit]) (simp add: prod_eq_iff)
  have "(store_step sample_storage)\<^sup>*\<^sup>* created_world (snd ?u)" using b by blast
  with a have "(store_step sample_storage)\<^sup>*\<^sup>* sample_world (snd ?u)" by (rule converse_rtranclp_into_rtranclp)
  then show "revisions_ok (wd_db (snd ?u)) ''p1''"
    by (rule revisions_gapless) (simp_all add: sample_world_def empty_database_def)
qed

section \<open>Reading back\<close>

lemma written_then_load:
  assumes "crypto_ok lib" and "from_base64_keys lib active keys = Inr k" and "st_cipher s = keyring_obj lib k"
    and "config_storable c" and "project_config_validate c = Inr ()"
    and "codec_encode (st_cipher s) c r = (Inr stored, r')" and "written (pc_id c) v stored db (wd_db w)"
    and "st_fault s (wd_calls w) = None"
  shows "load_project_config s (pc_id c) w = (Inr (Some (json_read_back (st_jsonb s) c)), count_call w)"
proof -
  have dec: "codec_decode (st_cipher s) (wire_config (st_jsonb s) stored) = Inr (json_read_back (st_jsonb s) c)"
    using ring.config_round_trip [of "(lib, k)" "(lib, k)" c r stored r' "st_jsonb s"]
      keyring_reads_more [OF assms(1,2,2)] assms(3-6) by simp
  obtain row where "db_configs (wd_db w) (pc_id c) = Some row" "cw_config row = stored"
    using assms(7) by (auto simp: written_def)
  with dec assms(8) show ?thesis
    by (simp add: load_project_config_def db_bind_def sql_auto_def run_stmt_def select_config_stmt_def db_lift_def)
qed

lemma update_then_load:
  assumes "crypto_ok lib" and "from_base64_keys lib active keys = Inr k" and "st_cipher s = keyring_obj lib k"
    and "config_storable config" and "update_project_config s config expected audit w = (Inr x, w')"
    and "st_fault s (wd_calls w') = None"
  shows "load_project_config s (pc_id config) w' =
           (Inr (Some (json_read_back (st_jsonb s) (config\<lparr>pc_version := wr_version x\<rparr>))), count_call w')"
proof -
  from update_effect [OF assms(5)] obtain stored r r' nxt where
      u: "codec_encode (st_cipher s) (config\<lparr>pc_version := nxt\<rparr>) r = (Inr stored, r')"
        "project_config_validate (config\<lparr>pc_version := nxt\<rparr>) = Inr ()"
        "written (pc_id config) nxt stored (wd_db w) (wd_db w')" "wr_version x = nxt" by blast
  have storable: "config_storable (config\<lparr>pc_version := nxt\<rparr>)"
    using assms(4) by (simp add: config_storable_def)
  from written_then_load [OF assms(1-3) storable u(2,1) _ assms(6)] u(3,4) show ?thesis by simp
qed

lemma create_then_load:
  assumes "crypto_ok lib" and "from_base64_keys lib active keys = Inr k" and "st_cipher s = keyring_obj lib k"
    and "config_storable config" and "create_project_config s config audit w = (Inr x, w')"
    and "st_fault s (wd_calls w') = None"
  shows "load_project_config s (pc_id config) w' =
           (Inr (Some (json_read_back (st_jsonb s) (initial_config config))), count_call w')"
proof -
  from create_effect [OF assms(5)] obtain stored r r' where
      u: "codec_encode (st_cipher s) (initial_config config) r = (Inr stored, r')"
        "project_config_validate (initial_config config) = Inr ()"
        "written (pc_id config) (pc_version (initial_config config)) stored (wd_db w) (wd_db w')" by blast
  have storable: "config_storable (initial_config config)"
    using assms(4) by (simp add: config_storable_def initial_config_def)
  from written_then_load [OF assms(1-3) storable u(2,1) _ assms(6)] u(3) show ?thesis by simp
qed

end
