(* ===== verification/Command_Processor.thy ===== *)
theory Command_Processor
  imports Runtime_Pipeline Config_Store
begin

text \<open>
  The workers of a project runtime (\<^verbatim>\<open>runtime.rs\<close> of the daemon): the command processor, which renders queued
  requests and hands them to the broker, and the consumers of publish and delivery outcomes. The trait
  \<^verbatim>\<open>CommandPublishSink\<close> is the locale \<open>publish_sink\<close>, interpreted on the handle of the MQTT engine.
\<close>

section \<open>Texts of render errors\<close>

fun template_surface_display :: "template_surface \<Rightarrow> string" where
  "template_surface_display SurfaceTopic = ''topic''"
| "template_surface_display SurfacePayload = ''payload''"

fun command_render_error_display :: "command_render_error \<Rightarrow> string" where
  "command_render_error_display (EmptyPlaceholder t s) =
     ''command template '' @ quoted t @ '' has empty '' @ template_surface_display s @ '' placeholder''"
| "command_render_error_display (UnclosedPlaceholder t s) =
     ''command template '' @ quoted t @ '' has unclosed '' @ template_surface_display s @ '' placeholder''"
| "command_render_error_display (UnopenedPlaceholder t s) =
     ''command template '' @ quoted t @ '' has unopened '' @ template_surface_display s @ '' placeholder''"
| "command_render_error_display (MissingParameter t name) =
     ''command template '' @ quoted t @ '' is missing parameter '' @ quoted name"
| "command_render_error_display (NonScalarParameter t name) =
     ''command template '' @ quoted t @ '' parameter '' @ quoted name @ '' must be scalar''"
| "command_render_error_display (InvalidTopicSegment t name reason) =
     ''command template '' @ quoted t @ '' parameter '' @ quoted name @ '' is invalid topic segment: '' @ reason"
| "command_render_error_display (RenderInvalidTopic t reason) =
     ''command template '' @ quoted t @ '' rendered invalid MQTT topic: '' @ reason"
| "command_render_error_display (RenderInvalidPayload t reason) =
     ''command template '' @ quoted t @ '' payload render failed: '' @ reason"
| "command_render_error_display (RenderPayloadTooLarge t mx actual) =
     ''command template '' @ quoted t @ '' payload is too large: max '' @ show_nat mx @ '' bytes, got '' @
     show_nat actual @ '' bytes''"

section \<open>The command processor\<close>

datatype runtime_command_processor_error =
  ProjectMismatch project_id project_id
| CpTemplateNotFound command_template_id
| CpTemplateDisabled command_template_id
| CpRender command_render_error
| BrokerUnavailable broker_id
| PublishEnqueue broker_id mqtt_engine_error
| AuditRecord storage_error
| AuditUnavailable

fun processor_error_display :: "runtime_command_processor_error \<Rightarrow> string" where
  "processor_error_display (ProjectMismatch expected actual) =
     ''command request targets project '' @ quoted actual @ '', but runtime owns project '' @ quoted expected"
| "processor_error_display (CpTemplateNotFound t) = ''command template '' @ quoted t @ '' was not found''"
| "processor_error_display (CpTemplateDisabled t) = ''command template '' @ quoted t @ '' is disabled''"
| "processor_error_display (CpRender e) = ''command render failed: '' @ command_render_error_display e"
| "processor_error_display (BrokerUnavailable b) = ''broker '' @ quoted b @ '' is not running''"
| "processor_error_display (PublishEnqueue b e) =
     ''MQTT command enqueue failed for broker '' @ quoted b @ '': '' @ mqtt_engine_error_display e"
| "processor_error_display (AuditRecord e) = ''command audit record failed: '' @ storage_error_display e"
| "processor_error_display AuditUnavailable = ''command audit storage is unavailable''"

type_synonym 'q command_publish_sink = "rendered_command \<Rightarrow> 'q \<Rightarrow> (mqtt_engine_error + unit) \<times> 'q"

text \<open>\<^verbatim>\<open>MqttCommandPublishSink\<close>: the handle of the engine.\<close>

definition mqtt_sink_try_enqueue_rendered :: "(mqtt_command, 'q) try_send \<Rightarrow> 'q command_publish_sink" where
  "mqtt_sink_try_enqueue_rendered ts command ch =
     try_enqueue_tracked_command ts
       \<lparr>mx_project_id = rc_project_id command, mx_broker_id = rc_broker_id command,
        mx_command_template_id = rc_command_template_id command,
        mx_command_execution_id = rc_command_execution_id command,
        mx_correlation_id = rc_correlation_id command\<rparr>
       (rc_topic command) (map_qos (rc_qos command)) (rc_retain command) (rc_payload command) ch"

record 'q command_processor_broker =
  cb_broker_id :: broker_id
  cb_sink :: "'q command_publish_sink"

record ('r, 'q) command_processor =
  cp_project_id :: project_id
  cp_templates :: "command_template list"
  cp_brokers :: "'q command_processor_broker list"
  cp_max_payload_bytes :: nat
  cp_storage :: "'r storage option"

text \<open>What the processor shares with the other workers.\<close>

record ('r, 'q) processor_world =
  pw_stats :: runtime_stats
  pw_store :: "'r world"
  pw_broker :: 'q

definition build_command_processor ::
    "project_config \<Rightarrow> (broker_id \<times> 'q command_publish_sink) list \<Rightarrow> 'r storage option \<Rightarrow>
     ('r, 'q) command_processor" where
  "build_command_processor config engines storage =
     \<lparr>cp_project_id = pc_id config, cp_templates = pc_command_templates config,
      cp_brokers = map (\<lambda>(i, sink). \<lparr>cb_broker_id = i, cb_sink = sink\<rparr>) engines,
      cp_max_payload_bytes = default_command_max_payload_bytes, cp_storage = storage\<rparr>"

definition record_rule_command_execution ::
    "('r, 'q) command_processor \<Rightarrow> command_execution_request \<Rightarrow> rendered_command \<Rightarrow> 'r world \<Rightarrow>
     (runtime_command_processor_error + unit) \<times> 'r world" where
  "record_rule_command_execution cp req rendered w =
     (if cx_source req \<noteq> SourceRule then (Inr (), w)
      else
        (case cp_storage cp of
           None \<Rightarrow> (Inl AuditUnavailable, w)
         | Some s \<Rightarrow>
             (case record_command_execution s
                     \<lparr>nx_command_execution_id = cx_command_execution_id req, nx_project_id = cx_project_id req,
                      nx_command_template_id = cx_command_template_id req, nx_broker_id = rc_broker_id rendered,
                      nx_actor_id = cx_actor_id req, nx_status = CxQueued, nx_topic = rc_topic rendered,
                      nx_qos = rc_qos rendered, nx_retain = rc_retain rendered,
                      nx_payload_size_bytes = rc_payload_size_bytes rendered, nx_failure_reason = None,
                      nx_reason = cx_reason req\<rparr> w of
                (Inl e, w') \<Rightarrow> (Inl (AuditRecord e), w')
              | (Inr _, w') \<Rightarrow> (Inr (), w'))))"

definition process_command_request ::
    "serde_lib \<Rightarrow> ('r, 'q) command_processor \<Rightarrow> command_execution_request \<Rightarrow> ('r, 'q) processor_world \<Rightarrow>
     (runtime_command_processor_error + unit) \<times> ('r, 'q) processor_world" where
  "process_command_request lib cp req w =
     (if cx_project_id req \<noteq> cp_project_id cp
      then (Inl (ProjectMismatch (cp_project_id cp) (cx_project_id req)), w)
      else
        (case List.find (\<lambda>t. ct_id t = cx_command_template_id req) (cp_templates cp) of
           None \<Rightarrow> (Inl (CpTemplateNotFound (cx_command_template_id req)), w)
         | Some template \<Rightarrow>
             if \<not> ct_enabled template then (Inl (CpTemplateDisabled (ct_id template)), w)
             else
               (case render lib (cp_max_payload_bytes cp)
                       \<lparr>cc_project_id = cx_project_id req, cc_command_execution_id = cx_command_execution_id req,
                        cc_correlation_id = cx_correlation_id req\<rparr> template (cx_params req) of
                  Inl e \<Rightarrow> (Inl (CpRender e), w)
                | Inr rendered \<Rightarrow>
                    (case List.find (\<lambda>b. cb_broker_id b = rc_broker_id rendered) (cp_brokers cp) of
                       None \<Rightarrow> (Inl (BrokerUnavailable (rc_broker_id rendered)), w)
                     | Some broker \<Rightarrow>
                         (case record_rule_command_execution cp req rendered (pw_store w) of
                            (Inl e, st) \<Rightarrow> (Inl e, w\<lparr>pw_store := st\<rparr>)
                          | (Inr _, st) \<Rightarrow>
                              (case cb_sink broker rendered (pw_broker w) of
                                 (Inl e, b) \<Rightarrow>
                                   (Inl (PublishEnqueue (rc_broker_id rendered) e), w\<lparr>pw_store := st, pw_broker := b\<rparr>)
                               | (Inr _, b) \<Rightarrow> (Inr (), w\<lparr>pw_store := st, pw_broker := b\<rparr>)))))))"

fun record_command_processor_error :: "runtime_command_processor_error \<Rightarrow> runtime_stats \<Rightarrow> runtime_stats" where
  "record_command_processor_error (CpRender _) s = record_command_render_failed s"
| "record_command_processor_error (PublishEnqueue _ _) s = record_command_publish_enqueue_failed s"
| "record_command_processor_error (AuditRecord _) s = record_command_status_update_failed s"
| "record_command_processor_error _ s = s"

definition mark_command_failed_after_processor_error ::
    "('r, 'q) command_processor \<Rightarrow> command_execution_request \<Rightarrow> runtime_command_processor_error \<Rightarrow>
     ('r, 'q) processor_world \<Rightarrow> ('r, 'q) processor_world" where
  "mark_command_failed_after_processor_error cp req err w =
     (case cp_storage cp of
        None \<Rightarrow> w
      | Some s \<Rightarrow>
          (case mark_command_execution_failed s (cx_command_execution_id req) (processor_error_display err) (pw_store w) of
             (Inl _, st) \<Rightarrow> w\<lparr>pw_store := st, pw_stats := record_command_status_update_failed (pw_stats w)\<rparr>
           | (Inr _, st) \<Rightarrow> w\<lparr>pw_store := st\<rparr>))"

definition process_and_record_command_request ::
    "serde_lib \<Rightarrow> ('r, 'q) command_processor \<Rightarrow> command_execution_request \<Rightarrow> ('r, 'q) processor_world \<Rightarrow>
     ('r, 'q) processor_world" where
  "process_and_record_command_request lib cp req w =
     (case process_command_request lib cp req w of
        (Inr _, w1) \<Rightarrow> w1
      | (Inl e, w1) \<Rightarrow>
          mark_command_failed_after_processor_error cp req e
            (w1\<lparr>pw_stats := record_command_processor_error e (pw_stats w1)\<rparr>))"

section \<open>The loops of the workers\<close>

text \<open>
  The three workers have one loop: a \<^verbatim>\<open>select!\<close> between the shutdown signal and the channel, and after it the
  channel is drained. \<open>selected\<close> is what the select returned: a change of the signal (with whether the loop is
  to end: the sender is gone or the value is true), an item, or the end of the channel; \<open>rest\<close> is what the
  channel still holds when it is closed.
\<close>

datatype 'a selected = ShutdownChanged bool | Received 'a | ChannelClosed

fun select_loop :: "('a \<Rightarrow> 's \<Rightarrow> 's) \<Rightarrow> 'a selected list \<Rightarrow> 's \<Rightarrow> bool \<times> 's" where
  "select_loop handle [] s = (False, s)"
| "select_loop handle (ShutdownChanged stop # sel) s = (if stop then (True, s) else select_loop handle sel s)"
| "select_loop handle (Received x # sel) s = select_loop handle sel (handle x s)"
| "select_loop handle (ChannelClosed # sel) s = (True, s)"

definition run_worker :: "('a \<Rightarrow> 's \<Rightarrow> 's) \<Rightarrow> 'a selected list \<Rightarrow> 'a list \<Rightarrow> 's \<Rightarrow> 's" where
  "run_worker handle sel rest s =
     (case select_loop handle sel s of (stopped, s') \<Rightarrow> if stopped then fold handle rest s' else s')"

definition run_command_processor ::
    "serde_lib \<Rightarrow> ('r, 'q) command_processor \<Rightarrow> command_execution_request selected list \<Rightarrow>
     command_execution_request list \<Rightarrow> ('r, 'q) processor_world \<Rightarrow> ('r, 'q) processor_world" where
  "run_command_processor lib cp = run_worker (process_and_record_command_request lib cp)"

definition record_command_publish_outcome ::
    "'r storage option \<Rightarrow> mqtt_command_publish_outcome \<Rightarrow> ('r, 'q) processor_world \<Rightarrow> ('r, 'q) processor_world" where
  "record_command_publish_outcome storage outcome w =
     (case mp_status outcome of
        PublishPublished \<Rightarrow>
          let w1 = w\<lparr>pw_stats := record_command_published (pw_stats w)\<rparr> in
          (case storage of
             None \<Rightarrow> w1
           | Some s \<Rightarrow>
               (case mark_command_execution_published s (mx_command_execution_id (mp_context outcome)) (pw_store w1) of
                  (Inl _, st) \<Rightarrow> w1\<lparr>pw_store := st, pw_stats := record_command_status_update_failed (pw_stats w1)\<rparr>
                | (Inr _, st) \<Rightarrow> w1\<lparr>pw_store := st\<rparr>))
      | PublishFailed \<Rightarrow>
          let w1 = w\<lparr>pw_stats := record_command_publish_failed (pw_stats w)\<rparr>;
              reason = (case mp_failure_reason outcome of Some r \<Rightarrow> r | None \<Rightarrow> ''MQTT command publish failed'') in
          (case storage of
             None \<Rightarrow> w1
           | Some s \<Rightarrow>
               (case mark_command_execution_failed s (mx_command_execution_id (mp_context outcome)) reason (pw_store w1) of
                  (Inl _, st) \<Rightarrow> w1\<lparr>pw_store := st, pw_stats := record_command_status_update_failed (pw_stats w1)\<rparr>
                | (Inr _, st) \<Rightarrow> w1\<lparr>pw_store := st\<rparr>)))"

definition consume_command_publish_outcomes ::
    "'r storage option \<Rightarrow> mqtt_command_publish_outcome selected list \<Rightarrow> mqtt_command_publish_outcome list \<Rightarrow>
     ('r, 'q) processor_world \<Rightarrow> ('r, 'q) processor_world" where
  "consume_command_publish_outcomes storage = run_worker (record_command_publish_outcome storage)"

section \<open>Loops handle everything they receive\<close>

fun received :: "'a selected list \<Rightarrow> 'a list" where
  "received [] = []"
| "received (Received x # sel) = x # received sel"
| "received (_ # sel) = received sel"

definition ends :: "'a selected \<Rightarrow> bool" where
  "ends x \<longleftrightarrow> x = ShutdownChanged True \<or> x = ChannelClosed"

lemma select_loop_running:
  "\<not> list_ex ends sel \<Longrightarrow> select_loop handle sel s = (False, fold handle (received sel) s)"
  by (induction handle sel s rule: select_loop.induct) (auto simp: ends_def)

lemma select_loop_append:
  "\<not> list_ex ends sel \<Longrightarrow> select_loop handle (sel @ sel') s = select_loop handle sel' (fold handle (received sel) s)"
  by (induction handle sel s rule: select_loop.induct) (auto simp: ends_def)

text \<open>Everything received before the signal and everything left in the channel is handled once, in order.\<close>

lemma run_worker_handles:
  "\<not> list_ex ends sel \<Longrightarrow> ends x \<Longrightarrow> run_worker handle (sel @ [x]) rest s = fold handle (received sel @ rest) s"
  by (auto simp: run_worker_def select_loop_append ends_def)

section \<open>The contract of a publish sink\<close>

definition command_of :: "rendered_command \<Rightarrow> mqtt_command" where
  "command_of c =
     \<lparr>mk_topic = rc_topic c, mk_qos = rc_qos c, mk_retain = rc_retain c, mk_payload = rc_payload c,
      mk_context = Some \<lparr>mx_project_id = rc_project_id c, mx_broker_id = rc_broker_id c,
        mx_command_template_id = rc_command_template_id c, mx_command_execution_id = rc_command_execution_id c,
        mx_correlation_id = rc_correlation_id c\<rparr>\<rparr>"

lemma insert_command_stmt_effect:
  "insert_command_stmt row db = Inr (t, db') \<Longrightarrow> db_commands db' = db_commands db @ [row]"
  by (auto simp: insert_command_stmt_def split: if_splits)

lemma insert_command_tx_effect:
  assumes "transaction s (\<lambda>now.
       db_bind (sql s (insert_command_stmt (mk now))) (\<lambda>occurred_at.
       db_bind (insert_audit_event_tx s now ev) (\<lambda>audit_event_id.
       db_lift (Inr (f occurred_at audit_event_id))))) w = (Inr r, w')"
  shows "db_commands (wd_db w') = db_commands (wd_db w) @ [mk (st_now s (wd_calls w))]"
proof -
  let ?now = "st_now s (wd_calls w)"
  from transaction_effect [OF assms] obtain t db w2 i where
      ins: "insert_command_stmt (mk ?now) (wd_db w) = Inr (t, db)" and
      aud: "insert_audit_event_tx s ?now ev ((count_call (count_call w))\<lparr>wd_db := db\<rparr>) = (Inr i, w2)" and
      w': "wd_db w' = wd_db w2"
    by auto
  from insert_audit_event_tx_effect [OF aud] have "db_commands (wd_db w2) = db_commands db" by auto
  with insert_command_stmt_effect [OF ins] w' show ?thesis by simp
qed

lemma record_command_execution_effect:
  assumes "record_command_execution s x w = (Inr r, w')"
  shows "\<exists>row. db_commands (wd_db w') = db_commands (wd_db w) @ [row] \<and>
           mw_command_execution_id row = nx_command_execution_id x \<and> mw_project_id row = nx_project_id x \<and>
           mw_command_template_id row = nx_command_template_id x \<and>
           mw_status row = command_execution_status_as_str (nx_status x) \<and> mw_topic row = nx_topic x"
proof -
  from assms obtain n where "u64_to_i64 ''payload_size_bytes'' (nx_payload_size_bytes x) = Inr n"
    by (auto simp: record_command_execution_def)
  with assms show ?thesis
    by (auto simp: record_command_execution_def dest!: insert_command_tx_effect)
qed

lemma find_in_set: "List.find P xs = Some x \<Longrightarrow> x \<in> set xs"
  by (auto simp: find_Some_iff)

text \<open>Inversion of one request.\<close>

lemma process_command_request_done:
  assumes "process_command_request lib cp req w = (Inr u, w')"
  shows "\<exists>template rendered broker.
     cx_project_id req = cp_project_id cp \<and>
     List.find (\<lambda>t. ct_id t = cx_command_template_id req) (cp_templates cp) = Some template \<and> ct_enabled template \<and>
     render lib (cp_max_payload_bytes cp)
       \<lparr>cc_project_id = cx_project_id req, cc_command_execution_id = cx_command_execution_id req,
        cc_correlation_id = cx_correlation_id req\<rparr> template (cx_params req) = Inr rendered \<and>
     broker \<in> set (cp_brokers cp) \<and>
     record_rule_command_execution cp req rendered (pw_store w) = (Inr (), pw_store w') \<and>
     cb_sink broker rendered (pw_broker w) = (Inr (), pw_broker w')"
  using assms
  by (auto simp: process_command_request_def split: if_splits option.splits sum.splits prod.splits
      dest: find_in_set)

lemma process_command_request_failed:
  assumes "process_command_request lib cp req w = (Inl e, w')"
  shows "pw_broker w' = pw_broker w \<or>
         (\<exists>rendered broker e'. broker \<in> set (cp_brokers cp) \<and> cb_sink broker rendered (pw_broker w) = (Inl e', pw_broker w'))"
  using assms
  by (auto simp: process_command_request_def split: if_splits option.splits sum.splits prod.splits
      dest: find_in_set)

text \<open>
  A sink hands over the rendered command as it is, or leaves its queue alone. The sink of the program sends
  through a handle that behaves as a bounded channel.
\<close>

locale publish_sink =
  fixes sink :: "'h \<Rightarrow> 'q command_publish_sink"
    and queued :: "'h \<Rightarrow> 'q \<Rightarrow> mqtt_command list"
    and ok :: "'h \<Rightarrow> bool"
  assumes enqueued: "ok h \<Longrightarrow> sink h c ch = (Inr u, ch') \<Longrightarrow> queued h ch' = queued h ch @ [command_of c]"
    and refused: "ok h \<Longrightarrow> sink h c ch = (Inl e, ch') \<Longrightarrow> queued h ch' = queued h ch"
begin

text \<open>A processor all of whose brokers publish through the sink \<open>h\<close>.\<close>

definition publishes_through :: "'h \<Rightarrow> ('r, 'q) command_processor \<Rightarrow> bool" where
  "publishes_through h cp \<longleftrightarrow> (\<forall>b \<in> set (cp_brokers cp). cb_sink b = sink h)"

lemma process_failed:
  assumes "ok h" and "publishes_through h cp" and "process_command_request lib cp req w = (Inl e, w')"
  shows "queued h (pw_broker w') = queued h (pw_broker w)"
  using process_command_request_failed [OF assms(3)] assms(1,2) refused
  by (auto simp: publishes_through_def)

lemma process_done:
  assumes "ok h" and "publishes_through h cp" and "process_command_request lib cp req w = (Inr u, w')"
  shows "\<exists>template rendered.
     render lib (cp_max_payload_bytes cp)
       \<lparr>cc_project_id = cx_project_id req, cc_command_execution_id = cx_command_execution_id req,
        cc_correlation_id = cx_correlation_id req\<rparr> template (cx_params req) = Inr rendered \<and>
     record_rule_command_execution cp req rendered (pw_store w) = (Inr (), pw_store w') \<and>
     queued h (pw_broker w') = queued h (pw_broker w) @ [command_of rendered]"
  using process_command_request_done [OF assms(3)] assms(1,2) enqueued
  by (fastforce simp: publishes_through_def)

end

lemma mqtt_sink_sends:
  "mqtt_sink_try_enqueue_rendered ts c ch = bus_try_enqueue_command ts (command_of c) ch"
  by (simp add: mqtt_sink_try_enqueue_rendered_def try_enqueue_tracked_command_def command_of_def
      mqtt_command_publish_with_context_def)

interpretation mqtt_sink: publish_sink
  "\<lambda>(ts, view). mqtt_sink_try_enqueue_rendered ts" "\<lambda>(ts, view) ch. vq_items (view ch)" "\<lambda>(ts, view). mpsc_law ts view"
proof (unfold_locales, goal_cases)
  case (1 h c ch u ch')
  then show ?case
    using mpsc_law_items [of "fst h" "snd h" "command_of c" ch]
    by (cases h) (auto simp: mqtt_sink_sends bus_try_enqueue_command_def split: prod.splits sum.splits try_send_error.splits)
next
  case (2 h c ch e ch')
  then show ?case
    using mpsc_law_items [of "fst h" "snd h" "command_of c" ch]
    by (cases h) (auto simp: mqtt_sink_sends bus_try_enqueue_command_def split: prod.splits sum.splits try_send_error.splits)
qed

section \<open>Properties\<close>

lemma processed_rule_command:
  assumes "mpsc_law ts view"
    and "\<forall>b \<in> set (cp_brokers cp). cb_sink b = mqtt_sink_try_enqueue_rendered ts"
    and "cx_source req = SourceRule" and "process_command_request lib cp req w = (Inr u, w')"
  shows "\<exists>command row ctx. vq_items (view (pw_broker w')) = vq_items (view (pw_broker w)) @ [command] \<and>
        db_commands (wd_db (pw_store w')) = db_commands (wd_db (pw_store w)) @ [row] \<and>
        mk_context command = Some ctx \<and> mx_command_execution_id ctx = cx_command_execution_id req \<and>
        mw_command_execution_id row = cx_command_execution_id req \<and> mw_project_id row = cp_project_id cp \<and>
        mw_status row = ''queued'' \<and> mw_topic row = mk_topic command"
proof -
  have pub: "mqtt_sink.publishes_through (ts, view) cp" using assms(2) by (simp add: mqtt_sink.publishes_through_def)
  obtain template rendered where
      ren: "render lib (cp_max_payload_bytes cp)
         \<lparr>cc_project_id = cx_project_id req, cc_command_execution_id = cx_command_execution_id req,
          cc_correlation_id = cx_correlation_id req\<rparr> template (cx_params req) = Inr rendered" and
      rec: "record_rule_command_execution cp req rendered (pw_store w) = (Inr (), pw_store w')" and
      q: "vq_items (view (pw_broker w')) = vq_items (view (pw_broker w)) @ [command_of rendered]"
    using mqtt_sink.process_done [OF _ pub assms(4)] assms(1) by fastforce
  have ids: "rc_command_execution_id rendered = cx_command_execution_id req"
    using ren by (auto simp: render_def rendered_command_from_parts_def)
  have "cx_project_id req = cp_project_id cp"
    using assms(4) by (auto simp: process_command_request_def split: if_splits)
  moreover obtain row where "db_commands (wd_db (pw_store w')) = db_commands (wd_db (pw_store w)) @ [row]"
      "mw_command_execution_id row = cx_command_execution_id req" "mw_project_id row = cx_project_id req"
      "mw_status row = ''queued''" "mw_topic row = rc_topic rendered"
    using rec assms(3)
    by (auto simp: record_rule_command_execution_def split: option.splits prod.splits sum.splits
        dest!: record_command_execution_effect)
  ultimately show ?thesis using q ids by (auto simp: command_of_def)
qed

text \<open>C15: a command of a rule is handed to the broker only with its execution on record: a request that was
  processed has a new row with the same ids, the status queued and the topic that was handed over, and
  when processing fails, whatever the reason, nothing is handed to the broker.\<close>

theorem rule_commands_are_audited:
  assumes "mpsc_law ts view"
    and "\<forall>b \<in> set (cp_brokers cp). cb_sink b = mqtt_sink_try_enqueue_rendered ts"
    and "cx_source req = SourceRule" and "process_command_request lib cp req w = (res, w')"
  shows "case res of
      Inl e \<Rightarrow> vq_items (view (pw_broker w')) = vq_items (view (pw_broker w))
    | Inr _ \<Rightarrow> \<exists>command row ctx. vq_items (view (pw_broker w')) = vq_items (view (pw_broker w)) @ [command] \<and>
        db_commands (wd_db (pw_store w')) = db_commands (wd_db (pw_store w)) @ [row] \<and>
        mk_context command = Some ctx \<and> mx_command_execution_id ctx = cx_command_execution_id req \<and>
        mw_command_execution_id row = cx_command_execution_id req \<and> mw_project_id row = cp_project_id cp \<and>
        mw_status row = ''queued'' \<and> mw_topic row = mk_topic command"
proof (cases res)
  case (Inl e)
  have "mqtt_sink.publishes_through (ts, view) cp" using assms(2) by (simp add: mqtt_sink.publishes_through_def)
  from mqtt_sink.process_failed [OF _ this assms(4) [unfolded Inl]] assms(1) Inl show ?thesis by simp
next
  case (Inr u)
  from processed_rule_command [OF assms(1-3) assms(4) [unfolded Inr]] Inr show ?thesis by simp
qed

definition sample_processor :: "nat storage option \<Rightarrow> (nat, mqtt_command vec_queue) command_processor" where
  "sample_processor storage =
     build_command_processor running_project [(''b1'', mqtt_sink_try_enqueue_rendered vq_try_send)] storage"

definition sample_processor_world :: "(nat, mqtt_command vec_queue) processor_world" where
  "sample_processor_world =
     \<lparr>pw_stats = runtime_stats_default, pw_store = created_world,
      pw_broker = \<lparr>vq_capacity = 1, vq_items = [], vq_closed = False\<rparr>\<rparr>"

definition rendered_sample :: rendered_command where
  "rendered_sample =
     rendered_command_from_parts
       \<lparr>rp_project_id = ''p1'', rp_broker_id = ''b1'', rp_command_template_id = ''t1'',
        rp_command_execution_id = ''command_exec_1'', rp_topic = ''devices/d7/cmd'', rp_payload = ''on'',
        rp_qos = AtLeastOnce, rp_retain = False, rp_correlation_id = ''evt_0''\<rparr>"

lemma sample_rendered:
  "render sample_lib 65536
     \<lparr>cc_project_id = ''p1'', cc_command_execution_id = ''command_exec_1'', cc_correlation_id = ''evt_0''\<rparr>
     sample_template sample_params = Inr rendered_sample"
proof -
  have topic: "topic_name_new ''devices/d7/cmd'' = Inr ''devices/d7/cmd''" by code_simp
  have payload: "render_payload_value sample_lib sample_template sample_params (ct_payload_template sample_template) =
      Inr (JString ''on'')"
    by (simp add: sample_template_def render_payload_string_plain)
  have vec: "to_vec sample_lib (JString ''on'') = Inr ''on''" by (simp add: sample_lib_def)
  show ?thesis
    by (simp add: render_def render_draft_def sample_render_topic topic payload vec rendered_sample_def
        del: res_bind_eq_Inr) (simp add: sample_template_def)
qed

lemma sample_recorded:
  "\<exists>r w'. record_command_execution sample_storage
     \<lparr>nx_command_execution_id = ''command_exec_1'', nx_project_id = ''p1'', nx_command_template_id = ''t1'',
      nx_broker_id = rc_broker_id rendered_sample, nx_actor_id = None, nx_status = CxQueued,
      nx_topic = rc_topic rendered_sample, nx_qos = rc_qos rendered_sample, nx_retain = rc_retain rendered_sample,
      nx_payload_size_bytes = rc_payload_size_bytes rendered_sample, nx_failure_reason = None,
      nx_reason = Some ''matched event evt_0''\<rparr> created_world = (Inr r, w')"
proof -
  have texts: "\<not> is_blank ''devices/d7/cmd''" "\<not> is_blank ''matched event evt_0''"
      "\<not> is_blank ''command.execute''" "\<not> is_blank ''command_template''" "\<not> is_blank ''t1''"
      "\<not> has_control ''devices/d7/cmd''" "\<not> has_control ''matched event evt_0''"
      "list_all is_key_id_byte ''command.execute''" "list_all is_key_id_byte ''command_template''"
    by code_simp+
  show ?thesis
    by (simp add: created_world_def create_project_config_def record_command_execution_def read_instant_def store_eval
        texts rendered_sample_def rendered_command_from_parts_def validate_command_execution_def u64_to_i64_def
        insert_command_stmt_def max_reason_bytes_def saturating_usize_to_u64_def u64_max_def
        del: has_control.simps list.pred_inject)
qed

lemma sample_processed:
  "process_command_request sample_lib (sample_processor None) running_request sample_processor_world =
     (Inl AuditUnavailable, sample_processor_world)"
  "\<exists>w'. process_command_request sample_lib (sample_processor (Some sample_storage)) running_request
           sample_processor_world = (Inr (), w')"
proof -
  have cp: "cp_project_id (sample_processor st) = ''p1''" "cp_templates (sample_processor st) = [sample_template]"
      "cp_max_payload_bytes (sample_processor st) = 65536" "cp_storage (sample_processor st) = st"
      "cp_brokers (sample_processor st) = [\<lparr>cb_broker_id = ''b1'', cb_sink = mqtt_sink_try_enqueue_rendered vq_try_send\<rparr>]" for st
    by (simp_all add: sample_processor_def build_command_processor_def running_project_def
        default_command_max_payload_bytes_def)
  have t: "ct_id sample_template = ''t1''" "ct_enabled sample_template" by (simp_all add: sample_template_def)
  have r: "rc_broker_id rendered_sample = ''b1''" by (simp add: rendered_sample_def rendered_command_from_parts_def)
  show "process_command_request sample_lib (sample_processor None) running_request sample_processor_world =
     (Inl AuditUnavailable, sample_processor_world)"
    by (simp add: process_command_request_def cp t r running_request_def sample_rendered record_rule_command_execution_def)
  obtain w1 where rec: "record_rule_command_execution (sample_processor (Some sample_storage)) running_request rendered_sample
      (pw_store sample_processor_world) = (Inr (), w1)"
    using sample_recorded by (auto simp: cp sample_processor_world_def record_rule_command_execution_def running_request_def)
  show "\<exists>w'. process_command_request sample_lib (sample_processor (Some sample_storage)) running_request
           sample_processor_world = (Inr (), w')"
    using rec
    by (simp add: process_command_request_def cp t r running_request_def sample_rendered sample_processor_world_def
        mqtt_sink_sends bus_try_enqueue_command_def vq_try_send_def)
qed

theorem rule_commands_are_audited_witness:
  "\<exists>w' command row. process_command_request sample_lib (sample_processor (Some sample_storage)) running_request
       sample_processor_world = (Inr (), w') \<and>
     vq_items (pw_broker w') = [command] \<and> row \<in> set (db_commands (wd_db (pw_store w'))) \<and>
     mw_command_execution_id row = ''command_exec_1'' \<and> mw_topic row = mk_topic command"
proof -
  obtain w' where run: "process_command_request sample_lib (sample_processor (Some sample_storage)) running_request
      sample_processor_world = (Inr (), w')" using sample_processed(2) by blast
  have "cx_source running_request = SourceRule" by (simp add: running_request_def)
  from rule_commands_are_audited [OF vec_queue_mpsc _ this run] show ?thesis
    using run by (auto simp: sample_processor_def build_command_processor_def sample_processor_world_def running_request_def)
qed

text \<open>An error that only what the request carries or the outside world can cause.\<close>

fun reference_error :: "runtime_command_processor_error \<Rightarrow> bool" where
  "reference_error (ProjectMismatch _ _) = True"
| "reference_error (CpTemplateNotFound _) = True"
| "reference_error (CpTemplateDisabled _) = True"
| "reference_error (BrokerUnavailable _) = True"
| "reference_error _ = False"

lemma served_no_reference_error:
  assumes "runnable p" and "served_by p req" and "cx_source req = SourceRule" and "enabled_brokers p = [b]"
    and "process_command_request serde (build_command_processor p [(bc_id b, sink)] storage) req w = (Inl e, w')"
  shows "\<not> reference_error e"
proof -
  obtain t where t: "t \<in> set (pc_command_templates p)" "ct_id t = cx_command_template_id req" "ct_enabled t"
    and pid: "cx_project_id req = pc_id p"
    using assms(2,3) by (auto simp: served_by_def)
  have d: "distinct (map ct_id (pc_command_templates p))" using assms(1) by (simp add: runnable_def ids_unique_def)
  have find: "List.find (\<lambda>t. ct_id t = cx_command_template_id req) (pc_command_templates p) = Some t"
  proof -
    have "case List.find (\<lambda>t. ct_id t = cx_command_template_id req) (pc_command_templates p) of
        None \<Rightarrow> False | Some t' \<Rightarrow> t' = t"
      using find_by_id [OF d, where P = "\<lambda>t'. t' = t" and i = "cx_command_template_id req"] t by blast
    then show ?thesis by (simp split: option.splits)
  qed
  have "\<exists>b' \<in> set (enabled_brokers p). bc_id b' = ct_broker_id t"
    using assms(1) t(1,3) by (auto simp: runnable_def enabled_brokers_def)
  with assms(4) have b: "ct_broker_id t = bc_id b" by simp
  have "rc_broker_id r = ct_broker_id t" if "render serde n ctx t ps = Inr r" for n ctx ps r
    using that by (auto simp: render_def rendered_command_from_parts_def)
  with assms(5) find b t(3) pid show ?thesis
    by (auto simp: process_command_request_def build_command_processor_def record_rule_command_execution_def
        split: if_splits option.splits sum.splits prod.splits)
qed

text \<open>C35: in a runtime started from a validated configuration, a command a rule asked for never fails for a
  reference: whatever messages and other commands come in between, when the processor takes a rule's
  request from the queue, its project, its template and the template's broker are there and enabled.\<close>

theorem rule_commands_resolve:
  assumes "validate_runtime_config p = Inr ()" and "rule_engine_with_limits (pc_rules p) limits = Inr engine"
    and "build_pending_broker_runtimes lib p settings engine = Inr [pb]" and "mpsc_law (rb_try_send lib) view"
    and "(pipeline_step lib view (pb_router pb))\<^sup>*\<^sup>* w w'" and "queued_commands view w = []"
    and "req \<in> set (queued_commands view w')" and "cx_source req = SourceRule"
    and "process_command_request serde
           (build_command_processor p [(pb_broker_id pb, sink)] storage) req pw = (Inl e, pw')"
  shows "\<not> reference_error e"
proof -
  obtain b pb' where b: "enabled_brokers p = [b]" "b \<in> set (pc_brokers p)" "bc_enabled b"
      "build_pending_broker_runtimes lib p settings engine = Inr [pb']"
      "build_pending_broker lib p settings engine b = Inr pb'"
    using validated_pending [OF assms(1)] by blast
  have pb: "build_pending_broker lib p settings engine b = Inr pb" using b(4,5) assms(3) by simp
  have run: "project_config_validate p = Inr ()" "runnable p"
    using assms(1) by (simp_all add: validate_runtime_config_iff)
  from pipeline_steps_serve [OF assms(5,6,4) run assms(2) b(2,3) pb] assms(7)
  have "served_by p req" by (simp add: list_all_iff)
  moreover have "pb_broker_id pb = bc_id b" using build_pending_broker_ok [OF run b(2,3), of lib settings engine] pb by auto
  ultimately show ?thesis
    using served_no_reference_error [OF run(2) _ assms(8) b(1)] assms(9) by simp
qed

theorem rule_commands_resolve_witness:
  "\<exists>pb w'. build_pending_broker_runtimes sample_runtime_lib running_project running_settings running_rules = Inr [pb] \<and>
     w' = snd (router_dispatch (pb_router pb) (sample_message ''devices/d7/up'' ''o'') sample_runtime_world) \<and>
     vq_items (rw_commands w') = [running_request] \<and>
     process_command_request sample_lib (build_command_processor running_project
       [(pb_broker_id pb, mqtt_sink_try_enqueue_rendered vq_try_send)] None) running_request sample_processor_world =
       (Inl AuditUnavailable, sample_processor_world) \<and> \<not> reference_error AuditUnavailable"
proof -
  let ?lib = "sample_runtime_lib" and ?m = "sample_message ''devices/d7/up'' ''o''"
  have engine: "rule_engine_with_limits (pc_rules running_project) sample_rule_limits = Inr running_rules"
  proof -
    have "list_all (\<lambda>r. rd_enabled r \<and> validate_rule sample_rule_limits r = Inr ()) running_rules" by code_simp
    then show ?thesis
      by (simp add: rule_engine_with_limits_def compile_rules_iff running_project_def list_all_iff filter_id_conv)
  qed
  obtain b pb where b: "enabled_brokers running_project = [b]" "b \<in> set (pc_brokers running_project)" "bc_enabled b"
      "build_pending_broker_runtimes ?lib running_project running_settings running_rules = Inr [pb]"
      "build_pending_broker ?lib running_project running_settings running_rules b = Inr pb"
    using validated_pending [OF running_valid] by blast
  have run: "project_config_validate running_project = Inr ()" "runnable running_project"
    using running_valid by (simp_all add: validate_runtime_config_iff)
  have id: "bc_id b = ''b1''" using b(1) by (auto simp: enabled_brokers_def running_project_def)
  have routes: "enabled_routes_for_broker running_project ''b1'' = running_route_list"
    by (simp add: enabled_routes_for_broker_def running_project_def running_route_list_def sample_route_def)
  have matcher: "config_route_matcher_new ''p1'' running_route_list = Inr (pl_matcher running_pipeline)"
    using running_routes
    by (auto simp: config_route_matcher_new_iff running_pipeline_def list_all_iff)
      (simp_all add: running_route_list_def sample_route_def)
  have pid: "pc_id running_project = ''p1''" "pc_schema_mappings running_project = []"
    by (simp_all add: running_project_def)
  have pl: "\<lparr>pl_matcher = pl_matcher running_pipeline, pl_normalizer = rs_normalizer_limits running_settings,
      pl_schema_mappings = pc_schema_mappings running_project, pl_rule_engine = running_rules,
      pl_dispatch_limits = rs_dispatch_limits running_settings\<rparr> = running_pipeline"
    by (simp add: running_pipeline_def running_settings_def pid)
  have hit: "match_message (pl_matcher running_pipeline) ?m \<noteq> None"
    using running_normalized(1) by (auto simp: normalize_routed_message_def split: option.splits)
  obtain pb' mt where ok: "build_pending_broker ?lib running_project running_settings running_rules b = Inr pb'"
      "pb_broker_id pb' = bc_id b"
      "config_route_matcher_new (pc_id running_project) (enabled_routes_for_broker running_project (bc_id b)) = Inr mt"
      "\<And>m w. router_dispatch (pb_router pb') m w =
         (if match_message mt m = None then (Inr False, w)
          else as_handled (handle_pipeline_message ?lib
                 \<lparr>pl_matcher = mt, pl_normalizer = rs_normalizer_limits running_settings,
                  pl_schema_mappings = pc_schema_mappings running_project, pl_rule_engine = running_rules,
                  pl_dispatch_limits = rs_dispatch_limits running_settings\<rparr> m w))"
    using build_pending_broker_ok [OF run b(2,3), of ?lib running_settings running_rules] by blast
  have same: "pb' = pb" "mt = pl_matcher running_pipeline"
    using ok(1,3) b(5) matcher by (simp_all add: id routes pid(1))
  have pb: "pb_broker_id pb = ''b1''" using ok(2) same(1) id by simp
  have disp: "router_dispatch (pb_router pb) ?m sample_runtime_world =
      as_handled (handle_pipeline_message ?lib running_pipeline ?m sample_runtime_world)"
    using ok(4) [unfolded same pl] hit by auto
  let ?w = "snd (router_dispatch (pb_router pb) ?m sample_runtime_world)"
  have q: "vq_items (rw_commands ?w) = [running_request]" by (simp add: disp running_handled)
  have law: "mpsc_law (rb_try_send ?lib) id" by (simp add: sample_runtime_lib_def vec_queue_mpsc)
  have step: "(pipeline_step ?lib id (pb_router pb))\<^sup>*\<^sup>* sample_runtime_world ?w"
    by (rule r_into_rtranclp) (rule pipeline_step.deliver)
  have proc: "process_command_request sample_lib (build_command_processor running_project
      [(pb_broker_id pb, mqtt_sink_try_enqueue_rendered vq_try_send)] None) running_request sample_processor_world =
      (Inl AuditUnavailable, sample_processor_world)"
    using sample_processed(1) by (simp add: sample_processor_def pb)
  have "\<not> reference_error AuditUnavailable"
    by (rule rule_commands_resolve [OF running_valid engine b(4) law step _ _ _ proc])
      (simp_all add: queued_commands_def sample_runtime_world_def q [unfolded sample_runtime_world_def] running_request_def)
  with b(4) q proc show ?thesis by blast
qed

end
