(* ===== verification/Persistence_Writer.thy ===== *)
theory Persistence_Writer
  imports Command_Processor
begin

text \<open>
  The persistence writer of the daemon (\<^verbatim>\<open>persistence_writer.rs\<close>) and the consumer of delivery outcomes that feeds it
  (\<^verbatim>\<open>runtime.rs\<close>): a bounded queue of outcomes and a pool of workers that write them to the store, each write
  under a time limit, until the shutdown joins the workers or aborts the one that misses the deadline.
\<close>

section \<open>Settings and counters\<close>

record persistence_writer_settings =
  ps_queue_capacity :: nat
  ps_worker_count :: nat
  ps_write_timeout :: duration
  ps_shutdown_drain_timeout :: duration

definition persistence_writer_settings_default :: persistence_writer_settings where
  "persistence_writer_settings_default =
     \<lparr>ps_queue_capacity = 4096, ps_worker_count = 2, ps_write_timeout = from_secs 3,
      ps_shutdown_drain_timeout = from_secs 10\<rparr>"

definition persistence_writer_settings_validate :: "persistence_writer_settings \<Rightarrow> persistence_writer_error + unit" where
  "persistence_writer_settings_validate s =
     (if ps_queue_capacity s = 0
      then Inl (PwInvalidConfig ''persistence writer queue_capacity must be greater than zero'')
      else if ps_worker_count s = 0
      then Inl (PwInvalidConfig ''persistence writer worker_count must be greater than zero'')
      else if ps_write_timeout s = 0 \<or> ps_shutdown_drain_timeout s = 0
      then Inl (PwInvalidConfig ''persistence writer timeouts must be greater than zero'')
      else Inr ())"

record persistence_writer_stats =
  pt_enqueued_total :: u64
  pt_queue_full_total :: u64
  pt_queue_closed_total :: u64
  pt_write_succeeded_total :: u64
  pt_write_failed_total :: u64
  pt_write_timeout_total :: u64

definition persistence_writer_stats_default :: persistence_writer_stats where
  "persistence_writer_stats_default =
     \<lparr>pt_enqueued_total = 0, pt_queue_full_total = 0, pt_queue_closed_total = 0, pt_write_succeeded_total = 0,
      pt_write_failed_total = 0, pt_write_timeout_total = 0\<rparr>"

definition record_enqueued :: "persistence_writer_stats \<Rightarrow> persistence_writer_stats" where
  "record_enqueued s = s\<lparr>pt_enqueued_total := pt_enqueued_total s + 1\<rparr>"

definition record_queue_full :: "persistence_writer_stats \<Rightarrow> persistence_writer_stats" where
  "record_queue_full s = s\<lparr>pt_queue_full_total := pt_queue_full_total s + 1\<rparr>"

definition record_queue_closed :: "persistence_writer_stats \<Rightarrow> persistence_writer_stats" where
  "record_queue_closed s = s\<lparr>pt_queue_closed_total := pt_queue_closed_total s + 1\<rparr>"

definition record_write_succeeded :: "persistence_writer_stats \<Rightarrow> persistence_writer_stats" where
  "record_write_succeeded s = s\<lparr>pt_write_succeeded_total := pt_write_succeeded_total s + 1\<rparr>"

definition record_write_failed :: "persistence_writer_stats \<Rightarrow> persistence_writer_stats" where
  "record_write_failed s = s\<lparr>pt_write_failed_total := pt_write_failed_total s + 1\<rparr>"

definition record_write_timeout :: "persistence_writer_stats \<Rightarrow> persistence_writer_stats" where
  "record_write_timeout s = s\<lparr>pt_write_timeout_total := pt_write_timeout_total s + 1\<rparr>"

section \<open>The handle\<close>

fun forward_failure_reason_name :: "forward_failure_reason \<Rightarrow> string" where
  "forward_failure_reason_name RequestFailed = ''request_failed''"
| "forward_failure_reason_name ResponseReadFailed = ''response_read_failed''"
| "forward_failure_reason_name WorkerJoinFailed = ''worker_join_failed''"
| "forward_failure_reason_name OutcomeReceiverClosed = ''outcome_receiver_closed''"

fun map_delivery_status :: "forward_delivery_status \<Rightarrow> sink_delivery_status" where
  "map_delivery_status (Delivered code n) = SdDelivered code n"
| "map_delivery_status (HttpRejected code n) = SdHttpRejected code n"
| "map_delivery_status TimedOut = SdTimedOut"
| "map_delivery_status (ResponseTooLarge mx) = SdResponseTooLarge mx"
| "map_delivery_status (Failed reason) = SdFailed (forward_failure_reason_name reason)"

record 'ch persistence_writer_handle =
  ph_project_id :: project_id
  ph_tx :: 'ch
  ph_stats :: persistence_writer_stats

definition delivery_of :: "project_id \<Rightarrow> forward_delivery_outcome \<Rightarrow> new_sink_delivery_outcome" where
  "delivery_of pid outcome =
     \<lparr>ns_project_id = pid, ns_event_id = fo_event_id outcome, ns_sink_id = fo_sink_id outcome,
      ns_status = map_delivery_status (fo_status outcome), ns_correlation_id = None, ns_duration_ms = None,
      ns_attempt = 1\<rparr>"

definition try_record_forward_outcome ::
    "(new_sink_delivery_outcome, 'ch) try_send \<Rightarrow> forward_delivery_outcome \<Rightarrow> 'ch persistence_writer_handle \<Rightarrow>
     'ch persistence_writer_handle" where
  "try_record_forward_outcome ts outcome h =
     (case ts (delivery_of (ph_project_id h) outcome) (ph_tx h) of
        (Inr _, tx) \<Rightarrow> h\<lparr>ph_tx := tx, ph_stats := record_enqueued (ph_stats h)\<rparr>
      | (Inl (Full _), tx) \<Rightarrow> h\<lparr>ph_tx := tx, ph_stats := record_queue_full (ph_stats h)\<rparr>
      | (Inl (Closed _), tx) \<Rightarrow> h\<lparr>ph_tx := tx, ph_stats := record_queue_closed (ph_stats h)\<rparr>)"

text \<open>\<^verbatim>\<open>record_forward_outcome\<close> and its consumer, in \<^verbatim>\<open>runtime.rs\<close>.\<close>

definition record_forward_outcome ::
    "(new_sink_delivery_outcome, 'ch) try_send \<Rightarrow> forward_delivery_outcome \<Rightarrow>
     runtime_stats \<times> 'ch persistence_writer_handle option \<Rightarrow> runtime_stats \<times> 'ch persistence_writer_handle option" where
  "record_forward_outcome ts outcome w =
     (case w of (stats, persistence) \<Rightarrow>
      (stats_record_forward_outcome stats, map_option (try_record_forward_outcome ts outcome) persistence))"

definition consume_forward_outcomes ::
    "(new_sink_delivery_outcome, 'ch) try_send \<Rightarrow> forward_delivery_outcome selected list \<Rightarrow>
     forward_delivery_outcome list \<Rightarrow> runtime_stats \<times> 'ch persistence_writer_handle option \<Rightarrow>
     runtime_stats \<times> 'ch persistence_writer_handle option" where
  "consume_forward_outcomes ts = run_worker (record_forward_outcome ts)"

section \<open>The workers\<close>

text \<open>
  What a worker is doing: waiting for an outcome, writing one, or aborted, possibly in the middle of a write.
  The writer is its handle, its workers, the store, and what \<^verbatim>\<open>shutdown\<close> returned once it was called (it consumes
  the writer, so it is called once).
\<close>

datatype persistence_worker =
  WorkerIdle
| WorkerWriting new_sink_delivery_outcome
| WorkerAborted "new_sink_delivery_outcome option"

fun worker_holds :: "persistence_worker \<Rightarrow> new_sink_delivery_outcome list" where
  "worker_holds (WorkerWriting x) = [x]"
| "worker_holds _ = []"

fun worker_lost :: "persistence_worker \<Rightarrow> new_sink_delivery_outcome list" where
  "worker_lost (WorkerAborted (Some x)) = [x]"
| "worker_lost _ = []"

record ('r, 'ch) persistence_writer =
  pe_handle :: "'ch persistence_writer_handle"
  pe_workers :: "persistence_worker list"
  pe_store :: "'r world"
  pe_shutdown :: "(persistence_writer_error + unit) option"

definition writer_held :: "('r, 'ch) persistence_writer \<Rightarrow> new_sink_delivery_outcome list" where
  "writer_held w = concat (map worker_holds (pe_workers w))"

definition writer_lost :: "('r, 'ch) persistence_writer \<Rightarrow> new_sink_delivery_outcome list" where
  "writer_lost w = concat (map worker_lost (pe_workers w))"

definition persistence_writer_spawn ::
    "(nat \<Rightarrow> 'ch) \<Rightarrow> project_id \<Rightarrow> persistence_writer_settings \<Rightarrow> 'r world \<Rightarrow>
     persistence_writer_error + ('r, 'ch) persistence_writer" where
  "persistence_writer_spawn new_channel pid settings store =
     res_bind (persistence_writer_settings_validate settings) (\<lambda>_.
     Inr \<lparr>pe_handle = \<lparr>ph_project_id = pid, ph_tx = new_channel (ps_queue_capacity settings),
                       ph_stats = persistence_writer_stats_default\<rparr>,
          pe_workers = replicate (ps_worker_count settings) WorkerIdle, pe_store = store, pe_shutdown = None\<rparr>)"

definition on_handle ::
    "('ch persistence_writer_handle \<Rightarrow> 'ch persistence_writer_handle) \<Rightarrow> ('r, 'ch) persistence_writer \<Rightarrow>
     ('r, 'ch) persistence_writer" where
  "on_handle f w = w\<lparr>pe_handle := f (pe_handle w)\<rparr>"

definition on_writer_stats ::
    "(persistence_writer_stats \<Rightarrow> persistence_writer_stats) \<Rightarrow> ('r, 'ch) persistence_writer \<Rightarrow>
     ('r, 'ch) persistence_writer" where
  "on_writer_stats f = on_handle (\<lambda>h. h\<lparr>ph_stats := f (ph_stats h)\<rparr>)"

text \<open>
  One write. \<open>None\<close> is a write that ends in time; \<open>Some applied\<close> is one that does not, and is dropped: its transaction
  either had committed or leaves nothing.
\<close>

definition persistence_write ::
    "'r storage \<Rightarrow> new_sink_delivery_outcome \<Rightarrow> bool option \<Rightarrow> ('r, 'ch) persistence_writer \<Rightarrow>
     ('r, 'ch) persistence_writer" where
  "persistence_write s outcome late w =
     (case record_sink_delivery_outcome s outcome (pe_store w) of
        (res, store) \<Rightarrow>
          (case late of
             None \<Rightarrow>
               (case res of
                  Inr _ \<Rightarrow> on_writer_stats record_write_succeeded (w\<lparr>pe_store := store\<rparr>)
                | Inl _ \<Rightarrow> on_writer_stats record_write_failed (w\<lparr>pe_store := store\<rparr>))
           | Some applied \<Rightarrow>
               on_writer_stats record_write_timeout (if applied then w\<lparr>pe_store := store\<rparr> else w)))"

text \<open>
  \<^verbatim>\<open>RuntimePersistenceWriter::shutdown\<close>: the handles of the workers are joined one after the other until the common
  deadline; \<open>None\<close> is a worker that is not joined in time (or not looked at, the deadline being past). That worker is
  aborted, the second component, and the ones after it are neither joined nor aborted: they run on.
\<close>

fun persistence_join ::
    "nat \<Rightarrow> (string + unit) option list \<Rightarrow> (persistence_writer_error + unit) \<times> nat option" where
  "persistence_join i [] = (Inr (), None)"
| "persistence_join i (Some (Inr _) # ws) = persistence_join (Suc i) ws"
| "persistence_join i (Some (Inl e) # ws) = (Inl (PwJoin e), None)"
| "persistence_join i (None # ws) = (Inl PwDrainTimeout, Some i)"

text \<open>\<^verbatim>\<open>worker.abort()\<close>: a write in hand is dropped without being counted; \<open>applied\<close> tells whether it had committed.\<close>

definition abort_worker :: "'r storage \<Rightarrow> bool \<Rightarrow> nat \<Rightarrow> ('r, 'ch) persistence_writer \<Rightarrow> ('r, 'ch) persistence_writer" where
  "abort_worker s applied i w =
     (case pe_workers w ! i of
        WorkerIdle \<Rightarrow> w\<lparr>pe_workers := (pe_workers w)[i := WorkerAborted None]\<rparr>
      | WorkerWriting x \<Rightarrow>
          w\<lparr>pe_workers := (pe_workers w)[i := WorkerAborted (Some x)],
            pe_store := (if applied then snd (record_sink_delivery_outcome s x (pe_store w)) else pe_store w)\<rparr>
      | WorkerAborted _ \<Rightarrow> w)"

definition writer_shutdown ::
    "'r storage \<Rightarrow> bool \<Rightarrow> (string + unit) option list \<Rightarrow> ('r, 'ch) persistence_writer \<Rightarrow> ('r, 'ch) persistence_writer" where
  "writer_shutdown s applied joins w =
     (case persistence_join 0 joins of
        (res, None) \<Rightarrow> w\<lparr>pe_shutdown := Some res\<rparr>
      | (res, Some i) \<Rightarrow> abort_worker s applied i (w\<lparr>pe_shutdown := Some res\<rparr>))"

text \<open>
  The steps of the writer: an outcome is offered to it, an idle worker takes the next one, a write ends, and the
  writer is shut down (the step is the end of \<^verbatim>\<open>shutdown\<close>; the workers go on while it waits, and the ones it did
  not join go on after it). A panic inside a write is not among them.
\<close>

inductive persistence_step ::
    "(new_sink_delivery_outcome, 'ch) try_send \<Rightarrow> ('ch \<Rightarrow> new_sink_delivery_outcome vec_queue) \<Rightarrow> 'r storage \<Rightarrow>
     ('r, 'ch) persistence_writer \<Rightarrow> ('r, 'ch) persistence_writer \<Rightarrow> bool"
  for ts view s where
  offered: "persistence_step ts view s w (on_handle (try_record_forward_outcome ts outcome) w)"
| taken: "i < length (pe_workers w) \<Longrightarrow> pe_workers w ! i = WorkerIdle \<Longrightarrow>
     vq_items (view (ph_tx (pe_handle w))) = x # xs \<Longrightarrow> vq_items (view tx) = xs \<Longrightarrow>
     persistence_step ts view s w
       ((on_handle (\<lambda>h. h\<lparr>ph_tx := tx\<rparr>) w)\<lparr>pe_workers := (pe_workers w)[i := WorkerWriting x]\<rparr>)"
| finished: "i < length (pe_workers w) \<Longrightarrow> pe_workers w ! i = WorkerWriting x \<Longrightarrow>
     persistence_step ts view s w (persistence_write s x late (w\<lparr>pe_workers := (pe_workers w)[i := WorkerIdle]\<rparr>))"
| shut_down: "pe_shutdown w = None \<Longrightarrow> length joins = length (pe_workers w) \<Longrightarrow>
     persistence_step ts view s w (writer_shutdown s applied joins w)"

section \<open>What a write leaves in the tables\<close>

definition delivery_row_of :: "new_sink_delivery_outcome \<Rightarrow> delivery_row \<Rightarrow> bool" where
  "delivery_row_of x row \<longleftrightarrow>
     dw_project_id row = ns_project_id x \<and> dw_event_id row = ns_event_id x \<and> dw_sink_id row = ns_sink_id x \<and>
     dw_status row = sink_delivery_status_name (ns_status x)"

lemma insert_delivery_stmt_effect:
  "insert_delivery_stmt row db = Inr (u, db') \<Longrightarrow> db_deliveries db' = db_deliveries db @ [row]"
  by (auto simp: insert_delivery_stmt_def split: if_splits)

lemma insert_failure_event_tx_deliveries:
  "insert_failure_event_tx s now ev w = (Inr i, w') \<Longrightarrow> db_deliveries (wd_db w') = db_deliveries (wd_db w)"
  by (auto simp: insert_failure_event_tx_def insert_failure_stmt_def split: if_splits)

lemma delivery_body_effect:
  assumes "db_bind (sql s (insert_delivery_stmt row)) (\<lambda>_.
       if fails then db_bind (insert_failure_event_tx s now ev) (\<lambda>_. db_lift (Inr delivery_id))
       else db_lift (Inr delivery_id)) w = (Inr x, w')"
  shows "db_deliveries (wd_db w') = db_deliveries (wd_db w) @ [row]"
proof -
  from assms obtain u db where ins: "insert_delivery_stmt row (wd_db w) = Inr (u, db)" and
      rest: "(if fails then db_bind (insert_failure_event_tx s now ev) (\<lambda>_. db_lift (Inr delivery_id))
        else db_lift (Inr delivery_id)) ((count_call w)\<lparr>wd_db := db\<rparr>) = (Inr x, w')"
    by (auto split: if_splits)
  have "db_deliveries (wd_db w') = db_deliveries db"
    using rest insert_failure_event_tx_deliveries
    by (cases fails) fastforce+
  with insert_delivery_stmt_effect [OF ins] show ?thesis by simp
qed

lemma delivery_tx_effect:
  assumes "transaction s (\<lambda>now. db_bind (sql s (insert_delivery_stmt (mk now))) (\<lambda>_.
       if fails then db_bind (insert_failure_event_tx s now ev) (\<lambda>_. db_lift (Inr i)) else db_lift (Inr i))) v = (res, w')"
  shows "wd_db w' = wd_db v \<and> (\<forall>i. res \<noteq> Inr i) \<or>
         (\<exists>now. db_deliveries (wd_db w') = db_deliveries (wd_db v) @ [mk now])"
  using transaction_effect [OF assms] by (auto simp del: db_bind_Inr dest!: delivery_body_effect)

lemma bind_lift:
  "db_bind (db_lift (Inr x)) f = f x" "db_bind (db_lift (Inl e)) f = db_lift (Inl e)"
  "db_bind (generated_id s pre) g w = g (pre @ ''_'' @ st_uuid s (wd_uuids w)) (w\<lparr>wd_uuids := Suc (wd_uuids w)\<rparr>)"
  by (auto simp: db_bind_def db_lift_def generated_id_def)

lemma record_sink_delivery_outcome_effect:
  assumes "record_sink_delivery_outcome s x w = (res, w')"
  shows "db_deliveries (wd_db w') = db_deliveries (wd_db w) \<and> (\<forall>i. res \<noteq> Inr i) \<or>
         (\<exists>row. db_deliveries (wd_db w') = db_deliveries (wd_db w) @ [row] \<and> delivery_row_of x row)"
proof -
  consider (early) e where "res = Inl e" "wd_db w' = wd_db w"
    | (tx) mk fails ev i where "\<And>now. delivery_row_of x (mk now)"
        "transaction s (\<lambda>now. db_bind (sql s (insert_delivery_stmt (mk now))) (\<lambda>_.
            if fails then db_bind (insert_failure_event_tx s now ev) (\<lambda>_. db_lift (Inr i))
            else db_lift (Inr i))) (w\<lparr>wd_uuids := Suc (wd_uuids w)\<rparr>) = (res, w')"
  proof (cases "validate_sink_delivery_outcome x")
    case (Inl e)
    with assms early show thesis by (auto simp: record_sink_delivery_outcome_def bind_lift)
  next
    case valid: (Inr u)
    show thesis
    proof (cases "opt_try (usize_to_i64 ''response_body_bytes'') (delivery_response_body_bytes (ns_status x))")
      case (Inl e)
      with assms valid early show thesis by (auto simp: record_sink_delivery_outcome_def bind_lift)
    next
      case body: (Inr n)
      show thesis
      proof (cases "opt_try (u64_to_i64 ''duration_ms'') (ns_duration_ms x)")
        case (Inl e)
        with assms valid body early show thesis by (auto simp: record_sink_delivery_outcome_def bind_lift)
      next
        case (Inr d)
        show thesis
          by (rule tx [where mk = "\<lambda>now.
             \<lparr>dw_delivery_id = ''delivery'' @ ''_'' @ st_uuid s (wd_uuids w), dw_project_id = ns_project_id x,
              dw_event_id = ns_event_id x, dw_sink_id = ns_sink_id x,
              dw_status = sink_delivery_status_name (ns_status x),
              dw_http_status = map_option ucast (delivery_http_status (ns_status x)),
              dw_response_body_bytes = n, dw_failure_reason = delivery_failure_reason (ns_status x),
              dw_correlation_id = ns_correlation_id x, dw_duration_ms = d,
              dw_attempt = ucast (max (ns_attempt x) 1), dw_occurred_at = now\<rparr>"])
            (use assms valid body Inr in \<open>simp_all add: delivery_row_of_def record_sink_delivery_outcome_def bind_lift\<close>)
      qed
    qed
  qed
  then show ?thesis
  proof cases
    case early
    then show ?thesis by simp
  next
    case tx
    from delivery_tx_effect [OF tx(2)] tx(1) show ?thesis by auto
  qed
qed

section \<open>Accounting\<close>

definition writer_queue :: "('ch \<Rightarrow> new_sink_delivery_outcome vec_queue) \<Rightarrow> ('r, 'ch) persistence_writer \<Rightarrow>
    new_sink_delivery_outcome list" where
  "writer_queue view w = vq_items (view (ph_tx (pe_handle w)))"

definition writes_ended :: "persistence_writer_stats \<Rightarrow> u64" where
  "writes_ended st = pt_write_succeeded_total st + pt_write_failed_total st + pt_write_timeout_total st"

text \<open>
  \<open>rows\<close> are the delivery rows at the start. Everything enqueued is waiting, being written, lost in an abort or
  counted; the workers hold or have lost no more than one outcome each, and only the one the shutdown gave up on
  has lost one; and every row that was added belongs to the project.
\<close>

definition writer_inv ::
    "('ch \<Rightarrow> new_sink_delivery_outcome vec_queue) \<Rightarrow> nat \<Rightarrow> project_id \<Rightarrow> delivery_row list \<Rightarrow>
     ('r, 'ch) persistence_writer \<Rightarrow> bool" where
  "writer_inv view workers pid rows w \<longleftrightarrow>
     (let st = ph_stats (pe_handle w) in
      ph_project_id (pe_handle w) = pid \<and> length (pe_workers w) = workers \<and>
      pt_enqueued_total st =
        of_nat (length (writer_queue view w) + length (writer_held w) + length (writer_lost w)) + writes_ended st \<and>
      length (writer_lost w) \<le> (if pe_shutdown w = Some (Inl PwDrainTimeout) then 1 else 0) \<and>
      list_all (\<lambda>x. ns_project_id x = pid) (writer_queue view w @ writer_held w) \<and>
      (\<exists>new. db_deliveries (wd_db (pe_store w)) = rows @ new \<and> list_all (\<lambda>r. dw_project_id r = pid) new))"

lemmas writer_defs = writer_inv_def writer_queue_def writer_held_def writer_lost_def writes_ended_def on_handle_def
  on_writer_stats_def Let_def record_enqueued_def record_queue_full_def record_queue_closed_def
  record_write_succeeded_def record_write_failed_def record_write_timeout_def

text \<open>What one worker holds, or has lost, after a change of its state.\<close>

lemma length_concat_update:
  "i < length ws \<Longrightarrow>
     length (concat (map f (ws[i := y]))) + length (f (ws ! i)) = length (concat (map f ws)) + length (f y)"
proof (induction ws arbitrary: i)
  case (Cons v vs)
  then show ?case by (cases i) fastforce+
qed simp

lemma set_concat_update: "set (concat (map f (ws[i := y]))) \<subseteq> set (concat (map f ws)) \<union> set (f y)"
  using set_update_subset_insert [of ws i y] by auto

lemma worker_in_concat: "i < length ws \<Longrightarrow> set (f (ws ! i)) \<subseteq> set (concat (map f ws))"
  by (auto intro: nth_mem)

lemma writer_update_worker:
  assumes "i < length (pe_workers w)"
  shows "length (writer_held (w\<lparr>pe_workers := (pe_workers w)[i := y]\<rparr>)) + length (worker_holds (pe_workers w ! i)) =
           length (writer_held w) + length (worker_holds y)"
    "length (writer_lost (w\<lparr>pe_workers := (pe_workers w)[i := y]\<rparr>)) + length (worker_lost (pe_workers w ! i)) =
       length (writer_lost w) + length (worker_lost y)"
    "set (writer_held (w\<lparr>pe_workers := (pe_workers w)[i := y]\<rparr>)) \<subseteq> set (writer_held w) \<union> set (worker_holds y)"
  using length_concat_update [OF assms] set_concat_update [of _ "pe_workers w" i y]
  by (simp_all add: writer_held_def writer_lost_def)

lemma writer_held_worker:
  "i < length (pe_workers w) \<Longrightarrow> pe_workers w ! i = WorkerWriting x \<Longrightarrow> x \<in> set (writer_held w)"
  using worker_in_concat [of i "pe_workers w" worker_holds] by (simp add: writer_held_def)

lemma writer_inv_offered:
  assumes "writer_inv view n pid rows w" and "mpsc_law ts view"
  shows "writer_inv view n pid rows (on_handle (try_record_forward_outcome ts outcome) w)"
proof -
  let ?x = "delivery_of (ph_project_id (pe_handle w)) outcome"
  have "ns_project_id ?x = ph_project_id (pe_handle w)" by (simp add: delivery_of_def)
  with assms(1) mpsc_law_items [OF assms(2), of ?x "ph_tx (pe_handle w)"] show ?thesis
    by (auto simp: writer_defs try_record_forward_outcome_def split: prod.splits sum.splits try_send_error.splits)
qed

lemma writer_inv_store:
  assumes "writer_inv view n pid rows w" and "ns_project_id x = pid"
    and "record_sink_delivery_outcome s x (pe_store w) = (res, store)"
  shows "writer_inv view n pid rows (w\<lparr>pe_store := store\<rparr>)"
  using record_sink_delivery_outcome_effect [OF assms(3)] assms(1,2)
  by (auto simp: writer_defs delivery_row_of_def)

definition ended_in :: "(persistence_writer_stats \<Rightarrow> persistence_writer_stats) \<Rightarrow> bool" where
  "ended_in f \<longleftrightarrow> (\<forall>st. pt_enqueued_total (f st) = pt_enqueued_total st \<and> writes_ended (f st) = writes_ended st + 1)"

lemma ended_in_all:
  "ended_in record_write_succeeded" "ended_in record_write_failed" "ended_in record_write_timeout"
  by (simp_all add: ended_in_def writer_defs)

lemma writer_inv_taken:
  assumes "writer_inv view n pid rows w" and "i < length (pe_workers w)" and "pe_workers w ! i = WorkerIdle"
    and "vq_items (view (ph_tx (pe_handle w))) = x # vq_items (view tx)"
  shows "writer_inv view n pid rows
           ((on_handle (\<lambda>h. h\<lparr>ph_tx := tx\<rparr>) w)\<lparr>pe_workers := (pe_workers w)[i := WorkerWriting x]\<rparr>)"
proof -
  let ?w = "w\<lparr>pe_workers := (pe_workers w)[i := WorkerWriting x]\<rparr>"
  note u = writer_update_worker [OF assms(2), of "WorkerWriting x"]
  have "length (writer_held ?w) = Suc (length (writer_held w))" "length (writer_lost ?w) = length (writer_lost w)"
      "set (writer_held ?w) \<subseteq> insert x (set (writer_held w))"
    using u by (simp_all add: assms(3))
  moreover have "writer_held (on_handle f ?w) = writer_held ?w" "writer_lost (on_handle f ?w) = writer_lost ?w" for f
    by (simp_all add: on_handle_def writer_held_def writer_lost_def)
  moreover have "(on_handle f w)\<lparr>pe_workers := ws\<rparr> = on_handle f (w\<lparr>pe_workers := ws\<rparr>)" for f ws
    by (simp add: on_handle_def)
  ultimately show ?thesis
    using assms(1,4) by (auto simp: writer_inv_def writer_queue_def Let_def list_all_iff) (auto simp: on_handle_def)
qed

lemma writer_inv_count:
  assumes "writer_inv view n pid rows w" and "i < length (pe_workers w)" and "pe_workers w ! i = WorkerWriting x"
    and "ended_in f"
  shows "writer_inv view n pid rows (on_writer_stats f (w\<lparr>pe_workers := (pe_workers w)[i := WorkerIdle]\<rparr>))"
proof -
  let ?w = "w\<lparr>pe_workers := (pe_workers w)[i := WorkerIdle]\<rparr>"
  have "length (writer_held w) = Suc (length (writer_held ?w))" "length (writer_lost ?w) = length (writer_lost w)"
      "set (writer_held ?w) \<subseteq> set (writer_held w)"
    using writer_update_worker [OF assms(2), of WorkerIdle] by (simp_all add: assms(3))
  moreover have "writer_held (on_writer_stats f ?w) = writer_held ?w" "writer_lost (on_writer_stats f ?w) = writer_lost ?w"
    by (simp_all add: on_writer_stats_def on_handle_def writer_held_def writer_lost_def)
  ultimately show ?thesis
    using assms(1,4)
    by (auto simp: writer_inv_def writer_queue_def Let_def list_all_iff ended_in_def)
      (auto simp: on_writer_stats_def on_handle_def)
qed

lemma persistence_write_cases:
  assumes "record_sink_delivery_outcome s x (pe_store w) = (res, store)"
  shows "\<exists>f w1. ended_in f \<and> (w1 = w \<or> w1 = w\<lparr>pe_store := store\<rparr>) \<and>
           persistence_write s x late (w\<lparr>pe_workers := ys\<rparr>) = on_writer_stats f (w1\<lparr>pe_workers := ys\<rparr>)"
proof -
  let ?w = "w\<lparr>pe_store := store\<rparr>"
  have comm: "w\<lparr>pe_workers := ys, pe_store := store\<rparr> = ?w\<lparr>pe_workers := ys\<rparr>" by simp
  consider (ok) y where "late = None" "res = Inr y" | (bad) e where "late = None" "res = Inl e"
    | (applied) "late = Some True" | (lost) "late = Some False"
    by (cases late; cases res) auto
  then show ?thesis
  proof cases
    case ok
    with assms show ?thesis
      by (intro exI [of _ record_write_succeeded] exI [of _ ?w]) (simp add: persistence_write_def ended_in_all comm)
  next
    case bad
    with assms show ?thesis
      by (intro exI [of _ record_write_failed] exI [of _ ?w]) (simp add: persistence_write_def ended_in_all comm)
  next
    case applied
    with assms show ?thesis
      by (intro exI [of _ record_write_timeout] exI [of _ ?w]) (simp add: persistence_write_def ended_in_all comm)
  next
    case lost
    with assms show ?thesis
      by (intro exI [of _ record_write_timeout] exI [of _ w]) (simp add: persistence_write_def ended_in_all)
  qed
qed

lemma persistence_join_abort:
  "persistence_join k joins = (res, Some i) \<Longrightarrow> res = Inl PwDrainTimeout \<and> k \<le> i \<and> i < k + length joins"
  by (induction k joins rule: persistence_join.induct) auto

text \<open>Before the shutdown no outcome is lost, and the shutdown loses the one the aborted worker holds.\<close>

lemma writer_inv_shutdown_result:
  assumes "writer_inv view n pid rows w" and "pe_shutdown w = None"
  shows "writer_inv view n pid rows (w\<lparr>pe_shutdown := res\<rparr>)" "writer_lost w = []"
proof -
  show lost: "writer_lost w = []" using assms by (simp add: writer_inv_def Let_def)
  have "writer_held (w\<lparr>pe_shutdown := res\<rparr>) = writer_held w" "writer_lost (w\<lparr>pe_shutdown := res\<rparr>) = writer_lost w"
      "writer_queue view (w\<lparr>pe_shutdown := res\<rparr>) = writer_queue view w"
    by (simp_all add: writer_held_def writer_lost_def writer_queue_def)
  with assms(1) lost show "writer_inv view n pid rows (w\<lparr>pe_shutdown := res\<rparr>)"
    by (simp add: writer_inv_def Let_def)
qed

lemma writer_inv_abort:
  assumes "writer_inv view n pid rows w" and "i < length (pe_workers w)" and "writer_lost w = []"
    and "pe_shutdown w = Some (Inl PwDrainTimeout)"
  shows "writer_inv view n pid rows (abort_worker s applied i w)"
proof (cases "pe_workers w ! i")
  case WorkerIdle
  let ?w = "w\<lparr>pe_workers := (pe_workers w)[i := WorkerAborted None]\<rparr>"
  have "length (writer_held ?w) = length (writer_held w)" "length (writer_lost ?w) = length (writer_lost w)"
      "set (writer_held ?w) \<subseteq> set (writer_held w)"
    using writer_update_worker [OF assms(2), of "WorkerAborted None"] by (simp_all add: WorkerIdle)
  with assms(1) show ?thesis
    by (auto simp: abort_worker_def WorkerIdle writer_inv_def writer_queue_def Let_def list_all_iff)
next
  case (WorkerWriting x)
  have x: "ns_project_id x = pid"
    using assms(1) writer_held_worker [OF assms(2) WorkerWriting] by (auto simp: writer_inv_def Let_def list_all_iff)
  obtain res store where run: "record_sink_delivery_outcome s x (pe_store w) = (res, store)" by fastforce
  let ?v = "if applied then w\<lparr>pe_store := store\<rparr> else w"
  let ?w = "?v\<lparr>pe_workers := (pe_workers ?v)[i := WorkerAborted (Some x)]\<rparr>"
  have inv: "writer_inv view n pid rows ?v" using assms(1) writer_inv_store [OF assms(1) x run] by simp
  have v: "pe_workers ?v = pe_workers w" "pe_shutdown ?v = pe_shutdown w" "writer_lost ?v = []"
    using assms(3) by (simp_all add: writer_lost_def)
  have "length (writer_held ?v) = Suc (length (writer_held ?w))" "length (writer_lost ?w) = 1"
      "set (writer_held ?w) \<subseteq> set (writer_held ?v)"
    using writer_update_worker [of i ?v "WorkerAborted (Some x)"] assms(2) by (simp_all add: v WorkerWriting)
  with inv v assms(4) have "writer_inv view n pid rows ?w"
    by (auto simp: writer_inv_def writer_queue_def Let_def list_all_iff)
  moreover have "abort_worker s applied i w = ?w" by (simp add: abort_worker_def WorkerWriting run)
  ultimately show ?thesis by simp
next
  case (WorkerAborted y)
  with assms(1) show ?thesis by (simp add: abort_worker_def)
qed

lemma writer_inv_shutdown:
  assumes "writer_inv view n pid rows w" and "pe_shutdown w = None" and "length joins = length (pe_workers w)"
  shows "writer_inv view n pid rows (writer_shutdown s applied joins w)"
proof -
  obtain res ab where j: "persistence_join 0 joins = (res, ab)" by fastforce
  have inv: "writer_inv view n pid rows (w\<lparr>pe_shutdown := Some res\<rparr>)" "writer_lost w = []"
    using writer_inv_shutdown_result [OF assms(1,2)] by blast+
  show ?thesis
  proof (cases ab)
    case None
    with inv show ?thesis by (simp add: writer_shutdown_def j)
  next
    case (Some i)
    let ?w = "w\<lparr>pe_shutdown := Some res\<rparr>"
    have i: "i < length (pe_workers ?w)" "pe_shutdown ?w = Some (Inl PwDrainTimeout)"
      using persistence_join_abort [of 0 joins res i] j Some assms(3) by auto
    have "writer_lost ?w = []" using inv(2) by (simp add: writer_lost_def)
    from writer_inv_abort [OF inv(1) i(1) this i(2)] show ?thesis by (simp add: writer_shutdown_def j Some)
  qed
qed

lemma writer_inv_step:
  assumes "persistence_step ts view s w w'" and "mpsc_law ts view" and "writer_inv view n pid rows w"
  shows "writer_inv view n pid rows w'"
  using assms(1)
proof (cases rule: persistence_step.cases)
  case (offered outcome)
  with writer_inv_offered [OF assms(3,2)] show ?thesis by simp
next
  case (taken i x xs tx)
  with writer_inv_taken [OF assms(3), of i x tx] show ?thesis by simp
next
  case (finished i x late)
  have x: "ns_project_id x = pid"
    using assms(3) writer_held_worker [OF finished(2,3)] by (auto simp: writer_inv_def Let_def list_all_iff)
  obtain res store where run: "record_sink_delivery_outcome s x (pe_store w) = (res, store)" by fastforce
  obtain f w1 where f: "ended_in f" "w1 = w \<or> w1 = w\<lparr>pe_store := store\<rparr>"
      "w' = on_writer_stats f (w1\<lparr>pe_workers := (pe_workers w)[i := WorkerIdle]\<rparr>)"
    using persistence_write_cases [OF run, of late "(pe_workers w)[i := WorkerIdle]"] finished(1) by blast
  have "writer_inv view n pid rows w1" using f(2) writer_inv_store [OF assms(3) x run] assms(3) by blast
  moreover have "pe_workers w1 = pe_workers w" using f(2) by auto
  ultimately show ?thesis using writer_inv_count [of view n pid rows w1 i x f] finished(2,3) f(1,3) by simp
next
  case (shut_down joins applied)
  with writer_inv_shutdown [OF assms(3), of joins s applied] show ?thesis by simp
qed

lemma writer_inv_start:
  assumes "persistence_writer_spawn new_channel pid settings store = Inr w"
    and "vq_items (view (new_channel (ps_queue_capacity settings))) = []"
  shows "writer_inv view (ps_worker_count settings) pid (db_deliveries (wd_db store)) w"
proof -
  have "concat (map worker_holds (replicate n WorkerIdle)) = []" "concat (map worker_lost (replicate n WorkerIdle)) = []" for n
    by simp_all
  with assms show ?thesis
    by (auto simp: persistence_writer_spawn_def writer_defs persistence_writer_stats_default_def)
qed

lemma one_outcome_each: "length (concat (map worker_holds ws)) + length (concat (map worker_lost ws)) \<le> length ws"
proof (induction ws)
  case (Cons v vs)
  have "length (worker_holds v) + length (worker_lost v) \<le> 1"
    by (cases v rule: worker_lost.cases) simp_all
  with Cons.IH show ?case by simp
qed simp

section \<open>Properties\<close>

text \<open>C33: from the start of the writer on, however its workers interleave and its writes end (in time, with an error or
  late, short of a panic), through its shutdown and after it, every delivery outcome the queue accepted is still waiting, held by one of the workers,
  counted as written, failed or late, or lost with a worker that was aborted; at most one is lost, and only when
  the shutdown ran into its deadline. No worker holds more than one outcome, and every delivery row the writer
  adds belongs to its project.\<close>

theorem writer_accounts_for_outcomes:
  assumes "persistence_writer_spawn new_channel pid settings store = Inr w0"
    and "vq_items (view (new_channel (ps_queue_capacity settings))) = []" and "mpsc_law ts view"
    and "(persistence_step ts view s)\<^sup>*\<^sup>* w0 w"
  shows "pt_enqueued_total (ph_stats (pe_handle w)) =
           of_nat (length (vq_items (view (ph_tx (pe_handle w)))) + length (writer_held w) + length (writer_lost w)) +
           pt_write_succeeded_total (ph_stats (pe_handle w)) + pt_write_failed_total (ph_stats (pe_handle w)) +
           pt_write_timeout_total (ph_stats (pe_handle w)) \<and>
         length (writer_held w) + length (writer_lost w) \<le> ps_worker_count settings \<and>
         length (writer_lost w) \<le> (if pe_shutdown w = Some (Inl PwDrainTimeout) then 1 else 0) \<and>
         (\<exists>new. db_deliveries (wd_db (pe_store w)) = db_deliveries (wd_db store) @ new \<and>
            list_all (\<lambda>r. dw_project_id r = pid) new)"
proof -
  have "writer_inv view (ps_worker_count settings) pid (db_deliveries (wd_db store)) w"
    using assms(4)
  proof (induction rule: rtranclp_induct)
    case base
    show ?case using assms(1,2) by (rule writer_inv_start)
  next
    case (step y z)
    from writer_inv_step [OF step.hyps(2) assms(3) step.IH] show ?case .
  qed
  then show ?thesis
    using one_outcome_each [of "pe_workers w"]
    by (simp add: writer_inv_def Let_def writer_queue_def writes_ended_def writer_held_def writer_lost_def add.assoc)
qed

definition sample_outcome_queue :: "nat \<Rightarrow> new_sink_delivery_outcome vec_queue" where
  "sample_outcome_queue n = \<lparr>vq_capacity = n, vq_items = [], vq_closed = False\<rparr>"

definition sample_delivery :: forward_delivery_outcome where
  "sample_delivery = \<lparr>fo_event_id = ''evt_0'', fo_sink_id = ''s1'', fo_status = TimedOut\<rparr>"

text \<open>An outcome is accepted and taken by the first worker, and then the shutdown runs out of time.\<close>

theorem writer_accounts_for_outcomes_witness:
  "\<exists>w0 w. persistence_writer_spawn sample_outcome_queue ''p1'' persistence_writer_settings_default created_world = Inr w0 \<and>
     (persistence_step vq_try_send id sample_storage)\<^sup>*\<^sup>* w0 w \<and>
     writer_lost w = [delivery_of ''p1'' sample_delivery] \<and> pt_enqueued_total (ph_stats (pe_handle w)) = 1"
proof -
  let ?s = persistence_writer_settings_default and ?step = "persistence_step vq_try_send id sample_storage"
  let ?x = "delivery_of ''p1'' sample_delivery"
  define w0 :: "(nat, new_sink_delivery_outcome vec_queue) persistence_writer" where
    "w0 = \<lparr>pe_handle = \<lparr>ph_project_id = ''p1'', ph_tx = sample_outcome_queue 4096,
             ph_stats = persistence_writer_stats_default\<rparr>, pe_workers = [WorkerIdle, WorkerIdle],
           pe_store = created_world, pe_shutdown = None\<rparr>"
  have start: "persistence_writer_spawn sample_outcome_queue ''p1'' ?s created_world = Inr w0"
    by (simp add: persistence_writer_spawn_def persistence_writer_settings_validate_def
        persistence_writer_settings_default_def w0_def from_secs_def numeral_2_eq_2)
  define w1 where "w1 = on_handle (try_record_forward_outcome vq_try_send sample_delivery) w0"
  define w2 where "w2 = (on_handle (\<lambda>h. h\<lparr>ph_tx := sample_outcome_queue 4096\<rparr>) w1)\<lparr>pe_workers :=
               (pe_workers w1)[0 := WorkerWriting ?x]\<rparr>"
  define w3 where "w3 = writer_shutdown sample_storage False [None, Some (Inr ())] w2"
  note defs = w1_def w2_def w3_def w0_def on_handle_def try_record_forward_outcome_def vq_try_send_def
    sample_outcome_queue_def record_enqueued_def persistence_writer_stats_default_def writer_shutdown_def
    abort_worker_def
  have "?step w0 w1" unfolding w1_def by (rule persistence_step.offered)
  moreover have "?step w1 w2" unfolding w2_def
    by (rule persistence_step.taken [where xs = "[]"])
      (simp_all add: w1_def w0_def on_handle_def try_record_forward_outcome_def vq_try_send_def sample_outcome_queue_def)
  moreover have "?step w2 w3" unfolding w3_def
    by (rule persistence_step.shut_down) (simp_all add: w2_def w1_def w0_def on_handle_def)
  ultimately have steps: "?step\<^sup>*\<^sup>* w0 w3" by simp
  have empty: "vq_items (id (sample_outcome_queue (ps_queue_capacity ?s))) = []"
    by (simp add: sample_outcome_queue_def)
  have st: "pt_write_succeeded_total (ph_stats (pe_handle w3)) = 0" "pt_write_failed_total (ph_stats (pe_handle w3)) = 0"
      "pt_write_timeout_total (ph_stats (pe_handle w3)) = 0" "vq_items (id (ph_tx (pe_handle w3))) = []"
      "writer_lost w3 = [?x]" "writer_held w3 = []"
    by (simp_all add: defs writer_lost_def writer_held_def)
  have "pt_enqueued_total (ph_stats (pe_handle w3)) = 1"
    using writer_accounts_for_outcomes [OF start empty vec_queue_mpsc steps] by (simp only: st) simp
  with start steps st(5) show ?thesis by blast
qed

end
