(* ===== verification/Api_Control.thy ===== *)
theory Api_Control
  imports Persistence_Writer
begin

text \<open>
  What the API crate asks of a runtime (\<^verbatim>\<open>runtime_control.rs\<close> and \<^verbatim>\<open>dto.rs\<close> of the API): the errors of the trait
  \<^verbatim>\<open>RuntimeControl\<close> and the responses of the runtime endpoints.
\<close>

section \<open>Errors and responses\<close>

datatype runtime_control_error =
  ProjectNotManaged string
| ReloadInProgress
| ShuttingDown string
| RuntimeUnavailable string
| CtlInvalidConfig string
| UnsafeOldRuntimeShutdown string
| StartFailed string
| CtlCommandTemplateNotFound string
| CommandRejected string
| CtlCommandQueueFull
| CtlCommandQueueUnavailable string
| CtlStorage string

fun runtime_control_error_display :: "runtime_control_error \<Rightarrow> string" where
  "runtime_control_error_display (ProjectNotManaged p) = ''project '' @ quoted p @ '' is not managed by this runtime''"
| "runtime_control_error_display ReloadInProgress = ''runtime lifecycle operation is already in progress''"
| "runtime_control_error_display (ShuttingDown r) = ''runtime is shutting down: '' @ r"
| "runtime_control_error_display (RuntimeUnavailable r) = ''runtime unavailable: '' @ r"
| "runtime_control_error_display (CtlInvalidConfig r) = ''runtime config invalid: '' @ r"
| "runtime_control_error_display (UnsafeOldRuntimeShutdown r) = ''old runtime shutdown was not proven safe: '' @ r"
| "runtime_control_error_display (StartFailed r) = ''runtime start failed: '' @ r"
| "runtime_control_error_display (CtlCommandTemplateNotFound t) = ''command template '' @ quoted t @ '' is not available''"
| "runtime_control_error_display (CommandRejected r) = ''command rejected: '' @ r"
| "runtime_control_error_display CtlCommandQueueFull = ''command queue is full''"
| "runtime_control_error_display (CtlCommandQueueUnavailable r) = ''command queue unavailable: '' @ r"
| "runtime_control_error_display (CtlStorage r) = ''storage error: '' @ r"

datatype runtime_lifecycle_state = PhaseRunning | PhaseReloading | PhaseStopping | PhaseStopped

datatype readiness_status = Ready | NotReady

record runtime_readiness_response =
  rn_status :: readiness_status
  rn_project_id :: string
  rn_lifecycle :: runtime_lifecycle_state
  rn_active_version :: "u64 option"
  rn_message :: "string option"

text \<open>The counters of a response are those of the runtime, field by field.\<close>

record runtime_counters_response =
  rk_pipeline :: runtime_stats
  rk_forwarder :: forwarder_stats
  rk_persistence_writer :: "persistence_writer_stats option"

definition runtime_counters_default :: runtime_counters_response where
  "runtime_counters_default =
     \<lparr>rk_pipeline = runtime_stats_default, rk_forwarder = forwarder_stats_default, rk_persistence_writer = None\<rparr>"

record runtime_status_response =
  ru_project_id :: project_id
  ru_state :: runtime_lifecycle_state
  ru_active_version :: "u64 option"
  ru_started_at :: "timestamp option"
  ru_last_reload_at :: "timestamp option"
  ru_last_reload_error :: "string option"
  ru_counters :: runtime_counters_response

record runtime_reload_response =
  rr_project_id :: project_id
  rr_previous_version :: u64
  rr_active_version :: u64
  rr_reloaded_at :: timestamp
  rr_old_runtime_shutdown_error :: "string option"
  rr_audit_event_id :: string

datatype command_execution_status_response = RespQueued | RespPublished | RespFailed

fun command_status_response :: "command_execution_status \<Rightarrow> command_execution_status_response" where
  "command_status_response CxQueued = RespQueued"
| "command_status_response CxPublished = RespPublished"
| "command_status_response CxFailed = RespFailed"

record execute_command_response =
  ec_project_id :: project_id
  ec_command_template_id :: command_template_id
  ec_command_execution_id :: command_execution_id
  ec_status :: command_execution_status_response
  ec_broker_id :: broker_id
  ec_topic :: string
  ec_qos :: mqtt_qos
  ec_retain :: bool
  ec_payload_size_bytes :: u64
  ec_queued_at :: timestamp
  ec_audit_event_id :: string

text \<open>\<^verbatim>\<open>json!\<close> of an optional version.\<close>

definition json_opt_u64 :: "u64 option \<Rightarrow> json" where
  "json_opt_u64 v = (case v of None \<Rightarrow> JNull | Some n \<Rightarrow> jnum n)"

end
