(* ===== verification/Api_Auth.thy ===== *)
theory Api_Auth
  imports Api_Control
begin

text \<open>
  Errors, authentication and authorization of the management API (\<^verbatim>\<open>error.rs\<close> and \<^verbatim>\<open>auth.rs\<close> of the API crate): how
  every error becomes a status and a body, the bearer tokens, the roles and the project scopes. The SHA-256 digest
  is a parameter; its comparison in constant time is equality.
\<close>

section \<open>Errors\<close>

datatype api_error =
  Unauthorized
| Forbidden string
| BadRequest string
| ApiNotFound string
| ApiConflict string "json option"
| UnprocessableEntity string "json option"
| PayloadTooLarge nat nat
| TooManyRequests string
| ServiceUnavailable string
| ApiInternal string

fun api_error_display :: "api_error \<Rightarrow> string" where
  "api_error_display Unauthorized = ''unauthorized''"
| "api_error_display (Forbidden m) = ''forbidden: '' @ m"
| "api_error_display (BadRequest m) = ''bad request: '' @ m"
| "api_error_display (ApiNotFound m) = ''not found: '' @ m"
| "api_error_display (ApiConflict m _) = ''conflict: '' @ m"
| "api_error_display (UnprocessableEntity m _) = ''unprocessable entity: '' @ m"
| "api_error_display (PayloadTooLarge actual mx) =
     ''payload too large: '' @ show_nat actual @ '' bytes exceeds '' @ show_nat mx @ '' bytes''"
| "api_error_display (TooManyRequests m) = ''too many requests: '' @ m"
| "api_error_display (ServiceUnavailable m) = ''service unavailable: '' @ m"
| "api_error_display (ApiInternal m) = ''internal server error: '' @ m"

fun status_code :: "api_error \<Rightarrow> nat" where
  "status_code Unauthorized = 401"
| "status_code (Forbidden _) = 403"
| "status_code (BadRequest _) = 400"
| "status_code (ApiNotFound _) = 404"
| "status_code (ApiConflict _ _) = 409"
| "status_code (UnprocessableEntity _ _) = 422"
| "status_code (PayloadTooLarge _ _) = 413"
| "status_code (TooManyRequests _) = 429"
| "status_code (ServiceUnavailable _) = 503"
| "status_code (ApiInternal _) = 500"

fun error_code :: "api_error \<Rightarrow> string" where
  "error_code Unauthorized = ''unauthorized''"
| "error_code (Forbidden _) = ''forbidden''"
| "error_code (BadRequest _) = ''bad_request''"
| "error_code (ApiNotFound _) = ''not_found''"
| "error_code (ApiConflict _ _) = ''conflict''"
| "error_code (UnprocessableEntity _ _) = ''unprocessable_entity''"
| "error_code (PayloadTooLarge _ _) = ''payload_too_large''"
| "error_code (TooManyRequests _) = ''too_many_requests''"
| "error_code (ServiceUnavailable _) = ''service_unavailable''"
| "error_code (ApiInternal _) = ''internal_server_error''"

fun safe_message :: "api_error \<Rightarrow> string" where
  "safe_message Unauthorized = ''valid bearer token is required''"
| "safe_message (Forbidden m) = m"
| "safe_message (BadRequest m) = m"
| "safe_message (ApiNotFound m) = m"
| "safe_message (ApiConflict m _) = m"
| "safe_message (UnprocessableEntity m _) = m"
| "safe_message (TooManyRequests m) = m"
| "safe_message (ServiceUnavailable m) = m"
| "safe_message (PayloadTooLarge actual mx) =
     ''request body is too large: '' @ show_nat actual @ '' bytes exceeds '' @ show_nat mx @ '' bytes''"
| "safe_message (ApiInternal _) = ''internal server error''"

fun error_details :: "api_error \<Rightarrow> json option" where
  "error_details (ApiConflict _ d) = d"
| "error_details (UnprocessableEntity _ d) = d"
| "error_details (PayloadTooLarge actual mx) =
     Some (JObject (bm_insert ''max_bytes'' (jnum (of_nat mx)) (bm_insert ''actual_bytes'' (jnum (of_nat actual)) [])))"
| "error_details _ = None"

record error_payload =
  ep_code :: string
  ep_message :: string
  ep_details :: "json option"

definition response_body :: "api_error \<Rightarrow> error_payload" where
  "response_body e = \<lparr>ep_code = error_code e, ep_message = safe_message e, ep_details = error_details e\<rparr>"

text \<open>A reply: its status, the authentication challenge, and a body.\<close>

record 'a http_reply =
  hr_status :: nat
  hr_www_authenticate :: "string option"
  hr_body :: "error_payload + 'a"

definition bearer_challenge :: string where
  "bearer_challenge = ''Bearer realm='' @ [CHR 0x22] @ ''pipe-bolt-management'' @ [CHR 0x22]"

definition write_error_response :: "api_error \<Rightarrow> 'a http_reply" where
  "write_error_response e =
     \<lparr>hr_status = status_code e, hr_www_authenticate = (if e = Unauthorized then Some bearer_challenge else None),
      hr_body = Inl (response_body e)\<rparr>"

section \<open>Errors of the other crates\<close>

definition api_of_domain :: "domain_error \<Rightarrow> api_error" where
  "api_of_domain e = UnprocessableEntity (domain_error_display e) None"

fun api_of_storage :: "storage_error \<Rightarrow> api_error" where
  "api_of_storage (VersionConflict project_id expected actual) =
     ApiConflict ''project config version conflict''
       (Some (JObject (bm_insert ''actual_version'' (json_opt_u64 actual)
         (bm_insert ''expected_version'' (json_opt_u64 expected)
           (bm_insert ''project_id'' (JString project_id) [])))))"
| "api_of_storage (ProjectConfigNotFound project_id) =
     ApiNotFound (''project config '' @ quoted project_id @ '' was not found'')"
| "api_of_storage (FailureNotFound project_id failure_id) =
     ApiNotFound (''failure '' @ quoted failure_id @ '' was not found for project '' @ quoted project_id)"
| "api_of_storage (FailureAlreadyResolved project_id failure_id) =
     ApiConflict (''failure '' @ quoted failure_id @ '' for project '' @ quoted project_id @ '' is already resolved'') None"
| "api_of_storage (SInvalidConfig r) = UnprocessableEntity (storage_error_display (SInvalidConfig r)) None"
| "api_of_storage (SInvalidField f r) = UnprocessableEntity (storage_error_display (SInvalidField f r)) None"
| "api_of_storage (SFieldTooLarge f m a) = UnprocessableEntity (storage_error_display (SFieldTooLarge f m a)) None"
| "api_of_storage (StorageDomain e) = UnprocessableEntity (storage_error_display (StorageDomain e)) None"
| "api_of_storage (StorageJson e) = UnprocessableEntity (storage_error_display (StorageJson e)) None"
| "api_of_storage (VersionOverflow v) = UnprocessableEntity (storage_error_display (VersionOverflow v)) None"
| "api_of_storage (NumericOverflow f) = UnprocessableEntity (storage_error_display (NumericOverflow f)) None"
| "api_of_storage (InvalidStoredState r) = ApiInternal (storage_error_display (InvalidStoredState r))"
| "api_of_storage (InvalidSecretKey r) = ApiInternal (storage_error_display (InvalidSecretKey r))"
| "api_of_storage (UnknownSecretKey k) = ApiInternal (storage_error_display (UnknownSecretKey k))"
| "api_of_storage (InvalidSecretEncoding r) = ApiInternal (storage_error_display (InvalidSecretEncoding r))"
| "api_of_storage (SecretCrypto r) = ApiInternal (storage_error_display (SecretCrypto r))"
| "api_of_storage (Sqlx e) = ApiInternal (storage_error_display (Sqlx e))"
| "api_of_storage (MigrationError e) = ApiInternal (storage_error_display (MigrationError e))"

fun api_of_control :: "runtime_control_error \<Rightarrow> api_error" where
  "api_of_control (ProjectNotManaged p) =
     ApiNotFound (''runtime for project '' @ quoted p @ '' is not managed by this daemon'')"
| "api_of_control ReloadInProgress = ApiConflict ''runtime reload or shutdown is already in progress'' None"
| "api_of_control (CtlInvalidConfig r) = UnprocessableEntity r None"
| "api_of_control (CtlCommandTemplateNotFound t) = ApiNotFound (''command template '' @ quoted t @ '' was not found'')"
| "api_of_control (CommandRejected r) = UnprocessableEntity r None"
| "api_of_control CtlCommandQueueFull = TooManyRequests ''command queue is full''"
| "api_of_control (CtlCommandQueueUnavailable r) = ServiceUnavailable r"
| "api_of_control (UnsafeOldRuntimeShutdown r) = ServiceUnavailable r"
| "api_of_control (RuntimeUnavailable r) = ServiceUnavailable r"
| "api_of_control (StartFailed r) = ServiceUnavailable r"
| "api_of_control (ShuttingDown r) = ServiceUnavailable r"
| "api_of_control (CtlStorage r) = ApiInternal r"

section \<open>Roles and scopes\<close>

definition min_bearer_token_bytes :: nat where "min_bearer_token_bytes = 32"

datatype management_permission = ProjectRead | ProjectConfigWrite | CommandExecute | RuntimeReload | FailureResolve

fun permission_as_str :: "management_permission \<Rightarrow> string" where
  "permission_as_str ProjectRead = ''project:read''"
| "permission_as_str ProjectConfigWrite = ''project_config:write''"
| "permission_as_str CommandExecute = ''command:execute''"
| "permission_as_str RuntimeReload = ''runtime:reload''"
| "permission_as_str FailureResolve = ''failure:resolve''"

datatype management_role = Admin | Operator | Viewer

definition role_parse :: "string \<Rightarrow> management_role option" where
  "role_parse v =
     (let s = to_ascii_lowercase (trim v) in
      if s = ''admin'' then Some Admin
      else if s = ''operator'' then Some Operator
      else if s = ''viewer'' then Some Viewer
      else None)"

fun role_allows :: "management_role \<Rightarrow> management_permission \<Rightarrow> bool" where
  "role_allows Admin _ = True"
| "role_allows Operator p = (p \<in> {ProjectRead, CommandExecute, RuntimeReload, FailureResolve})"
| "role_allows Viewer p = (p = ProjectRead)"

fun role_as_str :: "management_role \<Rightarrow> string" where
  "role_as_str Admin = ''admin''"
| "role_as_str Operator = ''operator''"
| "role_as_str Viewer = ''viewer''"

datatype management_project_scope = AllProjects | ScopedProjects "project_id list"

fun scope_allows :: "management_project_scope \<Rightarrow> project_id \<Rightarrow> bool" where
  "scope_allows AllProjects pid = True"
| "scope_allows (ScopedProjects ps) pid = (pid \<in> set ps)"

record auth_context =
  ac_actor_id :: user_id
  ac_role :: management_role
  ac_project_scope :: management_project_scope

definition context_authorize_project ::
    "auth_context \<Rightarrow> project_id \<Rightarrow> management_permission \<Rightarrow> api_error + unit" where
  "context_authorize_project c pid permission =
     (if \<not> role_allows (ac_role c) permission
      then Inl (Forbidden (''permission '' @ quoted (permission_as_str permission) @ '' is required for role '' @
                  quoted (role_as_str (ac_role c))))
      else if \<not> scope_allows (ac_project_scope c) pid
      then Inl (Forbidden (''actor '' @ quoted (ac_actor_id c) @ '' is not authorized for project '' @ quoted pid))
      else Inr ())"

section \<open>Tokens\<close>

record management_token =
  mt_digest :: string
  mt_context :: auth_context

type_synonym management_auth = "management_token list"

definition bearer_token_format_is_valid :: "string \<Rightarrow> bool" where
  "bearer_token_format_is_valid token \<longleftrightarrow> token \<noteq> [] \<and> \<not> list_ex is_ascii_whitespace token"

definition parse_bearer_token :: "string option \<Rightarrow> api_error + string" where
  "parse_bearer_token header =
     (case header of
        None \<Rightarrow> Inl Unauthorized
      | Some h \<Rightarrow>
          (case split_once CHR '' '' h of
             None \<Rightarrow> Inl Unauthorized
           | Some (scheme, token) \<Rightarrow>
               if \<not> eq_ignore_ascii_case scheme ''Bearer'' \<or> \<not> bearer_token_format_is_valid token
               then Inl Unauthorized else Inr token))"

definition validate_bearer_token_secret :: "string \<Rightarrow> api_error + unit" where
  "validate_bearer_token_secret token =
     (if \<not> bearer_token_format_is_valid token \<or> length token < min_bearer_token_bytes
      then Inl (ApiInternal (''management bearer token must be at least '' @ show_nat min_bearer_token_bytes @
                  '' bytes and contain no whitespace''))
      else Inr ())"

definition management_token_new :: "(string \<Rightarrow> string) \<Rightarrow> string \<Rightarrow> auth_context \<Rightarrow> api_error + management_token" where
  "management_token_new sha256 token c =
     res_bind (validate_bearer_token_secret token) (\<lambda>_. Inr \<lparr>mt_digest = sha256 token, mt_context = c\<rparr>)"

definition bearer_with_context ::
    "(string \<Rightarrow> string) \<Rightarrow> string \<Rightarrow> user_id \<Rightarrow> management_role \<Rightarrow> management_project_scope \<Rightarrow> api_error + management_auth" where
  "bearer_with_context sha256 token actor role scope =
     res_bind (management_token_new sha256 token \<lparr>ac_actor_id = actor, ac_role = role, ac_project_scope = scope\<rparr>)
       (\<lambda>t. Inr [t])"

definition auth_bearer :: "(string \<Rightarrow> string) \<Rightarrow> string \<Rightarrow> api_error + management_auth" where
  "auth_bearer sha256 token =
     res_bind (map_err api_of_domain (id_new ''user_id'' ''system:bootstrap-token'')) (\<lambda>actor.
     bearer_with_context sha256 token actor Admin AllProjects)"

text \<open>The loop goes over all tokens: the last one that matches is taken.\<close>

fun match_tokens :: "string \<Rightarrow> auth_context option \<Rightarrow> management_token list \<Rightarrow> auth_context option" where
  "match_tokens presented matched [] = matched"
| "match_tokens presented matched (t # ts) =
     match_tokens presented (if mt_digest t = presented then Some (mt_context t) else matched) ts"

definition authenticate :: "(string \<Rightarrow> string) \<Rightarrow> management_auth \<Rightarrow> string option \<Rightarrow> api_error + auth_context" where
  "authenticate sha256 tokens header =
     res_bind (parse_bearer_token header) (\<lambda>token.
     ok_or Unauthorized (match_tokens (sha256 token) None tokens))"

section \<open>What authentication gives\<close>

lemma parse_bearer_token_Inr:
  "parse_bearer_token header = Inr token \<Longrightarrow>
     (\<exists>scheme. header = Some (scheme @ CHR '' '' # token) \<and> CHR '' '' \<notin> set scheme \<and>
        eq_ignore_ascii_case scheme ''Bearer'' \<and> bearer_token_format_is_valid token)"
  by (auto simp: parse_bearer_token_def split: option.splits if_splits)

lemma match_tokens_some:
  "match_tokens presented matched ts = Some c \<Longrightarrow>
     matched = Some c \<or> (\<exists>t \<in> set ts. mt_digest t = presented \<and> mt_context t = c)"
  by (induction presented matched ts rule: match_tokens.induct) (auto split: if_splits)

lemma authenticate_Inr:
  assumes "authenticate sha256 tokens header = Inr c"
  shows "\<exists>scheme token t. header = Some (scheme @ CHR '' '' # token) \<and> eq_ignore_ascii_case scheme ''Bearer'' \<and>
           bearer_token_format_is_valid token \<and> t \<in> set tokens \<and> mt_digest t = sha256 token \<and> mt_context t = c"
proof -
  obtain token where t: "parse_bearer_token header = Inr token" "match_tokens (sha256 token) None tokens = Some c"
    using assms by (auto simp: authenticate_def)
  from match_tokens_some [OF t(2)] parse_bearer_token_Inr [OF t(1)] show ?thesis by auto
qed

lemma authenticate_Inl: "authenticate sha256 tokens header = Inl e \<Longrightarrow> e = Unauthorized"
  by (auto simp: authenticate_def parse_bearer_token_def split: option.splits if_splits)

lemma context_authorize_Inr [simp]:
  "context_authorize_project c pid p = Inr u \<longleftrightarrow> role_allows (ac_role c) p \<and> scope_allows (ac_project_scope c) pid"
  by (auto simp: context_authorize_project_def)

end
