(* ===== verification/Api_Config.thy ===== *)
theory Api_Config
  imports Api_Auth
begin

text \<open>
  The configuration document of the management API (\<^verbatim>\<open>dto.rs\<close>, and the part of \<^verbatim>\<open>handler.rs\<close> on secrets): a configuration
  is shown with its secrets redacted, and an update that still has the redaction mark in place of a secret keeps
  the existing one.
\<close>

section \<open>Documents\<close>

record project_config_document =
  dc_project_id :: project_id
  dc_tenant_id :: "tenant_id option"
  dc_name :: string
  dc_description :: "string option"
  dc_enabled :: bool
  dc_brokers :: "broker_connection_config list"
  dc_routes :: "topic_route_config list"
  dc_schema_mappings :: "payload_schema_mapping list"
  dc_rules :: "rule_definition list"
  dc_command_templates :: "command_template list"
  dc_sinks :: "sink_definition list"

definition document_from_domain :: "project_config \<Rightarrow> project_config_document" where
  "document_from_domain c =
     \<lparr>dc_project_id = pc_id c, dc_tenant_id = pc_tenant_id c, dc_name = pc_name c, dc_description = pc_description c,
      dc_enabled = pc_enabled c, dc_brokers = pc_brokers c, dc_routes = pc_routes c,
      dc_schema_mappings = pc_schema_mappings c, dc_rules = pc_rules c,
      dc_command_templates = pc_command_templates c, dc_sinks = pc_sinks c\<rparr>"

definition document_into_domain :: "project_config_document \<Rightarrow> u64 \<Rightarrow> project_config" where
  "document_into_domain d version =
     \<lparr>pc_id = dc_project_id d, pc_tenant_id = dc_tenant_id d, pc_name = dc_name d, pc_description = dc_description d,
      pc_enabled = dc_enabled d, pc_version = version, pc_brokers = dc_brokers d, pc_routes = dc_routes d,
      pc_schema_mappings = dc_schema_mappings d, pc_rules = dc_rules d,
      pc_command_templates = dc_command_templates d, pc_sinks = dc_sinks d\<rparr>"

definition project_config_document_schema_version :: u16 where "project_config_document_schema_version = 1"

record project_config_response =
  pp_schema_version :: u16
  pp_version :: u64
  pp_config :: project_config_document

definition config_response_from_domain :: "project_config \<Rightarrow> project_config_response" where
  "config_response_from_domain c =
     \<lparr>pp_schema_version = project_config_document_schema_version, pp_version = pc_version c,
      pp_config = document_from_domain c\<rparr>"

record update_project_config_request =
  uq_expected_version :: u64
  uq_config :: project_config_document
  uq_reason :: "string option"

record project_config_write_response =
  wp_project_id :: project_id
  wp_version :: u64
  wp_revision_id :: string
  wp_config_hash :: string
  wp_reload_required :: bool

section \<open>What a client reads\<close>

text \<open>
  The serialized document, read back: a secret is written as the redaction mark, and a duration loses what is
  below its unit.
\<close>

definition shown_credentials :: "mqtt_credentials \<Rightarrow> mqtt_credentials" where
  "shown_credentials c = c\<lparr>cr_password := secret_string_serialize (cr_password c)\<rparr>"

definition shown_broker :: "broker_connection_config \<Rightarrow> broker_connection_config" where
  "shown_broker b =
     b\<lparr>bc_credentials := map_option shown_credentials (bc_credentials b),
       bc_keep_alive := wire_seconds (bc_keep_alive b),
       bc_reconnect := \<lparr>rp_min_delay = wire_millis (rp_min_delay (bc_reconnect b)),
                        rp_max_delay = wire_millis (rp_max_delay (bc_reconnect b))\<rparr>\<rparr>"

definition shown_header :: "http_header_template \<Rightarrow> http_header_template" where
  "shown_header h = h\<lparr>hh_value := secret_string_serialize (hh_value h)\<rparr>"

fun shown_sink_kind :: "sink_kind \<Rightarrow> sink_kind" where
  "shown_sink_kind (Webhook url mth headers timeout) =
     Webhook url mth (map shown_header headers) (wire_millis timeout)"
| "shown_sink_kind (Database c t) = Database c t"

definition shown_sink :: "sink_definition \<Rightarrow> sink_definition" where
  "shown_sink s = s\<lparr>sk_kind := shown_sink_kind (sk_kind s)\<rparr>"

definition shown_document :: "project_config_document \<Rightarrow> project_config_document" where
  "shown_document d = d\<lparr>dc_brokers := map shown_broker (dc_brokers d), dc_sinks := map shown_sink (dc_sinks d)\<rparr>"

section \<open>Merging secrets\<close>

definition redacted_secret :: string where "redacted_secret = ''<redacted>''"

definition existing_broker_password :: "project_config \<Rightarrow> broker_id \<Rightarrow> api_error + secret_string" where
  "existing_broker_password existing broker_id =
     ok_or (BadRequest (''broker '' @ quoted broker_id @ '' submitted a redacted password but no existing secret exists''))
       (map_option cr_password
         (Option.bind (List.find (\<lambda>b. bc_id b = broker_id) (pc_brokers existing)) bc_credentials))"

fun find_header :: "string \<Rightarrow> sink_kind \<Rightarrow> http_header_template option" where
  "find_header name (Webhook url mth headers timeout) =
     List.find (\<lambda>h. eq_ignore_ascii_case (hh_name h) name) headers"
| "find_header name (Database _ _) = None"

definition existing_sink_header :: "project_config \<Rightarrow> sink_id \<Rightarrow> string \<Rightarrow> api_error + secret_string" where
  "existing_sink_header existing sink_id header_name =
     ok_or (BadRequest (''sink '' @ quoted sink_id @ '' header '' @ quoted header_name @
              '' submitted a redacted value but no existing secret exists''))
       (map_option hh_value
         (Option.bind (List.find (\<lambda>s. sk_id s = sink_id) (pc_sinks existing)) (\<lambda>s. find_header header_name (sk_kind s))))"

definition merge_broker ::
    "project_config \<Rightarrow> broker_connection_config \<Rightarrow> api_error + broker_connection_config" where
  "merge_broker existing b =
     (case bc_credentials b of
        None \<Rightarrow> Inr b
      | Some c \<Rightarrow>
          if cr_password c = redacted_secret
          then res_bind (existing_broker_password existing (bc_id b)) (\<lambda>p.
                 Inr (b\<lparr>bc_credentials := Some (c\<lparr>cr_password := p\<rparr>)\<rparr>))
          else Inr b)"

definition merge_header ::
    "project_config \<Rightarrow> sink_id \<Rightarrow> http_header_template \<Rightarrow> api_error + http_header_template" where
  "merge_header existing sink_id h =
     (if hh_value h = redacted_secret
      then res_bind (existing_sink_header existing sink_id (hh_name h)) (\<lambda>v. Inr (h\<lparr>hh_value := v\<rparr>))
      else Inr h)"

definition merge_sink :: "project_config \<Rightarrow> sink_definition \<Rightarrow> api_error + sink_definition" where
  "merge_sink existing s =
     (case sk_kind s of
        Webhook url mth headers timeout \<Rightarrow>
          res_bind (try_collect (merge_header existing (sk_id s)) headers) (\<lambda>hs.
          Inr (s\<lparr>sk_kind := Webhook url mth hs timeout\<rparr>))
      | Database _ _ \<Rightarrow> Inr s)"

definition merge_redacted_secrets :: "project_config \<Rightarrow> project_config \<Rightarrow> api_error + project_config" where
  "merge_redacted_secrets existing proposed =
     res_bind (try_collect (merge_broker existing) (pc_brokers proposed)) (\<lambda>bs.
     res_bind (try_collect (merge_sink existing) (pc_sinks proposed)) (\<lambda>ss.
     Inr (proposed\<lparr>pc_brokers := bs, pc_sinks := ss\<rparr>)))"

section \<open>What a merge gives\<close>

lemma find_by_key:
  assumes "distinct (map f xs)" "x \<in> set xs"
  shows "List.find (\<lambda>y. f y = f x) xs = Some x"
  using assms by (induction xs) auto

lemma find_some_key: "List.find P xs = Some x \<Longrightarrow> x \<in> set xs \<and> P x"
  by (induction xs) (auto split: if_splits)

lemma shown_broker_merges:
  assumes "distinct (map bc_id (pc_brokers c))" "b \<in> set (pc_brokers c)" "broker_storable b"
  shows "merge_broker c (shown_broker b) = Inr b"
proof (cases "bc_credentials b")
  case None
  then show ?thesis using assms(3)
    by (cases b) (simp add: merge_broker_def shown_broker_def broker_storable_def wire_seconds_id wire_millis_id)
next
  case (Some cr)
  then show ?thesis using assms(3) find_by_key [OF assms(1,2)]
    by (cases b) (simp add: merge_broker_def shown_broker_def broker_storable_def wire_seconds_id wire_millis_id
        shown_credentials_def secret_string_serialize_def redacted_secret_def existing_broker_password_def)
qed

text \<open>Two headers of the same name, whatever its case, have the same value.\<close>

fun headers_agree :: "sink_kind \<Rightarrow> bool" where
  "headers_agree (Webhook url mth headers timeout) =
     (\<forall>h \<in> set headers. \<forall>h' \<in> set headers.
        eq_ignore_ascii_case (hh_name h) (hh_name h') \<longrightarrow> hh_value h = hh_value h')"
| "headers_agree (Database _ _) = True"

lemma eq_ignore_equiv:
  "eq_ignore_ascii_case a a" "eq_ignore_ascii_case a b \<Longrightarrow> eq_ignore_ascii_case b a"
  "eq_ignore_ascii_case a b \<Longrightarrow> eq_ignore_ascii_case b c \<Longrightarrow> eq_ignore_ascii_case a c"
  by (simp_all add: eq_ignore_ascii_case_def)

lemma find_header_exists:
  assumes "h \<in> set headers"
  shows "\<exists>h'. find_header (hh_name h) (Webhook url mth headers timeout) = Some h' \<and> h' \<in> set headers \<and>
           eq_ignore_ascii_case (hh_name h') (hh_name h)"
proof (cases "List.find (\<lambda>k. eq_ignore_ascii_case (hh_name k) (hh_name h)) headers")
  case None
  then show ?thesis using assms eq_ignore_equiv(1) by (auto simp: find_None_iff)
next
  case (Some h')
  then show ?thesis using find_some_key by fastforce
qed

definition header_shown_as :: "project_config \<Rightarrow> sink_definition \<Rightarrow> http_header_template \<Rightarrow> http_header_template" where
  "header_shown_as c s h = h\<lparr>hh_value := hh_value (the (find_header (hh_name h) (sk_kind s)))\<rparr>"

lemma shown_header_merges:
  assumes "distinct (map sk_id (pc_sinks c))" "s \<in> set (pc_sinks c)" "sk_kind s = Webhook url mth headers timeout"
    and "h \<in> set headers"
  shows "merge_header c (sk_id s) (shown_header h) = Inr (header_shown_as c s h)"
proof -
  obtain h' where "find_header (hh_name h) (sk_kind s) = Some h'"
    using find_header_exists [OF assms(4)] assms(3) by metis
  then show ?thesis
    using find_by_key [OF assms(1,2)]
    by (cases h) (simp add: merge_header_def shown_header_def secret_string_serialize_def redacted_secret_def
        existing_sink_header_def header_shown_as_def)
qed

lemma headers_shown_iff:
  "map (header_shown_as c s) headers = headers \<longleftrightarrow> headers_agree (Webhook url mth headers timeout)"
  if kind: "sk_kind s = Webhook url mth headers timeout"
proof -
  have keep: "header_shown_as c s h = h \<longleftrightarrow> hh_value (the (find_header (hh_name h) (sk_kind s))) = hh_value h" for h
    by (cases h) (simp add: header_shown_as_def)
  have "(\<forall>h \<in> set headers. header_shown_as c s h = h) \<longleftrightarrow> headers_agree (Webhook url mth headers timeout)"
  proof
    assume same: "\<forall>h \<in> set headers. header_shown_as c s h = h"
    show "headers_agree (Webhook url mth headers timeout)"
      unfolding headers_agree.simps
    proof (intro ballI impI)
      fix h h' assume h: "h \<in> set headers" "h' \<in> set headers" "eq_ignore_ascii_case (hh_name h) (hh_name h')"
      have same_name: "(\<lambda>k. eq_ignore_ascii_case (hh_name k) (hh_name h)) = (\<lambda>k. eq_ignore_ascii_case (hh_name k) (hh_name h'))"
        using h(3) by (auto simp: eq_ignore_ascii_case_def)
      have "find_header (hh_name h) (sk_kind s) = find_header (hh_name h') (sk_kind s)"
        unfolding kind find_header.simps by (rule arg_cong [OF same_name])
      moreover have "hh_value (the (find_header (hh_name h) (sk_kind s))) = hh_value h"
          "hh_value (the (find_header (hh_name h') (sk_kind s))) = hh_value h'"
        using same h(1,2) keep by blast+
      ultimately show "hh_value h = hh_value h'" by simp
    qed
  next
    assume agree: "headers_agree (Webhook url mth headers timeout)"
    show "\<forall>h \<in> set headers. header_shown_as c s h = h"
    proof
      fix h assume h: "h \<in> set headers"
      then show "header_shown_as c s h = h"
        using find_header_exists [OF h, of url mth timeout] agree by (fastforce simp: keep kind)
    qed
  qed
  then show ?thesis by (simp add: map_idI list_eq_iff_nth_eq all_set_conv_all_nth)
qed

lemma sink_kind_update_same: "s\<lparr>sk_kind := k\<rparr> = s \<longleftrightarrow> k = sk_kind s"
  by (cases s) auto

lemma shown_sink_merges:
  assumes "distinct (map sk_id (pc_sinks c))" "s \<in> set (pc_sinks c)" "sink_kind_storable (sk_kind s)"
  shows "\<exists>s'. merge_sink c (shown_sink s) = Inr s' \<and> (s' = s \<longleftrightarrow> headers_agree (sk_kind s))"
proof (cases "sk_kind s")
  case (Webhook url mth headers timeout)
  have "try_collect (merge_header c (sk_id s)) (map shown_header headers) = Inr (map (header_shown_as c s) headers)"
    using shown_header_merges [OF assms(1,2) Webhook]
    by (auto simp: try_collect_eq_Inr list_all2_map1 list_all2_map2 intro: list_all2I list.rel_refl_strong)
  moreover have "wire_millis timeout = timeout" using assms(3) Webhook by (simp add: wire_millis_id)
  ultimately show ?thesis
    using headers_shown_iff [OF Webhook, of c]
    by (simp add: merge_sink_def shown_sink_def Webhook sink_kind_update_same del: headers_agree.simps)
next
  case (Database r t)
  then show ?thesis by (simp add: merge_sink_def shown_sink_def sink_kind_update_same)
qed

section \<open>Properties\<close>

text \<open>C22: a client that reads a configuration and writes the document back unchanged, secrets still redacted, always
  succeeds in merging it, and gets back the very same configuration exactly when no webhook has two headers
  of the same name (case ignored) with different values: the second would silently take the value of the first.\<close>

theorem shown_config_merges_back:
  assumes "distinct (map bc_id (pc_brokers c))" "distinct (map sk_id (pc_sinks c))" "config_storable c"
  shows "\<exists>m. merge_redacted_secrets c (document_into_domain (shown_document (document_from_domain c)) (pc_version c)) = Inr m \<and>
           (m = c \<longleftrightarrow> (\<forall>s \<in> set (pc_sinks c). headers_agree (sk_kind s)))"
proof -
  have "try_collect (merge_broker c) (map shown_broker (pc_brokers c)) = Inr (pc_brokers c)"
    using shown_broker_merges [OF assms(1)] assms(3)
    by (auto simp: try_collect_eq_Inr list_all2_map1 config_storable_def list_all_iff intro: list.rel_refl_strong)
  moreover obtain g where g: "\<And>s. s \<in> set (pc_sinks c) \<Longrightarrow>
      merge_sink c (shown_sink s) = Inr (g s) \<and> (g s = s \<longleftrightarrow> headers_agree (sk_kind s))"
  proof -
    have "\<forall>s \<in> set (pc_sinks c). \<exists>s'. merge_sink c (shown_sink s) = Inr s' \<and> (s' = s \<longleftrightarrow> headers_agree (sk_kind s))"
      using shown_sink_merges [OF assms(2)] assms(3) by (simp add: config_storable_def list_all_iff)
    then show ?thesis using that by (auto dest!: bchoice)
  qed
  then have "try_collect (merge_sink c) (map shown_sink (pc_sinks c)) = Inr (map g (pc_sinks c))"
    by (auto simp: try_collect_eq_Inr list_all2_map1 list_all2_map2 intro: list.rel_refl_strong)
  moreover have "map g (pc_sinks c) = pc_sinks c \<longleftrightarrow> (\<forall>s \<in> set (pc_sinks c). headers_agree (sk_kind s))"
    using g map_eq_conv [of g "pc_sinks c" "\<lambda>s. s"] by auto
  ultimately show ?thesis
    by (cases c) (auto simp: merge_redacted_secrets_def document_into_domain_def shown_document_def document_from_domain_def)
qed

text \<open>A webhook with two headers whose names differ in case only.\<close>

definition twin_project :: project_config where
  "twin_project = small_project\<lparr>pc_sinks :=
     [\<lparr>sk_id = ''s1'', sk_name = ''hook'', sk_enabled = True,
       sk_kind = Webhook ''https://h'' Post [\<lparr>hh_name = ''X-Key'', hh_value = ''a''\<rparr>, \<lparr>hh_name = ''x-key'', hh_value = ''b''\<rparr>] 0\<rparr>]\<rparr>"

definition twin_shown :: project_config where
  "twin_shown = document_into_domain (shown_document (document_from_domain twin_project)) (pc_version twin_project)"

lemma twin_secrets: "secret_ok ''a''" "secret_ok ''b''" "eq_ignore_ascii_case ''X-Key'' ''x-key''"
  by code_simp+

theorem shown_config_merges_back_witness:
  "\<exists>m. merge_redacted_secrets twin_project twin_shown = Inr m \<and> m \<noteq> twin_project"
proof -
  have "config_storable twin_project"
    by (simp add: twin_project_def small_project_def config_storable_def twin_secrets whole_millis_def)
  moreover have "\<not> (\<forall>s \<in> set (pc_sinks twin_project). headers_agree (sk_kind s))"
    using twin_secrets(3) by (simp add: twin_project_def)
  ultimately show ?thesis
    using shown_config_merges_back [of twin_project]
    by (auto simp: twin_shown_def twin_project_def small_project_def)
qed

text \<open>Where a secret of a merged configuration comes from.\<close>

definition broker_secret :: "project_config \<Rightarrow> broker_id \<Rightarrow> secret_string \<Rightarrow> bool" where
  "broker_secret c i v \<longleftrightarrow>
     (\<exists>b \<in> set (pc_brokers c). bc_id b = i \<and> map_option cr_password (bc_credentials b) = Some v)"

fun kind_secret :: "sink_kind \<Rightarrow> string \<Rightarrow> secret_string \<Rightarrow> bool" where
  "kind_secret (Webhook url mth headers timeout) name v =
     (\<exists>h \<in> set headers. eq_ignore_ascii_case (hh_name h) name \<and> hh_value h = v)"
| "kind_secret (Database _ _) name v = False"

definition sink_secret :: "project_config \<Rightarrow> sink_id \<Rightarrow> string \<Rightarrow> secret_string \<Rightarrow> bool" where
  "sink_secret c i name v \<longleftrightarrow> (\<exists>s \<in> set (pc_sinks c). sk_id s = i \<and> kind_secret (sk_kind s) name v)"

lemma list_all2_source: "list_all2 P xs ys \<Longrightarrow> y \<in> set ys \<Longrightarrow> \<exists>x \<in> set xs. P x y"
  by (induction rule: list_all2_induct) auto

lemma existing_broker_password_secret: "existing_broker_password existing i = Inr v \<Longrightarrow> broker_secret existing i v"
  by (fastforce simp: existing_broker_password_def broker_secret_def bind_eq_Some_conv dest!: find_some_key)

lemma merge_broker_secret:
  assumes "merge_broker existing b = Inr m"
  shows "bc_id m = bc_id b \<and> (\<forall>v. map_option cr_password (bc_credentials m) = Some v \<longrightarrow>
           v \<noteq> redacted_secret \<and> map_option cr_password (bc_credentials b) = Some v \<or> broker_secret existing (bc_id b) v)"
  using assms existing_broker_password_secret [of existing "bc_id b"]
  by (auto simp: merge_broker_def split: option.splits if_splits)

lemma merge_header_secret:
  assumes "merge_header existing i h = Inr m"
  shows "hh_name m = hh_name h \<and> (hh_value m \<noteq> redacted_secret \<and> hh_value m = hh_value h \<or>
           sink_secret existing i (hh_name h) (hh_value m))"
proof -
  have "find_header name k = Some h' \<Longrightarrow> kind_secret k name (hh_value h')" for name k h'
    by (cases k) (auto dest!: find_some_key)
  then show ?thesis using assms
    by (fastforce simp: merge_header_def existing_sink_header_def sink_secret_def bind_eq_Some_conv
        split: if_splits dest!: find_some_key)
qed

lemma merge_sink_secret:
  assumes "merge_sink existing s = Inr m" "kind_secret (sk_kind m) name v"
  shows "sk_id m = sk_id s \<and>
         (v \<noteq> redacted_secret \<and> kind_secret (sk_kind s) name v \<or> (\<exists>n. eq_ignore_ascii_case n name \<and> sink_secret existing (sk_id s) n v))"
proof (cases "sk_kind s")
  case (Webhook url mth headers timeout)
  then obtain hs where hs: "list_all2 (\<lambda>x y. merge_header existing (sk_id s) x = Inr y) headers hs"
      "m = s\<lparr>sk_kind := Webhook url mth hs timeout\<rparr>"
    using assms(1) by (auto simp: merge_sink_def try_collect_eq_Inr)
  then obtain y where y: "y \<in> set hs" "eq_ignore_ascii_case (hh_name y) name" "hh_value y = v"
    using assms(2) by auto
  then obtain x where x: "x \<in> set headers" "merge_header existing (sk_id s) x = Inr y"
    using list_all2_source [OF hs(1)] by blast
  from merge_header_secret [OF x(2)] x(1) y hs(2) Webhook show ?thesis by auto
next
  case (Database r t)
  then show ?thesis using assms by (auto simp: merge_sink_def)
qed

text \<open>C23: merging never moves a secret: a password of the merged configuration was submitted for that broker, or is the
  existing password of the broker with the same id; a header value was submitted for that sink and name, or
  is the existing value of that sink under that name. The redaction mark of a submitted document is never taken for
  a secret: the merged configuration holds the mark only where the existing one already held it for the same owner
  (as it can when it was made from a document that shows no secrets), and if that held it nowhere, neither does this.\<close>

theorem merged_secrets_keep_their_owner:
  assumes "merge_redacted_secrets existing proposed = Inr m"
  shows "(\<forall>i v. broker_secret m i v \<longrightarrow>
            v \<noteq> redacted_secret \<and> broker_secret proposed i v \<or> broker_secret existing i v) \<and>
         (\<forall>i name v. sink_secret m i name v \<longrightarrow>
            v \<noteq> redacted_secret \<and> sink_secret proposed i name v \<or>
            (\<exists>n. eq_ignore_ascii_case n name \<and> sink_secret existing i n v)) \<and>
         (\<forall>i. broker_secret m i redacted_secret \<longrightarrow> broker_secret existing i redacted_secret) \<and>
         (\<forall>i name. sink_secret m i name redacted_secret \<longrightarrow>
            (\<exists>n. eq_ignore_ascii_case n name \<and> sink_secret existing i n redacted_secret))"
proof -
  obtain bs ss where m: "list_all2 (\<lambda>x y. merge_broker existing x = Inr y) (pc_brokers proposed) bs"
      "list_all2 (\<lambda>x y. merge_sink existing x = Inr y) (pc_sinks proposed) ss"
      "m = proposed\<lparr>pc_brokers := bs, pc_sinks := ss\<rparr>"
    using assms by (auto simp: merge_redacted_secrets_def try_collect_eq_Inr)
  have "(\<forall>i v. broker_secret m i v \<longrightarrow> v \<noteq> redacted_secret \<and> broker_secret proposed i v \<or> broker_secret existing i v) \<and>
      (\<forall>i name v. sink_secret m i name v \<longrightarrow>
         v \<noteq> redacted_secret \<and> sink_secret proposed i name v \<or>
         (\<exists>n. eq_ignore_ascii_case n name \<and> sink_secret existing i n v))"
  proof (intro conjI allI impI)
    fix i v assume "broker_secret m i v"
    then obtain y where y: "y \<in> set bs" "bc_id y = i" "map_option cr_password (bc_credentials y) = Some v"
      using m(3) by (auto simp: broker_secret_def)
    with list_all2_source [OF m(1)] obtain x where "x \<in> set (pc_brokers proposed)" "merge_broker existing x = Inr y" by blast
    with merge_broker_secret [of existing x y] y show
        "v \<noteq> redacted_secret \<and> broker_secret proposed i v \<or> broker_secret existing i v"
      by (auto simp: broker_secret_def)
  next
    fix i name v assume "sink_secret m i name v"
    then obtain y where y: "y \<in> set ss" "sk_id y = i" "kind_secret (sk_kind y) name v"
      using m(3) by (auto simp: sink_secret_def)
    with list_all2_source [OF m(2)] obtain x where "x \<in> set (pc_sinks proposed)" "merge_sink existing x = Inr y" by blast
    with merge_sink_secret [of existing x y name v] y show
        "v \<noteq> redacted_secret \<and> sink_secret proposed i name v \<or>
         (\<exists>n. eq_ignore_ascii_case n name \<and> sink_secret existing i n v)"
      by (auto simp: sink_secret_def)
  qed
  then show ?thesis by blast
qed

theorem merged_secrets_keep_their_owner_witness:
  "\<exists>m. merge_redacted_secrets twin_project twin_shown = Inr m \<and> \<not> sink_secret m ''s1'' ''x-key'' redacted_secret"
proof -
  have "\<not> isl (merge_redacted_secrets twin_project twin_shown)"
    by (simp add: twin_shown_def twin_project_def small_project_def merge_redacted_secrets_def document_into_domain_def
        shown_document_def document_from_domain_def shown_sink_def merge_sink_def merge_header_def shown_header_def
        secret_string_serialize_def redacted_secret_def existing_sink_header_def twin_secrets eq_ignore_equiv(1))
  then obtain m where m: "merge_redacted_secrets twin_project twin_shown = Inr m"
    by (cases "merge_redacted_secrets twin_project twin_shown") auto
  have "\<not> sink_secret twin_project ''s1'' n redacted_secret" for n
    by (simp add: sink_secret_def twin_project_def small_project_def redacted_secret_def)
  with merged_secrets_keep_their_owner [OF m] m show ?thesis by blast
qed

end
