(* ===== verification/Api_Handler.thy ===== *)
theory Api_Handler
  imports Api_Config
begin

text \<open>
  The handlers of the management API (\<^verbatim>\<open>handler.rs\<close>, with \<^verbatim>\<open>state.rs\<close>, \<^verbatim>\<open>storage.rs\<close>, the lists of \<^verbatim>\<open>dto.rs\<close> and the routes of
  \<^verbatim>\<open>router.rs\<close>). The traits \<^verbatim>\<open>ManagementStorage\<close> and \<^verbatim>\<open>RuntimeControl\<close> are records of operations on a state; what
  the handlers rely on is the locale \<open>management_backend\<close>. The web framework is a parameter: a request is what the
  handlers read of it, and the deserializers of the bodies and of timestamps are functions.
\<close>

section \<open>Actions\<close>

text \<open>An asynchronous call that may fail: a result and the state it leaves.\<close>

type_synonym ('s, 'e, 'a) action = "'s \<Rightarrow> ('e + 'a) \<times> 's"

definition act_lift :: "'e + 'a \<Rightarrow> ('s, 'e, 'a) action" where
  "act_lift r s = (r, s)"

definition act_bind :: "('s, 'e, 'a) action \<Rightarrow> ('a \<Rightarrow> ('s, 'e, 'b) action) \<Rightarrow> ('s, 'e, 'b) action" where
  "act_bind m f s = (case m s of (Inl e, s') \<Rightarrow> (Inl e, s') | (Inr x, s') \<Rightarrow> f x s')"

definition act_err :: "('e \<Rightarrow> 'f) \<Rightarrow> ('s, 'e, 'a) action \<Rightarrow> ('s, 'f, 'a) action" where
  "act_err g m s = (case m s of (r, s') \<Rightarrow> (map_err g r, s'))"

section \<open>Requests and state\<close>

record api_request =
  rq_path :: "string \<Rightarrow> string option"
  rq_query :: "string \<Rightarrow> string option"
  rq_authorization :: "string option"
  rq_content_length :: "nat option"
  rq_payload :: "string + string"

record ('s) management_storage =
  ms_health_check :: "('s, storage_error, unit) action"
  ms_load_project_config :: "project_id \<Rightarrow> ('s, storage_error, project_config option) action"
  ms_update_project_config ::
    "project_config \<Rightarrow> u64 \<Rightarrow> audit_context \<Rightarrow> ('s, storage_error, project_config_write_result) action"
  ms_list_audit_events :: "project_id \<Rightarrow> operational_list_query \<Rightarrow> ('s, storage_error, audit_event_record list) action"
  ms_list_failures :: "project_id \<Rightarrow> failure_list_query \<Rightarrow> ('s, storage_error, failure_event_record list) action"
  ms_resolve_failure :: "project_id \<Rightarrow> string \<Rightarrow> string \<Rightarrow> audit_context \<Rightarrow> ('s, storage_error, unit) action"
  ms_list_delivery_outcomes ::
    "project_id \<Rightarrow> operational_list_query \<Rightarrow> ('s, storage_error, sink_delivery_outcome_record list) action"

record ('s, 'rx) runtime_control =
  rt_readiness :: "('s, runtime_control_error, runtime_readiness_response) action"
  rt_status :: "project_id \<Rightarrow> ('s, runtime_control_error, runtime_status_response) action"
  rt_subscribe_realtime_events :: "project_id \<Rightarrow> ('s, runtime_control_error, 'rx) action"
  rt_validate_candidate_config :: "project_id \<Rightarrow> project_config \<Rightarrow> ('s, runtime_control_error, unit) action"
  rt_reload :: "project_id \<Rightarrow> audit_context \<Rightarrow> ('s, runtime_control_error, runtime_reload_response) action"
  rt_execute_command ::
    "project_id \<Rightarrow> command_template_id \<Rightarrow> command_params \<Rightarrow> audit_context \<Rightarrow>
     ('s, runtime_control_error, execute_command_response) action"

record ('s, 'rx) api_state =
  as_storage :: "'s management_storage"
  as_runtime :: "('s, 'rx) runtime_control"
  as_auth :: management_auth
  as_max_config_body_bytes :: nat

record resolve_failure_request =
  rf_resolution :: string
  rf_reason :: "string option"

record execute_command_request =
  eq_params :: command_params
  eq_reason :: "string option"

text \<open>What the handlers use of other crates: SHA-256, the deserializers of bodies and of RFC 3339 timestamps.\<close>

record api_lib =
  al_sha256 :: "string \<Rightarrow> string"
  al_update_request :: "nat \<Rightarrow> api_request \<Rightarrow> string + update_project_config_request"
  al_resolve_request :: "nat \<Rightarrow> api_request \<Rightarrow> string + resolve_failure_request"
  al_reload_request :: "string \<Rightarrow> string + string option"
  al_execute_request :: "string \<Rightarrow> string + execute_command_request"
  al_rfc3339 :: "string \<Rightarrow> string + timestamp"

text \<open>What the framework keeps for a request: the state it injects, and the context the guard puts there.\<close>

record ('s, 'rx) depot =
  dp_state :: "('s, 'rx) api_state option"
  dp_auth :: "auth_context option"

definition state_authenticate ::
    "(string \<Rightarrow> string) \<Rightarrow> ('s, 'rx) api_state \<Rightarrow> string option \<Rightarrow> api_error + auth_context" where
  "state_authenticate sha256 st header = authenticate sha256 (as_auth st) header"

definition authorized_state :: "('s, 'rx) depot \<Rightarrow> api_error + ('s, 'rx) api_state" where
  "authorized_state dp = ok_or (ApiInternal ''API state missing'') (dp_state dp)"

section \<open>Parameters\<close>

definition default_list_limit :: u32 where "default_list_limit = 100"
definition max_list_limit :: u32 where "max_list_limit = 500"
definition runtime_reload_max_body_bytes :: nat where "runtime_reload_max_body_bytes = 8 * 1024"
definition command_execute_max_body_bytes :: nat where "command_execute_max_body_bytes = 64 * 1024"
definition management_service_name :: string where "management_service_name = ''pipe-bolt-management-api''"

definition path_param :: "api_request \<Rightarrow> string \<Rightarrow> api_error + string" where
  "path_param req name = ok_or (BadRequest (''missing path parameter '' @ quoted name)) (rq_path req name)"

definition path_project_id :: "api_request \<Rightarrow> api_error + project_id" where
  "path_project_id req =
     res_bind (path_param req ''project_id'') (\<lambda>s. map_err api_of_domain (id_new ''project_id'' s))"

definition depot_auth_context :: "('s, 'rx) depot \<Rightarrow> api_error + auth_context" where
  "depot_auth_context dp = ok_or Unauthorized (dp_auth dp)"

definition authorize_project ::
    "('s, 'rx) depot \<Rightarrow> project_id \<Rightarrow> management_permission \<Rightarrow> api_error + auth_context" where
  "authorize_project dp pid permission =
     res_bind (depot_auth_context dp) (\<lambda>c.
     res_bind (context_authorize_project c pid permission) (\<lambda>_. Inr c))"

definition api_audit_context :: "auth_context \<Rightarrow> string option \<Rightarrow> audit_context" where
  "api_audit_context c reason = \<lparr>au_actor_id = Some (ac_actor_id c), au_reason = reason\<rparr>"

definition next_config_version :: "u64 \<Rightarrow> api_error + u64" where
  "next_config_version expected =
     ok_or (UnprocessableEntity ''project config version overflow''
              (Some (JObject (bm_insert ''expected_version'' (jnum expected) []))))
       (checked_add_u64 expected 1)"

definition ensure_declared_body_size :: "api_request \<Rightarrow> nat \<Rightarrow> api_error + unit" where
  "ensure_declared_body_size req max_bytes =
     (case rq_content_length req of
        None \<Rightarrow> Inr ()
      | Some actual \<Rightarrow> if actual > max_bytes then Inl (PayloadTooLarge actual max_bytes) else Inr ())"

definition parse_optional_json_with_max_size ::
    "(string \<Rightarrow> string + 'a) \<Rightarrow> api_request \<Rightarrow> nat \<Rightarrow> api_error + 'a option" where
  "parse_optional_json_with_max_size parse req max_bytes =
     res_bind (map_err (\<lambda>e. BadRequest (''failed to read request body: '' @ e)) (rq_payload req)) (\<lambda>payload.
     if payload = [] then Inr None
     else if length payload > max_bytes then Inl (PayloadTooLarge (length payload) max_bytes)
     else map_err (\<lambda>e. BadRequest (''invalid JSON body: '' @ e)) (res_map Some (parse payload)))"

text \<open>\<^verbatim>\<open>str::parse\<close> of an unsigned integer: an optional plus sign and at least one digit, within the range.\<close>

fun decimal_value :: "nat \<Rightarrow> string \<Rightarrow> nat" where
  "decimal_value acc [] = acc"
| "decimal_value acc (c # cs) = decimal_value (acc * 10 + (of_char c - 48)) cs"

definition parse_unsigned :: "nat \<Rightarrow> string \<Rightarrow> nat option" where
  "parse_unsigned bits s =
     (let digits = (case s of c # cs \<Rightarrow> if c = CHR ''+'' then cs else s | [] \<Rightarrow> s) in
      if digits = [] \<or> \<not> list_all is_ascii_digit digits \<or> decimal_value 0 digits \<ge> 2 ^ bits then None
      else Some (decimal_value 0 digits))"

definition parse_u32 :: "string \<Rightarrow> u32 option" where
  "parse_u32 s = map_option of_nat (parse_unsigned 32 s)"

definition optional_u32_query :: "api_request \<Rightarrow> string \<Rightarrow> api_error + u32 option" where
  "optional_u32_query req name =
     opt_try (\<lambda>raw. ok_or (BadRequest (''query parameter '' @ quoted name @ '' must be an unsigned integer''))
                       (parse_u32 raw)) (rq_query req name)"

definition optional_bool_query :: "api_request \<Rightarrow> string \<Rightarrow> api_error + bool option" where
  "optional_bool_query req name =
     opt_try (\<lambda>raw.
       let s = to_ascii_lowercase (trim raw) in
       if s \<in> {''1'', ''true'', ''yes'', ''on''} then Inr True
       else if s \<in> {''0'', ''false'', ''no'', ''off''} then Inr False
       else Inl (BadRequest (''query parameter '' @ quoted name @ '' must be a boolean''))) (rq_query req name)"

definition optional_rfc3339_query :: "api_lib \<Rightarrow> api_request \<Rightarrow> string \<Rightarrow> api_error + timestamp option" where
  "optional_rfc3339_query lib req name =
     opt_try (\<lambda>raw. map_err (\<lambda>e. BadRequest (''query parameter '' @ quoted name @ '' must be RFC3339 timestamp: '' @ e))
                       (al_rfc3339 lib raw)) (rq_query req name)"

definition list_query :: "api_lib \<Rightarrow> api_request \<Rightarrow> api_error + operational_list_query" where
  "list_query lib req =
     res_bind (optional_u32_query req ''limit'') (\<lambda>limit.
     res_bind (optional_rfc3339_query lib req ''before'') (\<lambda>before.
     Inr \<lparr>ol_limit = max 1 (min max_list_limit (case limit of None \<Rightarrow> default_list_limit | Some n \<Rightarrow> n)),
          ol_before = before\<rparr>))"

section \<open>Responses\<close>

record 'a list_response =
  li_items :: "'a list"
  li_next_before :: "timestamp option"
  li_limit :: u32

record audit_event_response =
  rau_audit_event_id :: string
  rau_project_id :: "project_id option"
  rau_actor_id :: "string option"
  rau_action :: string
  rau_target_type :: string
  rau_target_id :: string
  rau_status :: string
  rau_reason :: "string option"
  rau_metadata :: json_map
  rau_occurred_at :: timestamp

definition audit_event_response_from :: "audit_event_record \<Rightarrow> audit_event_response" where
  "audit_event_response_from r =
     \<lparr>rau_audit_event_id = ae_audit_event_id r, rau_project_id = ae_project_id r, rau_actor_id = ae_actor_id r,
      rau_action = ae_action r, rau_target_type = ae_target_type r, rau_target_id = ae_target_id r,
      rau_status = audit_status_as_str (ae_status r), rau_reason = ae_reason r, rau_metadata = ae_metadata r,
      rau_occurred_at = ae_occurred_at r\<rparr>"

record failure_event_response =
  rv_failure_id :: string
  rv_project_id :: project_id
  rv_event_id :: "string option"
  rv_sink_id :: "string option"
  rv_component :: string
  rv_failure_kind :: string
  rv_severity :: string
  rv_message :: string
  rv_details :: json_map
  rv_occurred_at :: timestamp
  rv_resolved_at :: "timestamp option"
  rv_resolution :: "string option"

definition failure_event_response_from :: "failure_event_record \<Rightarrow> failure_event_response" where
  "failure_event_response_from r =
     \<lparr>rv_failure_id = fe_failure_id r, rv_project_id = fe_project_id r, rv_event_id = fe_event_id r,
      rv_sink_id = fe_sink_id r, rv_component = fe_component r, rv_failure_kind = fe_failure_kind r,
      rv_severity = failure_severity_as_str (fe_severity r), rv_message = fe_message r, rv_details = fe_details r,
      rv_occurred_at = fe_occurred_at r, rv_resolved_at = fe_resolved_at r, rv_resolution = fe_resolution r\<rparr>"

record sink_delivery_outcome_response =
  rd_delivery_id :: string
  rd_project_id :: project_id
  rd_event_id :: string
  rd_sink_id :: string
  rd_status :: string
  rd_http_status :: "u16 option"
  rd_response_body_bytes :: "u64 option"
  rd_failure_reason :: "string option"
  rd_correlation_id :: "string option"
  rd_duration_ms :: "u64 option"
  rd_attempt :: u16
  rd_occurred_at :: timestamp

definition delivery_outcome_response_from :: "sink_delivery_outcome_record \<Rightarrow> sink_delivery_outcome_response" where
  "delivery_outcome_response_from r =
     \<lparr>rd_delivery_id = so_delivery_id r, rd_project_id = so_project_id r, rd_event_id = so_event_id r,
      rd_sink_id = so_sink_id r, rd_status = so_status r, rd_http_status = so_http_status r,
      rd_response_body_bytes = so_response_body_bytes r, rd_failure_reason = so_failure_reason r,
      rd_correlation_id = so_correlation_id r, rd_duration_ms = so_duration_ms r, rd_attempt = so_attempt r,
      rd_occurred_at = so_occurred_at r\<rparr>"

text \<open>A page: the cursor is the time of its last record.\<close>

definition page_of :: "('a \<Rightarrow> timestamp) \<Rightarrow> ('a \<Rightarrow> 'b) \<Rightarrow> u32 \<Rightarrow> 'a list \<Rightarrow> 'b list_response" where
  "page_of occurred_at from_record limit items =
     \<lparr>li_items = map from_record items,
      li_next_before = (if items = [] then None else Some (occurred_at (last items))), li_limit = limit\<rparr>"

record resolve_failure_response =
  rl_failure_id :: string
  rl_resolved :: bool

record readiness_check_response =
  rc_check_status :: readiness_status
  rc_check_message :: "string option"

definition check_ready :: readiness_check_response where
  "check_ready = \<lparr>rc_check_status = Ready, rc_check_message = None\<rparr>"

definition check_not_ready :: "string \<Rightarrow> readiness_check_response" where
  "check_not_ready message = \<lparr>rc_check_status = NotReady, rc_check_message = Some message\<rparr>"

record readiness_response =
  rs_status :: readiness_status
  rs_service :: string
  rs_storage :: readiness_check_response
  rs_runtime :: runtime_readiness_response

definition readiness_from_checks ::
    "string \<Rightarrow> readiness_check_response \<Rightarrow> runtime_readiness_response \<Rightarrow> readiness_response" where
  "readiness_from_checks service storage runtime =
     \<lparr>rs_status = (if rc_check_status storage = Ready \<and> rn_status runtime = Ready then Ready else NotReady),
      rs_service = service, rs_storage = storage, rs_runtime = runtime\<rparr>"

fun readiness_http_status :: "readiness_status \<Rightarrow> nat" where
  "readiness_http_status Ready = 200"
| "readiness_http_status NotReady = 503"

section \<open>Handlers\<close>

definition readiness_inner :: "('s, 'rx) depot \<Rightarrow> ('s, api_error, readiness_response) action" where
  "readiness_inner dp =
     act_bind (act_lift (authorized_state dp)) (\<lambda>st.
     act_bind (\<lambda>s. case ms_health_check (as_storage st) s of
                 (Inr _, s') \<Rightarrow> (Inr check_ready, s')
               | (Inl _, s') \<Rightarrow> (Inr (check_not_ready ''storage check failed''), s')) (\<lambda>storage.
     act_bind (act_err api_of_control (rt_readiness (as_runtime st))) (\<lambda>runtime.
     act_lift (Inr (readiness_from_checks management_service_name storage runtime)))))"

definition get_readyz :: "('s, 'rx) depot \<Rightarrow> 's \<Rightarrow> readiness_response http_reply \<times> 's" where
  "get_readyz dp s =
     (case readiness_inner dp s of
        (r, s') \<Rightarrow>
          let response = (case r of
                Inr resp \<Rightarrow> resp
              | Inl _ \<Rightarrow>
                  readiness_from_checks management_service_name (check_not_ready ''storage check failed'')
                    \<lparr>rn_status = NotReady, rn_project_id = ''unknown'', rn_lifecycle = PhaseStopped,
                     rn_active_version = None, rn_message = Some ''runtime readiness unavailable''\<rparr>)
          in (\<lparr>hr_status = readiness_http_status (rs_status response), hr_www_authenticate = None,
               hr_body = Inr response\<rparr>, s'))"

definition get_project_config_inner ::
    "('s, 'rx) depot \<Rightarrow> api_request \<Rightarrow> ('s, api_error, project_config_response) action" where
  "get_project_config_inner dp req =
     act_bind (act_lift (authorized_state dp)) (\<lambda>st.
     act_bind (act_lift (path_project_id req)) (\<lambda>pid.
     act_bind (act_lift (authorize_project dp pid ProjectRead)) (\<lambda>_.
     act_bind (act_err api_of_storage (ms_load_project_config (as_storage st) pid)) (\<lambda>found.
     act_bind (act_lift (ok_or (ApiNotFound (''project config '' @ quoted pid @ '' was not found'')) found)) (\<lambda>config.
     act_lift (Inr (config_response_from_domain config)))))))"

definition put_project_config_inner ::
    "api_lib \<Rightarrow> ('s, 'rx) depot \<Rightarrow> api_request \<Rightarrow> ('s, api_error, project_config_write_response) action" where
  "put_project_config_inner lib dp req =
     act_bind (act_lift (authorized_state dp)) (\<lambda>st.
     act_bind (act_lift (path_project_id req)) (\<lambda>pid.
     act_bind (act_lift (authorize_project dp pid ProjectConfigWrite)) (\<lambda>auth.
     act_bind (act_lift (ensure_declared_body_size req (as_max_config_body_bytes st))) (\<lambda>_.
     act_bind (act_lift (map_err (\<lambda>e. BadRequest (''invalid config update request: '' @ e))
                           (al_update_request lib (as_max_config_body_bytes st) req))) (\<lambda>body.
     act_bind (act_lift (ensure (dc_project_id (uq_config body) = pid)
         (BadRequest (''path project_id '' @ quoted pid @ '' does not match body project_id '' @
            quoted (dc_project_id (uq_config body)))))) (\<lambda>_.
     act_bind (act_lift (next_config_version (uq_expected_version body))) (\<lambda>next_version.
     act_bind (act_err api_of_storage (ms_load_project_config (as_storage st) pid)) (\<lambda>found.
     act_bind (act_lift (ok_or (ApiNotFound (''project config '' @ quoted pid @ '' was not found'')) found)) (\<lambda>existing.
     act_bind (act_lift (merge_redacted_secrets existing (document_into_domain (uq_config body) next_version))) (\<lambda>next_config.
     act_bind (act_lift (map_err api_of_domain (project_config_validate next_config))) (\<lambda>_.
     act_bind (act_err api_of_control (rt_validate_candidate_config (as_runtime st) pid next_config)) (\<lambda>_.
     act_bind (act_err api_of_storage
         (ms_update_project_config (as_storage st) next_config (uq_expected_version body)
            (api_audit_context auth (uq_reason body)))) (\<lambda>write.
     act_lift (Inr \<lparr>wp_project_id = wr_project_id write, wp_version = wr_version write,
                    wp_revision_id = wr_revision_id write, wp_config_hash = wr_config_hash write,
                    wp_reload_required = True\<rparr>))))))))))))))"

definition get_audit_events_inner ::
    "api_lib \<Rightarrow> ('s, 'rx) depot \<Rightarrow> api_request \<Rightarrow> ('s, api_error, audit_event_response list_response) action" where
  "get_audit_events_inner lib dp req =
     act_bind (act_lift (authorized_state dp)) (\<lambda>st.
     act_bind (act_lift (path_project_id req)) (\<lambda>pid.
     act_bind (act_lift (authorize_project dp pid ProjectRead)) (\<lambda>_.
     act_bind (act_lift (list_query lib req)) (\<lambda>query.
     act_bind (act_err api_of_storage (ms_list_audit_events (as_storage st) pid query)) (\<lambda>items.
     act_lift (Inr (page_of ae_occurred_at audit_event_response_from (ol_limit query) items)))))))"

definition get_failures_inner ::
    "api_lib \<Rightarrow> ('s, 'rx) depot \<Rightarrow> api_request \<Rightarrow> ('s, api_error, failure_event_response list_response) action" where
  "get_failures_inner lib dp req =
     act_bind (act_lift (authorized_state dp)) (\<lambda>st.
     act_bind (act_lift (path_project_id req)) (\<lambda>pid.
     act_bind (act_lift (authorize_project dp pid ProjectRead)) (\<lambda>_.
     act_bind (act_lift (list_query lib req)) (\<lambda>query.
     act_bind (act_lift (optional_bool_query req ''unresolved_only'')) (\<lambda>unresolved.
     act_bind (act_err api_of_storage (ms_list_failures (as_storage st) pid
         \<lparr>fq_limit = ol_limit query, fq_before = ol_before query,
          fq_unresolved_only = (case unresolved of None \<Rightarrow> False | Some b \<Rightarrow> b)\<rparr>)) (\<lambda>items.
     act_lift (Inr (page_of fe_occurred_at failure_event_response_from (ol_limit query) items))))))))"

definition resolve_failure_inner ::
    "api_lib \<Rightarrow> ('s, 'rx) depot \<Rightarrow> api_request \<Rightarrow> ('s, api_error, resolve_failure_response) action" where
  "resolve_failure_inner lib dp req =
     act_bind (act_lift (authorized_state dp)) (\<lambda>st.
     act_bind (act_lift (path_project_id req)) (\<lambda>pid.
     act_bind (act_lift (authorize_project dp pid FailureResolve)) (\<lambda>auth.
     act_bind (act_lift (path_param req ''failure_id'')) (\<lambda>failure_id.
     act_bind (act_lift (map_err (\<lambda>e. BadRequest (''invalid failure resolution request: '' @ e))
                           (al_resolve_request lib (16 * 1024) req))) (\<lambda>body.
     act_bind (act_err api_of_storage (ms_resolve_failure (as_storage st) pid failure_id (rf_resolution body)
                 (api_audit_context auth (rf_reason body)))) (\<lambda>_.
     act_lift (Inr \<lparr>rl_failure_id = failure_id, rl_resolved = True\<rparr>)))))))"

definition get_delivery_outcomes_inner ::
    "api_lib \<Rightarrow> ('s, 'rx) depot \<Rightarrow> api_request \<Rightarrow>
     ('s, api_error, sink_delivery_outcome_response list_response) action" where
  "get_delivery_outcomes_inner lib dp req =
     act_bind (act_lift (authorized_state dp)) (\<lambda>st.
     act_bind (act_lift (path_project_id req)) (\<lambda>pid.
     act_bind (act_lift (authorize_project dp pid ProjectRead)) (\<lambda>_.
     act_bind (act_lift (list_query lib req)) (\<lambda>query.
     act_bind (act_err api_of_storage (ms_list_delivery_outcomes (as_storage st) pid query)) (\<lambda>items.
     act_lift (Inr (page_of so_occurred_at delivery_outcome_response_from (ol_limit query) items)))))))"

definition get_runtime_status_inner ::
    "('s, 'rx) depot \<Rightarrow> api_request \<Rightarrow> ('s, api_error, runtime_status_response) action" where
  "get_runtime_status_inner dp req =
     act_bind (act_lift (authorized_state dp)) (\<lambda>st.
     act_bind (act_lift (path_project_id req)) (\<lambda>pid.
     act_bind (act_lift (authorize_project dp pid ProjectRead)) (\<lambda>_.
     act_err api_of_control (rt_status (as_runtime st) pid))))"

definition post_runtime_reload_inner ::
    "api_lib \<Rightarrow> ('s, 'rx) depot \<Rightarrow> api_request \<Rightarrow> ('s, api_error, runtime_reload_response) action" where
  "post_runtime_reload_inner lib dp req =
     act_bind (act_lift (authorized_state dp)) (\<lambda>st.
     act_bind (act_lift (path_project_id req)) (\<lambda>pid.
     act_bind (act_lift (authorize_project dp pid RuntimeReload)) (\<lambda>auth.
     act_bind (act_lift (ensure_declared_body_size req runtime_reload_max_body_bytes)) (\<lambda>_.
     act_bind (act_lift (parse_optional_json_with_max_size (al_reload_request lib) req runtime_reload_max_body_bytes)) (\<lambda>body.
     act_err api_of_control (rt_reload (as_runtime st) pid
       (api_audit_context auth (case body of None \<Rightarrow> None | Some reason \<Rightarrow> reason))))))))"

definition post_execute_command_inner ::
    "api_lib \<Rightarrow> ('s, 'rx) depot \<Rightarrow> api_request \<Rightarrow> ('s, api_error, execute_command_response) action" where
  "post_execute_command_inner lib dp req =
     act_bind (act_lift (authorized_state dp)) (\<lambda>st.
     act_bind (act_lift (path_project_id req)) (\<lambda>pid.
     act_bind (act_lift (res_bind (path_param req ''command_template_id'') (\<lambda>t.
         map_err api_of_domain (id_new ''command_template_id'' t)))) (\<lambda>tid.
     act_bind (act_lift (authorize_project dp pid CommandExecute)) (\<lambda>auth.
     act_bind (act_lift (ensure_declared_body_size req command_execute_max_body_bytes)) (\<lambda>_.
     act_bind (act_lift (parse_optional_json_with_max_size (al_execute_request lib) req command_execute_max_body_bytes)) (\<lambda>body.
     let b = (case body of None \<Rightarrow> \<lparr>eq_params = [], eq_reason = None\<rparr> | Some b \<Rightarrow> b) in
     act_err api_of_control (rt_execute_command (as_runtime st) pid tid (eq_params b)
       (api_audit_context auth (eq_reason b)))))))))"

end
