(* ===== verification/Config_Loader.thy ===== *)
theory Config_Loader
  imports Api_Handler Runtime_Config
begin

text \<open>
  What the daemon reads before it starts (\<^verbatim>\<open>config_loader.rs\<close>): the settings in the environment and the configuration file,
  with every error. The environment is a function; the file system and the deserializer of a configuration are
  parameters.
\<close>

section \<open>Settings and errors\<close>

text \<open>\<open>pe_var\<close> is \<^verbatim>\<open>std::env::var\<close>, which fails on values that are not UTF-8; \<open>pe_var_os\<close> is \<^verbatim>\<open>var_os\<close> made lossy.\<close>

record process_env =
  pe_var :: "string \<Rightarrow> string option"
  pe_var_os :: "string \<Rightarrow> string option"

datatype config_load_error =
  InvalidOptions string
| InvalidSocketAddr string
| NotAFile string
| CfgTooLarge u64 u64
| CfgRead string string
| CfgJson string string
| CfgValidation domain_error
| MissingEnv string
| InvalidBool string string
| InvalidU32 string string
| CfgProjectNotFound project_id
| CfgStorage storage_error
| ProjectIdMismatch project_id project_id
| InvalidStorageKeyring string
| InvalidUsize string string
| InvalidManagementRole string string

fun config_load_error_display :: "config_load_error \<Rightarrow> string" where
  "config_load_error_display (InvalidOptions r) = ''invalid config load options: '' @ r"
| "config_load_error_display (InvalidSocketAddr v) =
     ''invalid socket address '' @ quoted v @ '': invalid socket address syntax''"
| "config_load_error_display (NotAFile p) = ''project config path is not a regular file: '' @ p"
| "config_load_error_display (CfgTooLarge actual mx) =
     ''project config is too large: '' @ show_nat (unat actual) @ '' bytes exceeds '' @ show_nat (unat mx) @ '' bytes''"
| "config_load_error_display (CfgRead p e) = ''failed to read project config from '' @ p @ '': '' @ e"
| "config_load_error_display (CfgJson p e) = ''failed to parse project config JSON from '' @ p @ '': '' @ e"
| "config_load_error_display (CfgValidation e) = ''project config validation failed: '' @ domain_error_display e"
| "config_load_error_display (MissingEnv n) = ''required environment variable '' @ n @ '' is missing''"
| "config_load_error_display (InvalidBool n v) =
     ''environment variable '' @ n @ '' has invalid boolean value '' @ quoted v"
| "config_load_error_display (InvalidU32 n v) =
     ''environment variable '' @ n @ '' has invalid unsigned integer value '' @ quoted v"
| "config_load_error_display (CfgProjectNotFound p) = ''project config '' @ quoted p @ '' was not found in storage''"
| "config_load_error_display (CfgStorage e) = ''storage error: '' @ storage_error_display e"
| "config_load_error_display (ProjectIdMismatch expected actual) =
     ''bootstrap project id mismatch: expected '' @ quoted expected @ '', actual '' @ quoted actual"
| "config_load_error_display (InvalidStorageKeyring r) = ''invalid storage keyring config: '' @ r"
| "config_load_error_display (InvalidUsize n v) = ''environment variable '' @ n @ '' has invalid usize value '' @ quoted v"
| "config_load_error_display (InvalidManagementRole n v) =
     ''environment variable '' @ n @ '' has invalid management role '' @ quoted v"

record project_config_load_options =
  lo_path :: string
  lo_max_bytes :: u64

datatype project_config_source =
  SourceFile project_config_load_options
| SourcePostgres project_id "project_config_load_options option"

record storage_runtime_config =
  sg_database_url :: string
  sg_active_key_id :: string
  sg_keys :: "(string \<times> string) list"
  sg_max_connections :: u32
  sg_run_migrations :: bool

record management_api_runtime_config =
  mg_bind_addr :: "ip_addr \<times> u16"
  mg_bearer_token :: string
  mg_actor_id :: user_id
  mg_role :: management_role
  mg_project_scope :: management_project_scope
  mg_max_config_body_bytes :: nat

record daemon_runtime_config =
  dc_project_config :: project_config_source
  dc_runtime :: runtime_settings
  dc_storage :: "storage_runtime_config option"
  dc_management_api :: "management_api_runtime_config option"
  dc_log_filter :: string

section \<open>Values of the environment\<close>

text \<open>A variable that is set to more than white space.\<close>

definition env_nonblank :: "process_env \<Rightarrow> string \<Rightarrow> string option" where
  "env_nonblank env name = Option.bind (pe_var env name) (\<lambda>v. if is_blank v then None else Some v)"

definition env_bool :: "process_env \<Rightarrow> string \<Rightarrow> bool \<Rightarrow> config_load_error + bool" where
  "env_bool env name dflt =
     (case pe_var env name of
        None \<Rightarrow> Inr dflt
      | Some v \<Rightarrow>
          let s = to_ascii_lowercase (trim v) in
          if s \<in> {''1'', ''true'', ''yes'', ''on''} then Inr True
          else if s \<in> {''0'', ''false'', ''no'', ''off''} then Inr False
          else Inl (InvalidBool name v))"

definition env_u32 :: "process_env \<Rightarrow> string \<Rightarrow> u32 \<Rightarrow> config_load_error + u32" where
  "env_u32 env name dflt =
     (case pe_var env name of None \<Rightarrow> Inr dflt | Some v \<Rightarrow> ok_or (InvalidU32 name v) (parse_u32 v))"

definition env_usize :: "process_env \<Rightarrow> string \<Rightarrow> nat \<Rightarrow> config_load_error + nat" where
  "env_usize env name dflt =
     (case pe_var env name of None \<Rightarrow> Inr dflt | Some v \<Rightarrow> ok_or (InvalidUsize name v) (parse_unsigned 64 v))"

text \<open>
  \<^verbatim>\<open>str::parse::<SocketAddr>\<close>: an IPv4 address and a port, or an IPv6 address in brackets, with an optional scope, and a
  port. The scope of an IPv6 address is not kept.
\<close>

definition read_port :: "string \<Rightarrow> (u16 \<times> string) option" where
  "read_port s =
     Option.bind (read_given_char CHR '':'' s) (\<lambda>t.
     map_option (\<lambda>(n, u). (of_nat n, u)) (read_number 10 (length t) True (Some 65535) t))"

definition read_scope :: "string \<Rightarrow> string" where
  "read_scope s =
     (case Option.bind (read_given_char CHR ''%'' s) (\<lambda>t. read_number 10 (length t) True (Some (2 ^ 32 - 1)) t) of
        None \<Rightarrow> s
      | Some (_, t) \<Rightarrow> t)"

definition read_socket_v4 :: "string \<Rightarrow> ((ip_addr \<times> u16) \<times> string) option" where
  "read_socket_v4 s =
     Option.bind (read_ipv4_addr s) (\<lambda>(octets, t). map_option (\<lambda>(p, u). ((V4 octets, p), u)) (read_port t))"

definition read_socket_v6 :: "string \<Rightarrow> ((ip_addr \<times> u16) \<times> string) option" where
  "read_socket_v6 s =
     Option.bind (read_given_char CHR ''['' s) (\<lambda>t.
     Option.bind (read_ipv6_addr t) (\<lambda>(groups, u).
     Option.bind (read_given_char CHR '']'' (read_scope u)) (\<lambda>v.
     map_option (\<lambda>(p, w). ((V6 groups, p), w)) (read_port v))))"

definition parse_socket_addr :: "string \<Rightarrow> config_load_error + (ip_addr \<times> u16)" where
  "parse_socket_addr s =
     (case (case read_socket_v4 s of Some r \<Rightarrow> Some r | None \<Rightarrow> read_socket_v6 s) of
        Some (a, []) \<Rightarrow> Inr a
      | _ \<Rightarrow> Inl (InvalidSocketAddr s))"

definition parse_management_role :: "process_env \<Rightarrow> config_load_error + management_role" where
  "parse_management_role env =
     (case pe_var env ''PIPE_BOLT_MANAGEMENT_ROLE'' of
        None \<Rightarrow> Inr Admin
      | Some v \<Rightarrow> ok_or (InvalidManagementRole ''PIPE_BOLT_MANAGEMENT_ROLE'' v) (role_parse v))"

definition parse_management_project_scope :: "process_env \<Rightarrow> config_load_error + management_project_scope" where
  "parse_management_project_scope env =
     (case pe_var env ''PIPE_BOLT_MANAGEMENT_PROJECTS'' of
        None \<Rightarrow> Inr AllProjects
      | Some v \<Rightarrow>
          res_bind (map_err CfgValidation (try_collect (id_new ''project_id'')
                      (filter (\<lambda>p. p \<noteq> []) (map trim (split_on CHR '','' v))))) (\<lambda>projects.
          if projects = [] then Inl (InvalidOptions ''management API project scope must contain at least one project id'')
          else Inr (ScopedProjects projects)))"

definition parse_storage_key_entry :: "string \<Rightarrow> config_load_error + (string \<times> string)" where
  "parse_storage_key_entry entry =
     res_bind (ok_or (InvalidStorageKeyring ''PIPE_BOLT_STORAGE_KEYS entries must use key_id=base64'')
                 (split_once CHR ''='' entry)) (\<lambda>(key_id, key_b64).
     if is_blank key_id \<or> is_blank key_b64
     then Inl (InvalidStorageKeyring ''storage key id and key value must not be empty'')
     else Inr (trim key_id, trim key_b64))"

definition parse_storage_keys :: "process_env \<Rightarrow> config_load_error + (string \<times> (string \<times> string) list)" where
  "parse_storage_keys env =
     (case env_nonblank env ''PIPE_BOLT_STORAGE_KEYS'' of
        Some keys \<Rightarrow>
          res_bind (ok_or (MissingEnv ''PIPE_BOLT_STORAGE_ACTIVE_KEY_ID'') (pe_var env ''PIPE_BOLT_STORAGE_ACTIVE_KEY_ID''))
            (\<lambda>active.
          res_bind (try_collect parse_storage_key_entry (split_on CHR '','' keys)) (\<lambda>parsed.
          Inr (active, parsed)))
      | None \<Rightarrow>
          res_bind (ok_or (MissingEnv ''PIPE_BOLT_STORAGE_KEY_B64'') (pe_var env ''PIPE_BOLT_STORAGE_KEY_B64'')) (\<lambda>key_b64.
          let key_id = (case env_nonblank env ''PIPE_BOLT_STORAGE_KEY_ID'' of Some i \<Rightarrow> i | None \<Rightarrow> ''default'')
          in Inr (key_id, [(key_id, key_b64)])))"

section \<open>The settings of the daemon\<close>

definition load_options_from_env :: "process_env \<Rightarrow> project_config_load_options" where
  "load_options_from_env env =
     \<lparr>lo_path = (case env_nonblank env ''PIPE_BOLT_PROJECT_CONFIG'' of Some p \<Rightarrow> p | None \<Rightarrow> ''pipe-bolt.project.json''),
      lo_max_bytes = 1024 * 1024\<rparr>"

definition load_options_new :: "string \<Rightarrow> u64 \<Rightarrow> config_load_error + project_config_load_options" where
  "load_options_new path max_bytes =
     (if path = [] then Inl (InvalidOptions ''project config path must not be empty'')
      else if max_bytes = 0 then Inl (InvalidOptions ''project config max_bytes must be greater than zero'')
      else Inr \<lparr>lo_path = path, lo_max_bytes = max_bytes\<rparr>)"

definition storage_config_from_env :: "process_env \<Rightarrow> config_load_error + storage_runtime_config option" where
  "storage_config_from_env env =
     (case env_nonblank env ''PIPE_BOLT_DATABASE_URL'' of
        None \<Rightarrow> Inr None
      | Some database_url \<Rightarrow>
          res_bind (env_u32 env ''PIPE_BOLT_STORAGE_MAX_CONNECTIONS'' 8) (\<lambda>max_connections.
          res_bind (env_bool env ''PIPE_BOLT_STORAGE_RUN_MIGRATIONS'' True) (\<lambda>run_migrations.
          res_bind (parse_storage_keys env) (\<lambda>(active_key_id, keys).
          Inr (Some \<lparr>sg_database_url = database_url, sg_active_key_id = active_key_id, sg_keys = keys,
                     sg_max_connections = max_connections, sg_run_migrations = run_migrations\<rparr>)))))"

definition management_api_config_from_env ::
    "process_env \<Rightarrow> bool \<Rightarrow> config_load_error + management_api_runtime_config option" where
  "management_api_config_from_env env storage_enabled =
     res_bind (env_bool env ''PIPE_BOLT_MANAGEMENT_API_ENABLED'' storage_enabled) (\<lambda>enabled.
     if \<not> enabled then Inr None
     else if \<not> storage_enabled then Inl (InvalidOptions ''management API requires PostgreSQL storage'')
     else
       let bind_addr = (case env_nonblank env ''PIPE_BOLT_MANAGEMENT_BIND_ADDR'' of Some a \<Rightarrow> a | None \<Rightarrow> ''127.0.0.1:8081'') in
       res_bind (ok_or (MissingEnv ''PIPE_BOLT_MANAGEMENT_TOKEN'') (pe_var env ''PIPE_BOLT_MANAGEMENT_TOKEN'')) (\<lambda>token.
       if is_blank token then Inl (InvalidOptions ''management API bearer token must not be empty'')
       else
         let actor = (case env_nonblank env ''PIPE_BOLT_MANAGEMENT_ACTOR_ID'' of Some a \<Rightarrow> a | None \<Rightarrow> ''system:bootstrap-token'') in
         res_bind (map_err CfgValidation (id_new ''user_id'' actor)) (\<lambda>actor_id.
         res_bind (parse_management_role env) (\<lambda>role.
         res_bind (parse_management_project_scope env) (\<lambda>scope.
         res_bind (env_usize env ''PIPE_BOLT_MANAGEMENT_MAX_CONFIG_BYTES'' (1024 * 1024)) (\<lambda>max_bytes.
         res_bind (parse_socket_addr bind_addr) (\<lambda>addr.
         Inr (Some \<lparr>mg_bind_addr = addr, mg_bearer_token = token, mg_actor_id = actor_id, mg_role = role,
                    mg_project_scope = scope, mg_max_config_body_bytes = max_bytes\<rparr>))))))))"

definition project_config_source_from_env :: "process_env \<Rightarrow> bool \<Rightarrow> config_load_error + project_config_source" where
  "project_config_source_from_env env storage_enabled =
     (if \<not> storage_enabled then Inr (SourceFile (load_options_from_env env))
      else
        res_bind (ok_or (MissingEnv ''PIPE_BOLT_PROJECT_ID'') (pe_var env ''PIPE_BOLT_PROJECT_ID'')) (\<lambda>raw.
        res_bind (map_err CfgValidation (id_new ''project_id'' raw)) (\<lambda>project_id.
        res_bind (env_bool env ''PIPE_BOLT_PROJECT_CONFIG_BOOTSTRAP'' False) (\<lambda>bootstrap.
        Inr (SourcePostgres project_id (if bootstrap then Some (load_options_from_env env) else None))))))"

definition daemon_config_from_env :: "process_env \<Rightarrow> config_load_error + daemon_runtime_config" where
  "daemon_config_from_env env =
     res_bind (case pe_var_os env ''PIPE_BOLT_REALTIME_BIND_ADDR'' of
                 None \<Rightarrow> Inr runtime_settings_default
               | Some v \<Rightarrow> res_map (\<lambda>addr. runtime_settings_default\<lparr>rs_realtime_bridge_bind_addr := addr\<rparr>) (parse_socket_addr v))
       (\<lambda>runtime.
     res_bind (storage_config_from_env env) (\<lambda>storage.
     let storage_enabled = (storage \<noteq> None) in
     res_bind (management_api_config_from_env env storage_enabled) (\<lambda>management_api.
     res_bind (project_config_source_from_env env storage_enabled) (\<lambda>project_config.
     Inr \<lparr>dc_project_config = project_config, dc_runtime = runtime, dc_storage = storage,
          dc_management_api = management_api,
          dc_log_filter = (case env_nonblank env ''PIPE_BOLT_LOG'' of
                             Some f \<Rightarrow> f | None \<Rightarrow> ''pipe_bolt_daemon=info,pipe_bolt_core=info,warn'')\<rparr>))))"

section \<open>The configuration file\<close>

text \<open>\<open>fi_read path n\<close> reads at most \<open>n\<close> bytes.\<close>

record file_lib =
  fi_is_file :: "string \<Rightarrow> string + bool"
  fi_open :: "string \<Rightarrow> string + unit"
  fi_read :: "string \<Rightarrow> nat \<Rightarrow> string + string"
  fi_project_config :: "string \<Rightarrow> string + project_config"

definition validate_config_path :: "file_lib \<Rightarrow> string \<Rightarrow> config_load_error + unit" where
  "validate_config_path lib path =
     res_bind (map_err (CfgRead path) (fi_is_file lib path)) (\<lambda>is_file.
     if \<not> is_file then Inl (NotAFile path) else Inr ())"

definition read_bounded_file :: "file_lib \<Rightarrow> string \<Rightarrow> u64 \<Rightarrow> config_load_error + string" where
  "read_bounded_file lib path max_bytes =
     res_bind (map_err (CfgRead path) (fi_open lib path)) (\<lambda>_.
     res_bind (map_err (CfgRead path) (fi_read lib path (min u64_max (unat max_bytes + 1)))) (\<lambda>bytes.
     let actual = min u64_max (length bytes) in
     if actual > unat max_bytes then Inl (CfgTooLarge (of_nat actual) max_bytes)
     else Inr bytes))"

definition load_project_config_file :: "file_lib \<Rightarrow> project_config_load_options \<Rightarrow> config_load_error + project_config" where
  "load_project_config_file lib opts =
     res_bind (validate_config_path lib (lo_path opts)) (\<lambda>_.
     res_bind (read_bounded_file lib (lo_path opts) (lo_max_bytes opts)) (\<lambda>bytes.
     res_bind (map_err (CfgJson (lo_path opts)) (fi_project_config lib bytes)) (\<lambda>config.
     res_bind (map_err CfgValidation (project_config_validate config)) (\<lambda>_. Inr config))))"

end
