(* ===== verification/Project_Runtime.thy ===== *)
theory Project_Runtime
  imports Persistence_Writer
begin

text \<open>
  Start and shutdown of a project runtime (\<^verbatim>\<open>ProjectRuntime\<close> in \<^verbatim>\<open>runtime.rs\<close>) and of an MQTT engine
  (\<^verbatim>\<open>mqtt/engine.rs\<close>). Spawning a task cannot fail; joining one can, so the results of the joins are arguments.
\<close>

section \<open>The engine\<close>

record 's mqtt_engine =
  me_config :: mqtt_client_config
  me_options :: mqtt_options
  me_router :: "'s mqtt_router"
  me_bus :: bus_config

definition mqtt_engine_spawn :: "mqtt_client_config \<Rightarrow> 's mqtt_router \<Rightarrow> mqtt_engine_error + 's mqtt_engine" where
  "mqtt_engine_spawn config router =
     res_bind (mqtt_client_config_validate config) (\<lambda>_.
     res_bind (build_option config) (\<lambda>options.
     Inr \<lparr>me_config = config, me_options = options, me_router = router, me_bus = bus_config_default\<rparr>))"

text \<open>The three workers are joined in order; the first failed join is returned.\<close>

fun mqtt_engine_shutdown :: "(string + unit) list \<Rightarrow> mqtt_engine_error + unit" where
  "mqtt_engine_shutdown [] = Inr ()"
| "mqtt_engine_shutdown (Inr _ # ws) = mqtt_engine_shutdown ws"
| "mqtt_engine_shutdown (Inl e # ws) = Inl (WorkerJoin e)"

section \<open>Start\<close>

record runtime_persistence =
  rx_project_id :: project_id
  rx_writer_settings :: persistence_writer_settings

definition runtime_persistence_new :: "project_id \<Rightarrow> runtime_persistence" where
  "runtime_persistence_new pid =
     \<lparr>rx_project_id = pid, rx_writer_settings = persistence_writer_settings_default\<rparr>"

definition with_writer_settings :: "persistence_writer_settings \<Rightarrow> runtime_persistence \<Rightarrow> runtime_persistence" where
  "with_writer_settings s p = p\<lparr>rx_writer_settings := s\<rparr>"

type_synonym ('b, 'u, 'q, 'c) rworld = "('b, ('u, 'q) http_forwarder, 'c) runtime_world"

record ('b, 'u, 'q, 'c, 'w) project_runtime =
  pr_mqtt_engines :: "(broker_id \<times> ('b, 'u, 'q, 'c) rworld mqtt_engine) list"
  pr_world :: "('b, 'u, 'q, 'c) rworld"
  pr_workers :: "string list"
  pr_worker_join_timeout :: duration
  pr_persistence_writer :: "'w persistence_writer_handle option"

text \<open>The library a runtime is started with: what the pipeline needs, the HTTP library, and the channels.\<close>

record ('b, 'u, 'q, 'c, 'w) start_lib =
  sl_runtime :: "('b, ('u, 'q) http_forwarder, 'c) runtime_lib"
  sl_http :: "'u http_lib"
  sl_broadcast :: "nat \<Rightarrow> 'b"
  sl_commands :: "nat \<Rightarrow> 'c"
  sl_forwards :: "nat \<Rightarrow> 'q"
  sl_outcomes :: "nat \<Rightarrow> 'w"

definition worker_names :: "string list" where
  "worker_names = [''forwarder'', ''command-processor'', ''forward-outcome-consumer'', ''command-publish-outcome-consumer'']"

text \<open>
  An engine that cannot be spawned ends the start; the engines spawned before it are shut down, which
  leaves nothing in the result.
\<close>

definition spawn_engine ::
    "('b, 'f, 'c) pending_broker_runtime \<Rightarrow>
     runtime_error + broker_id \<times> ('b, 'f, 'c) runtime_world mqtt_engine" where
  "spawn_engine pending =
     res_bind (map_err RtMqtt (mqtt_engine_spawn (pb_config pending) (pb_router pending))) (\<lambda>engine.
     Inr (pb_broker_id pending, engine))"

definition start_writer :: "(nat \<Rightarrow> 'w) \<Rightarrow> runtime_persistence \<Rightarrow> runtime_error + 'w persistence_writer_handle" where
  "start_writer new_channel p =
     res_bind (map_err RtPersistenceWriter (persistence_writer_settings_validate (rx_writer_settings p))) (\<lambda>_.
     Inr \<lparr>ph_project_id = rx_project_id p, ph_tx = new_channel (ps_queue_capacity (rx_writer_settings p)),
          ph_stats = persistence_writer_stats_default\<rparr>)"

definition project_runtime_start ::
    "('b, 'u, 'q, 'c, 'w) start_lib \<Rightarrow> runtime_settings \<Rightarrow> runtime_persistence option \<Rightarrow> project_config \<Rightarrow>
     runtime_error + ('b, 'u, 'q, 'c, 'w) project_runtime" where
  "project_runtime_start lib settings persistence config =
     res_bind (validate_runtime_settings settings) (\<lambda>_.
     res_bind (validate_runtime_config config) (\<lambda>_.
     res_bind (map_err RtDispatch (http_forwarder_try_channel (sl_http lib) (sl_forwards lib) (pc_sinks config)
                 (rs_forward_limits settings) (rs_egress_policy settings))) (\<lambda>forwarder.
     res_bind (map_err RtMqtt (rule_engine_with_limits (pc_rules config) (rs_rule_limits settings))) (\<lambda>rule_engine.
     res_bind (build_pending_broker_runtimes (sl_runtime lib) config settings rule_engine) (\<lambda>pending.
     res_bind (try_collect spawn_engine pending) (\<lambda>engines.
     res_bind (opt_try (start_writer (sl_outcomes lib)) persistence) (\<lambda>writer.
     Inr \<lparr>pr_mqtt_engines = engines,
          pr_world = \<lparr>rw_stats = runtime_stats_default, rw_realtime = sl_broadcast lib (rs_realtime_event_capacity settings),
                      rw_forwarder = forwarder, rw_commands = sl_commands lib (rs_command_queue_capacity settings),
                      rw_drawn = 0\<rparr>,
          pr_workers = worker_names, pr_worker_join_timeout = rs_worker_join_timeout settings,
          pr_persistence_writer = writer\<rparr>)))))))"

section \<open>Shutdown\<close>

datatype worker_join = JoinedOk | JoinedErr runtime_error | JoinPanicked string | JoinTimedOut

fun worker_join_error :: "string \<Rightarrow> worker_join \<Rightarrow> runtime_error option" where
  "worker_join_error name JoinedOk = None"
| "worker_join_error name (JoinedErr e) = Some e"
| "worker_join_error name (JoinPanicked reason) = Some (RtWorkerJoin name reason)"
| "worker_join_error name JoinTimedOut = Some (RtWorkerJoinTimeout name)"

definition remember_first_error :: "runtime_error \<Rightarrow> runtime_error option \<Rightarrow> runtime_error option" where
  "remember_first_error e first = (case first of None \<Rightarrow> Some e | Some f \<Rightarrow> Some f)"

fun join_workers_loop :: "runtime_error option \<Rightarrow> (string \<times> worker_join) list \<Rightarrow> runtime_error option" where
  "join_workers_loop first [] = first"
| "join_workers_loop first ((name, j) # ws) =
     join_workers_loop (case worker_join_error name j of None \<Rightarrow> first | Some e \<Rightarrow> remember_first_error e first) ws"

definition as_result :: "runtime_error option \<Rightarrow> runtime_error + unit" where
  "as_result first = (case first of None \<Rightarrow> Inr () | Some e \<Rightarrow> Inl e)"

definition join_workers :: "(string \<times> worker_join) list \<Rightarrow> runtime_error + unit" where
  "join_workers ws = as_result (join_workers_loop None ws)"

text \<open>
  The parts stop in a fixed order: the workers, every engine, the writer. The result also says which
  engines were shut down and whether the writer was.
\<close>

fun shutdown_engines ::
    "runtime_error option \<Rightarrow> (broker_id \<times> (string + unit) list) list \<Rightarrow> runtime_error option \<times> broker_id list" where
  "shutdown_engines first [] = (first, [])"
| "shutdown_engines first ((b, joins) # es) =
     (let first' = (case mqtt_engine_shutdown joins of
                      Inr _ \<Rightarrow> first | Inl e \<Rightarrow> remember_first_error (RtMqtt e) first)
      in (case shutdown_engines first' es of (f, bs) \<Rightarrow> (f, b # bs)))"

definition project_runtime_shutdown ::
    "worker_join list \<Rightarrow> (string + unit) list list \<Rightarrow> (string + unit) option list \<Rightarrow>
     ('b, 'u, 'q, 'c, 'w) project_runtime \<Rightarrow> (runtime_error + unit) \<times> broker_id list" where
  "project_runtime_shutdown worker_joins engine_joins writer_joins rt =
     (let first0 = (case join_workers (zip (pr_workers rt) worker_joins) of
                      Inr _ \<Rightarrow> None | Inl e \<Rightarrow> remember_first_error e None)
      in (case shutdown_engines first0 (zip (map fst (pr_mqtt_engines rt)) engine_joins) of
            (first1, stopped) \<Rightarrow>
              let first2 = (case pr_persistence_writer rt of
                              None \<Rightarrow> first1
                            | Some _ \<Rightarrow>
                                (case fst (persistence_join 0 writer_joins) of
                                   Inr _ \<Rightarrow> first1
                                 | Inl e \<Rightarrow> remember_first_error (RtPersistenceWriter e) first1))
              in (as_result first2, stopped)))"

section \<open>When a start succeeds\<close>

lemma build_mqtt_client_config_valid:
  "build_mqtt_client_config b routes = Inr c \<Longrightarrow> mqtt_client_config_validate c = Inr ()"
  by (auto simp: build_mqtt_client_config_def Let_def)

lemma build_pending_broker_valid:
  "build_pending_broker lib config settings engine b = Inr pb \<Longrightarrow> mqtt_client_config_validate (pb_config pb) = Inr ()"
  by (auto simp: build_pending_broker_def Let_def dest: build_mqtt_client_config_valid split: if_splits)

lemma spawn_engine_total:
  assumes "mqtt_client_config_validate (pb_config pb) = Inr ()"
  shows "spawn_engine pb = Inr (pb_broker_id pb,
           \<lparr>me_config = pb_config pb, me_options = projr (build_option (pb_config pb)), me_router = pb_router pb,
            me_bus = bus_config_default\<rparr>)"
  using assms by (simp add: spawn_engine_def mqtt_engine_spawn_def build_option_def)

lemma project_runtime_start_Inr:
  assumes "project_runtime_start lib settings persistence config = Inr rt"
  shows "validate_runtime_config config = Inr ()"
  using assms by (auto simp: project_runtime_start_def)

section \<open>What a shutdown reports\<close>

fun first_some :: "'a option list \<Rightarrow> 'a option" where
  "first_some [] = None"
| "first_some (None # xs) = first_some xs"
| "first_some (Some x # xs) = Some x"

definition or_else :: "'a option \<Rightarrow> 'a option \<Rightarrow> 'a option" where
  "or_else x y = (case x of None \<Rightarrow> y | Some _ \<Rightarrow> x)"

lemma or_else_simps [simp]: "or_else None y = y" "or_else (Some x) y = Some x" "or_else z None = z"
  by (auto simp: or_else_def split: option.splits)

lemma or_else_assoc: "or_else (or_else x y) z = or_else x (or_else y z)"
  by (auto simp: or_else_def split: option.splits)

lemma first_some_append: "first_some (xs @ ys) = or_else (first_some xs) (first_some ys)"
  by (induction xs rule: first_some.induct) auto

lemma remember_or_else: "remember_first_error e first = or_else first (Some e)"
  by (auto simp: remember_first_error_def or_else_def split: option.splits)

lemma join_workers_loop_eq:
  "join_workers_loop first ws = or_else first (first_some (map (\<lambda>(name, j). worker_join_error name j) ws))"
proof (induction ws arbitrary: first)
  case (Cons w ws)
  obtain name j where "w = (name, j)" by fastforce
  then show ?case
    by (cases "worker_join_error name j") (simp_all add: Cons.IH remember_or_else or_else_assoc)
qed simp

definition engine_error :: "(string + unit) list \<Rightarrow> runtime_error option" where
  "engine_error joins = (case mqtt_engine_shutdown joins of Inr _ \<Rightarrow> None | Inl e \<Rightarrow> Some (RtMqtt e))"

lemma shutdown_engines_eq:
  "shutdown_engines first es = (or_else first (first_some (map (engine_error \<circ> snd) es)), map fst es)"
proof (induction es arbitrary: first)
  case (Cons e es)
  obtain b joins where "e = (b, joins)" by fastforce
  then show ?case
    by (cases "mqtt_engine_shutdown joins")
      (simp_all add: Cons.IH engine_error_def remember_or_else or_else_assoc)
qed simp

definition writer_error :: "'w persistence_writer_handle option \<Rightarrow> (string + unit) option list \<Rightarrow> runtime_error option" where
  "writer_error writer joins =
     (case writer of None \<Rightarrow> None
      | Some _ \<Rightarrow> (case fst (persistence_join 0 joins) of Inr _ \<Rightarrow> None | Inl e \<Rightarrow> Some (RtPersistenceWriter e)))"

text \<open>The errors of all parts in the order they stop.\<close>

definition shutdown_errors ::
    "worker_join list \<Rightarrow> (string + unit) list list \<Rightarrow> (string + unit) option list \<Rightarrow>
     ('b, 'u, 'q, 'c, 'w) project_runtime \<Rightarrow> runtime_error option list" where
  "shutdown_errors wjs ejs pjs rt =
     map (\<lambda>(name, j). worker_join_error name j) (zip (pr_workers rt) wjs) @
     map (engine_error \<circ> snd) (zip (map fst (pr_mqtt_engines rt)) ejs) @ [writer_error (pr_persistence_writer rt) pjs]"

lemma first_some_single: "first_some [x] = x"
  by (cases x) simp_all

lemma project_runtime_start_iff:
  "(\<exists>rt. project_runtime_start lib settings persistence config = Inr rt) \<longleftrightarrow>
     validate_runtime_settings settings = Inr () \<and> validate_runtime_config config = Inr () \<and>
     (\<exists>fw. http_forwarder_try_channel (sl_http lib) (sl_forwards lib) (pc_sinks config)
             (rs_forward_limits settings) (rs_egress_policy settings) = Inr fw) \<and>
     (\<exists>e. rule_engine_with_limits (pc_rules config) (rs_rule_limits settings) = Inr e) \<and>
     (persistence = None \<or>
        persistence_writer_settings_validate (rx_writer_settings (the persistence)) = Inr ())"
proof -
  have pending: "\<exists>pb es. build_pending_broker_runtimes (sl_runtime lib) config settings e = Inr [pb] \<and>
      try_collect spawn_engine [pb] = Inr es" if valid: "validate_runtime_config config = Inr ()" for e
  proof -
    obtain b pb where pb: "build_pending_broker_runtimes (sl_runtime lib) config settings e = Inr [pb]"
        "build_pending_broker (sl_runtime lib) config settings e b = Inr pb"
      using validated_pending [OF valid] by blast
    then show ?thesis using spawn_engine_total [OF build_pending_broker_valid [OF pb(2)]] by auto
  qed
  have writer: "(\<exists>w. opt_try (start_writer (sl_outcomes lib)) persistence = Inr w) \<longleftrightarrow> persistence = None \<or>
      persistence_writer_settings_validate (rx_writer_settings (the persistence)) = Inr ()"
    by (cases persistence) (auto simp: start_writer_def)
  show ?thesis (is "?L \<longleftrightarrow> ?R")
  proof
    assume ?L
    then show ?R unfolding writer [symmetric] by (auto simp: project_runtime_start_def)
  next
    assume ?R
    then obtain fw e w where r: "validate_runtime_settings settings = Inr ()" "validate_runtime_config config = Inr ()"
        "http_forwarder_try_channel (sl_http lib) (sl_forwards lib) (pc_sinks config)
           (rs_forward_limits settings) (rs_egress_policy settings) = Inr fw"
        "rule_engine_with_limits (pc_rules config) (rs_rule_limits settings) = Inr e"
        "opt_try (start_writer (sl_outcomes lib)) persistence = Inr w"
      unfolding writer [symmetric] by blast
    from pending [OF r(2), of e] obtain pb es where
        "build_pending_broker_runtimes (sl_runtime lib) config settings e = Inr [pb]"
        "try_collect spawn_engine [pb] = Inr es" by blast
    with r show ?L by (simp add: project_runtime_start_def del: try_collect.simps)
  qed
qed

section \<open>Properties\<close>

text \<open>C34: a runtime starts exactly when its settings are sound, its configuration is runnable, its sinks can be
  compiled under the egress policy, its rules keep to their limits, and the persistence writer's settings
  are sound; nothing else can make a start fail.\<close>

theorem runtime_start_exact:
  "(\<exists>rt. project_runtime_start lib settings persistence config = Inr rt) \<longleftrightarrow>
     validate_runtime_settings settings = Inr () \<and> validate_runtime_config config = Inr () \<and>
     (\<exists>fw. http_forwarder_try_channel (sl_http lib) (sl_forwards lib) (pc_sinks config)
             (rs_forward_limits settings) (rs_egress_policy settings) = Inr fw) \<and>
     (\<exists>e. rule_engine_with_limits (pc_rules config) (rs_rule_limits settings) = Inr e) \<and>
     (persistence = None \<or>
        persistence_writer_settings_validate (rx_writer_settings (the persistence)) = Inr ())"
  by (rule project_runtime_start_iff)

text \<open>A shutdown stops every engine of the runtime, whatever fails on the way, succeeds exactly when every
  worker, engine and the writer were joined, and otherwise returns the first error in the order in which
  the parts are stopped.\<close>

lemma shutdown_reaches_every_part:
  assumes "length engine_joins = length (pr_mqtt_engines rt)"
    and "project_runtime_shutdown worker_joins engine_joins writer_joins rt = (res, stopped)"
  shows "stopped = map fst (pr_mqtt_engines rt) \<and>
         res = as_result (first_some (shutdown_errors worker_joins engine_joins writer_joins rt))"
proof -
  have w: "writer_error (pr_persistence_writer rt) writer_joins =
      (case pr_persistence_writer rt of None \<Rightarrow> None
       | Some _ \<Rightarrow> (case fst (persistence_join 0 writer_joins) of Inr _ \<Rightarrow> None | Inl e \<Rightarrow> Some (RtPersistenceWriter e)))"
    by (simp add: writer_error_def)
  have j: "(case as_result x of Inr _ \<Rightarrow> None | Inl e \<Rightarrow> remember_first_error e None) = x" for x
    by (cases x) (simp_all add: as_result_def remember_or_else)
  show ?thesis
    using assms
    by (auto simp: project_runtime_shutdown_def Let_def join_workers_def j join_workers_loop_eq shutdown_engines_eq
        shutdown_errors_def first_some_append first_some_single w remember_or_else or_else_assoc
        split: option.splits sum.splits)
qed

definition sample_runtime ::
    "(normalized_event list, unit, unit queued_forward_request vec_queue, command_execution_request vec_queue,
      new_sink_delivery_outcome vec_queue) project_runtime" where
  "sample_runtime =
     \<lparr>pr_mqtt_engines =
        [(''b1'', \<lparr>me_config = mqtt_client_config_new ''c1'' ''localhost'' 1883,
                  me_options = \<lparr>mo_client_id = ''c1'', mo_host = ''localhost'', mo_port = 1883, mo_keep_alive = from_secs 30,
                                mo_clean_session = False, mo_credentials = None, mo_tls = False\<rparr>,
                  me_router = [], me_bus = bus_config_default\<rparr>)],
      pr_world = \<lparr>rw_stats = runtime_stats_default, rw_realtime = [], rw_forwarder = sample_forwarder,
                  rw_commands = \<lparr>vq_capacity = 1, vq_items = [], vq_closed = False\<rparr>, rw_drawn = 0\<rparr>,
      pr_workers = worker_names, pr_worker_join_timeout = from_secs 10, pr_persistence_writer = None\<rparr>"

end
