(* ===== verification/Supervisor.thy ===== *)
theory Supervisor
  imports Project_Runtime Api_Control
begin

text \<open>
  The supervisor of the daemon (\<^verbatim>\<open>runtime_control.rs\<close> of the daemon): one runtime that is reloaded, asked for its
  status and stopped. What the supervisor needs of a runtime is a record of operations; the daemon's is
  \<open>project_runtime_ops\<close>. A shutdown of a runtime waits for its tasks, so its result is an argument.
  The requests interleave as the step relation \<open>daemon_step\<close>.
\<close>

section \<open>The supervisor\<close>

record 'rt runtime_ops =
  ro_start :: "project_config \<Rightarrow> runtime_error + 'rt"
  ro_try_enqueue :: "command_execution_request \<Rightarrow> 'rt \<Rightarrow> (runtime_command_queue_error + unit) \<times> 'rt"
  ro_counters :: "'rt \<Rightarrow> runtime_counters_response"

definition counters_from_runtime :: "('b, 'u, 'q, 'c, 'w) project_runtime \<Rightarrow> runtime_counters_response" where
  "counters_from_runtime rt =
     \<lparr>rk_pipeline = rw_stats (pr_world rt), rk_forwarder = hf_stats (rw_forwarder (pr_world rt)),
      rk_persistence_writer = map_option ph_stats (pr_persistence_writer rt)\<rparr>"

definition project_runtime_ops ::
    "('b, 'u, 'q, 'c, 'w) start_lib \<Rightarrow> runtime_settings \<Rightarrow> runtime_persistence \<Rightarrow>
     ('b, 'u, 'q, 'c, 'w) project_runtime runtime_ops" where
  "project_runtime_ops lib settings persistence =
     \<lparr>ro_start = project_runtime_start lib settings (Some persistence),
      ro_try_enqueue = (\<lambda>req rt. case queue_handle_try_enqueue (rb_try_send (sl_runtime lib)) req (pr_world rt) of
                          (r, w) \<Rightarrow> (r, rt\<lparr>pr_world := w\<rparr>)),
      ro_counters = counters_from_runtime\<rparr>"

record 'rt runtime_slot =
  slot_config :: project_config
  slot_runtime :: 'rt
  slot_started_at :: timestamp

record 'rt runtime_state =
  ss_phase :: runtime_lifecycle_state
  ss_stopping :: bool
  ss_slot :: "'rt runtime_slot option"
  ss_last_reload_at :: "timestamp option"
  ss_last_reload_error :: "string option"

record ('r, 'rt) supervisor =
  sv_project_id :: project_id
  sv_storage :: "'r storage"
  sv_ops :: "'rt runtime_ops"

definition supervisor_new :: "project_config \<Rightarrow> 'rt \<Rightarrow> timestamp \<Rightarrow> 'rt runtime_state" where
  "supervisor_new config rt now =
     \<lparr>ss_phase = PhaseRunning, ss_stopping = False,
      ss_slot = Some \<lparr>slot_config = config, slot_runtime = rt, slot_started_at = now\<rparr>,
      ss_last_reload_at = None, ss_last_reload_error = None\<rparr>"

definition ensure_project :: "('r, 'rt) supervisor \<Rightarrow> project_id \<Rightarrow> runtime_control_error + unit" where
  "ensure_project sv pid = (if pid \<noteq> sv_project_id sv then Inl (ProjectNotManaged pid) else Inr ())"

definition shutdown_started :: runtime_control_error where
  "shutdown_started = ShuttingDown ''daemon shutdown has started''"

definition not_running :: runtime_control_error where
  "not_running = RuntimeUnavailable ''runtime is not running''"

definition ensure_not_stopping :: "'rt runtime_state \<Rightarrow> runtime_control_error + unit" where
  "ensure_not_stopping st = (if ss_stopping st then Inl shutdown_started else Inr ())"

definition readiness :: "('r, 'rt) supervisor \<Rightarrow> 'rt runtime_state \<Rightarrow> runtime_readiness_response" where
  "readiness sv st =
     (let active_version = map_option (\<lambda>slot. pc_version (slot_config slot)) (ss_slot st);
          ready = ss_phase st = PhaseRunning \<and> active_version \<noteq> None
      in \<lparr>rn_status = (if ready then Ready else NotReady), rn_project_id = sv_project_id sv,
          rn_lifecycle = ss_phase st, rn_active_version = active_version,
          rn_message = ss_last_reload_error st\<rparr>)"

definition status_from_state :: "('r, 'rt) supervisor \<Rightarrow> 'rt runtime_state \<Rightarrow> runtime_status_response" where
  "status_from_state sv st =
     (case ss_slot st of
        None \<Rightarrow>
          \<lparr>ru_project_id = sv_project_id sv, ru_state = ss_phase st, ru_active_version = None, ru_started_at = None,
           ru_last_reload_at = ss_last_reload_at st, ru_last_reload_error = ss_last_reload_error st,
           ru_counters = runtime_counters_default\<rparr>
      | Some slot \<Rightarrow>
          \<lparr>ru_project_id = sv_project_id sv, ru_state = ss_phase st,
           ru_active_version = Some (pc_version (slot_config slot)), ru_started_at = Some (slot_started_at slot),
           ru_last_reload_at = ss_last_reload_at st, ru_last_reload_error = ss_last_reload_error st,
           ru_counters = ro_counters (sv_ops sv) (slot_runtime slot)\<rparr>)"

definition supervisor_status ::
    "('r, 'rt) supervisor \<Rightarrow> project_id \<Rightarrow> 'rt runtime_state \<Rightarrow> runtime_control_error + runtime_status_response" where
  "supervisor_status sv pid st = res_bind (ensure_project sv pid) (\<lambda>_. Inr (status_from_state sv st))"

text \<open>The runtime whose broadcast a subscriber joins.\<close>

definition subscribe_realtime_events ::
    "('r, 'rt) supervisor \<Rightarrow> project_id \<Rightarrow> 'rt runtime_state \<Rightarrow> runtime_control_error + 'rt" where
  "subscribe_realtime_events sv pid st =
     res_bind (ensure_project sv pid) (\<lambda>_.
     res_bind (ok_or not_running (ss_slot st)) (\<lambda>slot. Inr (slot_runtime slot)))"

definition validate_candidate_config ::
    "('r, 'rt) supervisor \<Rightarrow> project_id \<Rightarrow> project_config \<Rightarrow> 'rt runtime_state \<Rightarrow> runtime_control_error + unit" where
  "validate_candidate_config sv pid config st =
     res_bind (ensure_project sv pid) (\<lambda>_.
     res_bind (ensure_not_stopping st) (\<lambda>_.
     if pc_id config \<noteq> pid
     then Inl (CtlInvalidConfig (''candidate config project_id '' @ quoted (pc_id config) @
                 '' does not match managed project_id '' @ quoted pid))
     else map_err (\<lambda>e. CtlInvalidConfig (runtime_error_display e)) (validate_runtime_config config)))"

section \<open>Reload\<close>

record reload_audit =
  ra_status :: audit_status
  ra_previous_version :: "u64 option"
  ra_candidate_version :: "u64 option"
  ra_active_version_after :: "u64 option"
  ra_old_shutdown_error :: "string option"
  ra_reload_error :: "string option"

definition record_reload_audit ::
    "('r, 'rt) supervisor \<Rightarrow> audit_context \<Rightarrow> reload_audit \<Rightarrow> 'r world \<Rightarrow>
     (runtime_control_error + string) \<times> 'r world" where
  "record_reload_audit sv audit ra w =
     (case record_audit_event (sv_storage sv)
             \<lparr>na_project_id = Some (sv_project_id sv), na_actor_id = au_actor_id audit, na_action = ''runtime.reload'',
              na_target_type = ''runtime'', na_target_id = sv_project_id sv, na_status = ra_status ra,
              na_reason = au_reason audit,
              na_metadata =
                insert_some ''reload_error'' JString (ra_reload_error ra)
                  (insert_some ''old_shutdown_error'' JString (ra_old_shutdown_error ra)
                    (bm_insert ''active_version_after'' (json_opt_u64 (ra_active_version_after ra))
                      (bm_insert ''candidate_version'' (json_opt_u64 (ra_candidate_version ra))
                        (bm_insert ''previous_version'' (json_opt_u64 (ra_previous_version ra)) []))))\<rparr> w of
        (Inl e, w') \<Rightarrow> (Inl (CtlStorage (storage_error_display e)), w')
      | (Inr i, w') \<Rightarrow> (Inr i, w'))"

definition set_reload_failed :: "timestamp \<Rightarrow> string \<Rightarrow> 'rt runtime_state \<Rightarrow> 'rt runtime_state" where
  "set_reload_failed now message st =
     st\<lparr>ss_phase := PhaseStopped, ss_slot := None, ss_last_reload_at := Some now,
        ss_last_reload_error := Some message\<rparr>"

definition reload_load ::
    "('r, 'rt) supervisor \<Rightarrow> project_id \<Rightarrow> 'r world \<Rightarrow> (runtime_control_error + project_config) \<times> 'r world" where
  "reload_load sv pid w =
     (case load_project_config (sv_storage sv) pid w of
        (Inl e, w') \<Rightarrow> (Inl (CtlStorage (storage_error_display e)), w')
      | (Inr None, w') \<Rightarrow> (Inl (ProjectNotManaged pid), w')
      | (Inr (Some config), w') \<Rightarrow>
          (case validate_runtime_config config of
             Inl e \<Rightarrow> (Inl (CtlInvalidConfig (runtime_error_display e)), w')
           | Inr _ \<Rightarrow> (Inr config, w')))"

definition reload_take ::
    "'rt runtime_state \<Rightarrow> (runtime_control_error + 'rt runtime_slot) \<times> 'rt runtime_state" where
  "reload_take st =
     (if ss_stopping st then (Inl shutdown_started, st)
      else
        let st1 = st\<lparr>ss_phase := PhaseReloading\<rparr> in
        (case ss_slot st1 of
           None \<Rightarrow> (Inl not_running, st1)
         | Some old \<Rightarrow> (Inr old, st1\<lparr>ss_slot := None\<rparr>)))"

text \<open>The old runtime could not be stopped.\<close>

definition reload_abort ::
    "('r, 'rt) supervisor \<Rightarrow> timestamp \<Rightarrow> audit_context \<Rightarrow> 'rt runtime_slot \<Rightarrow> project_config \<Rightarrow> runtime_error \<Rightarrow>
     'rt runtime_state \<Rightarrow> 'r world \<Rightarrow> (runtime_control_error + runtime_reload_response) \<times> 'rt runtime_state \<times> 'r world" where
  "reload_abort sv now audit old next_config err st w =
     (let message = ''old runtime shutdown failed; reload aborted: '' @ runtime_error_display err;
          st' = set_reload_failed now message st;
          w' = snd (record_reload_audit sv audit
                 \<lparr>ra_status = AuditFailed, ra_previous_version = Some (pc_version (slot_config old)),
                  ra_candidate_version = Some (pc_version next_config), ra_active_version_after = None,
                  ra_old_shutdown_error = Some (runtime_error_display err), ra_reload_error = Some message\<rparr> w)
      in (Inl (UnsafeOldRuntimeShutdown message), st', w'))"

definition reload_commit :: "timestamp \<Rightarrow> project_config \<Rightarrow> 'rt \<Rightarrow> 'rt runtime_state \<Rightarrow> 'rt runtime_state" where
  "reload_commit now config rt st =
     st\<lparr>ss_phase := PhaseRunning, ss_slot := Some \<lparr>slot_config = config, slot_runtime = rt, slot_started_at = now\<rparr>,
        ss_last_reload_at := Some now, ss_last_reload_error := None\<rparr>"

text \<open>The new runtime did not start: the old configuration is started again.\<close>

definition reload_roll_back ::
    "('r, 'rt) supervisor \<Rightarrow> timestamp \<Rightarrow> 'rt runtime_slot \<Rightarrow> runtime_error \<Rightarrow> 'rt runtime_state \<Rightarrow>
     string \<times> 'rt runtime_state" where
  "reload_roll_back sv now old start_error st =
     (case (case ro_start (sv_ops sv) (slot_config old) of
              Inr rt \<Rightarrow>
                (''rollback succeeded'',
                 st\<lparr>ss_phase := PhaseRunning,
                    ss_slot := Some \<lparr>slot_config = slot_config old, slot_runtime = rt, slot_started_at = now\<rparr>\<rparr>)
            | Inl e \<Rightarrow>
                (''rollback failed: '' @ runtime_error_display e, st\<lparr>ss_phase := PhaseStopped, ss_slot := None\<rparr>)) of
        (rollback_message, st1) \<Rightarrow>
          let message = ''reload failed: '' @ runtime_error_display start_error @ ''; '' @ rollback_message
          in (message, st1\<lparr>ss_last_reload_at := Some now, ss_last_reload_error := Some message\<rparr>))"

definition reload_start ::
    "('r, 'rt) supervisor \<Rightarrow> timestamp \<Rightarrow> audit_context \<Rightarrow> 'rt runtime_slot \<Rightarrow> project_config \<Rightarrow> 'rt runtime_state \<Rightarrow>
     'r world \<Rightarrow> (runtime_control_error + runtime_reload_response) \<times> 'rt runtime_state \<times> 'r world" where
  "reload_start sv now audit old next_config st w =
     (case ro_start (sv_ops sv) next_config of
        Inr rt \<Rightarrow>
          let st' = reload_commit now next_config rt st in
          (case record_reload_audit sv audit
                  \<lparr>ra_status = AuditSucceeded, ra_previous_version = Some (pc_version (slot_config old)),
                   ra_candidate_version = Some (pc_version next_config),
                   ra_active_version_after = Some (pc_version next_config), ra_old_shutdown_error = None,
                   ra_reload_error = None\<rparr> w of
             (Inl e, w') \<Rightarrow> (Inl e, st', w')
           | (Inr audit_event_id, w') \<Rightarrow>
               (Inr \<lparr>rr_project_id = sv_project_id sv, rr_previous_version = pc_version (slot_config old),
                     rr_active_version = pc_version next_config, rr_reloaded_at = now,
                     rr_old_runtime_shutdown_error = None, rr_audit_event_id = audit_event_id\<rparr>, st', w'))
      | Inl start_error \<Rightarrow>
          (case reload_roll_back sv now old start_error st of
             (message, st') \<Rightarrow>
               (Inl (StartFailed message), st',
                snd (record_reload_audit sv audit
                  \<lparr>ra_status = AuditFailed, ra_previous_version = Some (pc_version (slot_config old)),
                   ra_candidate_version = Some (pc_version next_config),
                   ra_active_version_after = map_option (\<lambda>slot. pc_version (slot_config slot)) (ss_slot st'),
                   ra_old_shutdown_error = None, ra_reload_error = Some message\<rparr> w))))"

text \<open>\<open>busy\<close> tells that the lifecycle lock is held, \<open>stopped\<close> is the result of shutting the old runtime down.\<close>

definition reload ::
    "('r, 'rt) supervisor \<Rightarrow> timestamp \<Rightarrow> bool \<Rightarrow> (runtime_error + unit) \<Rightarrow> project_id \<Rightarrow> audit_context \<Rightarrow>
     'rt runtime_state \<Rightarrow> 'r world \<Rightarrow> (runtime_control_error + runtime_reload_response) \<times> 'rt runtime_state \<times> 'r world" where
  "reload sv now busy stopped pid audit st w =
     (case ensure_project sv pid of
        Inl e \<Rightarrow> (Inl e, st, w)
      | Inr _ \<Rightarrow>
          if busy then (Inl ReloadInProgress, st, w)
          else
            (case ensure_not_stopping st of
               Inl e \<Rightarrow> (Inl e, st, w)
             | Inr _ \<Rightarrow>
                 (case reload_load sv pid w of
                    (Inl e, w1) \<Rightarrow> (Inl e, st, w1)
                  | (Inr next_config, w1) \<Rightarrow>
                      (case reload_take st of
                         (Inl e, st1) \<Rightarrow> (Inl e, st1, w1)
                       | (Inr old, st1) \<Rightarrow>
                           (case stopped of
                              Inl err \<Rightarrow> reload_abort sv now audit old next_config err st1 w1
                            | Inr _ \<Rightarrow> reload_start sv now audit old next_config st1 w1)))))"

section \<open>Shutdown\<close>

definition shutdown_begin :: "'rt runtime_state \<Rightarrow> 'rt runtime_slot option \<times> 'rt runtime_state" where
  "shutdown_begin st = (ss_slot st, st\<lparr>ss_stopping := True, ss_phase := PhaseStopping, ss_slot := None\<rparr>)"

definition shutdown_end :: "runtime_error + unit \<Rightarrow> 'rt runtime_state \<Rightarrow> 'rt runtime_state" where
  "shutdown_end result st =
     (let st1 = st\<lparr>ss_phase := PhaseStopped\<rparr> in
      (case result of
         Inl e \<Rightarrow> st1\<lparr>ss_last_reload_error := Some (''shutdown failed: '' @ runtime_error_display e)\<rparr>
       | Inr _ \<Rightarrow> st1))"

definition supervisor_shutdown ::
    "(runtime_error + unit) \<Rightarrow> 'rt runtime_state \<Rightarrow> (runtime_error + unit) \<times> 'rt runtime_state" where
  "supervisor_shutdown stopped st =
     (case shutdown_begin st of
        (slot, st1) \<Rightarrow>
          let result = (case slot of Some _ \<Rightarrow> stopped | None \<Rightarrow> Inr ())
          in (result, shutdown_end result st1))"

section \<open>Commands\<close>

definition new_command_execution_id :: "string \<Rightarrow> runtime_control_error + command_execution_id" where
  "new_command_execution_id uuid =
     map_err (\<lambda>e. CommandRejected (domain_error_display e)) (id_new ''command_execution_id'' (''command_exec_'' @ uuid))"

fun command_render_error_to_control :: "command_render_error \<Rightarrow> runtime_control_error" where
  "command_render_error_to_control (RenderPayloadTooLarge t mx actual) =
     CommandRejected (''command payload is too large: max '' @ show_nat mx @ '' bytes, got '' @ show_nat actual @ '' bytes'')"
| "command_render_error_to_control other = CommandRejected (command_render_error_display other)"

definition render_command_preview ::
    "serde_lib \<Rightarrow> project_id \<Rightarrow> command_execution_id \<Rightarrow> string \<Rightarrow> command_template \<Rightarrow> command_params \<Rightarrow>
     runtime_control_error + rendered_command" where
  "render_command_preview lib pid xid correlation_id template params =
     map_err command_render_error_to_control
       (render lib default_command_max_payload_bytes
          \<lparr>cc_project_id = pid, cc_command_execution_id = xid, cc_correlation_id = correlation_id\<rparr> template params)"

fun command_queue_error_to_control :: "runtime_command_queue_error \<Rightarrow> runtime_control_error" where
  "command_queue_error_to_control QueueFull = CtlCommandQueueFull"
| "command_queue_error_to_control QueueClosed = CtlCommandQueueUnavailable ''command queue is closed''"

definition find_enabled_template ::
    "project_config \<Rightarrow> command_template_id \<Rightarrow> runtime_control_error + command_template" where
  "find_enabled_template config tid =
     (case List.find (\<lambda>t. ct_id t = tid) (pc_command_templates config) of
        None \<Rightarrow> Inl (CtlCommandTemplateNotFound tid)
      | Some t \<Rightarrow> if \<not> ct_enabled t then Inl (CtlCommandTemplateNotFound tid) else Inr t)"

definition execute_command ::
    "serde_lib \<Rightarrow> ('r, 'rt) supervisor \<Rightarrow> string \<Rightarrow> project_id \<Rightarrow> command_template_id \<Rightarrow> command_params \<Rightarrow> audit_context \<Rightarrow>
     'rt runtime_state \<Rightarrow> 'r world \<Rightarrow> (runtime_control_error + execute_command_response) \<times> 'rt runtime_state \<times> 'r world" where
  "execute_command lib sv uuid pid tid params audit st w =
     (case res_bind (ensure_project sv pid) (\<lambda>_.
           res_bind (ensure_not_stopping st) (\<lambda>_.
           res_bind (ok_or not_running (ss_slot st)) (\<lambda>slot.
           res_bind (find_enabled_template (slot_config slot) tid) (\<lambda>template.
           res_bind (new_command_execution_id uuid) (\<lambda>xid.
           res_bind (render_command_preview lib pid xid xid template params) (\<lambda>rendered.
           Inr (slot, template, xid, rendered))))))) of
        Inl e \<Rightarrow> (Inl e, st, w)
      | Inr (slot, template, xid, rendered) \<Rightarrow>
          (case record_command_execution (sv_storage sv)
                  \<lparr>nx_command_execution_id = xid, nx_project_id = pid, nx_command_template_id = ct_id template,
                   nx_broker_id = rc_broker_id rendered, nx_actor_id = au_actor_id audit, nx_status = CxQueued,
                   nx_topic = rc_topic rendered, nx_qos = rc_qos rendered, nx_retain = rc_retain rendered,
                   nx_payload_size_bytes = rc_payload_size_bytes rendered, nx_failure_reason = None,
                   nx_reason = au_reason audit\<rparr> w of
             (Inl e, w1) \<Rightarrow> (Inl (CtlStorage (storage_error_display e)), st, w1)
           | (Inr record, w1) \<Rightarrow>
               (case ro_try_enqueue (sv_ops sv)
                       \<lparr>cx_project_id = pid, cx_command_execution_id = xid, cx_command_template_id = ct_id template,
                        cx_params = params, cx_source = SourceApi, cx_actor_id = au_actor_id audit,
                        cx_source_event_id = None, cx_correlation_id = xid, cx_reason = au_reason audit\<rparr>
                       (slot_runtime slot) of
                  (Inl e, rt) \<Rightarrow>
                    (Inl (command_queue_error_to_control e), st\<lparr>ss_slot := Some (slot\<lparr>slot_runtime := rt\<rparr>)\<rparr>,
                     snd (mark_command_execution_failed (sv_storage sv) xid (runtime_command_queue_error_display e) w1))
                | (Inr _, rt) \<Rightarrow>
                    (Inr \<lparr>ec_project_id = ce_project_id record, ec_command_template_id = ce_command_template_id record,
                          ec_command_execution_id = ce_command_execution_id record,
                          ec_status = command_status_response (ce_status record), ec_broker_id = ce_broker_id record,
                          ec_topic = ce_topic record, ec_qos = ce_qos record, ec_retain = ce_retain record,
                          ec_payload_size_bytes = ce_payload_size_bytes record,
                          ec_queued_at = ce_occurred_at record, ec_audit_event_id = ce_audit_event_id record\<rparr>,
                     st\<lparr>ss_slot := Some (slot\<lparr>slot_runtime := rt\<rparr>)\<rparr>, w1))))"

section \<open>The daemon as a state machine\<close>

text \<open>
  Between the steps of a reload or a shutdown other requests run: the lifecycle lock is held (the task is not
  \<open>Idle\<close>), the state lock is not. \<open>dn_unstopped\<close> is bookkeeping of the specification: how many runtimes
  reported an error when they were shut down, so that some of their tasks may still be alive.

  A command takes its template and a handle of the queue under the state lock, and lets the lock go before it records
  its execution, enqueues and, if that fails, marks the execution as failed. So each of these effects is a step, and
  the steps may come in any order and number, which is more than the code does; \<open>execute_command\<close>, which has them in
  one go, is a sequence of such steps. The handle goes on sending to the runtime it was taken from, which by then may
  be the one that is being stopped.
\<close>

datatype 'rt lifecycle_task =
  Idle
| ConfigLoaded project_config
| OldStopping "'rt runtime_slot" project_config
| NewStarting "'rt runtime_slot" project_config
| DaemonStopping "'rt runtime_slot option"

record ('r, 'rt) daemon =
  dn_state :: "'rt runtime_state"
  dn_world :: "'r world"
  dn_task :: "'rt lifecycle_task"
  dn_unstopped :: nat

definition daemon_init :: "project_config \<Rightarrow> 'rt \<Rightarrow> timestamp \<Rightarrow> 'r world \<Rightarrow> ('r, 'rt) daemon" where
  "daemon_init config rt now w =
     \<lparr>dn_state = supervisor_new config rt now, dn_world = w, dn_task = Idle, dn_unstopped = 0\<rparr>"

inductive daemon_step :: "serde_lib \<Rightarrow> ('r, 'rt) supervisor \<Rightarrow> ('r, 'rt) daemon \<Rightarrow> ('r, 'rt) daemon \<Rightarrow> bool"
  for lib :: serde_lib and sv :: "('r, 'rt) supervisor" where
  load_failed: "\<lbrakk>dn_task d = Idle; ensure_not_stopping (dn_state d) = Inr (); reload_load sv pid (dn_world d) = (Inl e, w)\<rbrakk>
     \<Longrightarrow> daemon_step lib sv d (d\<lparr>dn_world := w\<rparr>)"
| loaded: "\<lbrakk>dn_task d = Idle; ensure_not_stopping (dn_state d) = Inr (); reload_load sv pid (dn_world d) = (Inr next, w)\<rbrakk>
     \<Longrightarrow> daemon_step lib sv d (d\<lparr>dn_world := w, dn_task := ConfigLoaded next\<rparr>)"
| take_failed: "\<lbrakk>dn_task d = ConfigLoaded next; reload_take (dn_state d) = (Inl e, st)\<rbrakk>
     \<Longrightarrow> daemon_step lib sv d (d\<lparr>dn_state := st, dn_task := Idle\<rparr>)"
| taken: "\<lbrakk>dn_task d = ConfigLoaded next; reload_take (dn_state d) = (Inr old, st)\<rbrakk>
     \<Longrightarrow> daemon_step lib sv d (d\<lparr>dn_state := st, dn_task := OldStopping old next\<rparr>)"
| old_stop_failed: "\<lbrakk>dn_task d = OldStopping old next;
      reload_abort sv now audit old next err (dn_state d) (dn_world d) = (r, st, w)\<rbrakk>
     \<Longrightarrow> daemon_step lib sv d
           (d\<lparr>dn_state := st, dn_world := w, dn_task := Idle, dn_unstopped := dn_unstopped d + 1\<rparr>)"
| old_stopped: "dn_task d = OldStopping old next \<Longrightarrow> daemon_step lib sv d (d\<lparr>dn_task := NewStarting old next\<rparr>)"
| started: "\<lbrakk>dn_task d = NewStarting old next;
      reload_start sv now audit old next (dn_state d) (dn_world d) = (r, st, w)\<rbrakk>
     \<Longrightarrow> daemon_step lib sv d (d\<lparr>dn_state := st, dn_world := w, dn_task := Idle\<rparr>)"
| shutdown_begun: "\<lbrakk>dn_task d = Idle; shutdown_begin (dn_state d) = (slot, st)\<rbrakk>
     \<Longrightarrow> daemon_step lib sv d (d\<lparr>dn_state := st, dn_task := DaemonStopping slot\<rparr>)"
| shutdown_failed: "\<lbrakk>dn_task d = DaemonStopping (Some slot); shutdown_end (Inl err) (dn_state d) = st\<rbrakk>
     \<Longrightarrow> daemon_step lib sv d (d\<lparr>dn_state := st, dn_task := Idle, dn_unstopped := dn_unstopped d + 1\<rparr>)"
| shutdown_ended: "\<lbrakk>dn_task d = DaemonStopping slot; shutdown_end (Inr ()) (dn_state d) = st\<rbrakk>
     \<Longrightarrow> daemon_step lib sv d (d\<lparr>dn_state := st, dn_task := Idle\<rparr>)"
| command_recorded: "record_command_execution (sv_storage sv) execution (dn_world d) = (res, w)
     \<Longrightarrow> daemon_step lib sv d (d\<lparr>dn_world := w\<rparr>)"
| command_enqueued: "\<lbrakk>ss_slot (dn_state d) = Some slot; ro_try_enqueue (sv_ops sv) req (slot_runtime slot) = (q, rt)\<rbrakk>
     \<Longrightarrow> daemon_step lib sv d (d\<lparr>dn_state := (dn_state d)\<lparr>ss_slot := Some (slot\<lparr>slot_runtime := rt\<rparr>)\<rparr>\<rparr>)"
| command_enqueued_late: "\<lbrakk>dn_task d = OldStopping old next; ro_try_enqueue (sv_ops sv) req (slot_runtime old) = (q, rt)\<rbrakk>
     \<Longrightarrow> daemon_step lib sv d (d\<lparr>dn_task := OldStopping (old\<lparr>slot_runtime := rt\<rparr>) next\<rparr>)"
| command_enqueued_last: "\<lbrakk>dn_task d = DaemonStopping (Some slot); ro_try_enqueue (sv_ops sv) req (slot_runtime slot) = (q, rt)\<rbrakk>
     \<Longrightarrow> daemon_step lib sv d (d\<lparr>dn_task := DaemonStopping (Some (slot\<lparr>slot_runtime := rt\<rparr>))\<rparr>)"
| command_failed: "mark_command_execution_failed (sv_storage sv) xid reason (dn_world d) = (res, w)
     \<Longrightarrow> daemon_step lib sv d (d\<lparr>dn_world := w\<rparr>)"

text \<open>A command that runs without interruption.\<close>

definition command_effect ::
    "('r, 'rt) supervisor \<Rightarrow> 'rt runtime_state \<Rightarrow> 'r world \<Rightarrow> 'rt runtime_state \<Rightarrow> 'r world \<Rightarrow> bool" where
  "command_effect sv st w st' w' \<longleftrightarrow>
     (\<exists>x done_rec w1 slot req q rt.
        record_command_execution (sv_storage sv) x w = (Inr done_rec, w1) \<and> ss_slot st = Some slot \<and>
        ro_try_enqueue (sv_ops sv) req (slot_runtime slot) = (q, rt) \<and> st' = st\<lparr>ss_slot := Some (slot\<lparr>slot_runtime := rt\<rparr>)\<rparr> \<and>
        (w' = w1 \<or> (\<exists>xid reason. w' = snd (mark_command_execution_failed (sv_storage sv) xid reason w1))))"

lemma command_effectI:
  assumes "record_command_execution (sv_storage sv) x w = (Inr done_rec, w1)" "ss_slot st = Some slot"
    and "ro_try_enqueue (sv_ops sv) req (slot_runtime slot) = (q, rt)" "st' = st\<lparr>ss_slot := Some (slot\<lparr>slot_runtime := rt\<rparr>)\<rparr>"
    and "w' = w1 \<or> w' = snd (mark_command_execution_failed (sv_storage sv) xid reason w1)"
  shows "command_effect sv st w st' w'"
  using assms unfolding command_effect_def by blast

lemma execute_command_cases:
  assumes "execute_command lib sv uuid pid tid params audit st w = (r, st', w')"
  shows "st' = st \<and> w' = w \<or> st' = st \<and> (\<exists>x e. record_command_execution (sv_storage sv) x w = (Inl e, w')) \<or>
     command_effect sv st w st' w'"
proof -
  define P where "P = res_bind (ensure_project sv pid) (\<lambda>_.
           res_bind (ensure_not_stopping st) (\<lambda>_.
           res_bind (ok_or not_running (ss_slot st)) (\<lambda>slot.
           res_bind (find_enabled_template (slot_config slot) tid) (\<lambda>template.
           res_bind (new_command_execution_id uuid) (\<lambda>xid.
           res_bind (render_command_preview lib pid xid xid template params) (\<lambda>rendered.
           Inr (slot, template, xid, rendered)))))))"
  note run = assms [unfolded execute_command_def, folded P_def]
  show ?thesis
  proof (cases P)
    case (Inl e)
    then show ?thesis using run by simp
  next
    case (Inr ctx)
    obtain slot template xid rendered where ctx: "ctx = (slot, template, xid, rendered)" by (cases ctx) auto
    have slot: "ss_slot st = Some slot"
      using Inr ctx by (cases "ss_slot st") (auto simp: P_def)
    let ?rec = "record_command_execution (sv_storage sv)
                  \<lparr>nx_command_execution_id = xid, nx_project_id = pid, nx_command_template_id = ct_id template,
                   nx_broker_id = rc_broker_id rendered, nx_actor_id = au_actor_id audit, nx_status = CxQueued,
                   nx_topic = rc_topic rendered, nx_qos = rc_qos rendered, nx_retain = rc_retain rendered,
                   nx_payload_size_bytes = rc_payload_size_bytes rendered, nx_failure_reason = None,
                   nx_reason = au_reason audit\<rparr> w"
    let ?req = "\<lparr>cx_project_id = pid, cx_command_execution_id = xid, cx_command_template_id = ct_id template,
                        cx_params = params, cx_source = SourceApi, cx_actor_id = au_actor_id audit,
                        cx_source_event_id = None, cx_correlation_id = xid, cx_reason = au_reason audit\<rparr>"
    obtain res w1 where rec: "?rec = (res, w1)" by fastforce
    obtain q rt where enq: "ro_try_enqueue (sv_ops sv) ?req (slot_runtime slot) = (q, rt)" by fastforce
    show ?thesis
    proof (cases res)
      case (Inl e)
      then show ?thesis using run \<open>P = Inr ctx\<close> ctx rec by auto
    next
      case ok: (Inr done_rec)
      have "st' = st\<lparr>ss_slot := Some (slot\<lparr>slot_runtime := rt\<rparr>)\<rparr> \<and>
          (w' = w1 \<or> (\<exists>reason. w' = snd (mark_command_execution_failed (sv_storage sv) xid reason w1)))"
        using run Inr ctx rec enq ok by (cases q) auto
      then show ?thesis
        using command_effectI [OF rec [unfolded ok] slot enq] by blast
    qed
  qed
qed

lemma execute_command_steps:
  assumes "execute_command lib sv uuid pid tid params audit (dn_state d) (dn_world d) = (r, st, w)"
  shows "(daemon_step slib sv)\<^sup>*\<^sup>* d (d\<lparr>dn_state := st, dn_world := w\<rparr>)"
proof -
  have step: "daemon_step slib sv d d1 \<Longrightarrow> (daemon_step slib sv)\<^sup>*\<^sup>* d1 d2 \<Longrightarrow> (daemon_step slib sv)\<^sup>*\<^sup>* d d2" for d d1 d2
    by (rule converse_rtranclp_into_rtranclp)
  consider (refused) "st = dn_state d" "w = dn_world d"
    | (unrecorded) x e where "record_command_execution (sv_storage sv) x (dn_world d) = (Inl e, w)" "st = dn_state d"
    | (tried) x done_rec w1 slot req q rt where "record_command_execution (sv_storage sv) x (dn_world d) = (Inr done_rec, w1)"
        "ss_slot (dn_state d) = Some slot" "ro_try_enqueue (sv_ops sv) req (slot_runtime slot) = (q, rt)"
        "st = (dn_state d)\<lparr>ss_slot := Some (slot\<lparr>slot_runtime := rt\<rparr>)\<rparr>"
        "w = w1 \<or> (\<exists>xid reason. w = snd (mark_command_execution_failed (sv_storage sv) xid reason w1))"
    using execute_command_cases [OF assms] unfolding command_effect_def by blast
  then show ?thesis
  proof cases
    case refused
    then show ?thesis by simp
  next
    case unrecorded
    show ?thesis by (rule r_into_rtranclp) (use daemon_step.command_recorded [OF unrecorded(1)] unrecorded(2) in simp)
  next
    case tried
    let ?d1 = "d\<lparr>dn_world := w1\<rparr>" and ?d2 = "d\<lparr>dn_state := st, dn_world := w1\<rparr>"
    have one: "daemon_step slib sv d ?d1" by (rule daemon_step.command_recorded [OF tried(1)])
    have two: "daemon_step slib sv ?d1 ?d2"
      using daemon_step.command_enqueued [of ?d1 slot sv req q rt slib] tried(2-4) by (cases d) simp
    have "(daemon_step slib sv)\<^sup>*\<^sup>* ?d2 (d\<lparr>dn_state := st, dn_world := w\<rparr>)"
      using tried(5)
    proof (elim disjE exE)
      fix xid reason assume w: "w = snd (mark_command_execution_failed (sv_storage sv) xid reason w1)"
      obtain res where "mark_command_execution_failed (sv_storage sv) xid reason (dn_world ?d2) = (res, w)"
        using w by (cases "mark_command_execution_failed (sv_storage sv) xid reason w1") simp
      from daemon_step.command_failed [OF this] show ?thesis by auto
    qed simp
    with one two show ?thesis by (blast intro: step)
  qed
qed

text \<open>How many runtimes may be alive: the one in the slot, one being stopped, those that did not stop.\<close>

fun task_runtimes :: "'rt lifecycle_task \<Rightarrow> nat" where
  "task_runtimes (OldStopping old next) = 1"
| "task_runtimes (DaemonStopping (Some slot)) = 1"
| "task_runtimes _ = 0"

definition live_runtimes :: "('r, 'rt) daemon \<Rightarrow> nat" where
  "live_runtimes d =
     (if ss_slot (dn_state d) = None then 0 else 1) + task_runtimes (dn_task d) + dn_unstopped d"

section \<open>What the supervisor relies on\<close>

text \<open>
  \<open>runs c rt\<close>: the runtime \<open>rt\<close> was started from the configuration \<open>c\<close>. Only a runnable configuration starts,
  and taking a command does not change what a runtime runs.
\<close>

locale runtime_host =
  fixes ops :: "'rt runtime_ops" and runs :: "project_config \<Rightarrow> 'rt \<Rightarrow> bool"
  assumes start_runs: "ro_start ops c = Inr rt \<Longrightarrow> runs c rt"
    and runs_valid: "runs c rt \<Longrightarrow> validate_runtime_config c = Inr ()"
    and enqueue_runs: "runs c rt \<Longrightarrow> runs c (snd (ro_try_enqueue ops req rt))"
begin

definition slot_ok :: "'rt runtime_slot \<Rightarrow> bool" where
  "slot_ok slot \<longleftrightarrow> runs (slot_config slot) (slot_runtime slot)"

fun task_ok :: "'rt runtime_state \<Rightarrow> 'rt lifecycle_task \<Rightarrow> bool" where
  "task_ok st Idle = True"
| "task_ok st (ConfigLoaded next) = (\<not> ss_stopping st \<and> validate_runtime_config next = Inr ())"
| "task_ok st (OldStopping old next) =
     (\<not> ss_stopping st \<and> ss_slot st = None \<and> ss_phase st = PhaseReloading \<and> validate_runtime_config next = Inr ())"
| "task_ok st (NewStarting old next) =
     (\<not> ss_stopping st \<and> ss_slot st = None \<and> ss_phase st = PhaseReloading \<and> validate_runtime_config next = Inr ())"
| "task_ok st (DaemonStopping slot) = (ss_stopping st \<and> ss_slot st = None \<and> ss_phase st = PhaseStopping)"

definition state_ok :: "'rt runtime_state \<Rightarrow> bool" where
  "state_ok st \<longleftrightarrow> (ss_slot st \<noteq> None \<longleftrightarrow> ss_phase st = PhaseRunning) \<and> (ss_stopping st \<longrightarrow> ss_slot st = None) \<and>
     (\<forall>slot. ss_slot st = Some slot \<longrightarrow> slot_ok slot)"

definition daemon_ok :: "('r, 'rt) daemon \<Rightarrow> bool" where
  "daemon_ok d \<longleftrightarrow> state_ok (dn_state d) \<and> task_ok (dn_state d) (dn_task d) \<and> live_runtimes d \<le> 1 \<and>
     (\<forall>old next. dn_task d = NewStarting old next \<longrightarrow> dn_unstopped d = 0)"

lemma reload_start_ok:
  assumes "sv_ops sv = ops" "ss_slot st = None" "\<not> ss_stopping st"
    and "reload_start sv now audit old next st w = (r, st', w')"
  shows "state_ok st'"
  using assms start_runs
  by (auto simp: reload_start_def reload_commit_def reload_roll_back_def state_ok_def slot_ok_def Let_def
      split: sum.splits prod.splits)

lemma daemon_step_ok:
  assumes "daemon_step lib sv d d'" "sv_ops sv = ops" "daemon_ok d"
  shows "daemon_ok d'"
  using assms
proof (cases rule: daemon_step.cases)
  case (started old "next" now audit r st w)
  then show ?thesis using assms reload_start_ok [OF assms(2) _ _ started(3)]
    by (auto simp: daemon_ok_def live_runtimes_def)
next
  case (command_enqueued slot req q rt)
  then show ?thesis using assms enqueue_runs [of "slot_config slot" "slot_runtime slot" req]
    by (cases "dn_task d") (auto simp: daemon_ok_def live_runtimes_def state_ok_def slot_ok_def)
qed (auto simp: daemon_ok_def live_runtimes_def state_ok_def reload_take_def reload_abort_def set_reload_failed_def
    shutdown_begin_def shutdown_end_def ensure_not_stopping_def reload_load_def Let_def
    split: if_splits option.splits sum.splits prod.splits)

lemma daemon_reach_ok:
  assumes "(daemon_step lib sv)\<^sup>*\<^sup>* d d'" "sv_ops sv = ops" "daemon_ok d"
  shows "daemon_ok d'"
  using assms(1) assms(3) by (induction rule: rtranclp_induct) (auto intro: daemon_step_ok [OF _ assms(2)])

lemma daemon_init_ok:
  assumes "ro_start ops config = Inr rt"
  shows "daemon_ok (daemon_init config rt now w)"
  using start_runs [OF assms]
  by (simp add: daemon_init_def supervisor_new_def daemon_ok_def state_ok_def slot_ok_def live_runtimes_def)

end

definition runs_config ::
    "('b, 'u, 'q, 'c, 'w) start_lib \<Rightarrow> runtime_settings \<Rightarrow> runtime_persistence \<Rightarrow> project_config \<Rightarrow>
     ('b, 'u, 'q, 'c, 'w) project_runtime \<Rightarrow> bool" where
  "runs_config lib settings persistence c rt \<longleftrightarrow>
     (\<exists>rt0. project_runtime_start lib settings (Some persistence) c = Inr rt0 \<and> rt = rt0\<lparr>pr_world := pr_world rt\<rparr>)"

lemma runs_config_world:
  assumes "runs_config lib settings persistence c rt"
  shows "runs_config lib settings persistence c (rt\<lparr>pr_world := w\<rparr>)"
proof -
  obtain rt0 where rt0: "project_runtime_start lib settings (Some persistence) c = Inr rt0" "rt = rt0\<lparr>pr_world := pr_world rt\<rparr>"
    using assms by (auto simp: runs_config_def)
  have "rt\<lparr>pr_world := w\<rparr> = rt0\<lparr>pr_world := w\<rparr>" by (subst rt0(2)) simp
  then show ?thesis using rt0(1) by (auto simp: runs_config_def)
qed

interpretation daemon_host: runtime_host "project_runtime_ops lib settings persistence" "runs_config lib settings persistence"
  for lib settings persistence
proof
  fix c rt req
  show "ro_start (project_runtime_ops lib settings persistence) c = Inr rt \<Longrightarrow> runs_config lib settings persistence c rt"
    by (auto simp: project_runtime_ops_def runs_config_def)
  show "runs_config lib settings persistence c rt \<Longrightarrow> validate_runtime_config c = Inr ()"
    by (auto simp: runs_config_def dest: project_runtime_start_Inr)
  show "runs_config lib settings persistence c rt \<Longrightarrow>
      runs_config lib settings persistence c (snd (ro_try_enqueue (project_runtime_ops lib settings persistence) req rt))"
    by (auto simp: project_runtime_ops_def runs_config_world split: prod.splits)
qed

section \<open>A stopped runtime\<close>

definition at_rest :: "('r, 'rt) daemon \<Rightarrow> bool" where
  "at_rest d \<longleftrightarrow> ss_slot (dn_state d) = None \<and>
     (case dn_task d of OldStopping _ _ \<Rightarrow> False | NewStarting _ _ \<Rightarrow> False | _ \<Rightarrow> True)"

lemma daemon_step_at_rest:
  assumes "daemon_step lib sv d d'" "at_rest d"
  shows "at_rest d'"
  using assms
  by (cases rule: daemon_step.cases)
    (auto simp: at_rest_def reload_take_def shutdown_begin_def shutdown_end_def Let_def split: if_splits option.splits)

lemma daemon_reach_at_rest:
  assumes "(daemon_step lib sv)\<^sup>*\<^sup>* d d'" "at_rest d"
  shows "at_rest d'"
  using assms by (induction rule: rtranclp_induct) (auto intro: daemon_step_at_rest)

section \<open>The answers of a reload\<close>

fun refusal :: "runtime_control_error \<Rightarrow> bool" where
  "refusal (StartFailed _) = False"
| "refusal (UnsafeOldRuntimeShutdown _) = False"
| "refusal (RuntimeUnavailable _) = False"
| "refusal _ = True"

lemma reload_load_refusal: "fst (reload_load sv pid w) = Inl e \<Longrightarrow> refusal e"
  by (auto simp: reload_load_def split: prod.splits sum.splits option.splits)

lemma reload_cases:
  assumes "reload sv now busy stopped pid audit st w = (r, st', w')"
  obtains (refused) e where "r = Inl e" "refusal e" "st' = st"
    | (no_runtime) "r = Inl not_running" "ss_slot st = None" "st' = st\<lparr>ss_phase := PhaseReloading\<rparr>"
    | (aborted) old config err st1 w1 where "ss_slot st = Some old" "fst (reload_load sv pid w) = Inr config"
        "stopped = Inl err" "reload_abort sv now audit old config err st1 w1 = (r, st', w')"
    | (restarted) old config st1 w1 where "ss_slot st = Some old" "fst (reload_load sv pid w) = Inr config"
        "stopped = Inr ()" "reload_start sv now audit old config st1 w1 = (r, st', w')"
proof (cases "ensure_project sv pid")
  case (Inl e)
  then show ?thesis using assms refused by (auto simp: reload_def ensure_project_def split: if_splits)
next
  case project: (Inr u)
  show ?thesis
  proof (cases "busy \<or> ss_stopping st")
    case True
    then show ?thesis using assms project refused
      by (auto simp: reload_def ensure_not_stopping_def shutdown_started_def split: if_splits)
  next
    case False
    obtain l w1 where load: "reload_load sv pid w = (l, w1)" by fastforce
    show ?thesis
    proof (cases l)
      case (Inl e)
      then show ?thesis using assms project False load refused reload_load_refusal [of sv pid w e]
        by (auto simp: reload_def ensure_not_stopping_def)
    next
      case (Inr config)
      then show ?thesis using assms project False load no_runtime aborted restarted
        by (cases "ss_slot st"; cases stopped)
           (auto simp: reload_def ensure_not_stopping_def reload_take_def Let_def)
    qed
  qed
qed

lemma reload_start_cases:
  assumes "reload_start sv now audit old config st w = (r, st', w')"
  shows "(\<exists>rt. ro_start (sv_ops sv) config = Inr rt \<and> ss_phase st' = PhaseRunning \<and>
            ss_slot st' = Some \<lparr>slot_config = config, slot_runtime = rt, slot_started_at = now\<rparr> \<and>
            ss_last_reload_error st' = None \<and>
            (case r of Inl e \<Rightarrow> \<exists>m. e = CtlStorage m
             | Inr resp \<Rightarrow> rr_previous_version resp = pc_version (slot_config old) \<and>
                           rr_active_version resp = pc_version config)) \<or>
         (\<exists>m. r = Inl (StartFailed m) \<and> ss_last_reload_error st' = Some m \<and>
            (ss_phase st' = PhaseRunning \<and> map_option slot_config (ss_slot st') = Some (slot_config old) \<or>
             ss_phase st' = PhaseStopped \<and> ss_slot st' = None))"
proof (cases "ro_start (sv_ops sv) config")
  case (Inl e)
  then show ?thesis using assms
    by (auto simp: reload_start_def reload_roll_back_def Let_def split: sum.splits)
next
  case (Inr rt)
  then show ?thesis using assms
    by (auto simp: reload_start_def reload_commit_def record_reload_audit_def Let_def split: sum.splits prod.splits)
qed

section \<open>Properties\<close>

text \<open>A daemon that runs the sample project.\<close>

type_synonym sample_project_runtime =
  "(normalized_event list, string, string queued_forward_request vec_queue, command_execution_request vec_queue,
      new_sink_delivery_outcome vec_queue) project_runtime"

definition running_start_lib ::
    "(normalized_event list, string, string queued_forward_request vec_queue, command_execution_request vec_queue,
      new_sink_delivery_outcome vec_queue) start_lib" where
  "running_start_lib =
     \<lparr>sl_runtime = \<lparr>rb_serde = sample_lib, rb_send = (\<lambda>e es. (Some 1, es @ [e])),
                    rb_forward = (\<lambda>r u. (Inl (SinkNotFound (fr_sink_id r)), u)), rb_try_send = vq_try_send,
                    rb_uuid = (\<lambda>n. show_nat n)\<rparr>,
      sl_http = sample_http, sl_broadcast = (\<lambda>n. []),
      sl_commands = (\<lambda>n. \<lparr>vq_capacity = n, vq_items = [], vq_closed = False\<rparr>),
      sl_forwards = (\<lambda>n. \<lparr>vq_capacity = n, vq_items = [], vq_closed = False\<rparr>),
      sl_outcomes = (\<lambda>n. \<lparr>vq_capacity = n, vq_items = [], vq_closed = False\<rparr>)\<rparr>"

lemma running_starts:
  "\<exists>rt. project_runtime_start running_start_lib running_settings (Some (runtime_persistence_new ''p1'')) running_project = Inr rt"
  unfolding project_runtime_start_iff
proof (intro conjI)
  show "validate_runtime_config running_project = Inr ()" by (rule running_valid)
  show "validate_runtime_settings running_settings = Inr ()"
    by (simp add: validate_runtime_settings_def running_settings_def runtime_settings_default_def from_secs_def)
  show "\<exists>e. rule_engine_with_limits (pc_rules running_project) (rs_rule_limits running_settings) = Inr e"
    using running_rules_valid
    by (simp add: rule_engine_with_limits_def running_project_def running_rules_def running_settings_def
        sample_rule_limits_def validate_rule_def)
  show "\<exists>fw. http_forwarder_try_channel (sl_http running_start_lib) (sl_forwards running_start_lib) (pc_sinks running_project)
      (rs_forward_limits running_settings) (rs_egress_policy running_settings) = Inr fw"
    by (simp add: http_forwarder_try_channel_def running_start_lib_def running_project_def running_settings_def
        runtime_settings_default_def validate_forward_limits_def forward_limits_default_def min_timeout_def
        from_secs_def from_millis_def sink_registry_compile_def sample_http_def)
  show "Some (runtime_persistence_new ''p1'') = None \<or>
      persistence_writer_settings_validate (rx_writer_settings (the (Some (runtime_persistence_new ''p1'')))) = Inr ()"
    by (simp add: runtime_persistence_new_def persistence_writer_settings_validate_def
        persistence_writer_settings_default_def from_secs_def)
qed

text \<open>C10: however reloads, shutdowns and commands interleave, the daemon never has two runtimes alive: a new one
  starts only when the old one is proven stopped, and after a shutdown that failed none is started. A runtime is in the
  slot exactly when the phase is running, it was started from the configuration the slot names, that
  configuration passes the runtime checks, and none is left once the shutdown of the daemon has begun.\<close>

theorem one_runtime_at_a_time:
  assumes "sv_ops sv = project_runtime_ops start_lib settings persistence"
    and "project_runtime_start start_lib settings (Some persistence) config = Inr rt"
    and "(daemon_step lib sv)\<^sup>*\<^sup>* (daemon_init config rt now w) d"
  shows "live_runtimes d \<le> 1 \<and> (dn_unstopped d > 0 \<longrightarrow> ss_slot (dn_state d) = None) \<and>
         (ss_slot (dn_state d) \<noteq> None \<longleftrightarrow> ss_phase (dn_state d) = PhaseRunning) \<and>
         (\<forall>slot. ss_slot (dn_state d) = Some slot \<longrightarrow>
            runs_config start_lib settings persistence (slot_config slot) (slot_runtime slot) \<and>
            validate_runtime_config (slot_config slot) = Inr ()) \<and>
         (ss_stopping (dn_state d) \<longrightarrow> ss_slot (dn_state d) = None)"
proof -
  have "ro_start (project_runtime_ops start_lib settings persistence) config = Inr rt"
    using assms(2) by (simp add: project_runtime_ops_def)
  from daemon_host.daemon_reach_ok [OF assms(3) assms(1) daemon_host.daemon_init_ok [OF this]]
  have ok: "daemon_host.daemon_ok start_lib settings persistence d" .
  then show ?thesis
    using daemon_host.runs_valid
    by (auto simp: daemon_host.daemon_ok_def daemon_host.state_ok_def daemon_host.slot_ok_def live_runtimes_def
        split: if_splits)
qed

definition running_supervisor ::
    "(nat, sample_project_runtime) supervisor" where
  "running_supervisor =
     \<lparr>sv_project_id = ''p1'', sv_storage = sample_storage,
      sv_ops = project_runtime_ops running_start_lib running_settings (runtime_persistence_new ''p1'')\<rparr>"

theorem one_runtime_at_a_time_witness:
  "\<exists>rt d. project_runtime_start running_start_lib running_settings (Some (runtime_persistence_new ''p1'')) running_project = Inr rt \<and>
     (daemon_step sample_lib running_supervisor)\<^sup>*\<^sup>* (daemon_init running_project rt 0 sample_world) d \<and>
     dn_unstopped d = 1 \<and> live_runtimes d \<le> 1"
proof -
  obtain rt where rt: "project_runtime_start running_start_lib running_settings (Some (runtime_persistence_new ''p1''))
      running_project = Inr rt" using running_starts by blast
  let ?d0 = "daemon_init running_project rt 0 sample_world"
  obtain slot st where b: "shutdown_begin (dn_state ?d0) = (Some slot, st)"
    by (simp add: shutdown_begin_def daemon_init_def supervisor_new_def)
  let ?d1 = "?d0\<lparr>dn_state := st, dn_task := DaemonStopping (Some slot)\<rparr>"
  let ?d2 = "?d1\<lparr>dn_state := shutdown_end (Inl (RtWorkerJoinTimeout ''w'')) (dn_state ?d1), dn_task := Idle,
               dn_unstopped := dn_unstopped ?d1 + 1\<rparr>"
  have "daemon_step sample_lib running_supervisor ?d0 ?d1"
    by (rule daemon_step.shutdown_begun [OF _ b]) (simp add: daemon_init_def)
  moreover have "daemon_step sample_lib running_supervisor ?d1 ?d2"
    by (rule daemon_step.shutdown_failed [OF _ refl]) simp
  ultimately have run: "(daemon_step sample_lib running_supervisor)\<^sup>*\<^sup>* ?d0 ?d2" by simp
  have "sv_ops running_supervisor =
      project_runtime_ops running_start_lib running_settings (runtime_persistence_new ''p1'')"
    by (simp add: running_supervisor_def)
  from one_runtime_at_a_time [OF this rt run] rt run show ?thesis
    by (intro exI [of _ rt] exI [of _ ?d2]) (simp add: daemon_init_def)
qed

text \<open>The sample project as the database holds it.\<close>

definition running_world :: "nat world" where
  "running_world =
     sample_world\<lparr>wd_db := empty_database\<lparr>db_configs :=
       [''p1'' \<mapsto> \<lparr>cw_tenant_id = None, cw_name = ''Local'', cw_enabled = True, cw_version = 1, cw_config_hash = ''h'',
                 cw_config = projr (fst (codec_encode (st_cipher sample_storage) running_project 0)),
                 cw_updated_at = 0\<rparr>]\<rparr>\<rparr>"

lemma running_json_kept: "json_kept sample_jsonb running_project"
  by (simp add: json_kept_def config_json_def default_json_def rule_json_def running_project_def running_rules_def
      sample_params_def sample_template_def sample_jsonb_def)

lemma running_load: "fst (reload_load running_supervisor ''p1'' running_world) = Inr running_project"
proof -
  have "\<not> isl (fst (codec_encode (st_cipher sample_storage) running_project 0))"
    by (simp add: running_project_def codec_encode_def broker_from_domain_def)
  then obtain stored r where enc: "codec_encode (st_cipher sample_storage) running_project 0 = (Inr stored, r)"
    by (cases "codec_encode (st_cipher sample_storage) running_project 0";
        cases "fst (codec_encode (st_cipher sample_storage) running_project 0)") auto
  have ring: "from_base64_keys sample_crypto ''k'' [(''k'', sample_key CHR ''a'')] = Inr sample_ring" by code_simp
  have valid: "project_config_validate running_project = Inr ()"
    using running_valid by (simp add: validate_runtime_config_iff)
  have storable: "config_storable running_project"
    by (simp add: running_project_def config_storable_def broker_storable_def whole_seconds_def whole_millis_def
        from_secs_def u64_max_def)
  have "codec_decode (st_cipher sample_storage) (wire_config sample_jsonb stored) = Inr running_project"
    using ring.config_round_trip [OF keyring_reads_more [OF sample_crypto_ok ring ring subset_refl] storable valid] enc
    by (simp add: sample_storage_safe json_read_back_id running_json_kept)
  moreover have "projr (fst (codec_encode (st_cipher sample_storage) running_project 0)) = stored" by (simp add: enc)
  ultimately have "fst (load_project_config sample_storage ''p1'' running_world) = Inr (Some running_project)"
    by (simp add: load_project_config_def db_bind_def sql_auto_def run_stmt_def select_config_stmt_def db_lift_def
        running_world_def sample_storage_def sample_world_def)
  then obtain w where "load_project_config sample_storage ''p1'' running_world = (Inr (Some running_project), w)"
    by (cases "load_project_config sample_storage ''p1'' running_world") auto
  then show ?thesis using running_valid by (simp add: reload_load_def running_supervisor_def)
qed

text \<open>C16: what a reload leaves behind, for every answer. A success runs the stored configuration and reports both
  versions; when the new runtime does not start, the old configuration runs again or nothing runs, and the state
  says why; when the old runtime could not be stopped nothing runs; a storage error leaves the state alone, unless
  only the audit record of a completed reload failed; every other refusal leaves the state alone, except that a
  reload without a runtime leaves the phase reloading.\<close>

theorem reload_outcome:
  assumes "reload sv now busy stopped pid audit st w = (r, st', w')"
  shows "case r of
      Inr resp \<Rightarrow> (\<exists>old config rt. ss_slot st = Some old \<and> fst (reload_load sv pid w) = Inr config \<and>
        stopped = Inr () \<and> ro_start (sv_ops sv) config = Inr rt \<and> ss_phase st' = PhaseRunning \<and>
        ss_slot st' = Some \<lparr>slot_config = config, slot_runtime = rt, slot_started_at = now\<rparr> \<and>
        ss_last_reload_error st' = None \<and>
        rr_previous_version resp = pc_version (slot_config old) \<and> rr_active_version resp = pc_version config)
    | Inl (StartFailed m) \<Rightarrow> (\<exists>old. ss_slot st = Some old \<and> stopped = Inr () \<and> ss_last_reload_error st' = Some m \<and>
        (ss_phase st' = PhaseRunning \<and> map_option slot_config (ss_slot st') = Some (slot_config old) \<or>
         ss_phase st' = PhaseStopped \<and> ss_slot st' = None))
    | Inl (UnsafeOldRuntimeShutdown m) \<Rightarrow> stopped \<noteq> Inr () \<and> ss_phase st' = PhaseStopped \<and> ss_slot st' = None \<and>
        ss_last_reload_error st' = Some m
    | Inl (CtlStorage _) \<Rightarrow> st' = st \<or> (\<exists>config rt. fst (reload_load sv pid w) = Inr config \<and>
        ss_phase st' = PhaseRunning \<and> ss_slot st' = Some \<lparr>slot_config = config, slot_runtime = rt, slot_started_at = now\<rparr>)
    | Inl (RuntimeUnavailable _) \<Rightarrow> ss_slot st = None \<and> st' = st\<lparr>ss_phase := PhaseReloading\<rparr>
    | Inl _ \<Rightarrow> st' = st"
  using assms
proof (cases rule: reload_cases)
  case (refused e)
  then show ?thesis by (cases e) (auto simp: refusal.simps)
next
  case no_runtime
  then show ?thesis by (simp add: not_running_def)
next
  case (aborted old config err st1 w1)
  then show ?thesis by (auto simp: reload_abort_def set_reload_failed_def Let_def)
next
  case (restarted old config st1 w1)
  then show ?thesis using reload_start_cases [OF restarted(4)] by (auto split: sum.splits)
qed

theorem reload_outcome_witness:
  "\<exists>rt. project_runtime_start running_start_lib running_settings (Some (runtime_persistence_new ''p1'')) running_project = Inr rt \<and>
     ss_slot (fst (snd (reload running_supervisor 5 False (Inl (RtWorkerJoinTimeout ''w'')) ''p1'' sample_audit
       (supervisor_new running_project rt 0) running_world))) = None"
proof -
  obtain rt where rt: "project_runtime_start running_start_lib running_settings (Some (runtime_persistence_new ''p1''))
      running_project = Inr rt" using running_starts by blast
  obtain r st' w' where run: "reload running_supervisor 5 False (Inl (RtWorkerJoinTimeout ''w'')) ''p1'' sample_audit
      (supervisor_new running_project rt 0) running_world = (r, st', w')" by (metis prod_cases3)
  obtain m where "r = Inl (UnsafeOldRuntimeShutdown m)"
    using run running_load
    by (auto simp: reload_def ensure_project_def ensure_not_stopping_def supervisor_new_def reload_take_def Let_def
        reload_abort_def running_supervisor_def split: prod.splits)
  with reload_outcome [OF run] rt run show ?thesis by (intro exI [of _ rt]) simp
qed

text \<open>C40: a supervisor without a runtime that is not in the middle of a reload never gets one again, whatever
  is asked of it; and a reload that finds a valid stored configuration answers that the runtime is unavailable
  and leaves the phase reloading although no reload is under way.\<close>

theorem stopped_runtime_stays_stopped:
  assumes "ss_slot (dn_state d) = None" "dn_task d = Idle"
  shows "((daemon_step lib sv)\<^sup>*\<^sup>* d d' \<longrightarrow> ss_slot (dn_state d') = None) \<and>
         (\<not> ss_stopping (dn_state d) \<and> fst (reload_load sv (sv_project_id sv) (dn_world d)) = Inr config \<longrightarrow>
            (\<exists>w. reload sv now False stopped (sv_project_id sv) audit (dn_state d) (dn_world d) =
               (Inl (RuntimeUnavailable ''runtime is not running''), (dn_state d)\<lparr>ss_phase := PhaseReloading\<rparr>, w)))"
proof (intro conjI impI)
  assume "(daemon_step lib sv)\<^sup>*\<^sup>* d d'"
  moreover have "at_rest d" using assms by (simp add: at_rest_def)
  ultimately show "ss_slot (dn_state d') = None" using daemon_reach_at_rest by (auto simp: at_rest_def)
next
  assume "\<not> ss_stopping (dn_state d) \<and> fst (reload_load sv (sv_project_id sv) (dn_world d)) = Inr config"
  then show "\<exists>w. reload sv now False stopped (sv_project_id sv) audit (dn_state d) (dn_world d) =
      (Inl (RuntimeUnavailable ''runtime is not running''), (dn_state d)\<lparr>ss_phase := PhaseReloading\<rparr>, w)"
    using assms(1)
    by (auto simp: reload_def ensure_project_def ensure_not_stopping_def reload_take_def not_running_def Let_def
        split: prod.splits)
qed

definition stopped_daemon :: "(nat, sample_project_runtime) daemon" where
  "stopped_daemon =
     \<lparr>dn_state = \<lparr>ss_phase = PhaseStopped, ss_stopping = False, ss_slot = None, ss_last_reload_at = Some 3,
                  ss_last_reload_error = Some ''reload failed''\<rparr>,
      dn_world = running_world, dn_task = Idle, dn_unstopped = 0\<rparr>"

theorem stopped_runtime_stays_stopped_witness:
  "\<exists>w. reload running_supervisor 5 False (Inr ()) ''p1'' sample_audit (dn_state stopped_daemon) running_world =
       (Inl (RuntimeUnavailable ''runtime is not running''), (dn_state stopped_daemon)\<lparr>ss_phase := PhaseReloading\<rparr>, w)"
proof -
  have "ss_slot (dn_state stopped_daemon) = None" "dn_task stopped_daemon = Idle" "\<not> ss_stopping (dn_state stopped_daemon)"
      "dn_world stopped_daemon = running_world" "sv_project_id running_supervisor = ''p1''"
    by (simp_all add: stopped_daemon_def running_supervisor_def)
  then show ?thesis
    using stopped_runtime_stays_stopped [of stopped_daemon sample_lib running_supervisor stopped_daemon running_project
        5 "Inr ()" sample_audit] running_load by simp
qed

end
