(* ===== verification/Web_Socket.thy ===== *)
theory Web_Socket
  imports Channel
begin

text \<open>
  What the two WebSocket services share, the realtime stream of the management API and the older bridge of the core
  crate: the frames, the send queue of a client, and the loop that serves a socket beside its telemetry task. The
  library's socket and channel are parameters; how a send over the socket ended is an input of the loop.
\<close>

section \<open>Frames and the send queue\<close>

datatype ws_message = WsText string | WsClose nat string | WsPing | WsPong | WsBinary string | WsBadText string

text \<open>
  What the tasks of a socket share: the watched filter, where the telemetry task is, and the send queue. The task
  watches the filter until it is over; \<open>TaskOverflowed\<close> is the task between the two sends of \<^verbatim>\<open>send_json_message\<close>: it found
  the queue full and has not tried the close frame yet.
\<close>

datatype telemetry_phase = TaskRunning | TaskOverflowed | TaskOver

record ('f, 'q) ws_session =
  wx_filter :: 'f
  wx_task :: telemetry_phase
  wx_queue :: 'q

definition wx_watched :: "('f, 'q) ws_session \<Rightarrow> bool" where
  "wx_watched s \<longleftrightarrow> wx_task s \<noteq> TaskOver"

text \<open>
  \<^verbatim>\<open>send_json_message\<close> is a send of the text and, when the queue was full, a second one of a close frame. The first
  part tells by \<open>Inl True\<close> that the queue was full.
\<close>

definition send_json_text ::
    "('m \<Rightarrow> string + string) \<Rightarrow> (ws_message, 'q) try_send \<Rightarrow> 'm \<Rightarrow> 'q \<Rightarrow> (bool + unit) \<times> 'q" where
  "send_json_text to_string ts m q =
     (case to_string m of
        Inl _ \<Rightarrow> (Inl False, q)
      | Inr text \<Rightarrow>
          (case ts (WsText text) q of
             (Inr _, q') \<Rightarrow> (Inr (), q')
           | (Inl (Full _), q') \<Rightarrow> (Inl True, q')
           | (Inl (Closed _), q') \<Rightarrow> (Inl False, q')))"

definition overflow_close :: ws_message where
  "overflow_close = WsClose 1011 ''client send queue full''"

definition send_overflow_close :: "(ws_message, 'q) try_send \<Rightarrow> 'q \<Rightarrow> 'q" where
  "send_overflow_close ts q = snd (ts overflow_close q)"

text \<open>
  Both parts at once, as the task of the socket runs them: it is the one that receives from the queue, so nothing can
  leave the queue between its two sends. The telemetry task runs beside it, and there the two parts are two steps.
\<close>

definition send_json_message ::
    "('m \<Rightarrow> string + string) \<Rightarrow> (ws_message, 'q) try_send \<Rightarrow> 'm \<Rightarrow> 'q \<Rightarrow> (unit + unit) \<times> 'q" where
  "send_json_message to_string ts m q =
     (case send_json_text to_string ts m q of
        (Inr _, q') \<Rightarrow> (Inr (), q')
      | (Inl full, q') \<Rightarrow> (Inl (), if full then send_overflow_close ts q' else q'))"

definition task_send ::
    "('m \<Rightarrow> string + string) \<Rightarrow> (ws_message, 'q) try_send \<Rightarrow> 'm \<Rightarrow> ('f, 'q) ws_session \<Rightarrow> ('f, 'q) ws_session" where
  "task_send to_string ts m s =
     (case send_json_text to_string ts m (wx_queue s) of
        (Inr _, q) \<Rightarrow> s\<lparr>wx_queue := q\<rparr>
      | (Inl full, q) \<Rightarrow> if full then s\<lparr>wx_queue := q, wx_task := TaskOverflowed\<rparr> else s\<lparr>wx_queue := q, wx_task := TaskOver\<rparr>)"

definition task_gives_up :: "(ws_message, 'q) try_send \<Rightarrow> ('f, 'q) ws_session \<Rightarrow> ('f, 'q) ws_session" where
  "task_gives_up ts s = s\<lparr>wx_queue := send_overflow_close ts (wx_queue s), wx_task := TaskOver\<rparr>"

fun is_text_frame :: "ws_message \<Rightarrow> bool" where
  "is_text_frame (WsText _) = True"
| "is_text_frame _ = False"

definition adds_texts :: "ws_message list \<Rightarrow> ws_message list \<Rightarrow> bool" where
  "adds_texts q q' \<longleftrightarrow> (\<exists>ms. q' = q @ ms \<and> list_all is_text_frame ms)"

lemma adds_texts_refl [simp]: "adds_texts q q"
  by (simp add: adds_texts_def)

lemma mpsc_parts:
  assumes "mpsc_law ts view"
  shows "fst (ts a q) = fst (vq_try_send a (view q))" "view (snd (ts a q)) = snd (vq_try_send a (view q))"
  using assms unfolding mpsc_law_def by blast+

text \<open>The first part adds its text or nothing; when it found the queue full, the queue still is.\<close>

lemma send_json_text_appends:
  assumes "mpsc_law ts view" "send_json_text to_string ts m q = (r, q')"
  shows "adds_texts (vq_items (view q)) (vq_items (view q'))"
    and "r = Inl True \<Longrightarrow> view q' = view q \<and> \<not> vq_closed (view q) \<and> vq_capacity (view q) \<le> length (vq_items (view q))"
proof -
  have parts: "adds_texts (vq_items (view q)) (vq_items (view q')) \<and> (r = Inl True \<longrightarrow>
      view q' = view q \<and> \<not> vq_closed (view q) \<and> vq_capacity (view q) \<le> length (vq_items (view q)))"
  proof (cases "to_string m")
    case (Inl e)
    then show ?thesis using assms(2) by (auto simp: send_json_text_def)
  next
    case (Inr body)
    obtain x q1 where ts: "ts (WsText body) q = (x, q1)" by fastforce
    from mpsc_parts [OF assms(1), of "WsText body" q] ts assms(2) show ?thesis
      by (auto simp: send_json_text_def Inr adds_texts_def vq_try_send_def
          split: sum.splits try_send_error.splits if_splits)
  qed
  then show "adds_texts (vq_items (view q)) (vq_items (view q'))"
    and "r = Inl True \<Longrightarrow> view q' = view q \<and> \<not> vq_closed (view q) \<and> vq_capacity (view q) \<le> length (vq_items (view q))"
    by blast+
qed

text \<open>In one go all that reaches the queue is the text: a queue too full for it is too full for the close frame.\<close>

lemma send_json_appends:
  assumes "mpsc_law ts view"
  shows "adds_texts (vq_items (view q)) (vq_items (view (snd (send_json_message to_string ts m q))))"
proof -
  obtain r q' where send: "send_json_text to_string ts m q = (r, q')" by fastforce
  note how = send_json_text_appends [OF assms send]
  show ?thesis
  proof (cases "r = Inl True")
    case True
    with how(2) have "view (send_overflow_close ts q') = view q"
      by (simp add: send_overflow_close_def mpsc_parts [OF assms] vq_try_send_def)
    with send True show ?thesis by (simp add: send_json_message_def)
  next
    case False
    with send how(1) show ?thesis by (cases r) (simp_all add: send_json_message_def)
  qed
qed

lemma task_send_appends:
  assumes "mpsc_law ts view"
  shows "adds_texts (vq_items (view (wx_queue s))) (vq_items (view (wx_queue (task_send to_string ts m s))))"
proof -
  obtain r q' where send: "send_json_text to_string ts m (wx_queue s) = (r, q')" by fastforce
  from send_json_text_appends(1) [OF assms send] send show ?thesis by (cases r) (simp_all add: task_send_def)
qed

text \<open>The close frame reaches the queue when there is room by then, and only then.\<close>

lemma task_gives_up_appends:
  assumes "mpsc_law ts view"
  shows "vq_items (view (wx_queue (task_gives_up ts s))) =
           vq_items (view (wx_queue s)) @
           (if vq_closed (view (wx_queue s)) \<or> vq_capacity (view (wx_queue s)) \<le> length (vq_items (view (wx_queue s)))
            then [] else [overflow_close])"
  by (simp add: task_gives_up_def send_overflow_close_def mpsc_parts [OF assms] vq_try_send_def)

text \<open>What the telemetry task may still add beside texts: the close frame, once, as long as it runs.\<close>

definition is_close_frame :: "ws_message \<Rightarrow> bool" where
  "is_close_frame m \<longleftrightarrow> m = overflow_close"

definition closes_left :: "('f, 'q) ws_session \<Rightarrow> nat" where
  "closes_left s = (if wx_watched s then 1 else 0)"

definition adds_frames :: "nat \<Rightarrow> ws_message list \<Rightarrow> ws_message list \<Rightarrow> bool" where
  "adds_frames n q q' \<longleftrightarrow>
     (\<exists>ms. q' = q @ ms \<and> list_all (\<lambda>m. is_text_frame m \<or> is_close_frame m) ms \<and> length (filter is_close_frame ms) \<le> n)"

lemma text_not_close: "list_all is_text_frame ms \<Longrightarrow> filter is_close_frame ms = []"
  by (induction ms) (auto simp: is_close_frame_def overflow_close_def)

lemma adds_texts_frames: "adds_texts q q' \<Longrightarrow> adds_frames n q q'"
  unfolding adds_texts_def adds_frames_def using text_not_close by (fastforce simp: list_all_iff)

lemma adds_frames_refl [simp]: "adds_frames n q q"
  by (simp add: adds_frames_def)

lemma closes_left_over [simp]: "closes_left (s\<lparr>wx_task := TaskOver\<rparr>) = 0"
  by (simp add: closes_left_def wx_watched_def)

lemma socket_frames_ok:
  assumes "list_all (\<lambda>m. is_text_frame m \<or> is_close_frame m) ms" "length (filter is_close_frame ms) \<le> 1 - closes_left s"
  shows "list_all (\<lambda>m. is_text_frame m \<or> m = WsClose 1011 ''client send queue full'') ms \<and>
    length (filter (\<lambda>m. \<not> is_text_frame m) ms) \<le> 1 \<and> (\<not> list_all is_text_frame ms \<longrightarrow> wx_task s = TaskOver)"
proof -
  have close: "is_close_frame m \<longleftrightarrow> m = WsClose 1011 ''client send queue full''" for m
    by (simp add: is_close_frame_def overflow_close_def)
  have "filter (\<lambda>m. \<not> is_text_frame m) ms = filter is_close_frame ms"
    using assms(1) by (intro filter_cong) (auto simp: list_all_iff close)
  moreover have "list_all is_text_frame ms \<longleftrightarrow> filter (\<lambda>m. \<not> is_text_frame m) ms = []"
    by (auto simp: list_all_iff filter_empty_conv)
  moreover have "wx_task s = TaskOver" if "filter is_close_frame ms \<noteq> []"
    using that assms(2) by (auto simp: closes_left_def wx_watched_def split: if_splits)
  ultimately show ?thesis using assms by (auto simp: close)
qed

lemma task_send_closes: "wx_watched s \<Longrightarrow> closes_left (task_send to_string ts m s) \<le> closes_left s"
  by (simp add: closes_left_def task_send_def wx_watched_def split: prod.split sum.split)

lemma task_send_frames:
  assumes "mpsc_law ts view"
  shows "adds_frames (closes_left s - closes_left (task_send to_string ts m s))
           (vq_items (view (wx_queue s))) (vq_items (view (wx_queue (task_send to_string ts m s))))"
  using adds_texts_frames [OF task_send_appends [OF assms]] .

lemma task_gives_up_frames:
  assumes "mpsc_law ts view" "wx_watched s"
  shows "adds_frames (closes_left s - closes_left (task_gives_up ts s))
           (vq_items (view (wx_queue s))) (vq_items (view (wx_queue (task_gives_up ts s))))"
  using assms(2) unfolding task_gives_up_appends [OF assms(1)]
  by (auto simp: adds_frames_def closes_left_def task_gives_up_def is_close_frame_def wx_watched_def)

section \<open>The loop of a socket\<close>

text \<open>
  The inputs: the heartbeat ticked, the queue was ready (both with how the send ended), a frame came in, the peer was
  gone or failed, or the telemetry task ran.
\<close>

datatype send_end = SendDone | SendFailed | SendTimedOut

datatype 'i socket_input =
  HeartbeatTick send_end
| QueueReady send_end
| InboundFrame ws_message
| InboundGone
| TaskRuns 'i

record 's socket =
  ho_session :: 's
  ho_sent :: "ws_message list"

definition socket_sends :: "ws_message \<Rightarrow> send_end \<Rightarrow> 's socket \<Rightarrow> 's socket" where
  "socket_sends m e so = (if e = SendDone then so\<lparr>ho_sent := ho_sent so @ [m]\<rparr> else so)"

fun socket_loop ::
    "(ws_message \<Rightarrow> 's \<Rightarrow> (unit + unit) \<times> 's) \<Rightarrow> ('i \<Rightarrow> 's \<Rightarrow> 's) \<Rightarrow> (ws_message, 's) receiver \<Rightarrow>
     'i socket_input list \<Rightarrow> 's socket \<Rightarrow> bool \<times> 's socket" where
  "socket_loop client task rx [] so = (False, so)"
| "socket_loop client task rx (HeartbeatTick e # inputs) so =
     (if e = SendTimedOut then (True, so) else socket_loop client task rx inputs (socket_sends WsPing e so))"
| "socket_loop client task rx (QueueReady e # inputs) so =
     (case rx (ho_session so) of
        (RecvItem m, s) \<Rightarrow>
          let so' = socket_sends m e (so\<lparr>ho_session := s\<rparr>) in
          if e = SendDone then socket_loop client task rx inputs so' else (True, so')
      | (RecvEnded, s) \<Rightarrow> (True, so\<lparr>ho_session := s\<rparr>)
      | (RecvPending, s) \<Rightarrow> socket_loop client task rx inputs (so\<lparr>ho_session := s\<rparr>))"
| "socket_loop client task rx (InboundFrame m # inputs) so =
     (case client m (ho_session so) of
        (Inr _, s) \<Rightarrow> socket_loop client task rx inputs (so\<lparr>ho_session := s\<rparr>)
      | (Inl _, s) \<Rightarrow> (True, so\<lparr>ho_session := s\<rparr>))"
| "socket_loop client task rx (InboundGone # inputs) so = (True, so)"
| "socket_loop client task rx (TaskRuns i # inputs) so = socket_loop client task rx inputs (so\<lparr>ho_session := task i (ho_session so)\<rparr>)"

definition session_recv :: "(ws_message, 'q) receiver \<Rightarrow> (ws_message, ('f, 'q) ws_session) receiver" where
  "session_recv rx s = (case rx (wx_queue s) of (r, q) \<Rightarrow> (r, s\<lparr>wx_queue := q\<rparr>))"

lemma socket_loop_append:
  "socket_loop client task rx (is1 @ is2) so =
     (case socket_loop client task rx is1 so of
        (True, so') \<Rightarrow> (True, so')
      | (False, so') \<Rightarrow> socket_loop client task rx is2 so')"
  by (induction client task rx is1 so rule: socket_loop.induct)
    (simp_all add: Let_def split: prod.split recv.split sum.split)

text \<open>What the tasks and receiving preserve holds of the session throughout.\<close>

lemma socket_loop_invariant:
  assumes "\<And>m s r s'. client m s = (r, s') \<Longrightarrow> P s \<Longrightarrow> P s'"
    and "\<And>i s. P s \<Longrightarrow> P (task i s)" and "\<And>s r s'. rx s = (r, s') \<Longrightarrow> P s \<Longrightarrow> P s'"
  shows "socket_loop client task rx inputs so = (ended, so') \<Longrightarrow> P (ho_session so) \<Longrightarrow> P (ho_session so')"
proof (induction inputs arbitrary: so)
  case (Cons i inputs)
  show ?case
  proof (cases i)
    case (TaskRuns x)
    with Cons.prems(1) have "socket_loop client task rx inputs (so\<lparr>ho_session := task x (ho_session so)\<rparr>) = (ended, so')" by simp
    from Cons.IH [OF this] Cons.prems(2) assms(2) show ?thesis by simp
  qed (use Cons in \<open>auto simp: socket_sends_def Let_def dest: assms(1,3)
        split: if_splits prod.splits recv.splits sum.splits\<close>)
qed simp

section \<open>What a client receives\<close>

text \<open>
  The interface between the loop and a service: the answers to a client only append texts to the send queue, the
  telemetry task appends texts and at most once a close frame (\<open>closes\<close> is how often it still may), and receiving takes
  the oldest frame. The handle \<open>l\<close> stands for the service with its libraries.
\<close>

locale socket_service =
  fixes client :: "'l \<Rightarrow> ws_message \<Rightarrow> 's \<Rightarrow> (unit + unit) \<times> 's"
    and task :: "'l \<Rightarrow> 'i \<Rightarrow> 's \<Rightarrow> 's"
    and rx :: "'l \<Rightarrow> (ws_message, 's) receiver"
    and queued :: "'l \<Rightarrow> 's \<Rightarrow> ws_message list"
    and closes :: "'s \<Rightarrow> nat"
    and ok :: "'l \<Rightarrow> bool"
  assumes client_appends: "ok l \<Longrightarrow> client l m s = (r, s') \<Longrightarrow>
      adds_texts (queued l s) (queued l s') \<and> closes s' = closes s"
    and task_appends: "ok l \<Longrightarrow> closes (task l i s) \<le> closes s \<and>
      adds_frames (closes s - closes (task l i s)) (queued l s) (queued l (task l i s))"
    and receives: "ok l \<Longrightarrow> rx l s = (x, s') \<Longrightarrow> closes s' = closes s \<and>
      (case x of RecvItem m \<Rightarrow> queued l s = m # queued l s' | _ \<Rightarrow> queued l s' = queued l s)"
begin

definition frames_ok :: "nat \<Rightarrow> ws_message list \<Rightarrow> bool" where
  "frames_ok n ms \<longleftrightarrow> list_all (\<lambda>m. is_text_frame m \<or> is_close_frame m) ms \<and> length (filter is_close_frame ms) \<le> n"

lemma frames_no_ping: "list_all (\<lambda>m. is_text_frame m \<or> is_close_frame m) ms \<Longrightarrow> m \<in> set ms \<Longrightarrow> m \<noteq> WsPing"
  by (auto simp: list_all_iff is_close_frame_def overflow_close_def)

text \<open>The account: what was queued is, in order, what was sent, at most one frame whose send failed, and what is left.\<close>

definition accounted :: "'l \<Rightarrow> 's \<Rightarrow> ws_message list \<Rightarrow> bool \<Rightarrow> 's socket \<Rightarrow> bool" where
  "accounted l s sent ended so \<longleftrightarrow>
     (\<exists>put frames lost. ho_sent so = sent @ frames \<and>
        queued l s @ put = filter (\<lambda>m. m \<noteq> WsPing) frames @ lost @ queued l (ho_session so) \<and>
        closes (ho_session so) \<le> closes s \<and> frames_ok (closes s - closes (ho_session so)) put \<and>
        length lost \<le> 1 \<and> (lost \<noteq> [] \<longrightarrow> ended))"

lemma accountedI:
  "ho_sent so = sent @ frames \<Longrightarrow>
   queued l s @ put = filter (\<lambda>m. m \<noteq> WsPing) frames @ lost @ queued l (ho_session so) \<Longrightarrow>
   closes (ho_session so) \<le> closes s \<Longrightarrow> frames_ok (closes s - closes (ho_session so)) put \<Longrightarrow>
   length lost \<le> 1 \<Longrightarrow> (lost \<noteq> [] \<Longrightarrow> ended) \<Longrightarrow> accounted l s sent ended so"
  unfolding accounted_def by blast

lemma accounted_start: "accounted l (ho_session so) (ho_sent so) ended so"
  by (intro accountedI [where put = "[]" and frames = "[]" and lost = "[]"]) (simp_all add: frames_ok_def)

lemma accounted_put:
  assumes "accounted l s' sent ended so" "closes s' \<le> closes s" "adds_frames (closes s - closes s') (queued l s) (queued l s')"
  shows "accounted l s sent ended so"
proof -
  obtain ms where ms: "queued l s' = queued l s @ ms" "list_all (\<lambda>m. is_text_frame m \<or> is_close_frame m) ms"
      "length (filter is_close_frame ms) \<le> closes s - closes s'"
    using assms(3) unfolding adds_frames_def by blast
  obtain put frames lost where a: "ho_sent so = sent @ frames"
      "queued l s' @ put = filter (\<lambda>m. m \<noteq> WsPing) frames @ lost @ queued l (ho_session so)"
      "closes (ho_session so) \<le> closes s'" "frames_ok (closes s' - closes (ho_session so)) put"
      "length lost \<le> 1" "lost \<noteq> [] \<longrightarrow> ended"
    using assms(1) unfolding accounted_def by blast
  with ms assms(2) show ?thesis
    by (intro accountedI [where put = "ms @ put" and frames = frames and lost = lost]) (auto simp: frames_ok_def)
qed

lemma accounted_step:
  assumes "accounted l s' (sent @ [m]) ended so" "queued l s = filter (\<lambda>m. m \<noteq> WsPing) [m] @ queued l s'" "closes s' = closes s"
  shows "accounted l s sent ended so"
proof -
  obtain put frames lost where a: "ho_sent so = (sent @ [m]) @ frames"
      "queued l s' @ put = filter (\<lambda>m. m \<noteq> WsPing) frames @ lost @ queued l (ho_session so)"
      "closes (ho_session so) \<le> closes s'" "frames_ok (closes s' - closes (ho_session so)) put"
      "length lost \<le> 1" "lost \<noteq> [] \<longrightarrow> ended"
    using assms(1) unfolding accounted_def by blast
  with assms(2,3) show ?thesis
    by (intro accountedI [where put = put and frames = "m # frames" and lost = lost]) simp_all
qed

text \<open>The queue of a service holds texts and close frames only, if it did at the start.\<close>

abbreviation queue_ok :: "'l \<Rightarrow> 's \<Rightarrow> bool" where
  "queue_ok l s \<equiv> list_all (\<lambda>m. is_text_frame m \<or> is_close_frame m) (queued l s)"

lemma adds_frames_ok: "adds_frames n (queued l s) (queued l s') \<Longrightarrow> queue_ok l s \<Longrightarrow> queue_ok l s'"
  by (auto simp: adds_frames_def)

lemma receive_accounts:
  assumes "ok l" "rx l (ho_session so) = (RecvItem m, s)" "queue_ok l (ho_session so)"
  shows "queue_ok l s \<and> m \<noteq> WsPing \<and> accounted l (ho_session so) (ho_sent so) True (so\<lparr>ho_session := s\<rparr>) \<and>
    (accounted l s (ho_sent so @ [m]) ended so' \<longrightarrow> accounted l (ho_session so) (ho_sent so) ended so')"
proof -
  have took: "queued l (ho_session so) = m # queued l s" "closes s = closes (ho_session so)"
    using receives [OF assms(1,2)] by simp_all
  have m: "m \<noteq> WsPing" "queue_ok l s" using assms(3) frames_no_ping [of "[m]" m] by (simp_all add: took(1))
  have "accounted l (ho_session so) (ho_sent so) True (so\<lparr>ho_session := s\<rparr>)"
    by (intro accountedI [where put = "[]" and frames = "[]" and lost = "[m]"]) (simp_all add: took frames_ok_def)
  moreover have "accounted l (ho_session so) (ho_sent so) ended so'" if "accounted l s (ho_sent so @ [m]) ended so'"
    using accounted_step [OF that] took m(1) by simp
  ultimately show ?thesis using m by blast
qed

lemma loop_accounts:
  assumes "ok l"
  shows "socket_loop (client l) (task l) (rx l) inputs so = (ended, so') \<Longrightarrow> queue_ok l (ho_session so) \<Longrightarrow>
    accounted l (ho_session so) (ho_sent so) ended so'"
proof (induction inputs arbitrary: so)
  case Nil
  then show ?case by (simp add: accounted_start)
next
  case (Cons i inputs)
  show ?case
  proof (cases i)
    case (HeartbeatTick e)
    show ?thesis
    proof (cases "e = SendTimedOut")
      case True
      with Cons.prems HeartbeatTick show ?thesis using accounted_start by auto
    next
      case False
      with Cons.prems HeartbeatTick
      have "socket_loop (client l) (task l) (rx l) inputs (socket_sends WsPing e so) = (ended, so')" by simp
      from Cons.IH [OF this] Cons.prems(2)
      show ?thesis by (cases "e = SendDone") (auto simp: socket_sends_def intro: accounted_step [of l _ _ WsPing])
    qed
  next
    case (QueueReady e)
    obtain r s where rx: "rx l (ho_session so) = (r, s)" by fastforce
    show ?thesis
    proof (cases r)
      case (RecvItem m)
      note took = receive_accounts [OF assms rx [unfolded RecvItem] Cons.prems(2), of ended so']
      show ?thesis
      proof (cases "e = SendDone")
        case True
        with Cons.prems QueueReady RecvItem rx
        have "socket_loop (client l) (task l) (rx l) inputs (so\<lparr>ho_session := s, ho_sent := ho_sent so @ [m]\<rparr>) = (ended, so')"
          by (simp add: socket_sends_def)
        from Cons.IH [OF this] took show ?thesis by simp
      next
        case False
        with Cons.prems QueueReady RecvItem rx have "ended" "so' = so\<lparr>ho_session := s\<rparr>" by (auto simp: socket_sends_def)
        with took show ?thesis by simp
      qed
    next
      case RecvEnded
      with Cons.prems QueueReady rx receives [OF assms rx] show ?thesis
        by (intro accountedI [where put = "[]" and frames = "[]" and lost = "[]"]) (auto simp: frames_ok_def)
    next
      case RecvPending
      with Cons.prems QueueReady rx
      have "socket_loop (client l) (task l) (rx l) inputs (so\<lparr>ho_session := s\<rparr>) = (ended, so')" by simp
      from Cons.IH [OF this] receives [OF assms rx] RecvPending Cons.prems(2)
      show ?thesis by (auto intro: accounted_put [of l s])
    qed
  next
    case (InboundFrame m)
    obtain r s where c: "client l m (ho_session so) = (r, s)" by fastforce
    have adds: "adds_frames 0 (queued l (ho_session so)) (queued l s)" "closes s = closes (ho_session so)"
      using client_appends [OF assms c] adds_texts_frames by blast+
    have "accounted l s (ho_sent so) ended so'"
    proof (cases r)
      case (Inl e)
      with Cons.prems InboundFrame c have "so' = so\<lparr>ho_session := s\<rparr>" by simp
      then show ?thesis using accounted_start [of l so'] by simp
    next
      case (Inr u)
      with Cons.prems InboundFrame c
      have "socket_loop (client l) (task l) (rx l) inputs (so\<lparr>ho_session := s\<rparr>) = (ended, so')" by simp
      from Cons.IH [OF this] adds_frames_ok [OF adds(1) Cons.prems(2)] show ?thesis by simp
    qed
    then show ?thesis using adds by (auto intro: accounted_put)
  next
    case InboundGone
    with Cons.prems show ?thesis using accounted_start by auto
  next
    case (TaskRuns i)
    let ?s = "task l i (ho_session so)"
    note adds = task_appends [OF assms, of i "ho_session so"]
    from Cons.prems TaskRuns
    have "socket_loop (client l) (task l) (rx l) inputs (so\<lparr>ho_session := ?s\<rparr>) = (ended, so')" by simp
    from Cons.IH [OF this] adds adds_frames_ok [OF conjunct2 [OF adds] Cons.prems(2)]
    show ?thesis by (auto intro: accounted_put [of l ?s])
  qed
qed

text \<open>From any moment of a session on, what is queued is what goes out next.\<close>

lemma loop_delivers:
  assumes "ok l" "frames_ok n (queued l (ho_session so))"
    and "socket_loop (client l) (task l) (rx l) is1 so = (False, so1)"
    and "socket_loop (client l) (task l) (rx l) (is1 @ is2) so = (ended, so2)"
  shows "frames_ok (n + closes (ho_session so) - closes (ho_session so1)) (queued l (ho_session so1)) \<and>
    accounted l (ho_session so1) (ho_sent so1) ended so2"
proof -
  have q: "queue_ok l (ho_session so)" using assms(2) by (simp add: frames_ok_def)
  obtain put frames where a: "queued l (ho_session so) @ put =
      filter (\<lambda>m. m \<noteq> WsPing) frames @ queued l (ho_session so1)" "closes (ho_session so1) \<le> closes (ho_session so)"
      "frames_ok (closes (ho_session so) - closes (ho_session so1)) put"
    using loop_accounts [OF assms(1,3) q] unfolding accounted_def by auto
  from a(1) have "list_all P (queued l (ho_session so1))" if "list_all P (queued l (ho_session so) @ put)" for P
    using that by simp
  then have texts: "queue_ok l (ho_session so1)" using q a(3) by (simp add: frames_ok_def)
  have "length (filter is_close_frame (queued l (ho_session so1))) \<le>
      length (filter is_close_frame (queued l (ho_session so) @ put))"
    unfolding a(1) by simp
  with texts assms(2) a(2,3) have f: "frames_ok (n + closes (ho_session so) - closes (ho_session so1)) (queued l (ho_session so1))"
    by (auto simp: frames_ok_def)
  have "socket_loop (client l) (task l) (rx l) is2 so1 = (ended, so2)"
    using assms(4) by (simp add: socket_loop_append assms(3))
  from loop_accounts [OF assms(1) this texts] f show ?thesis by simp
qed

end

end
