(* ===== verification/Api_Realtime.thy ===== *)
theory Api_Realtime
  imports Api_Handler Web_Socket
begin

text \<open>
  The realtime streams of the management API (\<^verbatim>\<open>realtime.rs\<close> and the realtime messages of \<^verbatim>\<open>dto.rs\<close>): the filter of a
  subscriber, the stream of server-sent events, and the two tasks of a WebSocket with the filter and the send queue
  they share. A broadcast receiver is the list of what it yields; the channel and the serializer are parameters.
\<close>

section \<open>Filters\<close>

record realtime_filter =
  xf_device_id :: "string option"
  xf_topic :: "string option"
  xf_topic_prefix :: "string option"
  xf_event_type :: "string option"
  xf_route_id :: "string option"

definition normalize_optional :: "string option \<Rightarrow> string option" where
  "normalize_optional v = Option.bind v (\<lambda>s. if trim s = [] then None else Some (trim s))"

definition filter_normalized :: "realtime_filter \<Rightarrow> realtime_filter" where
  "filter_normalized f =
     \<lparr>xf_device_id = normalize_optional (xf_device_id f), xf_topic = normalize_optional (xf_topic f),
      xf_topic_prefix = normalize_optional (xf_topic_prefix f), xf_event_type = normalize_optional (xf_event_type f),
      xf_route_id = normalize_optional (xf_route_id f)\<rparr>"

definition topic_matches_prefix :: "string \<Rightarrow> string \<Rightarrow> bool" where
  "topic_matches_prefix topic p \<longleftrightarrow>
     topic = p \<or> (case strip_prefix p topic of None \<Rightarrow> False | Some rest \<Rightarrow> prefix ''/'' rest)"

definition realtime_filter_matches :: "realtime_filter \<Rightarrow> normalized_event \<Rightarrow> bool" where
  "realtime_filter_matches f e =
     (if (case xf_device_id f of None \<Rightarrow> False | Some x \<Rightarrow> ev_device_id e \<noteq> Some x) then False
      else if (case xf_topic f of None \<Rightarrow> False | Some x \<Rightarrow> ev_topic e \<noteq> x) then False
      else if (case xf_topic_prefix f of None \<Rightarrow> False | Some x \<Rightarrow> \<not> topic_matches_prefix (ev_topic e) x) then False
      else if (case xf_event_type f of None \<Rightarrow> False | Some x \<Rightarrow> ev_event_type e \<noteq> x) then False
      else if (case xf_route_id f of None \<Rightarrow> False | Some x \<Rightarrow> ev_route_id e \<noteq> x) then False
      else True)"

definition validate_topic_like :: "string \<Rightarrow> string \<Rightarrow> api_error + unit" where
  "validate_topic_like name v =
     (if trim v = [] \<or> CHR ''+'' \<in> set v \<or> CHR ''#'' \<in> set v
      then Inl (BadRequest (name @ '' must not be empty and must not contain MQTT wildcards'')) else Inr ())"

definition validate_simple_filter_value :: "string \<Rightarrow> string \<Rightarrow> api_error + unit" where
  "validate_simple_filter_value name v =
     (if trim v = [] \<or> CHR ''/'' \<in> set v \<or> CHR ''+'' \<in> set v \<or> CHR ''#'' \<in> set v
      then Inl (BadRequest (name @ '' must be a non-empty single topic segment'')) else Inr ())"

definition validate_realtime_filter :: "realtime_filter \<Rightarrow> api_error + unit" where
  "validate_realtime_filter f =
     res_bind (opt_check (validate_topic_like ''topic'') (xf_topic f)) (\<lambda>_.
     res_bind (opt_check (validate_topic_like ''topic_prefix'') (xf_topic_prefix f)) (\<lambda>_.
     res_bind (opt_check (validate_simple_filter_value ''device_id'') (xf_device_id f)) (\<lambda>_.
     res_bind (opt_check (validate_simple_filter_value ''event_type'') (xf_event_type f)) (\<lambda>_.
     opt_check (validate_simple_filter_value ''route_id'') (xf_route_id f)))))"

definition parse_realtime_filter :: "api_request \<Rightarrow> api_error + realtime_filter" where
  "parse_realtime_filter req =
     (let f = filter_normalized
            \<lparr>xf_device_id = rq_query req ''device_id'', xf_topic = rq_query req ''topic'',
             xf_topic_prefix = rq_query req ''topic_prefix'', xf_event_type = rq_query req ''event_type'',
             xf_route_id = rq_query req ''route_id''\<rparr>
      in res_bind (validate_realtime_filter f) (\<lambda>_. Inr f))"

section \<open>Messages\<close>

datatype realtime_payload_response = PayloadJson json | RawBase64 string

record realtime_lib =
  xl_base64 :: "string \<Rightarrow> string"
  xl_show_time :: "timestamp \<Rightarrow> string"

fun payload_response_from :: "realtime_lib \<Rightarrow> decoded_payload \<Rightarrow> realtime_payload_response" where
  "payload_response_from lib (DecodedJson v) = PayloadJson v"
| "payload_response_from lib (DecodedRaw bytes) = RawBase64 (xl_base64 lib bytes)"

fun dto_field_value_to_json :: "field_value \<Rightarrow> json" where
  "dto_field_value_to_json FNull = JNull"
| "dto_field_value_to_json (FBool b) = JBool b"
| "dto_field_value_to_json (FNumber n) = JNumber n"
| "dto_field_value_to_json (FString s) = JString s"
| "dto_field_value_to_json (FObject m) = JObject m"
| "dto_field_value_to_json (FArray a) = JArray a"

record realtime_raw_payload_response =
  xr_byte_len :: nat
  xr_content_type :: "string option"

record realtime_diagnostic_response =
  xd_code :: string
  xd_message :: string
  xd_field :: "string option"

record realtime_event_response =
  xe_id :: string
  xe_correlation_id :: string
  xe_project_id :: string
  xe_broker_id :: string
  xe_route_id :: string
  xe_schema_mapping_id :: "string option"
  xe_topic :: string
  xe_device_id :: "string option"
  xe_event_type :: string
  xe_received_at :: string
  xe_payload_size_bytes :: nat
  xe_payload :: realtime_payload_response
  xe_fields :: json_map
  xe_raw :: "realtime_raw_payload_response option"
  xe_normalization_errors :: "realtime_diagnostic_response list"
  xe_metadata :: "(string, string) bmap"

definition event_response_from :: "realtime_lib \<Rightarrow> normalized_event \<Rightarrow> realtime_event_response" where
  "event_response_from lib e =
     \<lparr>xe_id = ev_id e, xe_correlation_id = ev_correlation_id e, xe_project_id = ev_project_id e,
      xe_broker_id = ev_broker_id e, xe_route_id = ev_route_id e, xe_schema_mapping_id = ev_schema_mapping_id e,
      xe_topic = ev_topic e, xe_device_id = ev_device_id e, xe_event_type = ev_event_type e,
      xe_received_at = xl_show_time lib (ev_received_at e), xe_payload_size_bytes = ev_payload_size_bytes e,
      xe_payload = payload_response_from lib (ev_payload e),
      xe_fields = map (\<lambda>(name, v). (name, dto_field_value_to_json v)) (ev_fields e),
      xe_raw = map_option (\<lambda>raw. \<lparr>xr_byte_len = rw_byte_len raw, xr_content_type = rw_content_type raw\<rparr>) (ev_raw e),
      xe_normalization_errors =
        map (\<lambda>d. \<lparr>xd_code = nd_code d, xd_message = nd_message d, xd_field = nd_field d\<rparr>) (ev_normalization_errors e),
      xe_metadata = ev_metadata e\<rparr>"

text \<open>The snapshot of a filter has the same fields.\<close>

datatype realtime_server_message =
  ServerReady string realtime_filter
| ServerEvent realtime_event_response
| ServerLagged u64
| ServerFilterUpdated realtime_filter
| ServerError string

datatype realtime_client_message =
  ClientSubscribe realtime_filter
| ClientPing

section \<open>Subscriptions\<close>

record 'rx realtime_subscription =
  xs_project_id :: project_id
  xs_filter :: realtime_filter
  xs_rx :: 'rx

definition prepare_subscription ::
    "('s, 'rx) depot \<Rightarrow> api_request \<Rightarrow> ('s, api_error, 'rx realtime_subscription) action" where
  "prepare_subscription dp req =
     act_bind (act_lift (ok_or (ApiInternal ''API state missing'') (dp_state dp))) (\<lambda>st.
     act_bind (act_lift (path_project_id req)) (\<lambda>pid.
     act_bind (act_lift (authorize_project dp pid ProjectRead)) (\<lambda>_.
     act_bind (act_lift (parse_realtime_filter req)) (\<lambda>f.
     act_bind (act_err api_of_control (rt_subscribe_realtime_events (as_runtime st) pid)) (\<lambda>rx.
     act_lift (Inr \<lparr>xs_project_id = pid, xs_filter = filter_normalized f, xs_rx = rx\<rparr>))))))"

text \<open>What a broadcast receiver yields.\<close>

datatype received_event = RecvEvent normalized_event | RecvLagged u64 | RecvClosed

fun sse_loop :: "realtime_lib \<Rightarrow> realtime_filter \<Rightarrow> received_event list \<Rightarrow> realtime_server_message list" where
  "sse_loop lib f [] = []"
| "sse_loop lib f (RecvEvent e # rs) =
     (if \<not> realtime_filter_matches f e then sse_loop lib f rs
      else ServerEvent (event_response_from lib e) # sse_loop lib f rs)"
| "sse_loop lib f (RecvLagged skipped # rs) = ServerLagged skipped # sse_loop lib f rs"
| "sse_loop lib f (RecvClosed # rs) = []"

definition sse_stream :: "realtime_lib \<Rightarrow> realtime_filter \<Rightarrow> received_event list \<Rightarrow> realtime_server_message list" where
  "sse_stream lib f rs = ServerReady ''sse'' f # sse_loop lib f rs"

section \<open>WebSockets\<close>

record ws_lib =
  wl_events :: realtime_lib
  wl_to_string :: "realtime_server_message \<Rightarrow> string + string"
  wl_from_str :: "string \<Rightarrow> string + realtime_client_message"

definition session_send ::
    "ws_lib \<Rightarrow> (ws_message, 'q) try_send \<Rightarrow> realtime_server_message \<Rightarrow> (realtime_filter, 'q) ws_session \<Rightarrow> (unit + unit) \<times> (realtime_filter, 'q) ws_session" where
  "session_send lib ts m s = (case send_json_message (wl_to_string lib) ts m (wx_queue s) of (r, q) \<Rightarrow> (r, s\<lparr>wx_queue := q\<rparr>))"

text \<open>\<^verbatim>\<open>filter_tx.send\<close> fails, and changes nothing, when no task watches any more.\<close>

definition handle_client_message ::
    "ws_lib \<Rightarrow> (ws_message, 'q) try_send \<Rightarrow> ws_message \<Rightarrow> (realtime_filter, 'q) ws_session \<Rightarrow> (unit + unit) \<times> (realtime_filter, 'q) ws_session" where
  "handle_client_message lib ts m s =
     (case m of
        WsClose _ _ \<Rightarrow> (Inl (), s)
      | WsPing \<Rightarrow> (Inr (), s)
      | WsPong \<Rightarrow> (Inr (), s)
      | WsBinary _ \<Rightarrow> session_send lib ts (ServerError ''only JSON text messages are supported'') s
      | WsBadText _ \<Rightarrow> session_send lib ts (ServerError ''invalid UTF-8 websocket message'') s
      | WsText text \<Rightarrow>
          (case wl_from_str lib text of
             Inr (ClientSubscribe f0) \<Rightarrow>
               let f = filter_normalized f0 in
               (case validate_realtime_filter f of
                  Inl _ \<Rightarrow> (Inl (), s)
                | Inr _ \<Rightarrow> if wx_watched s then (Inr (), s\<lparr>wx_filter := f\<rparr>) else (Inl (), s))
           | Inr ClientPing \<Rightarrow> session_send lib ts (ServerReady ''websocket'' (wx_filter s)) s
           | Inl e \<Rightarrow> session_send lib ts (ServerError (''invalid client message: '' @ e)) s))"

text \<open>
  The telemetry task; \<open>FilterChanged\<close> is a wake-up of the watch. A failed send or a closed broadcast ends it; after a
  send to a full queue it tries the close frame in its next step.
\<close>

datatype telemetry_input = FilterChanged | FilterDropped | FromBroadcast received_event

definition telemetry_send ::
    "ws_lib \<Rightarrow> (ws_message, 'q) try_send \<Rightarrow> realtime_server_message \<Rightarrow> (realtime_filter, 'q) ws_session \<Rightarrow> (realtime_filter, 'q) ws_session" where
  "telemetry_send lib ts m s = task_send (wl_to_string lib) ts m s"

fun telemetry_step ::
    "ws_lib \<Rightarrow> (ws_message, 'q) try_send \<Rightarrow> telemetry_input \<Rightarrow> (realtime_filter, 'q) ws_session \<Rightarrow> (realtime_filter, 'q) ws_session" where
  "telemetry_step lib ts FilterChanged s = telemetry_send lib ts (ServerFilterUpdated (wx_filter s)) s"
| "telemetry_step lib ts FilterDropped s = s\<lparr>wx_task := TaskOver\<rparr>"
| "telemetry_step lib ts (FromBroadcast (RecvEvent e)) s =
     (if \<not> realtime_filter_matches (wx_filter s) e then s
      else telemetry_send lib ts (ServerEvent (event_response_from (wl_events lib) e)) s)"
| "telemetry_step lib ts (FromBroadcast (RecvLagged skipped)) s = telemetry_send lib ts (ServerLagged skipped) s"
| "telemetry_step lib ts (FromBroadcast RecvClosed) s = s\<lparr>wx_task := TaskOver\<rparr>"

definition session_start ::
    "ws_lib \<Rightarrow> (ws_message, 'q) try_send \<Rightarrow> realtime_filter \<Rightarrow> 'q \<Rightarrow> (realtime_filter, 'q) ws_session" where
  "session_start lib ts f q =
     telemetry_send lib ts (ServerReady ''websocket'' f) \<lparr>wx_filter = f, wx_task = TaskRunning, wx_queue = q\<rparr>"

end
