(* ===== verification/Management.thy ===== *)
theory Management
  imports Supervisor Api_Realtime
begin

text \<open>
  The management API as a whole (\<^verbatim>\<open>router.rs\<close>): which handler answers an endpoint and behind which guard, the locale
  \<open>management_backend\<close> of what the handlers rely on, its interpretation on PostgreSQL and the supervisor, and the
  properties that span the API, the store and the daemon.
\<close>

section \<open>Endpoints\<close>

datatype endpoint =
  EpHealth | EpHealthz | EpReadyz
| EpGetConfig | EpPutConfig | EpAuditEvents | EpFailures | EpResolveFailure | EpDeliveryOutcomes
| EpRuntimeStatus | EpRuntimeReload | EpExecuteCommand | EpRealtimeSse | EpRealtimeWs

text \<open>The router hangs the guard before everything below a project.\<close>

fun endpoint_guarded :: "endpoint \<Rightarrow> bool" where
  "endpoint_guarded EpHealth = False"
| "endpoint_guarded EpHealthz = False"
| "endpoint_guarded EpReadyz = False"
| "endpoint_guarded _ = True"

record health_response =
  hp_status :: string
  hp_service :: string

datatype 'rx api_body =
  HealthBody health_response
| ReadyBody readiness_response
| ConfigBody project_config_response
| WriteBody project_config_write_response
| AuditBody "audit_event_response list_response"
| FailureBody "failure_event_response list_response"
| ResolveBody resolve_failure_response
| OutcomeBody "sink_delivery_outcome_response list_response"
| StatusBody runtime_status_response
| ReloadBody runtime_reload_response
| CommandBody execute_command_response
| StreamBody "'rx realtime_subscription"

definition health_reply :: "'rx api_body http_reply" where
  "health_reply =
     \<lparr>hr_status = 200, hr_www_authenticate = None,
      hr_body = Inr (HealthBody \<lparr>hp_status = ''ok'', hp_service = management_service_name\<rparr>)\<rparr>"

text \<open>\<^verbatim>\<open>render_json\<close> with the status of a success, or \<^verbatim>\<open>render_error\<close>.\<close>

definition respond ::
    "nat \<Rightarrow> ('a \<Rightarrow> 'b) \<Rightarrow> ('s, api_error, 'a) action \<Rightarrow> 's \<Rightarrow> 'b http_reply \<times> 's" where
  "respond status body m s =
     (case m s of
        (Inr x, s') \<Rightarrow> (\<lparr>hr_status = status, hr_www_authenticate = None, hr_body = Inr (body x)\<rparr>, s')
      | (Inl e, s') \<Rightarrow> (write_error_response e, s'))"

fun handle_endpoint ::
    "api_lib \<Rightarrow> ('s, 'rx) depot \<Rightarrow> api_request \<Rightarrow> endpoint \<Rightarrow> 's \<Rightarrow> 'rx api_body http_reply \<times> 's" where
  "handle_endpoint lib dp req EpHealth s = (health_reply, s)"
| "handle_endpoint lib dp req EpHealthz s = (health_reply, s)"
| "handle_endpoint lib dp req EpReadyz s =
     (case get_readyz dp s of
        (reply, s') \<Rightarrow> (\<lparr>hr_status = hr_status reply, hr_www_authenticate = hr_www_authenticate reply,
                        hr_body = map_sum id ReadyBody (hr_body reply)\<rparr>, s'))"
| "handle_endpoint lib dp req EpGetConfig s = respond 200 ConfigBody (get_project_config_inner dp req) s"
| "handle_endpoint lib dp req EpPutConfig s = respond 200 WriteBody (put_project_config_inner lib dp req) s"
| "handle_endpoint lib dp req EpAuditEvents s = respond 200 AuditBody (get_audit_events_inner lib dp req) s"
| "handle_endpoint lib dp req EpFailures s = respond 200 FailureBody (get_failures_inner lib dp req) s"
| "handle_endpoint lib dp req EpResolveFailure s = respond 200 ResolveBody (resolve_failure_inner lib dp req) s"
| "handle_endpoint lib dp req EpDeliveryOutcomes s = respond 200 OutcomeBody (get_delivery_outcomes_inner lib dp req) s"
| "handle_endpoint lib dp req EpRuntimeStatus s = respond 200 StatusBody (get_runtime_status_inner dp req) s"
| "handle_endpoint lib dp req EpRuntimeReload s = respond 200 ReloadBody (post_runtime_reload_inner lib dp req) s"
| "handle_endpoint lib dp req EpExecuteCommand s = respond 202 CommandBody (post_execute_command_inner lib dp req) s"
| "handle_endpoint lib dp req EpRealtimeSse s = respond 200 StreamBody (prepare_subscription dp req) s"
| "handle_endpoint lib dp req EpRealtimeWs s = respond 101 StreamBody (prepare_subscription dp req) s"

text \<open>The guard of a request: it authenticates, and lets the handler run with the context, or answers itself.\<close>

definition require_management_auth ::
    "api_lib \<Rightarrow> ('s, 'rx) depot \<Rightarrow> api_request \<Rightarrow> api_error + ('s, 'rx) depot" where
  "require_management_auth lib dp req =
     (case dp_state dp of
        None \<Rightarrow> Inl (ApiInternal ''API state missing'')
      | Some st \<Rightarrow>
          (case state_authenticate (al_sha256 lib) st (rq_authorization req) of
             Inl e \<Rightarrow> Inl e
           | Inr c \<Rightarrow> Inr (dp\<lparr>dp_auth := Some c\<rparr>)))"

definition management_router ::
    "api_lib \<Rightarrow> ('s, 'rx) api_state \<Rightarrow> api_request \<Rightarrow> endpoint \<Rightarrow> 's \<Rightarrow> 'rx api_body http_reply \<times> 's" where
  "management_router lib st req ep s =
     (let dp = \<lparr>dp_state = Some st, dp_auth = None\<rparr> in
      if endpoint_guarded ep
      then (case require_management_auth lib dp req of
              Inl e \<Rightarrow> (write_error_response e, s)
            | Inr dp' \<Rightarrow> handle_endpoint lib dp' req ep s)
      else handle_endpoint lib dp req ep s)"

section \<open>Authorization\<close>

text \<open>The permission an endpoint asks for.\<close>

fun endpoint_permission :: "endpoint \<Rightarrow> management_permission" where
  "endpoint_permission EpPutConfig = ProjectConfigWrite"
| "endpoint_permission EpResolveFailure = FailureResolve"
| "endpoint_permission EpRuntimeReload = RuntimeReload"
| "endpoint_permission EpExecuteCommand = CommandExecute"
| "endpoint_permission _ = ProjectRead"

named_theorems actions \<open>evaluation of actions\<close>

lemma act_bind_lift_Inl [actions]: "act_bind (act_lift (Inl e)) f s = (Inl e, s)"
  and act_bind_lift_Inr [actions]: "act_bind (act_lift (Inr x)) f s = f x s"
  by (simp_all add: act_bind_def act_lift_def)

lemma authorize_project_Inr:
  "authorize_project dp pid p = Inr c \<longleftrightarrow>
     dp_auth dp = Some c \<and> role_allows (ac_role c) p \<and> scope_allows (ac_project_scope c) pid"
  by (auto simp: authorize_project_def depot_auth_context_def)

lemma respond_refused: "\<exists>e. m s = (Inl e, s) \<Longrightarrow> \<exists>e. respond status body m s = (write_error_response e, s)"
  by (auto simp: respond_def)

text \<open>A request that is not authorized for the endpoint and the project of its path is refused, with no effect.\<close>

lemma unauthorized_refused:
  assumes "endpoint_guarded ep"
    and "\<not> (\<exists>pid c. path_project_id req = Inr pid \<and> authorize_project dp pid (endpoint_permission ep) = Inr c)"
  shows "\<exists>e. handle_endpoint lib dp req ep s = (write_error_response e, s)"
proof -
  note defs = get_project_config_inner_def put_project_config_inner_def get_audit_events_inner_def get_failures_inner_def
    resolve_failure_inner_def get_delivery_outcomes_inner_def get_runtime_status_inner_def post_runtime_reload_inner_def
    post_execute_command_inner_def prepare_subscription_def
  consider e where "path_project_id req = Inl e"
    | pid e where "path_project_id req = Inr pid" "authorize_project dp pid (endpoint_permission ep) = Inl e"
    using assms(2) by (cases "path_project_id req"; metis sum.exhaust)
  then show ?thesis
  proof cases
    case (1 e)
    then show ?thesis using assms(1)
      by (cases ep; cases "dp_state dp") (auto intro!: respond_refused simp: defs actions authorized_state_def)
  next
    case (2 pid e)
    then show ?thesis using assms(1)
      by (cases ep; cases "dp_state dp";
          cases "res_bind (path_param req ''command_template_id'') (\<lambda>t. map_err api_of_domain (id_new ''command_template_id'' t))")
        (auto intro!: respond_refused simp: defs actions authorized_state_def)
  qed
qed

lemma status_code_error: "status_code e \<ge> 400"
  by (cases e) auto

text \<open>C11: every endpoint below a project acts, or answers with anything but an error, only for a request whose bearer token has
  the digest of a configured token whose role has the permission of the endpoint and whose scope holds the
  project of the path. Any other request leaves the whole state untouched.\<close>

theorem api_acts_only_when_authorized:
  assumes "ep \<notin> {EpHealth, EpHealthz, EpReadyz}" "management_router lib st req ep s = (reply, s')"
    and "s' \<noteq> s \<or> hr_status reply < 400"
  shows "\<exists>scheme token t pid. rq_authorization req = Some (scheme @ CHR '' '' # token) \<and>
           eq_ignore_ascii_case scheme ''Bearer'' \<and> bearer_token_format_is_valid token \<and>
           t \<in> set (as_auth st) \<and> mt_digest t = al_sha256 lib token \<and> path_project_id req = Inr pid \<and>
           role_allows (ac_role (mt_context t)) (endpoint_permission ep) \<and>
           scope_allows (ac_project_scope (mt_context t)) pid"
proof -
  let ?dp = "\<lparr>dp_state = Some st, dp_auth = None\<rparr>"
  have guarded: "endpoint_guarded ep" using assms(1) by (cases ep) simp_all
  have refused: False if "reply = write_error_response e" "s' = s" for e
    using that assms(3) status_code_error [of e] by (auto simp: write_error_response_def)
  obtain c where c: "state_authenticate (al_sha256 lib) st (rq_authorization req) = Inr c"
      "handle_endpoint lib (?dp\<lparr>dp_auth := Some c\<rparr>) req ep s = (reply, s')"
    using guarded assms(2) refused
    by (auto simp: management_router_def require_management_auth_def split: sum.splits)
  have "\<exists>pid c'. path_project_id req = Inr pid \<and>
      authorize_project (?dp\<lparr>dp_auth := Some c\<rparr>) pid (endpoint_permission ep) = Inr c'"
    using unauthorized_refused [OF guarded, of req "?dp\<lparr>dp_auth := Some c\<rparr>" lib s] c(2) refused by auto
  then obtain pid where "path_project_id req = Inr pid" "role_allows (ac_role c) (endpoint_permission ep)"
      "scope_allows (ac_project_scope c) pid"
    by (auto simp: authorize_project_Inr)
  moreover from authenticate_Inr [OF c(1) [unfolded state_authenticate_def]] obtain scheme token t where
      "rq_authorization req = Some (scheme @ CHR '' '' # token)" "eq_ignore_ascii_case scheme ''Bearer''"
      "bearer_token_format_is_valid token" "t \<in> set (as_auth st)" "mt_digest t = al_sha256 lib token" "mt_context t = c"
    by blast
  ultimately show ?thesis by blast
qed

section \<open>What the handlers rely on\<close>

text \<open>An action that keeps what a view of the state shows.\<close>

definition keeps :: "('s \<Rightarrow> 'v) \<Rightarrow> ('s, 'e, 'a) action \<Rightarrow> bool" where
  "keeps view m \<longleftrightarrow> (\<forall>s. view (snd (m s)) = view s)"

named_theorems keeping \<open>actions that keep the view\<close>

lemma keeps_lift [keeping]: "keeps view (act_lift r)"
  by (simp add: keeps_def act_lift_def)

lemma keeps_bind [keeping]: "keeps view m \<Longrightarrow> (\<And>x. keeps view (f x)) \<Longrightarrow> keeps view (act_bind m f)"
  unfolding keeps_def act_bind_def by (auto split: prod.splits sum.splits) (metis snd_conv)+

lemma keeps_err [keeping]: "keeps view m \<Longrightarrow> keeps view (act_err g m)"
  unfolding keeps_def act_err_def by (simp add: split_beta)

lemma keeps_respond: "keeps view m \<Longrightarrow> view (snd (respond status body m s)) = view s"
  unfolding keeps_def respond_def by (auto split: prod.splits sum.splits) (metis snd_conv)+

text \<open>
  The traits \<^verbatim>\<open>ManagementStorage\<close> and \<^verbatim>\<open>RuntimeControl\<close> as the handlers see them: the methods that only read leave
  what the view shows.
\<close>

locale management_backend =
  fixes ms :: "'s management_storage" and rt :: "('s, 'rx) runtime_control" and view :: "'s \<Rightarrow> 'v"
  assumes health: "keeps view (ms_health_check ms)"
    and load: "keeps view (ms_load_project_config ms pid)"
    and audits: "keeps view (ms_list_audit_events ms pid q)"
    and failures: "keeps view (ms_list_failures ms pid fq)"
    and outcomes: "keeps view (ms_list_delivery_outcomes ms pid q)"
    and ready: "keeps view (rt_readiness rt)"
    and status: "keeps view (rt_status rt pid)"
    and subscribe: "keeps view (rt_subscribe_realtime_events rt pid)"
    and validate: "keeps view (rt_validate_candidate_config rt pid c)"
begin

lemmas backend_keeps = health load audits failures outcomes ready status subscribe validate

lemma health_part: "keeps view (\<lambda>s. case ms_health_check ms s of
    (Inr _, s') \<Rightarrow> (Inr check_ready, s') | (Inl _, s') \<Rightarrow> (Inr (check_not_ready m), s'))"
  using health unfolding keeps_def by (auto split: prod.splits sum.splits) (metis snd_conv)+

text \<open>A depot that holds this back end.\<close>

definition backed :: "('s, 'rx) depot \<Rightarrow> bool" where
  "backed dp \<longleftrightarrow> (\<forall>st. dp_state dp = Some st \<longrightarrow> as_storage st = ms \<and> as_runtime st = rt)"

lemma keeps_state:
  assumes "backed dp" "\<And>st. as_storage st = ms \<Longrightarrow> as_runtime st = rt \<Longrightarrow> keeps view (f st)"
  shows "keeps view (act_bind (act_lift (authorized_state dp)) f)"
  using assms by (cases "dp_state dp") (auto simp: keeps_def actions authorized_state_def backed_def)

lemma readiness_keeps: "backed dp \<Longrightarrow> keeps view (readiness_inner dp)"
  unfolding readiness_inner_def by (rule keeps_state, assumption, simp, intro keeping backend_keeps health_part)

lemma handlers_keep:
  assumes "backed dp"
  shows "keeps view (get_project_config_inner dp req)" "keeps view (get_audit_events_inner lib dp req)"
    "keeps view (get_failures_inner lib dp req)" "keeps view (get_delivery_outcomes_inner lib dp req)"
    "keeps view (get_runtime_status_inner dp req)" "keeps view (prepare_subscription dp req)"
  unfolding get_project_config_inner_def get_audit_events_inner_def get_failures_inner_def
    get_delivery_outcomes_inner_def get_runtime_status_inner_def prepare_subscription_def authorized_state_def [symmetric]
  by (rule keeps_state [OF assms], simp, intro keeping backend_keeps)+

lemma get_readyz_keeps:
  assumes "backed dp"
  shows "view (snd (get_readyz dp s)) = view s"
  using readiness_keeps [OF assms] by (simp add: get_readyz_def keeps_def split_beta Let_def)

lemma handle_endpoint_keeps:
  assumes "backed dp" "ep \<notin> {EpPutConfig, EpResolveFailure, EpRuntimeReload, EpExecuteCommand}"
  shows "view (snd (handle_endpoint lib dp req ep s)) = view s"
  using assms(2) handlers_keep [OF assms(1)] get_readyz_keeps [OF assms(1)]
  by (cases ep) (simp_all add: keeps_respond split_beta)

lemma router_keeps:
  assumes "as_storage st = ms" "as_runtime st = rt"
    and "ep \<notin> {EpPutConfig, EpResolveFailure, EpRuntimeReload, EpExecuteCommand}"
  shows "view (snd (management_router lib st req ep s)) = view s"
proof -
  have "backed \<lparr>dp_state = Some st, dp_auth = c\<rparr>" for c using assms(1,2) by (simp add: backed_def)
  then show ?thesis using handle_endpoint_keeps [OF _ assms(3)]
    by (auto simp: management_router_def Let_def require_management_auth_def split: sum.splits)
qed

end

section \<open>PostgreSQL and the supervisor behind the API\<close>

text \<open>What the clock, the locks, the generator of identifiers and the tasks of the old runtime give one request.\<close>

record daemon_env =
  dv_now :: timestamp
  dv_busy :: bool
  dv_stopped :: "runtime_error + unit"
  dv_uuid :: string

type_synonym ('rt, 'r) daemon_state = "'rt runtime_state \<times> 'r world"

definition on_world :: "('r, 'a) dbm \<Rightarrow> (('rt, 'r) daemon_state, storage_error, 'a) action" where
  "on_world m s = (case m (snd s) of (r, w') \<Rightarrow> (r, (fst s, w')))"

definition on_runtime :: "('rt runtime_state \<Rightarrow> 'e + 'a) \<Rightarrow> (('rt, 'r) daemon_state, 'e, 'a) action" where
  "on_runtime f s = (f (fst s), s)"

definition postgres_storage :: "'r storage \<Rightarrow> ('rt, 'r) daemon_state management_storage" where
  "postgres_storage s =
     \<lparr>ms_health_check = on_world (health_check s),
      ms_load_project_config = (\<lambda>pid. on_world (load_project_config s pid)),
      ms_update_project_config = (\<lambda>config expected audit. on_world (update_project_config s config expected audit)),
      ms_list_audit_events = (\<lambda>pid q. on_world (list_audit_events s pid q)),
      ms_list_failures = (\<lambda>pid q. on_world (list_failures s pid q)),
      ms_resolve_failure = (\<lambda>pid fid resolution audit. on_world (resolve_failure s pid fid resolution audit)),
      ms_list_delivery_outcomes = (\<lambda>pid q. on_world (list_delivery_outcomes s pid q))\<rparr>"

definition supervisor_control ::
    "serde_lib \<Rightarrow> ('r, 'rt) supervisor \<Rightarrow> daemon_env \<Rightarrow> (('rt, 'r) daemon_state, 'rt) runtime_control" where
  "supervisor_control lib sv env =
     \<lparr>rt_readiness = on_runtime (\<lambda>st. Inr (readiness sv st)),
      rt_status = (\<lambda>pid. on_runtime (supervisor_status sv pid)),
      rt_subscribe_realtime_events = (\<lambda>pid. on_runtime (subscribe_realtime_events sv pid)),
      rt_validate_candidate_config = (\<lambda>pid config. on_runtime (validate_candidate_config sv pid config)),
      rt_reload = (\<lambda>pid audit (st, w). reload sv (dv_now env) (dv_busy env) (dv_stopped env) pid audit st w),
      rt_execute_command = (\<lambda>pid tid params audit (st, w). execute_command lib sv (dv_uuid env) pid tid params audit st w)\<rparr>"

definition daemon_view :: "('rt, 'r) daemon_state \<Rightarrow> 'rt runtime_state \<times> database" where
  "daemon_view s = (fst s, wd_db (snd s))"

text \<open>A statement that reads.\<close>

lemma sql_auto_read:
  assumes "\<And>db. \<exists>x. stmt db = Inr (x, db)"
  shows "wd_db (snd (sql_auto s stmt w)) = wd_db w"
proof -
  obtain x where "stmt (wd_db w) = Inr (x, wd_db w)" using assms by blast
  then show ?thesis by (auto simp: sql_auto_def run_stmt_def split: option.splits)
qed

lemma db_bind_read:
  "wd_db (snd (m w)) = wd_db w \<Longrightarrow> (\<And>x w'. wd_db (snd (f x w')) = wd_db w') \<Longrightarrow> wd_db (snd (db_bind m f w)) = wd_db w"
  unfolding db_bind_def by (auto split: prod.splits sum.splits)

lemma db_lift_read: "wd_db (snd (db_lift r w)) = wd_db w"
  by (simp add: db_lift_def)

lemma reads_leave_tables:
  "wd_db (snd (health_check s w)) = wd_db w" "wd_db (snd (load_project_config s pid w)) = wd_db w"
  "wd_db (snd (list_audit_events s pid q w)) = wd_db w" "wd_db (snd (list_failures s pid fq w)) = wd_db w"
  "wd_db (snd (list_delivery_outcomes s pid q w)) = wd_db w"
  unfolding health_check_def load_project_config_def list_audit_events_def list_failures_def
    list_delivery_outcomes_def Let_def select_config_stmt_def
  by (auto intro!: sql_auto_read db_bind_read simp: db_lift_read split: option.splits)

lemma on_world_keeps: "(\<And>w. wd_db (snd (m w)) = wd_db w) \<Longrightarrow> keeps daemon_view (on_world m)"
  by (simp add: keeps_def daemon_view_def on_world_def split_beta)

lemma on_runtime_keeps: "keeps daemon_view (on_runtime f)"
  by (simp add: keeps_def on_runtime_def)

interpretation backend: management_backend "postgres_storage s" "supervisor_control lib sv env" daemon_view
  by unfold_locales
    (simp_all add: postgres_storage_def supervisor_control_def on_runtime_keeps on_world_keeps reads_leave_tables)

text \<open>C26: a request of an endpoint that reads (the probes, the configuration, the lists, the status and the realtime
  streams) changes neither the tables nor what the daemon runs, whoever sends it and whatever it answers.\<close>

theorem read_endpoints_change_nothing:
  assumes "as_storage st = postgres_storage s" "as_runtime st = supervisor_control slib sv env"
    and "ep \<notin> {EpPutConfig, EpResolveFailure, EpRuntimeReload, EpExecuteCommand}"
    and "management_router lib st req ep (rst, w) = (reply, (rst', w'))"
  shows "rst' = rst \<and> wd_db w' = wd_db w"
  using backend.router_keeps [OF assms(1-3), of lib req "(rst, w)"] assms(4) by (simp add: daemon_view_def)

section \<open>A daemon for the examples\<close>

definition idle_state :: "sample_project_runtime runtime_state" where
  "idle_state =
     \<lparr>ss_phase = PhaseStopped, ss_stopping = False, ss_slot = None, ss_last_reload_at = None, ss_last_reload_error = None\<rparr>"

definition sample_env :: daemon_env where
  "sample_env = \<lparr>dv_now = 0, dv_busy = False, dv_stopped = Inr (), dv_uuid = ''u''\<rparr>"

definition sample_update :: update_project_config_request where
  "sample_update = \<lparr>uq_expected_version = 1, uq_config = document_from_domain running_project, uq_reason = None\<rparr>"

definition sample_api_lib :: api_lib where
  "sample_api_lib =
     \<lparr>al_sha256 = (\<lambda>s. s), al_update_request = (\<lambda>_ _. Inr sample_update),
      al_resolve_request = (\<lambda>_ _. Inl ''no body''), al_reload_request = (\<lambda>_. Inl ''no body''),
      al_execute_request = (\<lambda>_. Inl ''no body''), al_rfc3339 = (\<lambda>_. Inl ''no instant'')\<rparr>"

definition sample_api_state :: "((sample_project_runtime, nat) daemon_state, sample_project_runtime) api_state" where
  "sample_api_state =
     \<lparr>as_storage = postgres_storage sample_storage,
      as_runtime = supervisor_control sample_lib running_supervisor sample_env,
      as_auth = [\<lparr>mt_digest = ''t'', mt_context = \<lparr>ac_actor_id = ''u1'', ac_role = Admin, ac_project_scope = AllProjects\<rparr>\<rparr>],
      as_max_config_body_bytes = 1024\<rparr>"

definition sample_request :: api_request where
  "sample_request =
     \<lparr>rq_path = [''project_id'' \<mapsto> ''p1''], rq_query = Map.empty, rq_authorization = Some ''Bearer t'',
      rq_content_length = None, rq_payload = Inr []\<rparr>"

definition sample_depot :: "((sample_project_runtime, nat) daemon_state, sample_project_runtime) depot" where
  "sample_depot =
     \<lparr>dp_state = Some sample_api_state,
      dp_auth = Some \<lparr>ac_actor_id = ''u1'', ac_role = Admin, ac_project_scope = AllProjects\<rparr>\<rparr>"

lemma sample_authenticated:
  assumes "endpoint_guarded ep"
  shows "management_router sample_api_lib sample_api_state sample_request ep s =
     handle_endpoint sample_api_lib sample_depot sample_request ep s"
proof -
  have "parse_bearer_token (Some ''Bearer t'') = Inr ''t''" by code_simp
  then have "state_authenticate (al_sha256 sample_api_lib) sample_api_state (rq_authorization sample_request) =
      Inr \<lparr>ac_actor_id = ''u1'', ac_role = Admin, ac_project_scope = AllProjects\<rparr>"
    by (simp add: state_authenticate_def authenticate_def sample_api_lib_def sample_api_state_def sample_request_def)
  with assms show ?thesis
    by (simp add: management_router_def require_management_auth_def Let_def sample_depot_def)
qed

lemma sample_path: "path_project_id sample_request = Inr ''p1''"
proof -
  have "id_new ''project_id'' ''p1'' = Inr ''p1''" by code_simp
  then show ?thesis by (simp add: path_project_id_def path_param_def sample_request_def)
qed

lemma sample_authorized:
  "dp_state sample_depot = Some sample_api_state"
  "authorize_project sample_depot ''p1'' p = Inr \<lparr>ac_actor_id = ''u1'', ac_role = Admin, ac_project_scope = AllProjects\<rparr>"
  by (simp_all add: sample_depot_def authorize_project_Inr)

lemma sample_status:
  "\<exists>reply. management_router sample_api_lib sample_api_state sample_request EpRuntimeStatus (idle_state, running_world) =
     (reply, (idle_state, running_world)) \<and> hr_status reply = 200"
  by (simp add: sample_authenticated get_runtime_status_inner_def actions authorized_state_def sample_authorized sample_path
      respond_def act_err_def)
    (simp add: sample_api_state_def supervisor_control_def on_runtime_def supervisor_status_def ensure_project_def
      running_supervisor_def)

theorem api_acts_only_when_authorized_witness:
  "\<exists>reply. management_router sample_api_lib sample_api_state sample_request EpRuntimeStatus (idle_state, running_world) =
     (reply, (idle_state, running_world)) \<and> (\<exists>t \<in> set (as_auth sample_api_state). role_allows (ac_role (mt_context t)) ProjectRead)"
proof -
  obtain reply where r: "management_router sample_api_lib sample_api_state sample_request EpRuntimeStatus
      (idle_state, running_world) = (reply, (idle_state, running_world))" "hr_status reply < 400"
    using sample_status by auto
  with api_acts_only_when_authorized [OF _ r(1)] show ?thesis by auto
qed

theorem read_endpoints_change_nothing_witness:
  "\<exists>reply w'. management_router sample_api_lib sample_api_state sample_request EpGetConfig (idle_state, running_world) =
     (reply, (idle_state, w')) \<and> wd_db w' = wd_db running_world"
proof -
  obtain reply rst' w' where r: "management_router sample_api_lib sample_api_state sample_request EpGetConfig
      (idle_state, running_world) = (reply, (rst', w'))" by (metis prod_cases3)
  have "rst' = idle_state \<and> wd_db w' = wd_db running_world"
    by (rule read_endpoints_change_nothing [OF _ _ _ r]) (simp_all add: sample_api_state_def)
  with r show ?thesis by simp
qed

end
