(* ===== verification/Management_Config.thy ===== *)
theory Management_Config
  imports Management
begin

text \<open>
  The configuration endpoints against the store and the supervisor: what an accepted \<^verbatim>\<open>PUT\<close> leaves behind, that the next
  reload finds the configuration that was accepted as its column gives it back, and which accepted configurations cannot be read back.
\<close>

section \<open>What an action did\<close>

lemma act_bind_Inr:
  "act_bind m f s = (Inr y, s') \<longleftrightarrow> (\<exists>x s1. m s = (Inr x, s1) \<and> f x s1 = (Inr y, s'))"
  by (auto simp: act_bind_def split: prod.splits sum.splits)

lemma act_lift_Inr: "act_lift r s = (Inr y, s') \<longleftrightarrow> r = Inr y \<and> s' = s"
  by (auto simp: act_lift_def)

lemma act_err_Inr: "act_err g m s = (Inr y, s') \<longleftrightarrow> m s = (Inr y, s')"
  by (cases "m s"; cases "fst (m s)") (auto simp: act_err_def)

lemma on_world_Inr: "on_world m s = (Inr y, s') \<longleftrightarrow> (\<exists>w'. m (snd s) = (Inr y, w') \<and> s' = (fst s, w'))"
  by (auto simp: on_world_def split: prod.splits)

lemma on_runtime_Inr: "on_runtime f s = (Inr y, s') \<longleftrightarrow> f (fst s) = Inr y \<and> s' = s"
  by (auto simp: on_runtime_def)

lemmas acted = act_bind_Inr act_lift_Inr act_err_Inr on_world_Inr on_runtime_Inr

lemma respond_success:
  assumes "respond status body m s = (reply, s')" "hr_status reply < 400"
  shows "\<exists>x. m s = (Inr x, s')"
  using assms status_code_error by (auto simp: respond_def write_error_response_def not_less [symmetric] split: prod.splits sum.splits)

lemma merged_keeps:
  "merge_redacted_secrets existing proposed = Inr m \<Longrightarrow> pc_id m = pc_id proposed \<and> pc_version m = pc_version proposed"
  by (auto simp: merge_redacted_secrets_def)

lemma merged_document:
  "merge_redacted_secrets existing (document_into_domain d v) = Inr m \<Longrightarrow>
     pc_id m = dc_project_id d \<and> pc_version m = v \<and> m\<lparr>pc_version := v\<rparr> = m"
  by (cases m) (auto dest!: merged_keeps simp: document_into_domain_def)

section \<open>An accepted update\<close>

text \<open>The steps of a \<^verbatim>\<open>PUT\<close> that was accepted.\<close>

lemma put_steps:
  assumes "put_project_config_inner lib dp req (rst, w) = (Inr wp, (rst', w'))"
    and "dp_state dp = Some st" "as_storage st = postgres_storage s" "as_runtime st = supervisor_control slib sv env"
  shows "\<exists>pid body existing w1 next audit write.
           path_project_id req = Inr pid \<and> al_update_request lib (as_max_config_body_bytes st) req = Inr body \<and>
           dc_project_id (uq_config body) = pid \<and>
           load_project_config s pid w = (Inr (Some existing), w1) \<and>
           merge_redacted_secrets existing (document_into_domain (uq_config body) (uq_expected_version body + 1)) = Inr next \<and>
           validate_candidate_config sv pid next rst = Inr () \<and>
           update_project_config s next (uq_expected_version body) audit w1 = (Inr write, w') \<and>
           wp_version wp = wr_version write \<and> rst' = rst"
  using assms
  by (fastforce simp: put_project_config_inner_def acted authorized_state_def postgres_storage_def supervisor_control_def
      next_config_version_def dest!: checked_add_Some)

lemma candidate_valid:
  "validate_candidate_config sv pid c rst = Inr () \<Longrightarrow>
     pid = sv_project_id sv \<and> pc_id c = pid \<and> \<not> ss_stopping rst \<and> validate_runtime_config c = Inr ()"
  by (auto simp: validate_candidate_config_def ensure_project_def ensure_not_stopping_def split: if_splits)

lemma load_leaves_tables: "load_project_config s pid w = (r, w') \<Longrightarrow> wd_db w' = wd_db w"
  using reads_leave_tables(2) [of s pid w] by simp

text \<open>The checks of a runtime do not look at the JSON values of a configuration either.\<close>

lemma wire_keeps_ids:
  "sm_id (wire_mapping jb m) = sm_id m" "rd_id (wire_rule jb r) = rd_id r" "rd_enabled (wire_rule jb r) = rd_enabled r"
  "rd_actions (wire_rule jb r) = map (wire_action jb) (rd_actions r)" "ct_id (wire_template jb t) = ct_id t"
  "ct_enabled (wire_template jb t) = ct_enabled t" "ct_broker_id (wire_template jb t) = ct_broker_id t"
  by (simp_all add: wire_mapping_def wire_rule_def wire_template_def)

lemma find_wire_template:
  "List.find (\<lambda>t. ct_id t = i) (map (wire_template jb) ts) = map_option (wire_template jb) (List.find (\<lambda>t. ct_id t = i) ts)"
  by (induction ts) (simp_all add: wire_keeps_ids)

lemma check_sink_read_back:
  "check_sink_reference (json_read_back jb p) (wire_rule jb r) (wire_action jb a) = check_sink_reference p r a"
  by (cases a) (simp_all add: json_read_back_def wire_keeps_ids split: option.split)

lemma check_command_read_back:
  "check_command_reference (json_read_back jb p) (wire_rule jb r) (wire_action jb a) = check_command_reference p r a"
  by (cases a) (simp_all add: json_read_back_def wire_keeps_ids find_wire_template split: option.split)

lemma read_back_fields:
  "pc_brokers (json_read_back jb p) = pc_brokers p" "pc_routes (json_read_back jb p) = pc_routes p"
  "pc_sinks (json_read_back jb p) = pc_sinks p" "pc_enabled (json_read_back jb p) = pc_enabled p"
  "pc_schema_mappings (json_read_back jb p) = map (wire_mapping jb) (pc_schema_mappings p)"
  "pc_rules (json_read_back jb p) = map (wire_rule jb) (pc_rules p)"
  "pc_command_templates (json_read_back jb p) = map (wire_template jb) (pc_command_templates p)"
  by (simp_all add: json_read_back_def)

lemma try_fold_wire_rules: "try_fold insert_rule_id seen (map (wire_rule jb) rs) = try_fold insert_rule_id seen rs"
  by (induction rs arbitrary: seen) (simp_all add: insert_rule_id_def wire_keeps_ids)

lemma try_for_each_map: "(\<And>x. f (g x) = f' x) \<Longrightarrow> try_for_each f (map g xs) = try_for_each f' xs"
  by (induction xs) simp_all

lemma rule_checks_read_back:
  assumes "\<And>r a. chk (json_read_back jb p) (wire_rule jb r) (wire_action jb a) = chk p r a"
  shows "try_for_each (\<lambda>r. try_for_each (chk (json_read_back jb p) r) (rd_actions r)) (map (wire_rule jb) rs) =
         try_for_each (\<lambda>r. try_for_each (chk p r) (rd_actions r)) rs"
  by (rule try_for_each_map) (simp add: wire_keeps_ids try_for_each_map [of "chk (json_read_back jb p) (wire_rule jb r)" for r, OF assms])

lemma validate_read_back: "validate_runtime_config (json_read_back jb p) = validate_runtime_config p"
proof -
  let ?q = "json_read_back jb p"
  have brokers: "enabled_brokers ?q = enabled_brokers p" by (simp add: enabled_brokers_def read_back_fields)
  have "validate_enabled_route ?q = validate_enabled_route p"
    by (rule ext) (simp add: validate_enabled_route_def brokers read_back_fields image_image wire_keeps_ids
        split: option.split)
  then have routes: "validate_routes ?q = validate_routes p" by (simp add: validate_routes_def brokers read_back_fields Let_def)
  have "filter ct_enabled (map (wire_template jb) ts) = map (wire_template jb) (filter ct_enabled ts)" for ts
    by (induction ts) (simp_all add: wire_keeps_ids)
  then have templates: "validate_command_templates ?q = validate_command_templates p"
    by (simp add: validate_command_templates_def brokers read_back_fields try_for_each_wire wire_keeps_ids)
  have rules: "filter rd_enabled (map (wire_rule jb) rs) = map (wire_rule jb) (filter rd_enabled rs)" for rs
    by (induction rs) (simp_all add: wire_keeps_ids)
  have sinks: "validate_rule_sink_references ?q = validate_rule_sink_references p"
    by (simp add: validate_rule_sink_references_def read_back_fields rules rule_checks_read_back [of check_sink_reference, OF check_sink_read_back])
  have commands: "validate_rule_command_references ?q = validate_rule_command_references p"
    by (simp add: validate_rule_command_references_def read_back_fields rules rule_checks_read_back [of check_command_reference, OF check_command_read_back])
  have "validate_unique_ids ?q = validate_unique_ids p"
    by (simp add: validate_unique_ids_def read_back_fields try_fold_wire_rules comp_def wire_keeps_ids)
  with routes templates sinks commands show ?thesis
    by (simp add: validate_runtime_config_def validate_single_enabled_broker_def brokers read_back_fields)
qed

text \<open>What an update does to the register, and that a reload then finds what was written.\<close>

lemma update_registered:
  assumes "update_project_config s c expected audit w = (Inr x, w')"
  shows "wr_version x = expected + 1 \<and>
         (\<exists>old stored. register (wd_db w) (pc_id c) = Some (expected, old) \<and>
            register (wd_db w') = (register (wd_db w))(pc_id c \<mapsto> (expected + 1, stored)))"
  using update_effect [OF assms] by (auto dest!: register_written checked_add_Some simp: register_def)

lemma updated_reload:
  assumes "crypto_ok clib" "from_base64_keys clib active keys = Inr k" "st_cipher s = keyring_obj clib k"
    and "update_project_config s c expected audit w = (Inr x, w')" "c\<lparr>pc_version := expected + 1\<rparr> = c"
    and "validate_runtime_config c = Inr ()" "sv_storage sv = s" "config_storable c" "st_fault s (wd_calls w') = None"
  shows "reload_load sv (pc_id c) w' = (Inr (json_read_back (st_jsonb s) c), count_call w')"
  using update_then_load [OF assms(1-3,8,4,9)] update_registered [OF assms(4)] assms(5-7)
  by (simp add: reload_load_def validate_read_back)

text \<open>C12: a configuration that the API accepts was checked against the running daemon before it was written: it is the
  submitted document, with the hidden secrets taken from the stored configuration, under the version after the
  expected one; the write is a compare-and-swap on the register of the project and does not touch what runs; and
  when its secrets and durations survive storage and the database answers, the next reload passes its checks and finds this configuration
  with its JSON values as the JSONB column gives them back, that is exactly this configuration when the column keeps
  those values and no default is null.\<close>

theorem accepted_config_can_be_reloaded:
  assumes "crypto_ok clib" "from_base64_keys clib active keys = Inr k" "st_cipher s = keyring_obj clib k"
    and "as_storage st = postgres_storage s" "as_runtime st = supervisor_control slib sv env" "sv_storage sv = s"
    and "management_router lib st req EpPutConfig (rst, w) = (reply, (rst', w'))" "hr_status reply < 400"
  shows "\<exists>body existing next stored old.
           al_update_request lib (as_max_config_body_bytes st) req = Inr body \<and>
           path_project_id req = Inr (sv_project_id sv) \<and>
           fst (load_project_config s (sv_project_id sv) w) = Inr (Some existing) \<and>
           merge_redacted_secrets existing (document_into_domain (uq_config body) (uq_expected_version body + 1)) = Inr next \<and>
           validate_runtime_config next = Inr () \<and> rst' = rst \<and>
           register (wd_db w) (sv_project_id sv) = Some (uq_expected_version body, old) \<and>
           register (wd_db w') = (register (wd_db w))(sv_project_id sv \<mapsto> (uq_expected_version body + 1, stored)) \<and>
           (config_storable next \<and> st_fault s (wd_calls w') = None \<longrightarrow>
              reload_load sv (sv_project_id sv) w' = (Inr (json_read_back (st_jsonb s) next), count_call w') \<and>
              (json_kept (st_jsonb s) next \<longrightarrow> reload_load sv (sv_project_id sv) w' = (Inr next, count_call w')))"
proof -
  obtain c wp where put: "put_project_config_inner lib \<lparr>dp_state = Some st, dp_auth = Some c\<rparr> req (rst, w) = (Inr wp, (rst', w'))"
  proof -
    obtain c where "respond 200 WriteBody (put_project_config_inner lib \<lparr>dp_state = Some st, dp_auth = Some c\<rparr> req) (rst, w) =
        (reply, (rst', w'))"
      using assms(7,8) status_code_error
      by (auto simp: management_router_def Let_def require_management_auth_def write_error_response_def not_less [symmetric]
          split: sum.splits)
    from respond_success [OF this assms(8)] that show ?thesis by blast
  qed
  from put_steps [OF put _ assms(4,5)] obtain pid body existing w1 nxt audit wr where steps:
      "path_project_id req = Inr pid" "al_update_request lib (as_max_config_body_bytes st) req = Inr body"
      "dc_project_id (uq_config body) = pid" "load_project_config s pid w = (Inr (Some existing), w1)"
      "merge_redacted_secrets existing (document_into_domain (uq_config body) (uq_expected_version body + 1)) = Inr nxt"
      "validate_candidate_config sv pid nxt rst = Inr ()"
      "update_project_config s nxt (uq_expected_version body) audit w1 = (Inr wr, w')" "rst' = rst"
    by auto
  note m = merged_document [OF steps(5)] and v = candidate_valid [OF steps(6)]
  from v m updated_reload [OF assms(1-3) steps(7) _ _ assms(6)]
  have "config_storable nxt \<and> st_fault s (wd_calls w') = None \<longrightarrow>
      reload_load sv (sv_project_id sv) w' = (Inr (json_read_back (st_jsonb s) nxt), count_call w') \<and>
      (json_kept (st_jsonb s) nxt \<longrightarrow> reload_load sv (sv_project_id sv) w' = (Inr nxt, count_call w'))"
    by (simp add: json_read_back_id)
  with update_registered [OF steps(7)] load_leaves_tables [OF steps(4)] v m steps show ?thesis by auto
qed

section \<open>Configurations that cannot be read back\<close>

text \<open>The secrets a configuration holds, and the durations it is written with.\<close>

fun kind_secrets :: "sink_kind \<Rightarrow> secret_string set" where
  "kind_secrets (Webhook url method headers timeout) = hh_value ` set headers"
| "kind_secrets (Database _ _) = {}"

definition broker_passwords :: "broker_connection_config \<Rightarrow> secret_string set" where
  "broker_passwords b = (case bc_credentials b of None \<Rightarrow> {} | Some cr \<Rightarrow> {cr_password cr})"

definition config_secrets :: "project_config \<Rightarrow> secret_string set" where
  "config_secrets c = (\<Union>b \<in> set (pc_brokers c). broker_passwords b) \<union> (\<Union>s \<in> set (pc_sinks c). kind_secrets (sk_kind s))"

fun kind_whole :: "sink_kind \<Rightarrow> bool" where
  "kind_whole (Webhook url method headers timeout) = whole_millis timeout"
| "kind_whole (Database _ _) = True"

definition config_whole :: "project_config \<Rightarrow> bool" where
  "config_whole c \<longleftrightarrow>
     list_all (\<lambda>b. whole_seconds (bc_keep_alive b) \<and> whole_millis (rp_min_delay (bc_reconnect b)) \<and>
                   whole_millis (rp_max_delay (bc_reconnect b))) (pc_brokers c) \<and>
     list_all (\<lambda>s. kind_whole (sk_kind s)) (pc_sinks c)"

lemma kind_storable_iff: "sink_kind_storable k \<longleftrightarrow> kind_whole k \<and> (\<forall>v \<in> kind_secrets k. secret_ok v)"
  by (cases k) (auto simp: list_all_iff)

lemma broker_storable_iff:
  "broker_storable b \<longleftrightarrow> whole_seconds (bc_keep_alive b) \<and> whole_millis (rp_min_delay (bc_reconnect b)) \<and>
     whole_millis (rp_max_delay (bc_reconnect b)) \<and> (\<forall>v \<in> broker_passwords b. secret_ok v)"
  by (simp add: broker_storable_def broker_passwords_def split: option.split)

lemma storable_iff: "config_storable c \<longleftrightarrow> config_whole c \<and> (\<forall>v \<in> config_secrets c. secret_ok v)"
  unfolding config_storable_def config_whole_def config_secrets_def kind_storable_iff broker_storable_iff list_all_iff
  by blast

lemma secret_refused: "isl (secret_string_new v) \<longleftrightarrow> secret_string_new v \<noteq> Inr v"
proof -
  have "isl (res_bind r (\<lambda>_. Inr v)) \<longleftrightarrow> res_bind r (\<lambda>_. Inr v) \<noteq> Inr v" for r :: "domain_error + unit"
    by (cases r) simp_all
  then show ?thesis unfolding secret_string_new_def .
qed

lemma collect_st_source:
  "collect_st f xs r = (Inr ys, r') \<Longrightarrow> x \<in> set xs \<Longrightarrow> \<exists>y \<in> set ys. \<exists>r1 r2. f x r1 = (Inr y, r2)"
  by (induction xs arbitrary: r ys) (fastforce split: prod.splits sum.splits)+

lemma try_collect_isl: "y \<in> set ys \<Longrightarrow> isl (f y) \<Longrightarrow> isl (try_collect f ys)"
  by (cases "try_collect f ys") (auto simp: try_collect_eq_Inr list_all2_conv_all_nth in_set_conv_nth)

context secret_cipher
begin

text \<open>A secret that \<^verbatim>\<open>SecretString::new\<close> refuses is stored and not read back.\<close>

lemma broker_unreadable:
  assumes "reads d c" "v \<in> broker_passwords b" "valid_utf8 v" "isl (secret_string_new v)"
    and "broker_from_domain (obj c) pid b r = (Inr sb, r')"
  shows "isl (broker_into_domain (obj d) pid (wire_broker sb))"
proof -
  obtain cr where cr: "bc_credentials b = Some cr" "cr_password cr = v"
    using assms(2) by (auto simp: broker_passwords_def split: option.splits)
  from assms(5) obtain e r1 where e: "sc_encrypt (obj c) v (broker_password_aad pid (bc_id b)) r = (Inr e, r1)"
      "sb_id sb = bc_id b" "sb_credentials sb = Some \<lparr>smc_username = cr_username cr, smc_password = e\<rparr>"
    by (auto simp: broker_from_domain_def credentials_from_domain_def cr split: prod.splits sum.splits)
  with decrypt_encrypt [OF assms(1,3) e(1)] assms(4) show ?thesis
    by (cases "secret_string_new v")
      (auto simp: broker_into_domain_def wire_broker_def credentials_into_domain_def)
qed

lemma header_unreadable:
  assumes "reads d c" "valid_utf8 (hh_value h)" "isl (secret_string_new (hh_value h))"
    and "header_from_domain (obj c) pid sid h r = (Inr sh, r')"
  shows "isl (header_into_domain (obj d) pid sid sh)"
proof -
  from assms(4) obtain e where e: "sc_encrypt (obj c) (hh_value h) (sink_header_aad pid sid (hh_name h)) r = (Inr e, r')"
      "sh = \<lparr>shh_name = hh_name h, shh_value = e\<rparr>"
    by (auto simp: header_from_domain_def split: prod.splits sum.splits)
  with decrypt_encrypt [OF assms(1,2) e(1)] assms(3) show ?thesis
    by (cases "secret_string_new (hh_value h)") (auto simp: header_into_domain_def)
qed

lemma sink_unreadable:
  assumes "reads d c" "v \<in> kind_secrets (sk_kind s)" "valid_utf8 v" "isl (secret_string_new v)"
    and "sink_from_domain (obj c) pid s r = (Inr sd, r')"
  shows "isl (sink_into_domain (obj d) pid (wire_sink sd))"
proof (cases "sk_kind s")
  case (Webhook url m headers timeout)
  from assms(5) obtain hs where sd:
      "sd = \<lparr>ss_id = sk_id s, ss_name = sk_name s, ss_enabled = sk_enabled s, ss_kind = StoredWebhook url m hs timeout\<rparr>"
      "collect_st (header_from_domain (obj c) pid (sk_id s)) headers r = (Inr hs, r')"
    by (auto simp: sink_from_domain_def Webhook split: prod.splits sum.splits)
  obtain h where h: "h \<in> set headers" "hh_value h = v" using assms(2) by (auto simp: Webhook)
  from collect_st_source [OF sd(2) h(1)] obtain sh r1 r2 where
      "sh \<in> set hs" "header_from_domain (obj c) pid (sk_id s) h r1 = (Inr sh, r2)" by blast
  then have "isl (try_collect (header_into_domain (obj d) pid (sk_id s)) hs)"
    using header_unreadable [OF assms(1)] assms(3,4) h(2) try_collect_isl by metis
  then show ?thesis
    by (cases "try_collect (header_into_domain (obj d) pid (sk_id s)) hs")
      (auto simp: sd(1) sink_into_domain_def wire_sink_def)
next
  case (Database x y)
  then show ?thesis using assms(2) by simp
qed

lemma config_unreadable:
  assumes "reads d c" "v \<in> config_secrets p" "valid_utf8 v" "isl (secret_string_new v)"
    and "codec_encode (obj c) p r = (Inr sp, r')"
  shows "isl (codec_decode (obj d) (wire_config jb sp))"
proof -
  from assms(5) obtain bs r1 ss where
      bs: "collect_st (broker_from_domain (obj c) (pc_id p)) (pc_brokers p) r = (Inr bs, r1)"
    and ss: "collect_st (sink_from_domain (obj c) (pc_id p)) (pc_sinks p) r1 = (Inr ss, r')"
    and sp: "sp_id sp = pc_id p" "sp_brokers sp = bs" "sp_sinks sp = ss"
    by (auto simp: codec_encode_def split: prod.splits sum.splits)
  have "isl (try_collect (broker_into_domain (obj d) (pc_id p)) (map wire_broker bs)) \<or>
      isl (try_collect (sink_into_domain (obj d) (pc_id p)) (map wire_sink ss))"
    using assms(2) unfolding config_secrets_def
  proof
    assume "v \<in> (\<Union>b \<in> set (pc_brokers p). broker_passwords b)"
    then obtain b where b: "b \<in> set (pc_brokers p)" "v \<in> broker_passwords b" by blast
    from collect_st_source [OF bs b(1)] obtain sb r1 r2 where
        "sb \<in> set bs" "broker_from_domain (obj c) (pc_id p) b r1 = (Inr sb, r2)" by blast
    then show ?thesis
      using broker_unreadable [OF assms(1) b(2) assms(3,4)] by (auto intro!: disjI1 try_collect_isl [of "wire_broker sb"])
  next
    assume "v \<in> (\<Union>s \<in> set (pc_sinks p). kind_secrets (sk_kind s))"
    then obtain s where s: "s \<in> set (pc_sinks p)" "v \<in> kind_secrets (sk_kind s)" by blast
    from collect_st_source [OF ss s(1)] obtain sd r1 r2 where
        "sd \<in> set ss" "sink_from_domain (obj c) (pc_id p) s r1 = (Inr sd, r2)" by blast
    then show ?thesis
      using sink_unreadable [OF assms(1) s(2) assms(3,4)] by (auto intro!: disjI2 try_collect_isl [of "wire_sink sd"])
  qed
  then show ?thesis
    by (cases "try_collect (broker_into_domain (obj d) (pc_id p)) (map wire_broker bs)";
        cases "try_collect (sink_into_domain (obj d) (pc_id p)) (map wire_sink ss)")
      (auto simp: codec_decode_def wire_config_def sp)
qed

end

lemma json_kept_version: "json_kept jb (c\<lparr>pc_version := v\<rparr>) = json_kept jb c"
  by (simp add: json_kept_def config_json_def default_json_def)

text \<open>C24: an update stores every secret it is given, but a stored secret is read back only when the constructor of
  secrets accepts it: after a successful update, loading the project succeeds exactly when every password and
  header value of the written configuration is acceptable, and gives that configuration with its JSON values as the
  JSONB column gives them back (so exactly that configuration when the column keeps them); otherwise every load of
  it fails.\<close>

theorem update_can_store_an_unreadable_config:
  assumes "crypto_ok clib" "from_base64_keys clib active keys = Inr k" "st_cipher s = keyring_obj clib k"
    and "update_project_config s c expected audit w = (Inr x, w')" "st_fault s (wd_calls w') = None"
    and "config_whole c" "\<And>v. v \<in> config_secrets c \<Longrightarrow> valid_utf8 v"
  shows "if \<forall>v \<in> config_secrets c. secret_string_new v = Inr v
         then fst (load_project_config s (pc_id c) w') =
                Inr (Some (json_read_back (st_jsonb s) (c\<lparr>pc_version := wr_version x\<rparr>))) \<and>
              (json_kept (st_jsonb s) c \<longrightarrow>
                fst (load_project_config s (pc_id c) w') = Inr (Some (c\<lparr>pc_version := wr_version x\<rparr>)))
         else isl (fst (load_project_config s (pc_id c) w'))"
proof (cases "\<forall>v \<in> config_secrets c. secret_string_new v = Inr v")
  case True
  then have "config_storable c" using assms(6,7) by (simp add: storable_iff secret_ok_def)
  from update_then_load [OF assms(1-3) this assms(4,5)] True show ?thesis
    by (simp add: json_read_back_id json_kept_version)
next
  case False
  then obtain v where v: "v \<in> config_secrets c" "isl (secret_string_new v)"
    by (auto simp: secret_refused)
  from update_effect [OF assms(4)] obtain stored r r' nxt where
      u: "codec_encode (st_cipher s) (c\<lparr>pc_version := nxt\<rparr>) r = (Inr stored, r')"
        "written (pc_id c) nxt stored (wd_db w) (wd_db w')" by blast
  have "v \<in> config_secrets (c\<lparr>pc_version := nxt\<rparr>)" using v(1) by (simp add: config_secrets_def)
  then have "isl (codec_decode (st_cipher s) (wire_config (st_jsonb s) stored))"
    using ring.config_unreadable [of "(clib, k)" "(clib, k)" v "c\<lparr>pc_version := nxt\<rparr>" r stored r' "st_jsonb s"]
      keyring_reads_more [OF assms(1,2,2)] u(1) v assms(3,7) by simp
  then obtain e where dec: "codec_decode (st_cipher s) (wire_config (st_jsonb s) stored) = Inl e"
    by (cases "codec_decode (st_cipher s) (wire_config (st_jsonb s) stored)") auto
  obtain row where "db_configs (wd_db w') (pc_id c) = Some row" "cw_config row = stored"
    using u(2) by (auto simp: written_def)
  with dec assms(5) show ?thesis unfolding if_not_P [OF False]
    by (simp add: load_project_config_def db_bind_def sql_auto_def run_stmt_def select_config_stmt_def db_lift_def)
qed

section \<open>Examples\<close>

text \<open>The sample project, submitted again under the expected version 1.\<close>

lemma running_loaded: "\<exists>w. load_project_config sample_storage ''p1'' running_world = (Inr (Some running_project), w)"
proof -
  obtain w where "reload_load running_supervisor ''p1'' running_world = (Inr running_project, w)"
    using running_load by (cases "reload_load running_supervisor ''p1'' running_world") auto
  then show ?thesis
    by (auto simp: reload_load_def running_supervisor_def split: prod.splits sum.splits option.splits)
qed

text \<open>The checks do not look at the version.\<close>

lemma valid_any_version: "project_config_validate (c\<lparr>pc_version := v\<rparr>) = project_config_validate c"
  by (simp add: project_config_validate_def)

lemma references_any_version:
  "enabled_brokers (c\<lparr>pc_version := v\<rparr>) = enabled_brokers c"
  "check_sink_reference (c\<lparr>pc_version := v\<rparr>) = check_sink_reference c"
  "check_command_reference (c\<lparr>pc_version := v\<rparr>) = check_command_reference c"
proof -
  show "enabled_brokers (c\<lparr>pc_version := v\<rparr>) = enabled_brokers c" by (simp add: enabled_brokers_def)
  have "check_sink_reference (c\<lparr>pc_version := v\<rparr>) r a = check_sink_reference c r a" for r a by (cases a) simp_all
  then show "check_sink_reference (c\<lparr>pc_version := v\<rparr>) = check_sink_reference c" by blast
  have "check_command_reference (c\<lparr>pc_version := v\<rparr>) r a = check_command_reference c r a" for r a by (cases a) simp_all
  then show "check_command_reference (c\<lparr>pc_version := v\<rparr>) = check_command_reference c" by blast
qed

lemma validate_any_version: "validate_runtime_config (c\<lparr>pc_version := v\<rparr>) = validate_runtime_config c"
proof -
  have "validate_enabled_route (c\<lparr>pc_version := v\<rparr>) r = validate_enabled_route c r" for r
    by (simp add: validate_enabled_route_def references_any_version split: option.split)
  then have "validate_enabled_route (c\<lparr>pc_version := v\<rparr>) = validate_enabled_route c" by blast
  then show ?thesis
    unfolding validate_runtime_config_def validate_single_enabled_broker_def validate_routes_def validate_command_templates_def
      validate_rule_sink_references_def validate_rule_command_references_def validate_unique_ids_def
      valid_any_version references_any_version by simp
qed

abbreviation running_next :: project_config where
  "running_next \<equiv> running_project\<lparr>pc_version := 2\<rparr>"

text \<open>An update of the sample project to a configuration of the same identity.\<close>

lemma sample_updates:
  assumes "pc_id c = ''p1''" "pc_tenant_id c = None" "pc_name c = ''Local''" "pc_enabled c"
    and valid: "project_config_validate c = Inr ()"
    and enc: "codec_encode (keyring_obj sample_crypto sample_ring) (c\<lparr>pc_version := 2\<rparr>) 0 = (Inr stored, r)"
    and w: "w \<in> {running_world, count_call running_world}"
    and audit: "au_reason audit = None"
  shows "fst (update_project_config sample_storage c 1 audit w) =
     Inr \<lparr>wr_project_id = ''p1'', wr_version = 2, wr_revision_id = ''config_revision_'', wr_config_hash = ''sha256:d''\<rparr>"
proof -
  have valid2: "project_config_validate (c\<lparr>pc_version := 2\<rparr>) = Inr ()" using valid by (simp only: valid_any_version)
  show ?thesis using w
    by (auto simp add: update_project_config_def Let_def db_bind_def db_lift_def checked_add_u64_def u64_max_def valid2 enc
        encode_project_config_def db_encode_def hash_config_json_def sample_storage_def running_world_def sample_world_def
        count_call_def transaction_def version_to_i64_def sql_def run_stmt_def update_config_stmt_def config_row_of_def
        config_row_ok_def assms(1-4) audit empty_database_def insert_config_revision_tx_def generated_id_def
        insert_revision_stmt_def insert_config_audit_tx_def insert_audit_event_tx_def validate_storage_identifier_def
        validate_bounded_text_def max_identifier_bytes_def max_target_id_bytes_def max_metadata_json_bytes_def sample_texts
        validate_json_object_size_def sample_lib_def config_audit_metadata_def insert_some_def insert_audit_stmt_def
        len_between_def opt_len_def is_json_object_def simp del: has_control.simps list.pred_inject)
qed

lemma running_updates:
  assumes "load_project_config sample_storage ''p1'' running_world = (Inr (Some running_project), w)"
  shows "fst (update_project_config sample_storage running_next 1 \<lparr>au_actor_id = Some ''u1'', au_reason = None\<rparr> w) =
     Inr \<lparr>wr_project_id = ''p1'', wr_version = 2, wr_revision_id = ''config_revision_'', wr_config_hash = ''sha256:d''\<rparr>"
proof -
  have w: "w = count_call running_world"
    using assms by (auto simp: load_project_config_def db_bind_def sql_auto_def run_stmt_def select_config_stmt_def
        db_lift_def running_world_def sample_storage_def sample_world_def count_call_def split: sum.splits)
  obtain stored where enc: "codec_encode (keyring_obj sample_crypto sample_ring) (running_next\<lparr>pc_version := 2\<rparr>) 0 = (Inr stored, 0)"
    by (simp add: running_project_def codec_encode_def broker_from_domain_def)
  have valid: "project_config_validate running_next = Inr ()"
    using running_valid by (simp add: valid_any_version validate_runtime_config_iff)
  show ?thesis
    by (rule sample_updates [OF _ _ _ _ valid enc]) (simp_all add: w running_project_def)
qed

lemma running_merge: "merge_redacted_secrets running_project (document_into_domain (document_from_domain running_project) 2) = Inr running_next"
  by (simp add: merge_redacted_secrets_def document_into_domain_def document_from_domain_def running_project_def merge_broker_def)

lemma sample_put:
  "\<exists>reply w'. management_router sample_api_lib sample_api_state sample_request EpPutConfig (idle_state, running_world) =
     (reply, (idle_state, w')) \<and> hr_status reply = 200"
proof -
  obtain w where load: "load_project_config sample_storage ''p1'' running_world = (Inr (Some running_project), w)"
    using running_loaded by blast
  let ?u = "update_project_config sample_storage running_next 1 \<lparr>au_actor_id = Some ''u1'', au_reason = None\<rparr> w"
  obtain x w' where update: "?u = (Inr x, w')"
    using running_updates [OF load] by (cases ?u) auto
  have valid: "project_config_validate running_next = Inr ()" "validate_runtime_config running_next = Inr ()"
    using running_valid by (simp_all add: valid_any_version validate_any_version validate_runtime_config_iff)
  have id: "pc_id running_project = ''p1''" by (simp add: running_project_def)
  have st: "as_storage sample_api_state = postgres_storage sample_storage"
      "as_runtime sample_api_state = supervisor_control sample_lib running_supervisor sample_env"
    by (simp_all add: sample_api_state_def)
  have fields: "al_update_request sample_api_lib n sample_request = Inr sample_update" "rq_content_length sample_request = None"
      "uq_expected_version sample_update = 1" "uq_config sample_update = document_from_domain running_project"
      "uq_reason sample_update = None" "dc_project_id (document_from_domain running_project) = ''p1''" for n
    by (simp_all add: sample_api_lib_def sample_request_def sample_update_def document_from_domain_def id)
  have "validate_candidate_config running_supervisor ''p1'' running_next idle_state = Inr ()"
    by (simp add: validate_candidate_config_def ensure_project_def ensure_not_stopping_def running_supervisor_def idle_state_def
        id valid)
  then show ?thesis
    by (simp add: sample_authenticated put_project_config_inner_def actions authorized_state_def sample_authorized sample_path
        respond_def st ensure_declared_body_size_def fields next_config_version_def
        checked_add_u64_def u64_max_def postgres_storage_def supervisor_control_def act_err_def act_bind_def act_lift_def
        on_world_def on_runtime_def load running_merge valid api_audit_context_def update)
qed

theorem accepted_config_can_be_reloaded_witness:
  "\<exists>reply w'. management_router sample_api_lib sample_api_state sample_request EpPutConfig (idle_state, running_world) =
     (reply, (idle_state, w')) \<and> reload_load running_supervisor ''p1'' w' = (Inr running_next, count_call w')"
proof -
  obtain reply w' where put: "management_router sample_api_lib sample_api_state sample_request EpPutConfig
      (idle_state, running_world) = (reply, (idle_state, w'))" "hr_status reply < 400"
    using sample_put by auto
  have ring: "from_base64_keys sample_crypto ''k'' [(''k'', sample_key CHR ''a'')] = Inr sample_ring" by code_simp
  have sv: "sv_storage running_supervisor = sample_storage" "sv_project_id running_supervisor = ''p1''"
    by (simp_all add: running_supervisor_def)
  have st: "as_storage sample_api_state = postgres_storage sample_storage"
      "as_runtime sample_api_state = supervisor_control sample_lib running_supervisor sample_env"
    by (simp_all add: sample_api_state_def)
  have storable: "config_storable running_next"
    by (simp add: running_project_def config_storable_def broker_storable_def whole_seconds_def whole_millis_def
        from_secs_def u64_max_def)
  have "fst (load_project_config sample_storage ''p1'' running_world) = Inr (Some running_project)"
    using running_loaded by auto
  with accepted_config_can_be_reloaded [OF sample_crypto_ok ring sample_storage_safe(2) st sv(1) put] storable
  have "reload_load running_supervisor ''p1'' w' = (Inr running_next, count_call w')"
    by (auto simp: sv sample_api_lib_def sample_update_def running_merge sample_storage_def json_kept_version running_json_kept)
  with put(1) show ?thesis by blast
qed

text \<open>A password that is empty passes every check of an update.\<close>

definition bare_project :: project_config where
  "bare_project = running_project\<lparr>pc_brokers :=
     map (\<lambda>b. b\<lparr>bc_credentials := Some \<lparr>cr_username = ''Local'', cr_password = []\<rparr>\<rparr>) (pc_brokers running_project)\<rparr>"

lemma bare_valid: "project_config_validate bare_project = Inr ()"
  unfolding project_config_validate_iff
  using running_routes running_rules_valid
  by (simp add: bare_project_def running_project_def running_texts list_all_iff broker_connection_config_validate_def
      mqtt_credentials_validate_def max_name_bytes_def max_host_bytes_def from_secs_def reconnect_policy_validate_def
      command_template_validate_def sample_template_def max_topic_bytes_def del: has_control.simps)

theorem update_can_store_an_unreadable_config_witness:
  "\<exists>x w'. update_project_config sample_storage bare_project 1 sample_audit running_world = (Inr x, w') \<and>
     isl (fst (load_project_config sample_storage ''p1'' w'))"
proof -
  let ?u = "update_project_config sample_storage bare_project 1 sample_audit running_world"
  have "\<not> isl (fst (codec_encode (keyring_obj sample_crypto sample_ring) (bare_project\<lparr>pc_version := 2\<rparr>) 0))"
    by (simp add: bare_project_def running_project_def codec_encode_def broker_from_domain_def credentials_from_domain_def
        keyring_obj_def keyring_encrypt_def active_cipher_def aes_cipher_encrypt_def sample_crypto_def sample_ring_def)
  then obtain stored r where enc:
      "codec_encode (keyring_obj sample_crypto sample_ring) (bare_project\<lparr>pc_version := 2\<rparr>) 0 = (Inr stored, r)"
    by (cases "codec_encode (keyring_obj sample_crypto sample_ring) (bare_project\<lparr>pc_version := 2\<rparr>) 0";
        cases "fst (codec_encode (keyring_obj sample_crypto sample_ring) (bare_project\<lparr>pc_version := 2\<rparr>) 0)") auto
  obtain x w' where u: "?u = (Inr x, w')"
    using sample_updates [OF _ _ _ _ bare_valid enc, of running_world sample_audit]
    by (cases ?u) (auto simp: bare_project_def running_project_def sample_audit_def)
  have ring: "from_base64_keys sample_crypto ''k'' [(''k'', sample_key CHR ''a'')] = Inr sample_ring" by code_simp
  have secrets: "config_secrets bare_project = {[]}"
    by (simp add: config_secrets_def broker_passwords_def bare_project_def running_project_def)
  have whole: "config_whole bare_project"
    by (simp add: config_whole_def bare_project_def running_project_def whole_seconds_def whole_millis_def from_secs_def
        u64_max_def)
  have blank: "isl (secret_string_new [])" "valid_utf8 []" by code_simp+
  have id: "pc_id bare_project = ''p1''" by (simp add: bare_project_def running_project_def)
  have "isl (fst (load_project_config sample_storage ''p1'' w'))"
    using update_can_store_an_unreadable_config [OF sample_crypto_ok ring sample_storage_safe(2) u _ whole] blank
    by (simp add: secrets id sample_storage_def secret_refused del: valid_utf8.simps split: if_splits)
  with u show ?thesis by blast
qed

end
