(* ===== verification/Daemon_Main.thy ===== *)
theory Daemon_Main
  imports Config_Loader Management_Config
begin

text \<open>
  How the daemon starts and stops (\<^verbatim>\<open>main.rs\<close>): the store, the configuration it runs, the runtime and the management API,
  and the properties of the settings and of the started daemon. Connecting to PostgreSQL and running the
  migrations are parameters; the set-up of the log is left out.
\<close>

section \<open>Starting\<close>

datatype daemon_error =
  DeConfig config_load_error
| DeStorage storage_error
| DeRuntime runtime_error
| DeApi api_error

record ('k, 'r) postgres_lib =
  po_crypto :: "('k, 'r) crypto_lib"
  po_pool :: "postgres_storage_config \<Rightarrow> 'r secret_cipher_obj \<Rightarrow> storage_error + 'r storage"
  po_migrate :: "'r storage \<Rightarrow> storage_error + unit"

definition postgres_connect ::
    "('k, 'r) postgres_lib \<Rightarrow> postgres_storage_config \<Rightarrow> 'k storage_keyring \<Rightarrow> storage_error + 'r storage" where
  "postgres_connect lib config keyring =
     res_bind (validate_pg_config config) (\<lambda>_. po_pool lib config (keyring_obj (po_crypto lib) keyring))"

definition build_storage ::
    "('k, 'r) postgres_lib \<Rightarrow> storage_runtime_config option \<Rightarrow> storage_error + 'r storage option" where
  "build_storage lib config =
     (case config of
        None \<Rightarrow> Inr None
      | Some c \<Rightarrow>
          res_bind (from_base64_keys (po_crypto lib) (sg_active_key_id c) (sg_keys c)) (\<lambda>keyring.
          res_bind (postgres_storage_config_new (sg_database_url c)) (\<lambda>pg.
          res_bind (postgres_connect lib (pg\<lparr>pg_max_connections := sg_max_connections c\<rparr>) keyring) (\<lambda>storage.
          if sg_run_migrations c
          then res_bind (po_migrate lib storage) (\<lambda>_. Inr (Some storage))
          else Inr (Some storage)))))"

definition validate_bootstrap_project_id :: "project_config \<Rightarrow> project_id \<Rightarrow> config_load_error + unit" where
  "validate_bootstrap_project_id config expected =
     (if pc_id config \<noteq> expected then Inl (ProjectIdMismatch expected (pc_id config)) else Inr ())"

definition bootstrap_config ::
    "file_lib \<Rightarrow> 'r storage \<Rightarrow> project_id \<Rightarrow> project_config_load_options \<Rightarrow> 'r world \<Rightarrow>
     (config_load_error + project_config) \<times> 'r world" where
  "bootstrap_config files storage pid opts w =
     (case res_bind (load_project_config_file files opts) (\<lambda>config.
           res_bind (validate_bootstrap_project_id config pid) (\<lambda>_. Inr config)) of
        Inl e \<Rightarrow> (Inl e, w)
      | Inr config \<Rightarrow>
          (case create_project_config storage config (audit_context_system ''bootstrap project config from file'') w of
             (Inl e, w') \<Rightarrow> (Inl (CfgStorage e), w')
           | (Inr _, w') \<Rightarrow> (Inr config, w')))"

definition load_config ::
    "file_lib \<Rightarrow> project_config_source \<Rightarrow> 'r storage option \<Rightarrow> 'r world \<Rightarrow>
     (config_load_error + project_config) \<times> 'r world" where
  "load_config files source storage w =
     (case source of
        SourceFile opts \<Rightarrow> (load_project_config_file files opts, w)
      | SourcePostgres pid bootstrap \<Rightarrow>
          (case storage of
             None \<Rightarrow> (Inl (MissingEnv ''PIPE_BOLT_DATABASE_URL''), w)
           | Some s \<Rightarrow>
               (case load_project_config s pid w of
                  (Inl e, w') \<Rightarrow> (Inl (CfgStorage e), w')
                | (Inr (Some config), w') \<Rightarrow> (Inr config, w')
                | (Inr None, w') \<Rightarrow>
                    (case bootstrap of
                       None \<Rightarrow> (Inl (CfgProjectNotFound pid), w')
                     | Some opts \<Rightarrow> bootstrap_config files s pid opts w'))))"

datatype ('r, 'rt) runtime_owner =
  Standalone "'rt option"
| Supervised "('r, 'rt) supervisor" "'rt runtime_state"

type_synonym ('r, 'rt) daemon_api = "(('rt, 'r) daemon_state, 'rt) api_state"

text \<open>\<open>ops\<close> are the operations of a runtime under the settings of the daemon; \<open>now\<close> is when the supervisor is made.\<close>

definition start_management_api_if_configured ::
    "(string \<Rightarrow> string) \<Rightarrow> serde_lib \<Rightarrow> (runtime_persistence \<Rightarrow> 'rt runtime_ops) \<Rightarrow> daemon_env \<Rightarrow> daemon_runtime_config \<Rightarrow>
     'r storage option \<Rightarrow> runtime_persistence option \<Rightarrow> project_config \<Rightarrow> 'rt \<Rightarrow>
     daemon_error + ('r, 'rt) runtime_owner \<times> ('r, 'rt) daemon_api option" where
  "start_management_api_if_configured sha256 slib ops env dc storage persistence config rt =
     (case dc_management_api dc of
        None \<Rightarrow> Inr (Standalone (Some rt), None)
      | Some api \<Rightarrow>
          res_bind (ok_or (DeConfig (MissingEnv ''PIPE_BOLT_DATABASE_URL'')) storage) (\<lambda>s.
          res_bind (ok_or (DeConfig (MissingEnv ''PIPE_BOLT_DATABASE_URL'')) persistence) (\<lambda>p.
          let sv = \<lparr>sv_project_id = pc_id config, sv_storage = s, sv_ops = ops p\<rparr> in
          res_bind (map_err DeApi (bearer_with_context sha256 (mg_bearer_token api) (mg_actor_id api) (mg_role api)
                      (mg_project_scope api))) (\<lambda>auth.
          Inr (Supervised sv (supervisor_new config rt (dv_now env)),
               Some \<lparr>as_storage = postgres_storage s, as_runtime = supervisor_control slib sv env, as_auth = auth,
                     as_max_config_body_bytes = mg_max_config_body_bytes api\<rparr>)))))"

record ('b, 'u, 'q, 'c, 'w, 'k, 'r) daemon_lib =
  dl_postgres :: "('k, 'r) postgres_lib"
  dl_files :: file_lib
  dl_start :: "('b, 'u, 'q, 'c, 'w) start_lib"
  dl_serde :: serde_lib
  dl_sha256 :: "string \<Rightarrow> string"

type_synonym ('b, 'u, 'q, 'c, 'w, 'r) started_daemon =
  "('r, ('b, 'u, 'q, 'c, 'w) project_runtime) runtime_owner \<times>
   ('r, ('b, 'u, 'q, 'c, 'w) project_runtime) daemon_api option"

text \<open>\<^verbatim>\<open>main\<close> up to the wait for a signal.\<close>

definition daemon_start ::
    "('b, 'u, 'q, 'c, 'w, 'k, 'r) daemon_lib \<Rightarrow> daemon_env \<Rightarrow> process_env \<Rightarrow> 'r world \<Rightarrow>
     (daemon_error + ('b, 'u, 'q, 'c, 'w, 'r) started_daemon) \<times> 'r world" where
  "daemon_start lib env penv w =
     (case res_bind (map_err DeConfig (daemon_config_from_env penv)) (\<lambda>dc.
           res_bind (map_err DeStorage (build_storage (dl_postgres lib) (dc_storage dc))) (\<lambda>storage.
           Inr (dc, storage))) of
        Inl e \<Rightarrow> (Inl e, w)
      | Inr (dc, storage) \<Rightarrow>
          (case load_config (dl_files lib) (dc_project_config dc) storage w of
             (Inl e, w') \<Rightarrow> (Inl (DeConfig e), w')
           | (Inr config, w') \<Rightarrow>
               let persistence = map_option (\<lambda>_. runtime_persistence_new (pc_id config)) storage in
               (res_bind (map_err DeRuntime (project_runtime_start (dl_start lib) (dc_runtime dc) persistence config)) (\<lambda>rt.
                start_management_api_if_configured (dl_sha256 lib) (dl_serde lib)
                  (project_runtime_ops (dl_start lib) (dc_runtime dc)) env dc storage persistence config rt),
                w')))"

section \<open>Stopping\<close>

text \<open>\<open>stopped\<close> is the result of shutting the runtime down.\<close>

fun owner_shutdown :: "runtime_error + unit \<Rightarrow> ('r, 'rt) runtime_owner \<Rightarrow> (runtime_error + unit) \<times> ('r, 'rt) runtime_owner" where
  "owner_shutdown stopped (Standalone (Some rt)) = (stopped, Standalone None)"
| "owner_shutdown stopped (Standalone None) = (Inr (), Standalone None)"
| "owner_shutdown stopped (Supervised sv st) =
     (case supervisor_shutdown stopped st of (r, st') \<Rightarrow> (r, Supervised sv st'))"

text \<open>After the signal: the API is told to stop, the owner shuts down, and the task of the API is joined.\<close>

definition daemon_stop ::
    "runtime_error + unit \<Rightarrow> (string + unit) option \<Rightarrow> ('r, 'rt) runtime_owner \<Rightarrow>
     (string + unit) \<times> ('r, 'rt) runtime_owner" where
  "daemon_stop stopped api_worker owner =
     (case owner_shutdown stopped owner of
        (Inl e, owner') \<Rightarrow> (Inl (runtime_error_display e), owner')
      | (Inr _, owner') \<Rightarrow> ((case api_worker of None \<Rightarrow> Inr () | Some joined \<Rightarrow> joined), owner'))"

section \<open>The settings\<close>

definition plain_id :: "string \<Rightarrow> bool" where
  "plain_id i \<longleftrightarrow> i \<noteq> [] \<and> length i \<le> 128 \<and> (\<forall>c \<in> set i. is_identifier_byte c)"

lemma id_new_plain: "id_new field v = Inr i \<Longrightarrow> i = v \<and> plain_id i"
  by (simp add: id_new_iff plain_id_def)

lemma env_nonblank_Some: "env_nonblank env name = Some v \<longleftrightarrow> pe_var env name = Some v \<and> \<not> is_blank v"
  by (auto simp: env_nonblank_def bind_eq_Some_conv split: if_splits)

lemma ids_plain: "try_collect (id_new field) xs = Inr ys \<Longrightarrow> \<forall>y \<in> set ys. plain_id y"
  unfolding try_collect_eq_Inr by (induction rule: list_all2_induct) (auto dest: id_new_plain)

lemma scope_parsed:
  "parse_management_project_scope env = Inr (ScopedProjects ps) \<Longrightarrow> ps \<noteq> [] \<and> (\<forall>p \<in> set ps. plain_id p)"
  unfolding parse_management_project_scope_def by (auto dest: ids_plain split: option.splits if_splits)

text \<open>The values of a flag, as the documentation lists them.\<close>

definition flag_on :: "string \<Rightarrow> bool" where
  "flag_on v \<longleftrightarrow> to_ascii_lowercase (trim v) \<in> {''1'', ''true'', ''yes'', ''on''}"

definition flag_off :: "string \<Rightarrow> bool" where
  "flag_off v \<longleftrightarrow> to_ascii_lowercase (trim v) \<in> {''0'', ''false'', ''no'', ''off''}"

lemma env_bool_Inr:
  "env_bool env name dflt = Inr b \<longleftrightarrow>
     (case pe_var env name of None \<Rightarrow> b = dflt | Some v \<Rightarrow> (if b then flag_on v else flag_off v))"
  by (auto simp: env_bool_def flag_on_def flag_off_def Let_def split: option.splits)

lemma management_enabled:
  assumes "management_api_config_from_env env storage = Inr api"
  shows "case pe_var env ''PIPE_BOLT_MANAGEMENT_API_ENABLED'' of
      None \<Rightarrow> api \<noteq> None \<longleftrightarrow> storage
    | Some v \<Rightarrow> if api \<noteq> None then flag_on v else flag_off v"
proof -
  from assms obtain b where "env_bool env ''PIPE_BOLT_MANAGEMENT_API_ENABLED'' storage = Inr b" "api \<noteq> None \<longleftrightarrow> b"
    by (auto simp: management_api_config_from_env_def Let_def split: if_splits)
  then show ?thesis by (simp add: env_bool_Inr split: option.splits)
qed

lemma management_settings:
  assumes "management_api_config_from_env env enabled = Inr (Some m)"
  shows "enabled \<and> pe_var env ''PIPE_BOLT_MANAGEMENT_TOKEN'' = Some (mg_bearer_token m) \<and> \<not> is_blank (mg_bearer_token m) \<and> plain_id (mg_actor_id m) \<and>
         (\<forall>ps. mg_project_scope m = ScopedProjects ps \<longrightarrow> ps \<noteq> [] \<and> (\<forall>p \<in> set ps. plain_id p))"
  using assms by (auto simp: management_api_config_from_env_def Let_def dest!: id_new_plain scope_parsed split: if_splits)

lemma storage_settings:
  "storage_config_from_env env = Inr (Some s) \<Longrightarrow>
     pe_var env ''PIPE_BOLT_DATABASE_URL'' = Some (sg_database_url s) \<and> \<not> is_blank (sg_database_url s) \<and> sg_keys s \<noteq> []"
  by (auto simp: storage_config_from_env_def env_nonblank_Some parse_storage_keys_def Let_def try_collect_eq_Inr
      split: option.splits)

lemma no_storage:
  "storage_config_from_env env = Inr None \<Longrightarrow> pe_var env ''PIPE_BOLT_DATABASE_URL'' = Some v \<Longrightarrow> is_blank v"
  by (auto simp: storage_config_from_env_def env_nonblank_def split: option.splits if_splits)

text \<open>C31: the settings of a daemon fit together: the configuration comes from the store exactly when there is one, under a
  valid project id, and there is a store exactly when the database address is set to more than white space. With the
  variable that switches the management API unset there is an API exactly when there is a store; set, it has to be one
  of 1, true, yes, on (then there is one) or 0, false, no, off (then there is none), in any case and with any white
  space around it. An API needs a store, and has the token of the environment, which is not blank, a valid actor, and a
  scope that is everything or a non-empty list of valid projects.\<close>

theorem daemon_settings_fit:
  assumes "daemon_config_from_env env = Inr c"
  shows "(case dc_project_config c of
            SourceFile opts \<Rightarrow> dc_storage c = None
          | SourcePostgres pid opts \<Rightarrow> dc_storage c \<noteq> None \<and> plain_id pid) \<and>
         (\<forall>m. dc_management_api c = Some m \<longrightarrow> dc_storage c \<noteq> None \<and>
            pe_var env ''PIPE_BOLT_MANAGEMENT_TOKEN'' = Some (mg_bearer_token m) \<and> \<not> is_blank (mg_bearer_token m) \<and>
            plain_id (mg_actor_id m) \<and>
            (\<forall>ps. mg_project_scope m = ScopedProjects ps \<longrightarrow> ps \<noteq> [] \<and> (\<forall>p \<in> set ps. plain_id p))) \<and>
         (case dc_storage c of
            None \<Rightarrow> (\<forall>v. pe_var env ''PIPE_BOLT_DATABASE_URL'' = Some v \<longrightarrow> is_blank v)
          | Some s \<Rightarrow> pe_var env ''PIPE_BOLT_DATABASE_URL'' = Some (sg_database_url s) \<and> \<not> is_blank (sg_database_url s) \<and>
              sg_keys s \<noteq> []) \<and>
         (case pe_var env ''PIPE_BOLT_MANAGEMENT_API_ENABLED'' of
            None \<Rightarrow> dc_management_api c \<noteq> None \<longleftrightarrow> dc_storage c \<noteq> None
          | Some v \<Rightarrow>
              to_ascii_lowercase (trim v) \<in>
                (if dc_management_api c \<noteq> None then {''1'', ''true'', ''yes'', ''on''} else {''0'', ''false'', ''no'', ''off''}))"
proof -
  obtain storage api source where r: "storage_config_from_env env = Inr storage"
      "management_api_config_from_env env (storage \<noteq> None) = Inr api"
      "project_config_source_from_env env (storage \<noteq> None) = Inr source"
      "dc_storage c = storage" "dc_management_api c = api" "dc_project_config c = source"
    using assms by (auto simp: daemon_config_from_env_def Let_def)
  have "case source of SourceFile opts \<Rightarrow> storage = None | SourcePostgres pid opts \<Rightarrow> storage \<noteq> None \<and> plain_id pid"
    using r(3) by (auto simp: project_config_source_from_env_def dest: id_new_plain split: if_splits)
  moreover have "case storage of
      None \<Rightarrow> (\<forall>v. pe_var env ''PIPE_BOLT_DATABASE_URL'' = Some v \<longrightarrow> is_blank v)
    | Some s \<Rightarrow> pe_var env ''PIPE_BOLT_DATABASE_URL'' = Some (sg_database_url s) \<and> \<not> is_blank (sg_database_url s) \<and> sg_keys s \<noteq> []"
    using r(1) storage_settings [of env] no_storage [of env] by (cases storage) auto
  moreover have "\<forall>m. api = Some m \<longrightarrow> storage \<noteq> None \<and>
      pe_var env ''PIPE_BOLT_MANAGEMENT_TOKEN'' = Some (mg_bearer_token m) \<and> \<not> is_blank (mg_bearer_token m) \<and>
      plain_id (mg_actor_id m) \<and> (\<forall>ps. mg_project_scope m = ScopedProjects ps \<longrightarrow> ps \<noteq> [] \<and> (\<forall>p \<in> set ps. plain_id p))"
    using r(2) management_settings [of env "storage \<noteq> None"] by auto
  moreover have "case pe_var env ''PIPE_BOLT_MANAGEMENT_API_ENABLED'' of
      None \<Rightarrow> api \<noteq> None \<longleftrightarrow> storage \<noteq> None
    | Some v \<Rightarrow> to_ascii_lowercase (trim v) \<in>
        (if api \<noteq> None then {''1'', ''true'', ''yes'', ''on''} else {''0'', ''false'', ''no'', ''off''})"
    using management_enabled [OF r(2)] by (auto simp: flag_on_def flag_off_def split: option.splits if_splits)
  ultimately show ?thesis by (simp only: r(4-6))
qed

section \<open>The keys of the store\<close>

text \<open>An entry as an operator writes it.\<close>

definition key_entry :: "string \<times> string \<Rightarrow> string" where
  "key_entry k = fst k @ CHR ''='' # snd k"

lemma trimmed_blank: "trim s = s \<Longrightarrow> is_blank s \<longleftrightarrow> s = []"
  by (simp add: is_blank_def)

lemma key_entry_parses:
  assumes "CHR ''='' \<notin> set i" "trim i = i" "i \<noteq> []" "trim b = b" "b \<noteq> []"
  shows "parse_storage_key_entry (key_entry (i, b)) = Inr (i, b)"
proof -
  have "split_once CHR ''='' (key_entry (i, b)) = Some (i, b)"
    unfolding split_once_Some using assms(1) by (simp add: key_entry_def)
  then show ?thesis unfolding parse_storage_key_entry_def using assms by (simp only: ok_or.simps) (simp add: trimmed_blank)
qed

lemma set_join: "x \<in> set p \<Longrightarrow> p \<in> set ps \<Longrightarrow> x \<in> set (join_with c ps)"
  by (induction c ps rule: join_with.induct) auto

text \<open>C32: the list of keys an operator writes, each an id, an equals sign and the key, separated by commas, is read back as exactly these keys, in
  their order, the padding of base64 included.\<close>

theorem storage_keys_round_trip:
  assumes "pe_var env ''PIPE_BOLT_STORAGE_KEYS'' = Some (join_with CHR '','' (map key_entry keys))"
    and "pe_var env ''PIPE_BOLT_STORAGE_ACTIVE_KEY_ID'' = Some active" and "keys \<noteq> []"
    and "\<And>i b. (i, b) \<in> set keys \<Longrightarrow> CHR ''='' \<notin> set i \<and> CHR '','' \<notin> set i \<and> CHR '','' \<notin> set b \<and>
           trim i = i \<and> i \<noteq> [] \<and> trim b = b \<and> b \<noteq> []"
  shows "parse_storage_keys env = Inr (active, keys)"
proof -
  let ?text = "join_with CHR '','' (map key_entry keys)"
  have ne: "map key_entry keys \<noteq> []" using assms(3) by simp
  have "p \<in> set (map key_entry keys) \<Longrightarrow> CHR '','' \<notin> set p" for p
    using assms(4) by (force simp: key_entry_def)
  from split_join [OF ne this] have entries: "split_on CHR '','' ?text = map key_entry keys" .
  have "try_collect parse_storage_key_entry (map key_entry keys) = Inr keys"
    unfolding try_collect_eq_Inr list_all2_map1
    using key_entry_parses assms(4) by (intro list.rel_refl_strong) fastforce
  moreover obtain k where "k \<in> set keys" using assms(3) by (cases keys) auto
  then have "CHR ''='' \<in> set ?text" by (intro set_join [of _ "key_entry k"]) (simp_all add: key_entry_def)
  moreover have "CHR ''='' \<notin> ws_bytes" by code_simp
  ultimately show ?thesis using not_blankI
    by (simp add: parse_storage_keys_def env_nonblank_def assms(1,2) entries)
qed

section \<open>A bootstrapped configuration\<close>

lemma bootstrap_then_load:
  assumes "crypto_ok clib" "from_base64_keys clib active keys = Inr k" "st_cipher s = keyring_obj clib k"
    and "bootstrap_config files s pid opts w = (Inr c, w')" "config_storable c" "st_fault s (wd_calls w') = None"
  shows "pc_id c = pid \<and> load_project_config s pid w' = (Inr (Some (json_read_back (st_jsonb s) (initial_config c))), count_call w')"
proof -
  obtain x where "create_project_config s c (audit_context_system ''bootstrap project config from file'') w = (Inr x, w')"
      "pc_id c = pid"
    using assms(4) by (auto simp: bootstrap_config_def validate_bootstrap_project_id_def split: sum.splits prod.splits if_splits)
  with create_then_load [OF assms(1-3,5) _ assms(6)] show ?thesis by metis
qed

text \<open>A daemon that bootstraps its configuration from a file runs the configuration as the file has it, and the store
  holds the same one (read with its JSON values as the column gives them back), except for a file with version 0: then the daemon runs version 0 while the store
  holds, and the API and every reload report, version 1.\<close>

lemma bootstrap_can_run_another_version:
  assumes "crypto_ok clib" "from_base64_keys clib active keys = Inr k" "st_cipher s = keyring_obj clib k"
    and "load_project_config s pid w = (Inr None, w1)"
    and "load_config files (SourcePostgres pid (Some opts)) (Some s) w = (Inr c, w')"
    and "config_storable c" "st_fault s (wd_calls w') = None"
  shows "load_project_config_file files opts = Inr c \<and> pc_id c = pid \<and>
         (\<exists>loaded. fst (load_project_config s pid w') = Inr (Some loaded) \<and>
            loaded\<lparr>pc_version := pc_version c\<rparr> = json_read_back (st_jsonb s) c \<and>
            pc_version loaded = (if pc_version c = 0 then 1 else pc_version c))"
proof -
  have b: "bootstrap_config files s pid opts w1 = (Inr c, w')" using assms(4,5) by (simp add: load_config_def)
  then have "load_project_config_file files opts = Inr c"
    by (auto simp: bootstrap_config_def split: sum.splits prod.splits)
  moreover have "(json_read_back jb (initial_config c))\<lparr>pc_version := pc_version c\<rparr> = json_read_back jb c"
      "pc_version (json_read_back jb (initial_config c)) = (if pc_version c = 0 then 1 else pc_version c)" for jb
    by (simp_all add: initial_config_def json_read_back_def)
  ultimately show ?thesis
    using bootstrap_then_load [OF assms(1-3) b assms(6,7)] by (auto simp: initial_config_def)
qed

section \<open>The started daemon\<close>

lemma management_api_parts:
  assumes "start_management_api_if_configured sha256 slib ops env dc storage persistence config rt = Inr (owner, Some api)"
  shows "\<exists>s p sv m. dc_management_api dc = Some m \<and>
           storage = Some s \<and> persistence = Some p \<and> sv = \<lparr>sv_project_id = pc_id config, sv_storage = s, sv_ops = ops p\<rparr> \<and>
           owner = Supervised sv (supervisor_new config rt (dv_now env)) \<and>
           as_storage api = postgres_storage s \<and> as_runtime api = supervisor_control slib sv env \<and>
           length (mg_bearer_token m) \<ge> min_bearer_token_bytes \<and> bearer_token_format_is_valid (mg_bearer_token m) \<and>
           as_auth api = [\<lparr>mt_digest = sha256 (mg_bearer_token m),
             mt_context = \<lparr>ac_actor_id = mg_actor_id m, ac_role = mg_role m, ac_project_scope = mg_project_scope m\<rparr>\<rparr>] \<and>
           as_max_config_body_bytes api = mg_max_config_body_bytes m"
  using assms
  by (auto simp: start_management_api_if_configured_def Let_def bearer_with_context_def management_token_new_def
      validate_bearer_token_secret_def split: option.splits if_splits)

lemma daemon_start_parts:
  assumes "daemon_start lib env penv w = (Inr (owner, api), w')"
  shows "\<exists>dc storage config rt.
           daemon_config_from_env penv = Inr dc \<and> build_storage (dl_postgres lib) (dc_storage dc) = Inr storage \<and>
           load_config (dl_files lib) (dc_project_config dc) storage w = (Inr config, w') \<and>
           project_runtime_start (dl_start lib) (dc_runtime dc)
             (map_option (\<lambda>_. runtime_persistence_new (pc_id config)) storage) config = Inr rt \<and>
           start_management_api_if_configured (dl_sha256 lib) (dl_serde lib)
             (project_runtime_ops (dl_start lib) (dc_runtime dc)) env dc storage
             (map_option (\<lambda>_. runtime_persistence_new (pc_id config)) storage) config rt = Inr (owner, api)"
  using assms unfolding daemon_start_def Let_def by (auto split: sum.splits prod.splits)

lemma ops_start: "ro_start (project_runtime_ops lib settings p) config = project_runtime_start lib settings (Some p) config"
  by (simp add: project_runtime_ops_def)

lemma daemon_config_api:
  "daemon_config_from_env env = Inr c \<Longrightarrow> dc_management_api c = Some m \<Longrightarrow>
     pe_var env ''PIPE_BOLT_MANAGEMENT_TOKEN'' = Some (mg_bearer_token m)"
  using management_settings [of env] by (auto simp: daemon_config_from_env_def Let_def)

text \<open>C13: when the daemon starts with a management API, the supervisor main hands to the API runs a runtime started, under
  the settings of the environment, from the configuration that was loaded from the configured source, over the store
  that was connected to and that the API uses too; the API accepts one token, that of the environment, which is long
  enough and free of white space, for the configured actor, role and projects; and from there no interleaving of
  reloads, shutdowns and commands ever has two runtimes alive.\<close>

theorem started_daemon_is_supervised:
  assumes "daemon_start lib env penv w = (Inr (owner, Some api), w')"
  shows "\<exists>dc m s config rt sv.
           daemon_config_from_env penv = Inr dc \<and> dc_management_api dc = Some m \<and>
           build_storage (dl_postgres lib) (dc_storage dc) = Inr (Some s) \<and>
           load_config (dl_files lib) (dc_project_config dc) (Some s) w = (Inr config, w') \<and>
           validate_runtime_config config = Inr () \<and>
           project_runtime_start (dl_start lib) (dc_runtime dc) (Some (runtime_persistence_new (pc_id config))) config = Inr rt \<and>
           sv_project_id sv = pc_id config \<and> sv_storage sv = s \<and>
           sv_ops sv = project_runtime_ops (dl_start lib) (dc_runtime dc) (runtime_persistence_new (pc_id config)) \<and>
           owner = Supervised sv (supervisor_new config rt (dv_now env)) \<and>
           as_storage api = postgres_storage s \<and> as_runtime api = supervisor_control (dl_serde lib) sv env \<and>
           pe_var penv ''PIPE_BOLT_MANAGEMENT_TOKEN'' = Some (mg_bearer_token m) \<and>
           length (mg_bearer_token m) \<ge> min_bearer_token_bytes \<and> bearer_token_format_is_valid (mg_bearer_token m) \<and>
           as_auth api = [\<lparr>mt_digest = dl_sha256 lib (mg_bearer_token m),
             mt_context = \<lparr>ac_actor_id = mg_actor_id m, ac_role = mg_role m, ac_project_scope = mg_project_scope m\<rparr>\<rparr>] \<and>
           as_max_config_body_bytes api = mg_max_config_body_bytes m \<and>
           (\<forall>d. (daemon_step (dl_serde lib) sv)\<^sup>*\<^sup>* (daemon_init config rt (dv_now env) w') d \<longrightarrow> live_runtimes d \<le> 1)"
proof -
  obtain dc storage config rt where
      dc: "daemon_config_from_env penv = Inr dc" "build_storage (dl_postgres lib) (dc_storage dc) = Inr storage"
        "load_config (dl_files lib) (dc_project_config dc) storage w = (Inr config, w')"
    and rt: "project_runtime_start (dl_start lib) (dc_runtime dc)
        (map_option (\<lambda>_. runtime_persistence_new (pc_id config)) storage) config = Inr rt"
    and api: "start_management_api_if_configured (dl_sha256 lib) (dl_serde lib)
          (project_runtime_ops (dl_start lib) (dc_runtime dc)) env dc storage
          (map_option (\<lambda>_. runtime_persistence_new (pc_id config)) storage) config rt = Inr (owner, Some api)"
    using daemon_start_parts [OF assms] by blast
  let ?p = "runtime_persistence_new (pc_id config)"
  let ?sv = "\<lambda>s. \<lparr>sv_project_id = pc_id config, sv_storage = s, sv_ops = project_runtime_ops (dl_start lib) (dc_runtime dc) ?p\<rparr>"
  from management_api_parts [OF api] obtain s m where parts: "storage = Some s" "dc_management_api dc = Some m"
      "owner = Supervised (?sv s) (supervisor_new config rt (dv_now env))" "as_storage api = postgres_storage s"
      "as_runtime api = supervisor_control (dl_serde lib) (?sv s) env" "length (mg_bearer_token m) \<ge> min_bearer_token_bytes"
      "bearer_token_format_is_valid (mg_bearer_token m)"
      "as_auth api = [\<lparr>mt_digest = dl_sha256 lib (mg_bearer_token m),
         mt_context = \<lparr>ac_actor_id = mg_actor_id m, ac_role = mg_role m, ac_project_scope = mg_project_scope m\<rparr>\<rparr>]"
      "as_max_config_body_bytes api = mg_max_config_body_bytes m"
    by auto
  have start: "project_runtime_start (dl_start lib) (dc_runtime dc) (Some ?p) config = Inr rt" using rt parts(1) by simp
  have live: "live_runtimes d \<le> 1" if "(daemon_step (dl_serde lib) (?sv s))\<^sup>*\<^sup>* (daemon_init config rt (dv_now env) w') d" for d
    using daemon_host.daemon_reach_ok [OF that _ daemon_host.daemon_init_ok [OF start [folded ops_start]]]
    by (auto simp: daemon_host.daemon_ok_def live_runtimes_def split: if_splits)
  have "validate_runtime_config config = Inr ()" using start project_runtime_start_iff by blast
  with live start dc parts daemon_config_api [OF dc(1) parts(2)] show ?thesis
    by (intro exI [of _ dc] exI [of _ m] exI [of _ s] exI [of _ config] exI [of _ rt] exI [of _ "?sv s"]) simp
qed

section \<open>Examples\<close>

definition sample_vars :: "string \<Rightarrow> string option" where
  "sample_vars =
     [''PIPE_BOLT_DATABASE_URL'' \<mapsto> ''pg'', ''PIPE_BOLT_PROJECT_ID'' \<mapsto> ''p1'',
      ''PIPE_BOLT_STORAGE_KEY_B64'' \<mapsto> sample_key CHR ''a'', ''PIPE_BOLT_STORAGE_KEY_ID'' \<mapsto> ''k'',
      ''PIPE_BOLT_MANAGEMENT_TOKEN'' \<mapsto> replicate 32 CHR ''t'']"

definition sample_penv :: process_env where
  "sample_penv = \<lparr>pe_var = sample_vars, pe_var_os = Map.empty\<rparr>"

lemma sample_blanks:
  "\<not> is_blank ''pg''" "\<not> is_blank ''k''" "\<not> is_blank (replicate 32 CHR ''t'')"
  "bearer_token_format_is_valid (replicate 32 CHR ''t'')" "id_new ''project_id'' ''p1'' = Inr ''p1''"
  "id_new ''user_id'' ''system:bootstrap-token'' = Inr ''system:bootstrap-token''"
  by code_simp+

definition sample_daemon_config :: daemon_runtime_config where
  "sample_daemon_config =
     \<lparr>dc_project_config = SourcePostgres ''p1'' None, dc_runtime = runtime_settings_default,
      dc_storage = Some \<lparr>sg_database_url = ''pg'', sg_active_key_id = ''k'', sg_keys = [(''k'', sample_key CHR ''a'')],
                         sg_max_connections = 8, sg_run_migrations = True\<rparr>,
      dc_management_api = Some \<lparr>mg_bind_addr = (V4 [127, 0, 0, 1], 8081), mg_bearer_token = replicate 32 CHR ''t'',
                                mg_actor_id = ''system:bootstrap-token'', mg_role = Admin, mg_project_scope = AllProjects,
                                mg_max_config_body_bytes = 1024 * 1024\<rparr>,
      dc_log_filter = ''pipe_bolt_daemon=info,pipe_bolt_core=info,warn''\<rparr>"

lemma read_ipv4_unfold: "read_ipv4_addr s = read_octets (Suc (Suc (Suc (Suc 0)))) 0 s"
  by (simp add: read_ipv4_addr_def numeral_eq_Suc)

lemma sample_bind_addr: "parse_socket_addr ''127.0.0.1:8081'' = Inr (V4 [127, 0, 0, 1], 8081)"
  by (simp add: parse_socket_addr_def read_socket_v4_def read_ipv4_unfold read_port_def read_number_def to_digit_def
      hex_digit_def read_separator_def Let_def)

lemma sample_settings: "daemon_config_from_env sample_penv = Inr sample_daemon_config"
  by (simp add: daemon_config_from_env_def storage_config_from_env_def management_api_config_from_env_def
      project_config_source_from_env_def env_nonblank_def env_u32_def env_bool_def env_usize_def parse_storage_keys_def
      parse_management_role_def parse_management_project_scope_def sample_penv_def sample_vars_def sample_blanks
      sample_bind_addr sample_daemon_config_def Let_def)

theorem daemon_settings_fit_witness:
  "\<exists>c m. daemon_config_from_env sample_penv = Inr c \<and> dc_management_api c = Some m \<and> \<not> is_blank (mg_bearer_token m)"
  using daemon_settings_fit [OF sample_settings] sample_settings by (auto simp: sample_daemon_config_def)

theorem storage_keys_round_trip_witness:
  "parse_storage_keys \<lparr>pe_var = [''PIPE_BOLT_STORAGE_KEYS'' \<mapsto> ''old=YQ==,new=Yg=='', ''PIPE_BOLT_STORAGE_ACTIVE_KEY_ID'' \<mapsto> ''new''],
       pe_var_os = Map.empty\<rparr> = Inr (''new'', [(''old'', ''YQ==''), (''new'', ''Yg=='')])"
proof (rule storage_keys_round_trip)
  have "trim ''old'' = ''old''" "trim ''new'' = ''new''" "trim ''YQ=='' = ''YQ==''" "trim ''Yg=='' = ''Yg==''" by code_simp+
  then show "(i, b) \<in> set [(''old'', ''YQ==''), (''new'', ''Yg=='')] \<Longrightarrow> CHR ''='' \<notin> set i \<and> CHR '','' \<notin> set i \<and>
      CHR '','' \<notin> set b \<and> trim i = i \<and> i \<noteq> [] \<and> trim b = b \<and> b \<noteq> []" for i b by auto
qed (simp_all add: key_entry_def)

definition sample_files :: file_lib where
  "sample_files =
     \<lparr>fi_is_file = (\<lambda>_. Inr True), fi_open = (\<lambda>_. Inr ()), fi_read = (\<lambda>_ _. Inr ''{}''),
      fi_project_config = (\<lambda>_. Inr small_project)\<rparr>"

lemma small_project_valid: "project_config_validate small_project = Inr ()"
  using sample_texts(1,2) by (simp add: project_config_validate_def small_project_def max_name_bytes_def)

definition sample_daemon_lib ::
    "(normalized_event list, string, string queued_forward_request vec_queue, command_execution_request vec_queue,
      new_sink_delivery_outcome vec_queue, unit, nat) daemon_lib" where
  "sample_daemon_lib =
     \<lparr>dl_postgres = \<lparr>po_crypto = sample_crypto, po_pool = (\<lambda>_ _. Inr sample_storage), po_migrate = (\<lambda>_. Inr ())\<rparr>,
      dl_files = sample_files, dl_start = running_start_lib, dl_serde = sample_lib, dl_sha256 = (\<lambda>s. s)\<rparr>"

lemma sample_build_storage: "build_storage (dl_postgres sample_daemon_lib) (dc_storage sample_daemon_config) = Inr (Some sample_storage)"
proof -
  have ring: "from_base64_keys sample_crypto ''k'' [(''k'', sample_key CHR ''a'')] = Inr sample_ring" by code_simp
  show ?thesis
    by (simp add: build_storage_def sample_daemon_lib_def sample_daemon_config_def ring postgres_storage_config_new_def
        sample_blanks postgres_connect_def validate_pg_config_def from_secs_def)
qed

lemma default_starts:
  "\<exists>rt. project_runtime_start running_start_lib runtime_settings_default (Some (runtime_persistence_new ''p1'')) running_project = Inr rt"
  unfolding project_runtime_start_iff
proof (intro conjI)
  show "validate_runtime_config running_project = Inr ()" by (rule running_valid)
  show "validate_runtime_settings runtime_settings_default = Inr ()"
    by (simp add: validate_runtime_settings_def runtime_settings_default_def from_secs_def)
  show "\<exists>e. rule_engine_with_limits (pc_rules running_project) (rs_rule_limits runtime_settings_default) = Inr e"
    using running_rules_valid
    by (simp add: rule_engine_with_limits_def running_project_def running_rules_def runtime_settings_default_def
        rule_engine_limits_default_def validate_rule_def)
  show "\<exists>fw. http_forwarder_try_channel (sl_http running_start_lib) (sl_forwards running_start_lib) (pc_sinks running_project)
      (rs_forward_limits runtime_settings_default) (rs_egress_policy runtime_settings_default) = Inr fw"
    by (simp add: http_forwarder_try_channel_def running_start_lib_def running_project_def
        runtime_settings_default_def validate_forward_limits_def forward_limits_default_def min_timeout_def
        from_secs_def from_millis_def sink_registry_compile_def sample_http_def)
  show "Some (runtime_persistence_new ''p1'') = None \<or>
      persistence_writer_settings_validate (rx_writer_settings (the (Some (runtime_persistence_new ''p1'')))) = Inr ()"
    by (simp add: runtime_persistence_new_def persistence_writer_settings_validate_def
        persistence_writer_settings_default_def from_secs_def)
qed

theorem started_daemon_is_supervised_witness:
  "\<exists>sv rst api w'. daemon_start sample_daemon_lib sample_env sample_penv running_world = (Inr (Supervised sv rst, Some api), w') \<and>
     sv_project_id sv = ''p1'' \<and> map mt_digest (as_auth api) = [replicate 32 CHR ''t'']"
proof -
  obtain rt where rt: "project_runtime_start running_start_lib runtime_settings_default
      (Some (runtime_persistence_new ''p1'')) running_project = Inr rt" using default_starts by blast
  obtain w where load: "load_project_config sample_storage ''p1'' running_world = (Inr (Some running_project), w)"
    using running_loaded by blast
  have id: "pc_id running_project = ''p1''" by (simp add: running_project_def)
  have fields: "dc_project_config sample_daemon_config = SourcePostgres ''p1'' None"
      "dc_runtime sample_daemon_config = runtime_settings_default" "dl_start sample_daemon_lib = running_start_lib"
    by (simp_all add: sample_daemon_config_def sample_daemon_lib_def)
  have cfg: "load_config (dl_files sample_daemon_lib) (dc_project_config sample_daemon_config) (Some sample_storage) running_world =
      (Inr running_project, w)" by (simp add: load_config_def fields load)
  obtain m where m: "dc_management_api sample_daemon_config = Some m" "mg_bearer_token m = replicate 32 CHR ''t''"
    by (simp add: sample_daemon_config_def)
  have "\<exists>auth. bearer_with_context f (mg_bearer_token m) a r s = Inr auth" for f a r s
    by (simp add: m(2) bearer_with_context_def management_token_new_def validate_bearer_token_secret_def sample_blanks
        min_bearer_token_bytes_def)
  then obtain auth where "bearer_with_context (dl_sha256 sample_daemon_lib) (mg_bearer_token m) (mg_actor_id m) (mg_role m)
      (mg_project_scope m) = Inr auth" by blast
  then obtain sv rst api where run: "daemon_start sample_daemon_lib sample_env sample_penv running_world =
      (Inr (Supervised sv rst, Some api), w)" "sv_project_id sv = ''p1''"
    using rt by (auto simp: daemon_start_def sample_settings sample_build_storage cfg [unfolded fields] Let_def fields id
        start_management_api_if_configured_def m(1))
  from started_daemon_is_supervised [OF run(1)] have "map mt_digest (as_auth api) = [replicate 32 CHR ''t'']"
    by (auto simp: sample_settings m sample_daemon_lib_def)
  with run show ?thesis by metis
qed

end
