(* ===== verification/Realtime_Session.thy ===== *)
theory Realtime_Session
  imports Api_Realtime
begin

text \<open>
  Properties of the realtime streams: which events a subscriber sees, and a WebSocket session as a state machine
  of client messages and telemetry inputs, with the filter that is in force and the send queue.
\<close>

section \<open>Topic prefixes and filters\<close>

lemma split_on_append: "split_on c (p @ c # s) = split_on c p @ split_on c s"
proof (induction p)
  case (Cons x xs)
  then show ?case by (cases "split_on c xs") auto
qed simp

lemma join_append: "ps \<noteq> [] \<Longrightarrow> qs \<noteq> [] \<Longrightarrow> join_with c (ps @ qs) = join_with c ps @ c # join_with c qs"
proof (induction c ps rule: join_with.induct)
  case (2 c p)
  then show ?case by (cases qs) simp_all
qed auto

text \<open>A topic prefix selects whole levels of the topic.\<close>

lemma topic_prefix_levels: "topic_matches_prefix t p \<longleftrightarrow> prefix (split_on CHR ''/'' p) (split_on CHR ''/'' t)"
proof
  assume "topic_matches_prefix t p"
  then consider "t = p" | r where "t = p @ CHR ''/'' # r"
    by (auto simp: topic_matches_prefix_def prefix_def split: option.splits)
  then show "prefix (split_on CHR ''/'' p) (split_on CHR ''/'' t)"
    by cases (simp_all add: split_on_append)
next
  assume "prefix (split_on CHR ''/'' p) (split_on CHR ''/'' t)"
  then obtain ys where ys: "split_on CHR ''/'' t = split_on CHR ''/'' p @ ys" by (auto simp: prefix_def)
  then have t: "t = join_with CHR ''/'' (split_on CHR ''/'' p @ ys)" using join_split [of "CHR ''/''" t] by simp
  show "topic_matches_prefix t p"
  proof (cases "ys = []")
    case True
    with t show ?thesis by (simp add: topic_matches_prefix_def)
  next
    case False
    with t have "t = p @ CHR ''/'' # join_with CHR ''/'' ys" by (simp add: join_append)
    then show ?thesis by (auto simp: topic_matches_prefix_def split: option.splits)
  qed
qed

text \<open>What a filter asks for: every field that is set.\<close>

definition wanted :: "realtime_filter \<Rightarrow> normalized_event \<Rightarrow> bool" where
  "wanted f e \<longleftrightarrow>
     (\<forall>x. xf_device_id f = Some x \<longrightarrow> ev_device_id e = Some x) \<and>
     (\<forall>x. xf_topic f = Some x \<longrightarrow> ev_topic e = x) \<and>
     (\<forall>x. xf_topic_prefix f = Some x \<longrightarrow> prefix (split_on CHR ''/'' x) (split_on CHR ''/'' (ev_topic e))) \<and>
     (\<forall>x. xf_event_type f = Some x \<longrightarrow> ev_event_type e = x) \<and>
     (\<forall>x. xf_route_id f = Some x \<longrightarrow> ev_route_id e = x)"

lemma matches_iff_wanted: "realtime_filter_matches f e \<longleftrightarrow> wanted f e"
  by (auto simp: realtime_filter_matches_def wanted_def topic_prefix_levels split: option.splits)

lemma sse_loop_shows:
  "sse_loop lib f rs =
     concat (map (\<lambda>r. case r of
                    RecvEvent e \<Rightarrow> if wanted f e then [ServerEvent (event_response_from lib e)] else []
                  | RecvLagged n \<Rightarrow> [ServerLagged n]
                  | RecvClosed \<Rightarrow> [])
             (takeWhile (\<lambda>r. r \<noteq> RecvClosed) rs))"
  by (induction lib f rs rule: sse_loop.induct) (simp_all add: matches_iff_wanted)

text \<open>A stream of server-sent events opens with the filter in force and then shows, in the order of the broadcast and
  until it closes, exactly the events that meet every field of the filter (a topic prefix is a prefix of whole
  topic levels), and a notice for every gap.\<close>

lemma sse_shows_exactly_the_wanted_events:
  "sse_stream lib f rs = ServerReady ''sse'' f #
     concat (map (\<lambda>r. case r of
                    RecvEvent e \<Rightarrow> if wanted f e then [ServerEvent (event_response_from lib e)] else []
                  | RecvLagged n \<Rightarrow> [ServerLagged n]
                  | RecvClosed \<Rightarrow> [])
             (takeWhile (\<lambda>r. r \<noteq> RecvClosed) rs))"
  by (simp add: sse_stream_def sse_loop_shows)

section \<open>Trimming twice\<close>

lemma trim_front_done: "strip_any ps (trim_front ps s) = None"
proof (induction ps s rule: trim_front.induct)
  case (1 ps s)
  then show ?case by (cases "strip_any ps s") (simp_all add: trim_front.simps [of ps s])
qed

lemma trim_front_id: "strip_any ps s = None \<Longrightarrow> trim_front ps s = s"
  by (simp add: trim_front.simps [of ps s])

lemma trim_idem [simp]: "trim (trim s) = trim s"
proof -
  obtain bs where bs: "trim_start s = trim s @ bs"
    using trim_front_suffix [of "map rev ws_encodings" "rev (trim_start s)"]
    by (auto simp: suffix_def trim_def trim_end_def) (metis rev_append rev_rev_ident)
  have "strip_any ws_encodings (trim_start s) = None" by (simp add: trim_start_def trim_front_done)
  then have "strip_any ws_encodings (trim s) = None"
    unfolding bs strip_any_None by (auto simp: prefix_def)
  then have start: "trim_start (trim s) = trim s" by (simp add: trim_start_def trim_front_id)
  have "strip_any (map rev ws_encodings) (rev (trim s)) = None"
    by (simp add: trim_def trim_end_def trim_front_done)
  then have "trim_end (trim s) = trim s" by (simp add: trim_end_def trim_front_id)
  with start show ?thesis by (simp add: trim_def [of "trim s"])
qed

lemma normalized_idem [simp]: "filter_normalized (filter_normalized f) = filter_normalized f"
proof -
  have "normalize_optional (normalize_optional v) = normalize_optional v" for v
    by (cases v) (simp_all add: normalize_optional_def)
  then show ?thesis by (simp add: filter_normalized_def)
qed

lemma parsed_filter: "parse_realtime_filter req = Inr f \<Longrightarrow> validate_realtime_filter f = Inr () \<and> filter_normalized f = f"
  by (auto simp: parse_realtime_filter_def Let_def)

section \<open>A WebSocket session\<close>

text \<open>
  The handler of a socket: the loop of \<^verbatim>\<open>Web_Socket\<close> over the frames of the client and the steps of the telemetry
  task, which runs while it watches the filter and is aborted when the loop ends. A task that found the queue full
  spends its next step, whatever its input, on the close frame, and ends; the loop may have received in between.
\<close>

definition telemetry_task ::
    "ws_lib \<Rightarrow> (ws_message, 'q) try_send \<Rightarrow> telemetry_input \<Rightarrow> (realtime_filter, 'q) ws_session \<Rightarrow> (realtime_filter, 'q) ws_session" where
  "telemetry_task lib ts i s =
     (case wx_task s of
        TaskRunning \<Rightarrow> telemetry_step lib ts i s
      | TaskOverflowed \<Rightarrow> task_gives_up ts s
      | TaskOver \<Rightarrow> s)"

definition handle_socket ::
    "ws_lib \<Rightarrow> (ws_message, 'q) try_send \<Rightarrow> (ws_message, 'q) receiver \<Rightarrow> realtime_filter \<Rightarrow> telemetry_input socket_input list \<Rightarrow>
     'q \<Rightarrow> bool \<times> (realtime_filter, 'q) ws_session socket" where
  "handle_socket lib ts rx f inputs q =
     (case socket_loop (handle_client_message lib ts) (telemetry_task lib ts) (session_recv rx) inputs
             \<lparr>ho_session = session_start lib ts f q, ho_sent = []\<rparr> of
        (ended, so) \<Rightarrow>
          (ended, if ended then so\<lparr>ho_session := (ho_session so)\<lparr>wx_task := TaskOver\<rparr>\<rparr> else so))"

lemma send_keeps_filter:
  "wx_filter (snd (session_send lib ts m s)) = wx_filter s" "wx_filter (telemetry_send lib ts m s) = wx_filter s"
  by (auto simp: session_send_def telemetry_send_def task_send_def split: prod.splits sum.splits)

lemma telemetry_keeps_filter: "wx_filter (telemetry_task lib ts i s) = wx_filter s"
  by (cases "(lib, ts, i, s)" rule: telemetry_step.cases; cases "wx_task s")
    (simp_all add: telemetry_task_def send_keeps_filter task_gives_up_def)

lemma recv_keeps_filter: "session_recv rx s = (r, s') \<Longrightarrow> wx_filter s' = wx_filter s"
  by (auto simp: session_recv_def split: prod.splits)

text \<open>The filter in force meets the checks and is normalized.\<close>

definition filter_ok :: "realtime_filter \<Rightarrow> bool" where
  "filter_ok f \<longleftrightarrow> validate_realtime_filter f = Inr () \<and> filter_normalized f = f"

lemma send_result: "session_send lib ts m s = (r, s') \<Longrightarrow> wx_filter s' = wx_filter s"
  using send_keeps_filter(1) [of lib ts m s] by simp

lemma client_filter_ok:
  assumes "handle_client_message lib ts m s = (r, s')" "filter_ok (wx_filter s)"
  shows "filter_ok (wx_filter s')"
  using assms by (auto simp: handle_client_message_def filter_ok_def Let_def
      split: ws_message.splits sum.splits realtime_client_message.splits if_splits dest!: send_result)

lemma socket_filter_ok:
  assumes "handle_socket lib ts rx f inputs q = (ended, so)" "filter_ok f"
  shows "filter_ok (wx_filter (ho_session so))"
proof -
  obtain so1 where loop: "socket_loop (handle_client_message lib ts) (telemetry_task lib ts) (session_recv rx) inputs
      \<lparr>ho_session = session_start lib ts f q, ho_sent = []\<rparr> = (ended, so1)"
    and so: "wx_filter (ho_session so) = wx_filter (ho_session so1)"
    using assms(1) by (auto simp: handle_socket_def split: prod.splits)
  have "filter_ok (wx_filter (ho_session so1))"
  proof (rule socket_loop_invariant [where P = "\<lambda>s. filter_ok (wx_filter s)", OF _ _ _ loop])
    show "filter_ok (wx_filter (ho_session \<lparr>ho_session = session_start lib ts f q, ho_sent = []\<rparr>))"
      using assms(2) by (simp add: session_start_def send_keeps_filter)
  qed (simp_all add: client_filter_ok telemetry_keeps_filter recv_keeps_filter)
  with so show ?thesis by simp
qed

text \<open>What a subscription of the client does: a bad filter ends the session, a good one is put in force.\<close>

lemma socket_bad_filter:
  assumes "handle_socket lib ts rx f inputs q = (False, so)" "wl_from_str lib body = Inr (ClientSubscribe f0)"
    and "isl (validate_realtime_filter (filter_normalized f0))"
  shows "\<exists>so'. handle_socket lib ts rx f (inputs @ InboundFrame (WsText body) # rest) q = (True, so') \<and>
           wx_filter (ho_session so') = wx_filter (ho_session so) \<and> ho_sent so' = ho_sent so"
proof -
  have "handle_client_message lib ts (WsText body) s = (Inl (), s)" for s
    using assms(2,3) by (cases "validate_realtime_filter (filter_normalized f0)") (simp_all add: handle_client_message_def)
  then show ?thesis
    using assms(1) by (auto simp: handle_socket_def socket_loop_append split: prod.splits)
qed

lemma socket_good_filter:
  assumes "handle_socket lib ts rx f inputs q = (False, so)" "wl_from_str lib body = Inr (ClientSubscribe f0)"
    and "\<not> isl (validate_realtime_filter (filter_normalized f0))" "wx_watched (ho_session so)"
  shows "\<exists>so'. handle_socket lib ts rx f (inputs @ [InboundFrame (WsText body)]) q = (False, so') \<and>
           wx_filter (ho_session so') = filter_normalized f0"
proof -
  have "handle_client_message lib ts (WsText body) (ho_session so) = (Inr (), (ho_session so)\<lparr>wx_filter := filter_normalized f0\<rparr>)"
    using assms(2-4) by (cases "validate_realtime_filter (filter_normalized f0)") (simp_all add: handle_client_message_def)
  then show ?thesis
    using assms(1) by (auto simp: handle_socket_def socket_loop_append split: prod.splits)
qed

text \<open>C30: from the filter of the request on, whatever the client sends and however its messages interleave with the
  telemetry, the heartbeat and the queue, the filter in force is always one the checks accept, in its trimmed
  form, and no topic or prefix in it is ever blank or has a wildcard. A subscription to a bad filter ends an open
  session, with the filter and what was sent as they were, whatever would have come after it; one to a good filter
  is put in force, in its trimmed form, as long as the telemetry task watches.\<close>

theorem session_filter_is_always_valid:
  assumes "parse_realtime_filter req = Inr f"
    and "handle_socket lib ts rx (filter_normalized f) inputs q = (ended, so)"
  shows "validate_realtime_filter (wx_filter (ho_session so)) = Inr () \<and>
         filter_normalized (wx_filter (ho_session so)) = wx_filter (ho_session so) \<and>
         (\<forall>x \<in> set_option (xf_topic (wx_filter (ho_session so))) \<union> set_option (xf_topic_prefix (wx_filter (ho_session so))).
            \<not> is_blank x \<and> CHR ''+'' \<notin> set x \<and> CHR ''#'' \<notin> set x) \<and>
         (\<forall>body f0. \<not> ended \<and> wl_from_str lib body = Inr (ClientSubscribe f0) \<longrightarrow>
            (if isl (validate_realtime_filter (filter_normalized f0))
             then \<forall>rest. \<exists>so'. handle_socket lib ts rx (filter_normalized f) (inputs @ InboundFrame (WsText body) # rest) q = (True, so') \<and>
                    wx_filter (ho_session so') = wx_filter (ho_session so) \<and> ho_sent so' = ho_sent so
             else wx_watched (ho_session so) \<longrightarrow>
                  (\<exists>so'. handle_socket lib ts rx (filter_normalized f) (inputs @ [InboundFrame (WsText body)]) q = (False, so') \<and>
                     wx_filter (ho_session so') = filter_normalized f0)))"
proof -
  have "filter_ok (filter_normalized f)" using parsed_filter [OF assms(1)] by (simp add: filter_ok_def)
  from socket_filter_ok [OF assms(2) this] have valid: "validate_realtime_filter (wx_filter (ho_session so)) = Inr ()"
      "filter_normalized (wx_filter (ho_session so)) = wx_filter (ho_session so)"
    by (simp_all add: filter_ok_def)
  have "\<forall>x \<in> set_option (xf_topic (wx_filter (ho_session so))) \<union> set_option (xf_topic_prefix (wx_filter (ho_session so))).
      \<not> is_blank x \<and> CHR ''+'' \<notin> set x \<and> CHR ''#'' \<notin> set x"
    using valid(1) by (auto simp: validate_realtime_filter_def validate_topic_like_def is_blank_def
        split: if_splits option.splits)
  with valid assms(2) show ?thesis by (simp add: socket_bad_filter socket_good_filter)
qed

section \<open>What a client receives\<close>

lemma session_send_adds:
  assumes "mpsc_law ts view" "session_send lib ts m s = (r, s')"
  shows "adds_texts (vq_items (view (wx_queue s))) (vq_items (view (wx_queue s'))) \<and> closes_left s' = closes_left s"
  using send_json_appends [OF assms(1), of "wx_queue s" "wl_to_string lib" m] assms(2)
  by (auto simp: session_send_def closes_left_def wx_watched_def split: prod.splits)

lemma client_adds:
  assumes "mpsc_law ts view" "handle_client_message lib ts m s = (r, s')"
  shows "adds_texts (vq_items (view (wx_queue s))) (vq_items (view (wx_queue s'))) \<and> closes_left s' = closes_left s"
  using assms(2)
  by (auto simp: handle_client_message_def Let_def closes_left_def wx_watched_def dest: session_send_adds [OF assms(1)]
      split: ws_message.splits sum.splits realtime_client_message.splits if_splits)

lemma telemetry_send_adds:
  assumes "mpsc_law ts view" "wx_task s = TaskRunning"
  shows "closes_left (telemetry_send lib ts m s) \<le> closes_left s \<and>
    adds_frames (closes_left s - closes_left (telemetry_send lib ts m s))
      (vq_items (view (wx_queue s))) (vq_items (view (wx_queue (telemetry_send lib ts m s))))"
  unfolding telemetry_send_def
  by (intro conjI task_send_closes task_send_frames [OF assms(1)]) (simp add: wx_watched_def assms(2))

lemma telemetry_step_adds:
  assumes "mpsc_law ts view" "wx_task s = TaskRunning"
  shows "closes_left (telemetry_step lib ts i s) \<le> closes_left s \<and>
    adds_frames (closes_left s - closes_left (telemetry_step lib ts i s))
      (vq_items (view (wx_queue s))) (vq_items (view (wx_queue (telemetry_step lib ts i s))))"
  using assms(2)
  by (cases "(lib, ts, i, s)" rule: telemetry_step.cases)
    (simp_all add: telemetry_send_adds [OF assms(1)])

lemma telemetry_adds:
  assumes "mpsc_law ts view"
  shows "closes_left (telemetry_task lib ts i s) \<le> closes_left s \<and>
    adds_frames (closes_left s - closes_left (telemetry_task lib ts i s))
      (vq_items (view (wx_queue s))) (vq_items (view (wx_queue (telemetry_task lib ts i s))))"
proof (cases "wx_task s")
  case TaskRunning
  with telemetry_step_adds [OF assms] show ?thesis by (simp add: telemetry_task_def)
next
  case TaskOverflowed
  with task_gives_up_frames [OF assms, of s] show ?thesis
    by (simp add: telemetry_task_def closes_left_def wx_watched_def task_gives_up_def)
qed (simp add: telemetry_task_def)

interpretation realtime_socket: socket_service
  "\<lambda>(lib, ts, rx, view). handle_client_message lib ts" "\<lambda>(lib, ts, rx, view). telemetry_task lib ts"
  "\<lambda>(lib, ts, rx, view). session_recv rx" "\<lambda>(lib, ts, rx, view) s. vq_items (view (wx_queue s))" closes_left
  "\<lambda>(lib, ts, rx, view). mpsc_law ts view \<and> recv_law rx view"
proof (unfold_locales, goal_cases)
  case (1 l m s r s')
  then show ?case by (cases l) (auto dest: client_adds)
next
  case (2 l i s)
  then show ?case by (cases l) (use telemetry_adds in fastforce)
next
  case (3 l s x s')
  obtain lib ts rx view where l: "l = (lib, ts, rx, view)" by (cases l)
  obtain q where rx: "rx (wx_queue s) = (x, q)" "s' = s\<lparr>wx_queue := q\<rparr>"
    using 3(2) by (auto simp: l session_recv_def split: prod.splits)
  have "recv_law rx view" using 3(1) by (simp add: l)
  from recv_law_items [OF this rx(1)] show ?case
    by (cases x) (simp_all add: l rx(2) closes_left_def wx_watched_def)
qed

text \<open>C29: a client of the stream receives what was queued for it, in that order: from any moment of an open session on,
  the frames that go out, the heartbeats apart, are those waiting in the queue and behind them what is queued
  later, with nothing skipped, repeated or overtaken; only the frame whose send failed is lost, and then
  the session is over. All of them are texts, except that a queue that was full for the telemetry task may
  put the close frame behind them: once in a session, and then the task is over.\<close>

theorem socket_delivers_in_order:
  assumes "mpsc_law ts view" "recv_law rx view" "vq_items (view q) = []"
    and "handle_socket lib ts rx f is1 q = (False, so1)" "handle_socket lib ts rx f (is1 @ is2) q = (ended, so2)"
  shows "\<exists>put frames lost. ho_sent so2 = ho_sent so1 @ frames \<and>
           vq_items (view (wx_queue (ho_session so1))) @ put =
             filter (\<lambda>m. m \<noteq> WsPing) frames @ lost @ vq_items (view (wx_queue (ho_session so2))) \<and>
           list_all (\<lambda>m. is_text_frame m \<or> m = WsClose 1011 ''client send queue full'')
             (vq_items (view (wx_queue (ho_session so1))) @ put) \<and>
           length (filter (\<lambda>m. \<not> is_text_frame m) (vq_items (view (wx_queue (ho_session so1))) @ put)) \<le> 1 \<and>
           (\<not> list_all is_text_frame (vq_items (view (wx_queue (ho_session so1))) @ put) \<longrightarrow>
              wx_task (ho_session so2) = TaskOver) \<and>
           length lost \<le> 1 \<and> (lost \<noteq> [] \<longrightarrow> ended)"
proof -
  let ?l = "(lib, ts, rx, view)"
  let ?so = "\<lparr>ho_session = session_start lib ts f q, ho_sent = []\<rparr>"
  let ?loop = "socket_loop (handle_client_message lib ts) (telemetry_task lib ts) (session_recv rx)"
  let ?q1 = "vq_items (view (wx_queue (ho_session so1)))"
  let ?c = "\<lambda>so. closes_left (ho_session so)"
  have start: "realtime_socket.frames_ok 0 (vq_items (view (wx_queue (ho_session ?so))))" "?c ?so \<le> 1"
  proof -
    have "adds_texts [] (vq_items (view (wx_queue (ho_session ?so))))"
      using task_send_appends [OF assms(1), of "\<lparr>wx_filter = f, wx_task = TaskRunning, wx_queue = q\<rparr>"
          "wl_to_string lib" "ServerReady ''websocket'' f"] assms(3)
      by (simp add: session_start_def telemetry_send_def)
    then show "realtime_socket.frames_ok 0 (vq_items (view (wx_queue (ho_session ?so))))"
      by (auto simp: adds_texts_def realtime_socket.frames_ok_def text_not_close list_all_iff)
  qed (simp add: closes_left_def)
  have l1: "?loop is1 ?so = (False, so1)"
    using assms(4) by (auto simp: handle_socket_def split: prod.splits if_splits)
  obtain so3 where l2: "?loop (is1 @ is2) ?so = (ended, so3)" and so2: "ho_sent so2 = ho_sent so3"
      "wx_queue (ho_session so2) = wx_queue (ho_session so3)"
      "wx_task (ho_session so3) = TaskOver \<Longrightarrow> wx_task (ho_session so2) = TaskOver"
    using assms(5) by (auto simp: handle_socket_def split: prod.splits if_splits)
  have d: "realtime_socket.frames_ok (?c ?so - ?c so1) ?q1"
      "realtime_socket.accounted ?l (ho_session so1) (ho_sent so1) ended so3"
    using realtime_socket.loop_delivers [of ?l 0 ?so is1 so1 is2 ended so3] l1 l2 start(1) assms(1,2) by simp_all
  then obtain put frames lost where a: "ho_sent so3 = ho_sent so1 @ frames"
      "?q1 @ put = filter (\<lambda>m. m \<noteq> WsPing) frames @ lost @ vq_items (view (wx_queue (ho_session so3)))"
      "?c so3 \<le> ?c so1" "realtime_socket.frames_ok (?c so1 - ?c so3) put" "length lost \<le> 1" "lost \<noteq> [] \<longrightarrow> ended"
    by (auto simp: realtime_socket.accounted_def)
  have all: "realtime_socket.frames_ok (1 - ?c so3) (?q1 @ put)"
  proof -
    have "?c so1 \<le> 1" by (simp add: closes_left_def)
    with d(1) a(3,4) start(2) show ?thesis by (auto simp: realtime_socket.frames_ok_def)
  qed
  show ?thesis
    using a(1,2,5,6) socket_frames_ok [OF all [unfolded realtime_socket.frames_ok_def, THEN conjunct1]
        all [unfolded realtime_socket.frames_ok_def, THEN conjunct2]] so2
    by (intro exI [where x = put] exI [where x = frames] exI [where x = lost]) auto
qed

section \<open>A client that is too slow\<close>

text \<open>When the send queue is full for an answer to the client, the session gives up, but the close frame that should tell
  the client so is sent to the same full queue: it is dropped, and the queue holds what it held.\<close>

lemma overflow_close_is_lost:
  assumes "mpsc_law ts view"
    and "to_string m = Inr body" "fst (ts (WsText body) q) = Inl (Full (WsText body))"
  shows "fst (send_json_message to_string ts m q) = Inl () \<and> view (snd (send_json_message to_string ts m q)) = view q"
proof -
  have part: "send_json_text to_string ts m q = (Inl True, snd (ts (WsText body) q))"
    using assms(2,3) by (cases "ts (WsText body) q") (simp add: send_json_text_def)
  from send_json_text_appends(2) [OF assms(1) part] show ?thesis
    by (simp add: send_json_message_def part send_overflow_close_def mpsc_parts [OF assms(1)] vq_try_send_def)
qed

text \<open>The telemetry task fares the same, unless the loop takes a frame from the queue between its two sends: then there is
  room for the close frame.\<close>

lemma task_close_needs_room:
  assumes "mpsc_law ts view" "wx_task s = TaskOverflowed"
  shows "wx_task (telemetry_task lib ts i s) = TaskOver \<and>
         vq_items (view (wx_queue (telemetry_task lib ts i s))) = vq_items (view (wx_queue s)) @
           (if vq_closed (view (wx_queue s)) \<or> vq_capacity (view (wx_queue s)) \<le> length (vq_items (view (wx_queue s)))
            then [] else [WsClose 1011 ''client send queue full''])"
  using task_gives_up_appends [OF assms(1), of s] assms(2)
  by (simp add: telemetry_task_def overflow_close_def) (simp add: task_gives_up_def)

section \<open>Examples\<close>

definition sample_ws_lib :: ws_lib where
  "sample_ws_lib =
     \<lparr>wl_events = \<lparr>xl_base64 = (\<lambda>s. s), xl_show_time = (\<lambda>_. ''now'')\<rparr>, wl_to_string = (\<lambda>_. Inr ''{}''),
      wl_from_str = (\<lambda>s. Inr (ClientSubscribe \<lparr>xf_device_id = None, xf_topic = Some s, xf_topic_prefix = None,
                                               xf_event_type = None, xf_route_id = None\<rparr>))\<rparr>"

definition open_request :: api_request where
  "open_request =
     \<lparr>rq_path = Map.empty, rq_query = Map.empty, rq_authorization = None, rq_content_length = None, rq_payload = Inr []\<rparr>"

definition open_filter :: realtime_filter where
  "open_filter =
     \<lparr>xf_device_id = None, xf_topic = None, xf_topic_prefix = None, xf_event_type = None, xf_route_id = None\<rparr>"

definition open_session :: "(realtime_filter, ws_message vec_queue) ws_session" where
  "open_session = session_start sample_ws_lib vq_try_send open_filter \<lparr>vq_capacity = 4, vq_items = [], vq_closed = False\<rparr>"

lemma open_subscribes:
  "handle_client_message sample_ws_lib vq_try_send (WsText '' a/b '') open_session =
     (Inr (), open_session\<lparr>wx_filter := open_filter\<lparr>xf_topic := Some ''a/b''\<rparr>\<rparr>)"
  "parse_realtime_filter open_request = Inr open_filter" "filter_normalized open_filter = open_filter"
  by code_simp+

lemma open_socket:
  "handle_socket sample_ws_lib vq_try_send vq_recv (filter_normalized open_filter) [InboundFrame (WsText '' a/b '')]
     \<lparr>vq_capacity = 4, vq_items = [], vq_closed = False\<rparr> =
   (False, \<lparr>ho_session = open_session\<lparr>wx_filter := open_filter\<lparr>xf_topic := Some ''a/b''\<rparr>\<rparr>, ho_sent = []\<rparr>)"
  using open_subscribes by (simp add: handle_socket_def open_session_def)

theorem session_filter_is_always_valid_witness:
  "\<exists>so. handle_socket sample_ws_lib vq_try_send vq_recv (filter_normalized open_filter) [InboundFrame (WsText '' a/b '')]
          \<lparr>vq_capacity = 4, vq_items = [], vq_closed = False\<rparr> = (False, so) \<and>
        xf_topic (wx_filter (ho_session so)) = Some ''a/b'' \<and> \<not> is_blank ''a/b''"
  using session_filter_is_always_valid [OF open_subscribes(2) open_socket] open_socket by simp

lemma open_session_eq:
  "open_session =
     \<lparr>wx_filter = open_filter, wx_task = TaskRunning,
      wx_queue = \<lparr>vq_capacity = 4, vq_items = [WsText ''{}''], vq_closed = False\<rparr>\<rparr>"
  by code_simp

theorem socket_delivers_in_order_witness:
  "\<exists>so. handle_socket sample_ws_lib vq_try_send vq_recv open_filter [HeartbeatTick SendDone, QueueReady SendDone]
          \<lparr>vq_capacity = 4, vq_items = [], vq_closed = False\<rparr> = (False, so) \<and>
        ho_sent so = [WsPing, WsText ''{}'']"
proof -
  let ?q = "\<lparr>vq_capacity = 4, vq_items = [], vq_closed = False\<rparr> :: ws_message vec_queue"
  have start: "session_start sample_ws_lib vq_try_send open_filter ?q = open_session" by (simp add: open_session_def)
  have one: "handle_socket sample_ws_lib vq_try_send vq_recv open_filter [HeartbeatTick SendDone] ?q =
      (False, \<lparr>ho_session = open_session, ho_sent = [WsPing]\<rparr>)"
    by (simp add: handle_socket_def socket_sends_def start)
  have two: "handle_socket sample_ws_lib vq_try_send vq_recv open_filter ([HeartbeatTick SendDone] @ [QueueReady SendDone]) ?q =
      (False, \<lparr>ho_session = open_session\<lparr>wx_queue := ?q\<rparr>, ho_sent = [WsPing, WsText ''{}'']\<rparr>)"
    by (simp add: handle_socket_def socket_sends_def session_recv_def vq_recv_def start) (simp add: open_session_eq socket_sends_def)
  have empty: "vq_items (id ?q) = []" by simp
  from socket_delivers_in_order [OF vec_queue_mpsc vec_queue_recv empty one two] two show ?thesis by auto
qed

end
