(* ===== verification/Mqtt_Workers.thy ===== *)
theory Mqtt_Workers
  imports Command_Processor
begin

text \<open>
  The loops of the router worker and of the command worker of an MQTT engine (\<^verbatim>\<open>mqtt/engine.rs\<close>), each a \<^verbatim>\<open>select!\<close>
  between the shutdown signal and a channel, and what becomes of a command when the signal comes before it.
\<close>

section \<open>The loops\<close>

text \<open>
  The events of a loop: the signal changed (with whether the loop is to end), the channel was ready, or, between two
  rounds, another task put an item into the channel. The select is biased, so a pending signal is seen first.
\<close>

datatype 'a worker_event = ShutdownSeen bool | ChannelReady | OtherTaskSends 'a

fun worker_loop ::
    "('a, 'ch) receiver \<Rightarrow> ('a, 'ch) try_send \<Rightarrow> ('a \<Rightarrow> 's \<Rightarrow> 's) \<Rightarrow> 'a worker_event list \<Rightarrow> 'ch \<times> 's \<Rightarrow> bool \<times> 'ch \<times> 's" where
  "worker_loop rx ts handle [] st = (False, st)"
| "worker_loop rx ts handle (ShutdownSeen stop # es) st = (if stop then (True, st) else worker_loop rx ts handle es st)"
| "worker_loop rx ts handle (ChannelReady # es) (ch, s) =
     (case rx ch of
        (RecvItem a, ch') \<Rightarrow> worker_loop rx ts handle es (ch', handle a s)
      | (RecvEnded, ch') \<Rightarrow> (True, ch', s)
      | (RecvPending, ch') \<Rightarrow> worker_loop rx ts handle es (ch', s))"
| "worker_loop rx ts handle (OtherTaskSends a # es) (ch, s) = worker_loop rx ts handle es (snd (ts a ch), s)"

definition run_router_worker ::
    "(mqtt_message, 'ch) receiver \<Rightarrow> (mqtt_message, 'ch) try_send \<Rightarrow> (telemetry_event \<Rightarrow> 't \<Rightarrow> nat option \<times> 't) \<Rightarrow>
     's mqtt_router \<Rightarrow> mqtt_message worker_event list \<Rightarrow> 'ch \<times> 's \<times> 't \<Rightarrow> bool \<times> 'ch \<times> 's \<times> 't" where
  "run_router_worker rx ts send router = worker_loop rx ts (router_worker_step send router)"

definition run_command_worker ::
    "(mqtt_command, 'ch) receiver \<Rightarrow> (mqtt_command, 'ch) try_send \<Rightarrow> 'cl mqtt_client \<Rightarrow>
     (mqtt_command_publish_outcome, 'o) try_send \<Rightarrow> mqtt_command worker_event list \<Rightarrow>
     'ch \<times> 'cl \<times> 'o option \<Rightarrow> bool \<times> 'ch \<times> 'cl \<times> 'o option" where
  "run_command_worker rx ts client ots = worker_loop rx ts (publish_command client ots)"

section \<open>What a loop handles\<close>

definition ready_count :: "'a worker_event list \<Rightarrow> nat" where
  "ready_count es = length (filter (\<lambda>e. e = ChannelReady) es)"

lemma ready_count_simps [simp]:
  "ready_count [] = 0" "ready_count (ChannelReady # es) = Suc (ready_count es)"
  "ready_count (ShutdownSeen b # es) = ready_count es" "ready_count (OtherTaskSends a # es) = ready_count es"
  by (simp_all add: ready_count_def)

definition others_send :: "'a worker_event list \<Rightarrow> 'a list" where
  "others_send es = concat (map (\<lambda>e. case e of OtherTaskSends a \<Rightarrow> [a] | _ \<Rightarrow> []) es)"

lemma others_send_simps [simp]:
  "others_send [] = []" "others_send (ChannelReady # es) = others_send es"
  "others_send (ShutdownSeen b # es) = others_send es" "others_send (OtherTaskSends a # es) = a # others_send es"
  by (simp_all add: others_send_def)

text \<open>
  A loop handles, in their order, the oldest items of its channel, at most one for each time the channel was ready; what
  it did not handle is still there, behind it what was sent meanwhile.
\<close>

lemma worker_loop_handles:
  assumes "recv_law rx view" "mpsc_law ts view"
  shows "worker_loop rx ts handle es (ch, s) = (stopped, ch', s') \<Longrightarrow>
    \<exists>taken sent. vq_items (view ch) @ sent = taken @ vq_items (view ch') \<and> s' = fold handle taken s \<and>
      length taken \<le> ready_count es \<and> subseq sent (others_send es)"
proof (induction es arbitrary: ch s)
  case (Cons e es)
  show ?case
  proof (cases e)
    case (ShutdownSeen stop)
    show ?thesis
    proof (cases stop)
      case True
      with Cons.prems ShutdownSeen show ?thesis by (intro exI [of _ "[]"]) simp
    next
      case False
      with Cons ShutdownSeen show ?thesis by simp
    qed
  next
    case ChannelReady
    obtain r ch1 where rx: "rx ch = (r, ch1)" by fastforce
    note items = recv_law_items [OF assms(1) rx]
    show ?thesis
    proof (cases r)
      case (RecvItem a)
      with Cons.prems ChannelReady rx have "worker_loop rx ts handle es (ch1, handle a s) = (stopped, ch', s')" by simp
      from Cons.IH [OF this] obtain taken sent where
          "vq_items (view ch1) @ sent = taken @ vq_items (view ch')" "s' = fold handle taken (handle a s)"
          "length taken \<le> ready_count es"
          "subseq sent (others_send es)" by blast
      with items RecvItem ChannelReady show ?thesis by (intro exI [of _ "a # taken"] exI [of _ sent]) simp
    next
      case RecvEnded
      with Cons.prems ChannelReady rx items show ?thesis by (intro exI [of _ "[]"]) simp
    next
      case RecvPending
      with Cons.prems ChannelReady rx have "worker_loop rx ts handle es (ch1, s) = (stopped, ch', s')" by simp
      from Cons.IH [OF this] items RecvPending ChannelReady show ?thesis by (auto intro: le_SucI)
    qed
  next
    case (OtherTaskSends a)
    with Cons.prems have "worker_loop rx ts handle es (snd (ts a ch), s) = (stopped, ch', s')" by simp
    from Cons.IH [OF this] obtain taken sent where ih:
        "vq_items (view (snd (ts a ch))) @ sent = taken @ vq_items (view ch')" "s' = fold handle taken s"
        "length taken \<le> ready_count es"
        "subseq sent (others_send es)" by blast
    consider "vq_items (view (snd (ts a ch))) = vq_items (view ch) @ [a]" | "vq_items (view (snd (ts a ch))) = vq_items (view ch)"
      using mpsc_law_items [OF assms(2), of a ch] by (cases "fst (ts a ch)") simp_all
    then show ?thesis
    proof cases
      case 1
      with ih OtherTaskSends show ?thesis by (intro exI [of _ taken] exI [of _ "a # sent"]) simp
    next
      case 2
      with ih OtherTaskSends show ?thesis by (intro exI [of _ taken] exI [of _ sent]) auto
    qed
  qed
qed simp

section \<open>Commands and the end of an engine\<close>

text \<open>An outcome that is reported when nobody receives outcomes any more is lost.\<close>

lemma late_outcome_is_lost:
  assumes "mpsc_law ots view" "vq_closed (view o')" "publish_command client ots c (cl, Some o') = (cl', tx)"
  shows "\<exists>o''. tx = Some o'' \<and> view o'' = view o'"
  using assms
  by (auto simp: publish_command_def report_command_publish_outcome_def mpsc_law_def vq_try_send_def
      split: prod.splits sum.splits option.splits)

text \<open>C27: an engine that is told to stop does not publish what is still queued: a command of a rule that the processor
  accepted, with its execution on record as queued, stays in the queue when the signal is seen before all the
  commands ahead of it were taken, and everything that is published was ahead of it. Its execution is still
  recorded as queued, and no outcome of it is reported.\<close>

theorem shutdown_strands_accepted_commands:
  assumes "mpsc_law ts view" "recv_law rx view"
    and "\<forall>b \<in> set (cp_brokers cp). cb_sink b = mqtt_sink_try_enqueue_rendered ts"
    and "cx_source req = SourceRule" "process_command_request lib cp req w = (Inr (), w')"
    and "ready_count es \<le> length (vq_items (view (pw_broker w)))"
    and "run_command_worker rx ts client ots (es @ [ShutdownSeen True]) (pw_broker w', st) = (stopped, ch, st')"
  shows "\<exists>command ctx row k. command \<in> set (vq_items (view ch)) \<and>
           mk_context command = Some ctx \<and> mx_command_execution_id ctx = cx_command_execution_id req \<and>
           row \<in> set (db_commands (wd_db (pw_store w'))) \<and> mw_command_execution_id row = cx_command_execution_id req \<and>
           mw_status row = ''queued'' \<and>
           st' = fold (publish_command client ots) (take k (vq_items (view (pw_broker w)))) st"
proof -
  from processed_rule_command [OF assms(1,3-5)] obtain command row ctx where
      q: "vq_items (view (pw_broker w')) = vq_items (view (pw_broker w)) @ [command]"
    and row: "row \<in> set (db_commands (wd_db (pw_store w')))" "mk_context command = Some ctx"
      "mx_command_execution_id ctx = cx_command_execution_id req"
      "mw_command_execution_id row = cx_command_execution_id req" "mw_status row = ''queued''"
    by (elim exE conjE) (rule that; simp)
  from worker_loop_handles [OF assms(2,1) assms(7) [unfolded run_command_worker_def]] obtain taken sent where
      t: "vq_items (view (pw_broker w')) @ sent = taken @ vq_items (view ch)"
        "st' = fold (publish_command client ots) taken st" "length taken \<le> ready_count (es @ [ShutdownSeen True])"
    by blast
  let ?ahead = "vq_items (view (pw_broker w))"
  have "length taken \<le> length ?ahead" using t(3) assms(6) by (simp add: ready_count_def)
  moreover have eq: "?ahead @ command # sent = taken @ vq_items (view ch)" using t(1) unfolding q by simp
  have "take (length taken) (?ahead @ command # sent) = taken"
      "drop (length taken) (?ahead @ command # sent) = vq_items (view ch)"
    unfolding eq by simp_all
  ultimately have "take (length taken) ?ahead = taken" "drop (length taken) ?ahead @ command # sent = vq_items (view ch)"
    by simp_all
  then have "st' = fold (publish_command client ots) (take (length taken) ?ahead) st" "command \<in> set (vq_items (view ch))"
    using t(2) by (simp, metis in_set_conv_decomp)
  with row show ?thesis
    by (intro exI [of _ command] exI [of _ ctx] exI [of _ row] exI [of _ "length taken"]) simp
qed

theorem shutdown_strands_accepted_commands_witness:
  "\<exists>w' ch command row.
     process_command_request sample_lib (sample_processor (Some sample_storage)) running_request sample_processor_world =
       (Inr (), w') \<and>
     run_command_worker vq_recv vq_try_send sample_client vq_try_send [ShutdownSeen True] (pw_broker w', 0, None) =
       (True, ch, 0, None) \<and>
     command \<in> set (vq_items ch) \<and> row \<in> set (db_commands (wd_db (pw_store w'))) \<and>
     mw_command_execution_id row = ''command_exec_1'' \<and> mw_status row = ''queued''"
proof -
  obtain w' where run: "process_command_request sample_lib (sample_processor (Some sample_storage)) running_request
      sample_processor_world = (Inr (), w')" using sample_processed(2) by blast
  have req: "cx_source running_request = SourceRule" "cx_command_execution_id running_request = ''command_exec_1''"
    by (simp_all add: running_request_def)
  have brokers: "\<forall>b \<in> set (cp_brokers (sample_processor (Some sample_storage))).
      cb_sink b = mqtt_sink_try_enqueue_rendered vq_try_send"
    by (simp add: sample_processor_def build_command_processor_def)
  have stop: "run_command_worker vq_recv vq_try_send sample_client vq_try_send ([] @ [ShutdownSeen True])
      (pw_broker w', (0, None)) = (True, pw_broker w', (0, None))"
    by (simp add: run_command_worker_def)
  have none: "ready_count ([] :: mqtt_command worker_event list) \<le> length (vq_items (id (pw_broker sample_processor_world)))"
    by simp
  from shutdown_strands_accepted_commands [OF vec_queue_mpsc vec_queue_recv brokers req(1) run none stop] req(2) run stop
  show ?thesis by auto
qed

end
