(* ===== verification/Bridge.thy ===== *)
theory Bridge
  imports Realtime_Session Mqtt_Workers
begin

text \<open>
  The older realtime bridge of the core crate (\<^verbatim>\<open>web/realtime\<close>): raw telemetry of the MQTT engine over server-sent
  events and WebSockets, and commands over HTTP and WebSockets. The socket loop and the trimming of filter fields and the
  prefix test, which both services write the same way, are those of \<^verbatim>\<open>Web_Socket\<close> and \<^verbatim>\<open>Api_Realtime\<close>.
\<close>

section \<open>Filters\<close>

datatype status_error = StatusError nat string

record telemetry_filter =
  tf_device :: "string option"
  tf_topic :: "string option"
  tf_topic_prefix :: "string option"
  tf_event_type :: "string option"

definition telemetry_filter_normalized :: "telemetry_filter \<Rightarrow> telemetry_filter" where
  "telemetry_filter_normalized f =
     \<lparr>tf_device = normalize_optional (tf_device f), tf_topic = normalize_optional (tf_topic f),
      tf_topic_prefix = normalize_optional (tf_topic_prefix f), tf_event_type = normalize_optional (tf_event_type f)\<rparr>"

definition device_namespace :: "string \<Rightarrow> bool" where
  "device_namespace ns \<longleftrightarrow> ns = ''devices'' \<or> ns = ''device''"

definition telemetry_device :: "string \<Rightarrow> string option" where
  "telemetry_device topic =
     (case split_on CHR ''/'' topic of
        [] \<Rightarrow> None
      | ns # rest \<Rightarrow>
          if device_namespace ns
          then (case rest of [] \<Rightarrow> None | device # _ \<Rightarrow> if device \<noteq> [] then Some device else None)
          else None)"

definition telemetry_event_type :: "string \<Rightarrow> string option" where
  "telemetry_event_type topic =
     (case split_on CHR ''/'' topic of
        ns # _ # kind # rest \<Rightarrow>
          if \<not> device_namespace ns then None
          else if kind = ''telemetry'' then Some ''telemetry''
          else if kind = ''status'' then Some ''status''
          else if kind = ''event''
          then (case rest of [] \<Rightarrow> None | event_type # _ \<Rightarrow> if event_type \<noteq> [] then Some event_type else None)
          else None
      | _ \<Rightarrow> None)"

definition telemetry_filter_matches :: "telemetry_filter \<Rightarrow> telemetry_event \<Rightarrow> bool" where
  "telemetry_filter_matches f e =
     (if (case tf_device f of None \<Rightarrow> False | Some x \<Rightarrow> telemetry_device (te_topic e) \<noteq> Some x) then False
      else if (case tf_topic f of None \<Rightarrow> False | Some x \<Rightarrow> te_topic e \<noteq> x) then False
      else if (case tf_topic_prefix f of None \<Rightarrow> False | Some x \<Rightarrow> \<not> topic_matches_prefix (te_topic e) x) then False
      else if (case tf_event_type f of None \<Rightarrow> False | Some x \<Rightarrow> telemetry_event_type (te_topic e) \<noteq> Some x) then False
      else True)"

definition bridge_validate_topic_like :: "string \<Rightarrow> string \<Rightarrow> status_error + unit" where
  "bridge_validate_topic_like name v =
     (if trim v = [] \<or> CHR ''+'' \<in> set v \<or> CHR ''#'' \<in> set v
      then Inl (StatusError 400 (name @ '' must not be empty and must not contain MQTT wildcards'')) else Inr ())"

definition bridge_validate_simple_filter_value :: "string \<Rightarrow> string \<Rightarrow> status_error + unit" where
  "bridge_validate_simple_filter_value name v =
     (if trim v = [] \<or> CHR ''/'' \<in> set v \<or> CHR ''+'' \<in> set v \<or> CHR ''#'' \<in> set v
      then Inl (StatusError 400 (name @ '' must be a non-empty single topic segment'')) else Inr ())"

definition validate_telemetry_filter :: "telemetry_filter \<Rightarrow> status_error + unit" where
  "validate_telemetry_filter f =
     res_bind (opt_check (bridge_validate_topic_like ''topic'') (tf_topic f)) (\<lambda>_.
     res_bind (opt_check (bridge_validate_topic_like ''topic_prefix'') (tf_topic_prefix f)) (\<lambda>_.
     res_bind (opt_check (bridge_validate_simple_filter_value ''device'') (tf_device f)) (\<lambda>_.
     opt_check (bridge_validate_simple_filter_value ''event_type'') (tf_event_type f))))"

text \<open>The parameters of the query come as a function; the checks run on them as they are, before they are trimmed.\<close>

definition parse_telemetry_filter :: "(string \<Rightarrow> string option) \<Rightarrow> status_error + telemetry_filter" where
  "parse_telemetry_filter query =
     (let f = \<lparr>tf_device = query ''device'', tf_topic = query ''topic'', tf_topic_prefix = query ''topic_prefix'',
               tf_event_type = query ''event_type''\<rparr>
      in res_bind (validate_telemetry_filter f) (\<lambda>_. Inr f))"

section \<open>Messages\<close>

record telemetry_payload =
  tp_topic :: string
  tp_device :: "string option"
  tp_event_type :: "string option"
  tp_payload_base64 :: string
  tp_payload_utf8 :: "string option"
  tp_received_at_ms :: nat

text \<open>\<open>b64\<close> is the base64 encoder of the library; \<^verbatim>\<open>system_time_ms\<close> is the same function as the one of \<^verbatim>\<open>command.rs\<close>.\<close>

definition telemetry_payload_from :: "(string \<Rightarrow> string) \<Rightarrow> telemetry_event \<Rightarrow> telemetry_payload" where
  "telemetry_payload_from b64 e =
     \<lparr>tp_topic = te_topic e, tp_device = telemetry_device (te_topic e), tp_event_type = telemetry_event_type (te_topic e),
      tp_payload_base64 = b64 (te_payload e),
      tp_payload_utf8 = (if valid_utf8 (te_payload e) then Some (te_payload e) else None),
      tp_received_at_ms = unix_time_ms (te_received_at e)\<rparr>"

text \<open>The snapshot of a filter has the fields of the filter.\<close>

datatype bridge_server_message =
  BridgeReady string telemetry_filter
| BridgeTelemetry telemetry_payload
| BridgeCommandQueue command_queue_receipt
| BridgeLagged u64
| BridgeFilterUpdated telemetry_filter
| BridgeError string

datatype bridge_client_message = BridgeSubscribe telemetry_filter | BridgeCommand command_request | BridgePing

record bridge_lib =
  bl_serde :: serde_lib
  bl_b64_decode :: "string \<Rightarrow> string + string"
  bl_b64_encode :: "string \<Rightarrow> string"
  bl_to_string :: "bridge_server_message \<Rightarrow> string + string"
  bl_from_str :: "string \<Rightarrow> string + bridge_client_message"

section \<open>Settings\<close>

record bridge_settings =
  bs_websocket_client_buffer :: nat
  bs_websocket_ping_interval :: duration
  bs_websocket_send_timeout :: duration
  bs_sse_keep_alive_interval :: duration

definition bridge_settings_new :: bridge_settings where
  "bridge_settings_new =
     \<lparr>bs_websocket_client_buffer = 63, bs_websocket_ping_interval = from_secs 29, bs_websocket_send_timeout = from_secs 2,
      bs_sse_keep_alive_interval = from_secs 14\<rparr>"

definition with_websocket_client_buffer :: "nat \<Rightarrow> bridge_settings \<Rightarrow> bridge_settings" where
  "with_websocket_client_buffer capacity s = s\<lparr>bs_websocket_client_buffer := capacity\<rparr>"

definition with_websocket_ping_interval :: "duration \<Rightarrow> bridge_settings \<Rightarrow> bridge_settings" where
  "with_websocket_ping_interval d s = (if d \<noteq> 0 then s\<lparr>bs_websocket_ping_interval := d\<rparr> else s)"

definition with_websocket_send_timeout :: "duration \<Rightarrow> bridge_settings \<Rightarrow> bridge_settings" where
  "with_websocket_send_timeout d s = (if d \<noteq> 0 then s\<lparr>bs_websocket_send_timeout := d\<rparr> else s)"

definition with_sse_keep_alive_interval :: "duration \<Rightarrow> bridge_settings \<Rightarrow> bridge_settings" where
  "with_sse_keep_alive_interval d s = (if d \<noteq> 0 then s\<lparr>bs_sse_keep_alive_interval := d\<rparr> else s)"

section \<open>Commands\<close>

fun command_validation_message :: "command_validation_error \<Rightarrow> string" where
  "command_validation_message (InvalidSegment name reason) = ''invalid '' @ name @ '': '' @ reason"
| "command_validation_message (CommandInvalidTopic reason) = ''invalid command topic: '' @ reason"
| "command_validation_message (CommandInvalidPayload reason) = ''invalid command payload: '' @ reason"
| "command_validation_message (CommandPayloadTooLarge mx actual) =
     ''command payload is too large: max '' @ show_nat mx @ '' bytes, got '' @ show_nat actual @ '' bytes''"

datatype command_endpoint_error = EndpointValidation command_validation_error | EndpointQueue mqtt_engine_error

fun command_endpoint_message :: "command_endpoint_error \<Rightarrow> string" where
  "command_endpoint_message (EndpointValidation e) = command_validation_message e"
| "command_endpoint_message (EndpointQueue e) = mqtt_engine_error_display e"

fun into_status_error :: "command_endpoint_error \<Rightarrow> status_error" where
  "into_status_error (EndpointValidation e) = StatusError 400 (command_validation_message e)"
| "into_status_error (EndpointQueue CommandQueueFull) = StatusError 503 ''command queue is full''"
| "into_status_error (EndpointQueue CommandQueueClosed) = StatusError 503 ''command queue is closed''"
| "into_status_error (EndpointQueue e) = StatusError 500 (mqtt_engine_error_display e)"

definition bridge_enqueue_command ::
    "bridge_lib \<Rightarrow> (mqtt_command, 'ch) try_send \<Rightarrow> timestamp \<Rightarrow> command_request \<Rightarrow> 'ch \<Rightarrow>
     (command_endpoint_error + command_queue_receipt) \<times> 'ch" where
  "bridge_enqueue_command lib cts now req ch =
     (case command_request_validate (bl_serde lib) (bl_b64_decode lib) req of
        Inl e \<Rightarrow> (Inl (EndpointValidation e), ch)
      | Inr command \<Rightarrow>
          (case validated_command_enqueue cts now command ch of
             (Inl e, ch') \<Rightarrow> (Inl (EndpointQueue e), ch')
           | (Inr receipt, ch') \<Rightarrow> (Inr receipt, ch')))"

text \<open>
  The HTTP handler: \<open>state\<close> is the injected state, \<open>parsed\<close> the request body as the library reads it; a success is the
  status with the receipt.
\<close>

definition command_http ::
    "bridge_lib \<Rightarrow> (mqtt_command, 'ch) try_send \<Rightarrow> timestamp \<Rightarrow> bridge_settings option \<Rightarrow> string + command_request \<Rightarrow> 'ch \<Rightarrow>
     (status_error + nat \<times> command_queue_receipt) \<times> 'ch" where
  "command_http lib cts now state parsed ch =
     (case state of
        None \<Rightarrow> (Inl (StatusError 500 ''realtime bridge state missing''), ch)
      | Some _ \<Rightarrow>
          (case parsed of
             Inl e \<Rightarrow> (Inl (StatusError 400 (''invalid command request: '' @ e)), ch)
           | Inr req \<Rightarrow>
               (case bridge_enqueue_command lib cts now req ch of
                  (Inr receipt, ch') \<Rightarrow> (Inr (202, receipt), ch')
                | (Inl e, ch') \<Rightarrow> (Inl (into_status_error e), ch'))))"

section \<open>Server-sent events\<close>

datatype received_telemetry = GotTelemetry telemetry_event | TelemetryLagged u64 | TelemetryClosed

text \<open>An event is its name and its data.\<close>

definition sse_json_event :: "bridge_lib \<Rightarrow> string \<Rightarrow> bridge_server_message \<Rightarrow> string \<times> string" where
  "sse_json_event lib name m =
     (case bl_to_string lib m of
        Inr json \<Rightarrow> (name, json)
      | Inl e \<Rightarrow> (''bridge_error'', ''failed to serialize event: '' @ e))"

fun bridge_sse_loop :: "bridge_lib \<Rightarrow> telemetry_filter \<Rightarrow> received_telemetry list \<Rightarrow> (string \<times> string) list" where
  "bridge_sse_loop lib f [] = []"
| "bridge_sse_loop lib f (GotTelemetry e # rs) =
     (if \<not> telemetry_filter_matches f e then bridge_sse_loop lib f rs
      else sse_json_event lib ''telemetry'' (BridgeTelemetry (telemetry_payload_from (bl_b64_encode lib) e)) #
           bridge_sse_loop lib f rs)"
| "bridge_sse_loop lib f (TelemetryLagged skipped # rs) =
     sse_json_event lib ''bridge_lagged'' (BridgeLagged skipped) # bridge_sse_loop lib f rs"
| "bridge_sse_loop lib f (TelemetryClosed # rs) = []"

definition telemetry_sse ::
    "bridge_lib \<Rightarrow> bridge_settings option \<Rightarrow> (string \<Rightarrow> string option) \<Rightarrow> received_telemetry list \<Rightarrow>
     status_error + (string \<times> string) list" where
  "telemetry_sse lib state query rs =
     res_bind (ok_or (StatusError 500 ''realtime bridge state missing'') state) (\<lambda>_.
     res_bind (parse_telemetry_filter query) (\<lambda>f0.
     let f = telemetry_filter_normalized f0 in
     Inr (sse_json_event lib ''bridge_ready'' (BridgeReady ''sse'' f) # bridge_sse_loop lib f rs)))"

section \<open>WebSockets\<close>

text \<open>What a socket works on: its session, the command queue of the engine, and the time.\<close>

record ('q, 'ch) bridge_socket =
  bw_session :: "(telemetry_filter, 'q) ws_session"
  bw_commands :: 'ch
  bw_now :: timestamp

definition bridge_send ::
    "bridge_lib \<Rightarrow> (ws_message, 'q) try_send \<Rightarrow> bridge_server_message \<Rightarrow> ('q, 'ch) bridge_socket \<Rightarrow>
     (unit + unit) \<times> ('q, 'ch) bridge_socket" where
  "bridge_send lib ts m s =
     (case send_json_message (bl_to_string lib) ts m (wx_queue (bw_session s)) of
        (r, q) \<Rightarrow> (r, s\<lparr>bw_session := (bw_session s)\<lparr>wx_queue := q\<rparr>\<rparr>))"

text \<open>A subscription is trimmed and put in force without the checks of the HTTP request.\<close>

definition bridge_handle_client_message ::
    "bridge_lib \<Rightarrow> (ws_message, 'q) try_send \<Rightarrow> (mqtt_command, 'ch) try_send \<Rightarrow> ws_message \<Rightarrow> ('q, 'ch) bridge_socket \<Rightarrow>
     (unit + unit) \<times> ('q, 'ch) bridge_socket" where
  "bridge_handle_client_message lib ts cts m s =
     (case m of
        WsClose _ _ \<Rightarrow> (Inl (), s)
      | WsPing \<Rightarrow> (Inr (), s)
      | WsPong \<Rightarrow> (Inr (), s)
      | WsBinary _ \<Rightarrow> bridge_send lib ts (BridgeError ''only JSON text messages are supported'') s
      | WsBadText _ \<Rightarrow> bridge_send lib ts (BridgeError ''invalid UTF-8 websocket message'') s
      | WsText body \<Rightarrow>
          (case bl_from_str lib body of
             Inr (BridgeSubscribe f) \<Rightarrow>
               if wx_watched (bw_session s)
               then (Inr (), s\<lparr>bw_session := (bw_session s)\<lparr>wx_filter := telemetry_filter_normalized f\<rparr>\<rparr>)
               else (Inl (), s)
           | Inr (BridgeCommand req) \<Rightarrow>
               (case bridge_enqueue_command lib cts (bw_now s) req (bw_commands s) of
                  (Inr receipt, ch) \<Rightarrow> bridge_send lib ts (BridgeCommandQueue receipt) (s\<lparr>bw_commands := ch\<rparr>)
                | (Inl e, ch) \<Rightarrow> bridge_send lib ts (BridgeError (command_endpoint_message e)) (s\<lparr>bw_commands := ch\<rparr>))
           | Inr BridgePing \<Rightarrow> bridge_send lib ts (BridgeReady ''websocket'' (wx_filter (bw_session s))) s
           | Inl e \<Rightarrow> bridge_send lib ts (BridgeError (''invalid client message: '' @ e)) s))"

definition bridge_telemetry_send ::
    "bridge_lib \<Rightarrow> (ws_message, 'q) try_send \<Rightarrow> bridge_server_message \<Rightarrow> ('q, 'ch) bridge_socket \<Rightarrow> ('q, 'ch) bridge_socket" where
  "bridge_telemetry_send lib ts m s = s\<lparr>bw_session := task_send (bl_to_string lib) ts m (bw_session s)\<rparr>"

text \<open>
  The telemetry task, and the passing of time. After a send to a full queue the task tries the close frame in its
  next step, whatever woke it, and ends.
\<close>

datatype bridge_input = BridgeFilterChanged | BridgeFilterDropped | BridgeReceives received_telemetry | ClockShows timestamp

fun bridge_telemetry_step ::
    "bridge_lib \<Rightarrow> (ws_message, 'q) try_send \<Rightarrow> bridge_input \<Rightarrow> ('q, 'ch) bridge_socket \<Rightarrow> ('q, 'ch) bridge_socket" where
  "bridge_telemetry_step lib ts BridgeFilterChanged s =
     bridge_telemetry_send lib ts (BridgeFilterUpdated (wx_filter (bw_session s))) s"
| "bridge_telemetry_step lib ts BridgeFilterDropped s = s\<lparr>bw_session := (bw_session s)\<lparr>wx_task := TaskOver\<rparr>\<rparr>"
| "bridge_telemetry_step lib ts (BridgeReceives (GotTelemetry e)) s =
     (if \<not> telemetry_filter_matches (wx_filter (bw_session s)) e then s
      else bridge_telemetry_send lib ts (BridgeTelemetry (telemetry_payload_from (bl_b64_encode lib) e)) s)"
| "bridge_telemetry_step lib ts (BridgeReceives (TelemetryLagged skipped)) s =
     bridge_telemetry_send lib ts (BridgeLagged skipped) s"
| "bridge_telemetry_step lib ts (BridgeReceives TelemetryClosed) s =
     s\<lparr>bw_session := (bw_session s)\<lparr>wx_task := TaskOver\<rparr>\<rparr>"
| "bridge_telemetry_step lib ts (ClockShows t) s = s\<lparr>bw_now := t\<rparr>"

definition bridge_task ::
    "bridge_lib \<Rightarrow> (ws_message, 'q) try_send \<Rightarrow> bridge_input \<Rightarrow> ('q, 'ch) bridge_socket \<Rightarrow> ('q, 'ch) bridge_socket" where
  "bridge_task lib ts i s =
     (case i of
        ClockShows t \<Rightarrow> bridge_telemetry_step lib ts i s
      | _ \<Rightarrow>
          (case wx_task (bw_session s) of
             TaskRunning \<Rightarrow> bridge_telemetry_step lib ts i s
           | TaskOverflowed \<Rightarrow> s\<lparr>bw_session := task_gives_up ts (bw_session s)\<rparr>
           | TaskOver \<Rightarrow> s))"

definition bridge_recv :: "(ws_message, 'q) receiver \<Rightarrow> (ws_message, ('q, 'ch) bridge_socket) receiver" where
  "bridge_recv rx s = (case session_recv rx (bw_session s) of (r, w) \<Rightarrow> (r, s\<lparr>bw_session := w\<rparr>))"

definition handle_telemetry_socket ::
    "bridge_lib \<Rightarrow> (ws_message, 'q) try_send \<Rightarrow> (ws_message, 'q) receiver \<Rightarrow> (mqtt_command, 'ch) try_send \<Rightarrow> telemetry_filter \<Rightarrow>
     bridge_input socket_input list \<Rightarrow> 'q \<Rightarrow> 'ch \<Rightarrow> timestamp \<Rightarrow> bool \<times> ('q, 'ch) bridge_socket socket" where
  "handle_telemetry_socket lib ts rx cts f inputs q ch now =
     (case socket_loop (bridge_handle_client_message lib ts cts) (bridge_task lib ts) (bridge_recv rx) inputs
             \<lparr>ho_session = bridge_telemetry_send lib ts (BridgeReady ''websocket'' f)
                  \<lparr>bw_session = \<lparr>wx_filter = f, wx_task = TaskRunning, wx_queue = q\<rparr>, bw_commands = ch, bw_now = now\<rparr>,
              ho_sent = []\<rparr> of
        (ended, so) \<Rightarrow>
          (ended,
           if ended
           then so\<lparr>ho_session := (ho_session so)\<lparr>bw_session := (bw_session (ho_session so))\<lparr>wx_task := TaskOver\<rparr>\<rparr>\<rparr>
           else so))"

text \<open>The upgrade happens only for a filter that passed the checks of the request.\<close>

definition telemetry_ws ::
    "bridge_settings option \<Rightarrow> (string \<Rightarrow> string option) \<Rightarrow> status_error + telemetry_filter" where
  "telemetry_ws state query =
     res_bind (ok_or (StatusError 500 ''realtime bridge state missing'') state) (\<lambda>_.
     res_bind (parse_telemetry_filter query) (\<lambda>f. Inr (telemetry_filter_normalized f)))"

end
