(* ===== verification/Bridge_Session.thy ===== *)
theory Bridge_Session
  imports Bridge
begin

text \<open>
  Properties of the older realtime bridge: which telemetry a filter shows, what becomes of a command, and what a client
  of a WebSocket receives.
\<close>

section \<open>Devices and filters\<close>

text \<open>The device of a topic is its second level, under the two names of the namespace.\<close>

lemma telemetry_device_iff:
  "telemetry_device t = Some d \<longleftrightarrow>
     d \<noteq> [] \<and> (\<exists>ns rest. device_namespace ns \<and> split_on CHR ''/'' t = ns # d # rest)"
  by (auto simp: telemetry_device_def split: list.splits)

lemma telemetry_filter_matches_iff:
  "telemetry_filter_matches f e \<longleftrightarrow>
     (\<forall>x. tf_device f = Some x \<longrightarrow> telemetry_device (te_topic e) = Some x) \<and>
     (\<forall>x. tf_topic f = Some x \<longrightarrow> te_topic e = x) \<and>
     (\<forall>x. tf_topic_prefix f = Some x \<longrightarrow> prefix (split_on CHR ''/'' x) (split_on CHR ''/'' (te_topic e))) \<and>
     (\<forall>x. tf_event_type f = Some x \<longrightarrow> telemetry_event_type (te_topic e) = Some x)"
  by (auto simp: telemetry_filter_matches_def topic_prefix_levels split: option.splits)

text \<open>
  A subscription over a WebSocket is not checked: a topic with a wildcard, which the request would have refused, is put in
  force without a word, and then no message of a broker ever meets it.
\<close>

lemma unchecked_subscription:
  assumes "bl_from_str lib body = Inr (BridgeSubscribe f)" "wx_watched (bw_session s)" "tf_topic f = Some x"
    and "CHR ''#'' \<in> set (trim x) \<or> CHR ''+'' \<in> set (trim x)"
  shows "\<exists>s'. bridge_handle_client_message lib ts cts (WsText body) s = (Inr (), s') \<and>
           isl (validate_telemetry_filter (telemetry_filter_normalized f)) \<and>
           (\<forall>e. validate_topic_name (te_topic e) = Inr () \<longrightarrow> \<not> telemetry_filter_matches (wx_filter (bw_session s')) e)"
proof -
  have "trim x \<noteq> []" using assms(4) by auto
  then have n: "normalize_optional (tf_topic f) = Some (trim x)" by (simp add: normalize_optional_def assms(3))
  show ?thesis
    using assms n by (auto simp: bridge_handle_client_message_def telemetry_filter_normalized_def
        validate_telemetry_filter_def bridge_validate_topic_like_def telemetry_filter_matches_def validate_topic_name_def
        split: if_splits)
qed

text \<open>No setting of the intervals can be zero.\<close>

lemma bridge_intervals_positive:
  "0 < bs_websocket_ping_interval s \<Longrightarrow> 0 < bs_websocket_ping_interval (with_websocket_ping_interval d s)"
  "0 < bs_websocket_send_timeout s \<Longrightarrow> 0 < bs_websocket_send_timeout (with_websocket_send_timeout d s)"
  "0 < bs_sse_keep_alive_interval s \<Longrightarrow> 0 < bs_sse_keep_alive_interval (with_sse_keep_alive_interval d s)"
  by (simp_all add: with_websocket_ping_interval_def with_websocket_send_timeout_def with_sse_keep_alive_interval_def)

section \<open>Commands\<close>

lemma validated_enqueue_cases:
  assumes "mpsc_law cts view" "validated_command_enqueue cts now c ch = (r, ch')"
  shows "case r of
      Inl e \<Rightarrow> e \<in> {CommandQueueFull, CommandQueueClosed} \<and> view ch' = view ch
    | Inr receipt \<Rightarrow>
        vq_items (view ch') = vq_items (view ch) @ [mqtt_command_publish (vc_topic c) (vc_qos c) (vc_retain c) (vc_payload c)] \<and>
        qr_device receipt = vc_device c \<and> qr_command receipt = vc_command c \<and> qr_topic receipt = vc_topic c"
proof -
  let ?m = "mqtt_command_publish (vc_topic c) (vc_qos c) (vc_retain c) (vc_payload c)"
  obtain x ch1 where ts: "cts ?m ch = (x, ch1)" by fastforce
  then have "x = fst (vq_try_send ?m (view ch))" "view ch1 = snd (vq_try_send ?m (view ch))"
    using assms(1) unfolding mpsc_law_def by (metis fst_conv, metis snd_conv)
  with assms(2) ts show ?thesis
    by (auto simp: validated_command_enqueue_def handle_try_enqueue_command_def bus_try_enqueue_command_def
        vq_try_send_def split: if_splits)
qed

text \<open>C28: a command that the bridge accepts is in the command queue, once, on the topic of its receipt, which is the
  topic of exactly the device and the command the receipt names, so a subscriber to the device sees it as
  that device's and no other topic can be reached; a command it does not accept changes nothing, and the
  status says why: the state is missing, the request is bad, or the queue is full or closed.\<close>

theorem bridge_commands_are_confined:
  assumes "mpsc_law cts view" "command_http lib cts now state parsed ch = (res, ch')"
  shows "case res of
      Inr (status, receipt) \<Rightarrow>
        status = 202 \<and>
        (\<exists>command. vq_items (view ch') = vq_items (view ch) @ [command] \<and> mk_topic command = qr_topic receipt \<and>
           length (mk_payload command) \<le> 64 * 1024) \<and>
        split_on CHR ''/'' (qr_topic receipt) = [''devices'', qr_device receipt, ''command'', qr_command receipt] \<and>
        telemetry_device (qr_topic receipt) = Some (qr_device receipt) \<and>
        CHR ''+'' \<notin> set (qr_topic receipt) \<and> CHR ''#'' \<notin> set (qr_topic receipt)
    | Inl (StatusError code _) \<Rightarrow>
        view ch' = view ch \<and>
        (code = 500 \<longleftrightarrow> state = None) \<and>
        (code = 503 \<longleftrightarrow> state \<noteq> None \<and> (\<exists>req c. parsed = Inr req \<and>
            command_request_validate (bl_serde lib) (bl_b64_decode lib) req = Inr c)) \<and>
        code \<in> {400, 500, 503}"
proof (cases "\<exists>st req c. state = Some st \<and> parsed = Inr req \<and>
    command_request_validate (bl_serde lib) (bl_b64_decode lib) req = Inr c")
  case False
  with assms(2) show ?thesis
    by (auto simp: command_http_def bridge_enqueue_command_def split: option.splits sum.splits)
next
  case True
  then obtain st req c where c: "state = Some st" "parsed = Inr req"
      "command_request_validate (bl_serde lib) (bl_b64_decode lib) req = Inr c" by blast
  note ok = command_topic_confined [OF c(3)]
  obtain r ch1 where enq: "validated_command_enqueue cts now c ch = (r, ch1)" by fastforce
  note how = validated_enqueue_cases [OF assms(1) enq]
  show ?thesis
  proof (cases r)
    case (Inl e)
    with assms(2) c enq have "res = Inl (into_status_error (EndpointQueue e))" "ch' = ch1"
      by (auto simp: command_http_def bridge_enqueue_command_def)
    with how Inl c show ?thesis by auto
  next
    case (Inr receipt)
    with assms(2) c enq have "res = Inr (202, receipt)" "ch' = ch1"
      by (auto simp: command_http_def bridge_enqueue_command_def)
    with how Inr ok show ?thesis by (auto simp: telemetry_device_iff device_namespace_def mqtt_command_publish_def)
  qed
qed

section \<open>What a client of a WebSocket receives\<close>

abbreviation socket_items :: "('q \<Rightarrow> ws_message vec_queue) \<Rightarrow> ('q, 'ch) bridge_socket \<Rightarrow> ws_message list" where
  "socket_items view s \<equiv> vq_items (view (wx_queue (bw_session s)))"

abbreviation socket_closes :: "('q, 'ch) bridge_socket \<Rightarrow> nat" where
  "socket_closes s \<equiv> closes_left (bw_session s)"

lemma bridge_send_adds:
  assumes "mpsc_law ts view" "bridge_send lib ts m s = (r, s')"
  shows "adds_texts (socket_items view s) (socket_items view s') \<and> socket_closes s' = socket_closes s"
  using send_json_appends [OF assms(1), of "wx_queue (bw_session s)" "bl_to_string lib" m] assms(2)
  by (auto simp: bridge_send_def closes_left_def wx_watched_def split: prod.splits)

lemma bridge_client_adds:
  assumes "mpsc_law ts view" "bridge_handle_client_message lib ts cts m s = (r, s')"
  shows "adds_texts (socket_items view s) (socket_items view s') \<and> socket_closes s' = socket_closes s"
  using assms(2)
  by (fastforce simp: bridge_handle_client_message_def closes_left_def wx_watched_def dest: bridge_send_adds [OF assms(1)]
      split: ws_message.splits sum.splits prod.splits bridge_client_message.splits if_splits)

lemma bridge_telemetry_send_adds:
  assumes "mpsc_law ts view" "wx_task (bw_session s) = TaskRunning"
  shows "socket_closes (bridge_telemetry_send lib ts m s) \<le> socket_closes s \<and>
    adds_frames (socket_closes s - socket_closes (bridge_telemetry_send lib ts m s))
      (socket_items view s) (socket_items view (bridge_telemetry_send lib ts m s))"
  unfolding bridge_telemetry_send_def
  by (simp add: task_send_closes task_send_frames [OF assms(1)] wx_watched_def assms(2))

lemma bridge_step_adds:
  assumes "mpsc_law ts view" "wx_task (bw_session s) = TaskRunning"
  shows "socket_closes (bridge_telemetry_step lib ts i s) \<le> socket_closes s \<and>
    adds_frames (socket_closes s - socket_closes (bridge_telemetry_step lib ts i s))
      (socket_items view s) (socket_items view (bridge_telemetry_step lib ts i s))"
  using assms(2)
  by (cases "(lib, ts, i, s)" rule: bridge_telemetry_step.cases) (simp_all add: bridge_telemetry_send_adds [OF assms(1)])

lemma bridge_task_adds:
  assumes "mpsc_law ts view"
  shows "socket_closes (bridge_task lib ts i s) \<le> socket_closes s \<and>
    adds_frames (socket_closes s - socket_closes (bridge_task lib ts i s))
      (socket_items view s) (socket_items view (bridge_task lib ts i s))"
proof (cases "\<exists>t. i = ClockShows t")
  case True
  then show ?thesis by (auto simp: bridge_task_def)
next
  case False
  then have task: "bridge_task lib ts i s =
      (case wx_task (bw_session s) of
         TaskRunning \<Rightarrow> bridge_telemetry_step lib ts i s
       | TaskOverflowed \<Rightarrow> s\<lparr>bw_session := task_gives_up ts (bw_session s)\<rparr>
       | TaskOver \<Rightarrow> s)"
    by (cases i; cases "wx_task (bw_session s)") (simp_all add: bridge_task_def)
  show ?thesis
  proof (cases "wx_task (bw_session s)")
    case TaskRunning
    with bridge_step_adds [OF assms] show ?thesis by (simp add: task)
  next
    case TaskOverflowed
    with task_gives_up_frames [OF assms, of "bw_session s"] show ?thesis
      by (simp add: task closes_left_def wx_watched_def task_gives_up_def)
  qed (simp add: task)
qed

interpretation bridge_socket: socket_service
  "\<lambda>(lib, ts, rx, cts, view). bridge_handle_client_message lib ts cts" "\<lambda>(lib, ts, rx, cts, view). bridge_task lib ts"
  "\<lambda>(lib, ts, rx, cts, view). bridge_recv rx" "\<lambda>(lib, ts, rx, cts, view). socket_items view" socket_closes
  "\<lambda>(lib, ts, rx, cts, view). mpsc_law ts view \<and> recv_law rx view"
proof (unfold_locales, goal_cases)
  case (1 l m s r s')
  then show ?case by (cases l) (auto dest: bridge_client_adds)
next
  case (2 l i s)
  then show ?case by (cases l) (use bridge_task_adds in fastforce)
next
  case (3 l s x s')
  obtain lib ts rx cts view where l: "l = (lib, ts, rx, cts, view)" by (cases l)
  obtain q where rx: "rx (wx_queue (bw_session s)) = (x, q)" "bw_session s' = (bw_session s)\<lparr>wx_queue := q\<rparr>"
    using 3(2) by (auto simp: l bridge_recv_def session_recv_def split: prod.splits)
  have "recv_law rx view" using 3(1) by (simp add: l)
  from recv_law_items [OF this rx(1)] show ?case
    by (cases x) (simp_all add: l rx(2) closes_left_def wx_watched_def)
qed

text \<open>The bridge delivers as the management API does.\<close>

lemma bridge_delivers_in_order:
  assumes "mpsc_law ts view" "recv_law rx view" "list_all is_text_frame (socket_items view (ho_session so))"
    and "socket_loop (bridge_handle_client_message lib ts cts) (bridge_task lib ts) (bridge_recv rx) is1 so = (False, so1)"
    and "socket_loop (bridge_handle_client_message lib ts cts) (bridge_task lib ts) (bridge_recv rx) (is1 @ is2) so = (ended, so2)"
  shows "\<exists>put frames lost. ho_sent so2 = ho_sent so1 @ frames \<and>
           socket_items view (ho_session so1) @ put =
             filter (\<lambda>m. m \<noteq> WsPing) frames @ lost @ socket_items view (ho_session so2) \<and>
           list_all (\<lambda>m. is_text_frame m \<or> is_close_frame m) put \<and> length (filter is_close_frame put) \<le> 1 \<and>
           length lost \<le> 1 \<and> (lost \<noteq> [] \<longrightarrow> ended)"
proof -
  have "bridge_socket.frames_ok 0 (socket_items view (ho_session so))"
    using assms(3) text_not_close [OF assms(3)] by (auto simp: bridge_socket.frames_ok_def list_all_iff)
  with bridge_socket.loop_delivers [of "(lib, ts, rx, cts, view)" 0 so is1 so1 is2 ended so2] assms(1,2,4,5)
  have "bridge_socket.accounted (lib, ts, rx, cts, view) (ho_session so1) (ho_sent so1) ended so2" by simp
  moreover have "socket_closes (ho_session so1) \<le> 1" by (simp add: closes_left_def)
  ultimately show ?thesis by (fastforce simp: bridge_socket.accounted_def bridge_socket.frames_ok_def)
qed

section \<open>Examples\<close>

definition sample_bridge_lib :: bridge_lib where
  "sample_bridge_lib =
     \<lparr>bl_serde = sample_lib, bl_b64_decode = Inr, bl_b64_encode = (\<lambda>s. s), bl_to_string = (\<lambda>_. Inr ''{}''),
      bl_from_str = (\<lambda>_. Inl ''not a message'')\<rparr>"

definition sample_request :: command_request where
  "sample_request =
     \<lparr>cmd_device = '' d7 '', cmd_command = ''relay'', cmd_payload = PayloadText ''on'', cmd_qos = AtLeastOnce, cmd_retain = False\<rparr>"

lemma sample_request_valid:
  "command_request_validate sample_lib Inr sample_request =
     Inr \<lparr>vc_device = ''d7'', vc_command = ''relay'', vc_topic = ''devices/d7/command/relay'', vc_qos = AtLeastOnce,
          vc_retain = False, vc_payload = ''on''\<rparr>"
proof -
  have "normalize_segment ''device'' '' d7 '' 128 = Inr ''d7''" "normalize_segment ''command'' ''relay'' 128 = Inr ''relay''"
      "validate_topic_name ''devices/d7/command/relay'' = Inr ()"
    by code_simp+
  then show ?thesis
    by (simp add: command_request_validate_def sample_request_def default_command_max_payload_bytes_def)
qed

lemma sample_command_accepted:
  "\<exists>receipt ch'. command_http sample_bridge_lib vq_try_send 0 (Some bridge_settings_new) (Inr sample_request)
       \<lparr>vq_capacity = 4, vq_items = [], vq_closed = False\<rparr> = (Inr (202, receipt), ch') \<and> qr_device receipt = ''d7''"
  by (simp add: command_http_def bridge_enqueue_command_def sample_bridge_lib_def sample_request_valid
      validated_command_enqueue_def handle_try_enqueue_command_def bus_try_enqueue_command_def vq_try_send_def)

theorem bridge_commands_are_confined_witness:
  "\<exists>receipt ch'. command_http sample_bridge_lib vq_try_send 0 (Some bridge_settings_new) (Inr sample_request)
       \<lparr>vq_capacity = 4, vq_items = [], vq_closed = False\<rparr> = (Inr (202, receipt), ch') \<and>
     telemetry_device (qr_topic receipt) = Some ''d7''"
proof -
  obtain receipt ch' where run: "command_http sample_bridge_lib vq_try_send 0 (Some bridge_settings_new) (Inr sample_request)
       \<lparr>vq_capacity = 4, vq_items = [], vq_closed = False\<rparr> = (Inr (202, receipt), ch')" and "qr_device receipt = ''d7''"
    using sample_command_accepted by blast
  with bridge_commands_are_confined [OF vec_queue_mpsc run] show ?thesis by auto
qed

end
