(* ===== verification/Listing.thy ===== *)
theory Listing
  imports Api_Handler
begin

text \<open>
  A client that reads a list of the management API page by page, following the cursor \<^verbatim>\<open>next_before\<close>: the reading ends,
  and gives every record once as long as no two records share an instant.
\<close>

section \<open>Newest first\<close>

definition descending :: "('a \<Rightarrow> timestamp) \<Rightarrow> 'a list \<Rightarrow> 'a list" where
  "descending at rows = rev (sort_key at rows)"

lemma newest_first_take: "newest_first at n rows = take n (descending at rows)"
  by (simp add: newest_first_def descending_def)

lemma set_descending [simp]: "set (descending at rows) = set rows"
  by (simp add: descending_def)

lemma descending_filter: "descending at (filter P rows) = filter P (descending at rows)"
  by (simp add: descending_def filter_sort [symmetric] rev_filter)

lemma descending_strict:
  assumes "distinct (map at rows)"
  shows "sorted_wrt (\<lambda>x y. at y < at x) (descending at rows)"
proof -
  have "distinct (map at (sort_key at rows))" using assms by (simp add: distinct_map)
  then have "sorted_wrt (<) (map at (sort_key at rows))" by (simp add: strict_sorted_iff)
  then show ?thesis by (simp add: descending_def sorted_wrt_rev sorted_wrt_map)
qed

text \<open>What is older than the last record of a page is what the page left out.\<close>

lemma older_than_page:
  fixes at :: "'a \<Rightarrow> timestamp"
  assumes "sorted_wrt (\<lambda>x y. at y < at x) xs" "take n xs \<noteq> []"
  shows "filter (\<lambda>r. at r < at (last (take n xs))) xs = drop n xs"
proof -
  let ?p = "take n xs" and ?r = "drop n xs"
  have split: "xs = butlast ?p @ last ?p # ?r"
    using append_butlast_last_id [OF assms(2)] append_take_drop_id [of n xs] by (metis append.assoc append_Cons append_Nil)
  have "sorted_wrt (\<lambda>x y. at y < at x) (butlast ?p @ last ?p # ?r)" using assms(1) split by simp
  then have "\<forall>x \<in> set (butlast ?p). at (last ?p) < at x" "\<forall>y \<in> set ?r. at y < at (last ?p)"
    by (auto simp: sorted_wrt_append)
  then have "filter (\<lambda>r. at r < at (last ?p)) (butlast ?p @ last ?p # ?r) = ?r"
    by (auto simp: filter_empty_conv filter_id_conv)
  then show ?thesis using split by simp
qed

section \<open>Following the cursor\<close>

text \<open>The rows of a project that a query with this cursor ranges over.\<close>

definition audit_rows :: "database \<Rightarrow> project_id \<Rightarrow> timestamp option \<Rightarrow> audit_row list" where
  "audit_rows db pid b = filter (\<lambda>r. aw_project_id r = Some pid \<and> before_ok b (aw_occurred_at r)) (db_audits db)"

lemma list_audit_events_page:
  assumes "list_audit_events s pid q w = (Inr items, w')"
  shows "wd_db w' = wd_db w \<and>
         list_all2 (\<lambda>r x. audit_event_from_row (st_jsonb s) r = Inr x)
           (take (unat (clamp_limit (ol_limit q))) (descending aw_occurred_at (audit_rows (wd_db w) pid (ol_before q)))) items"
  using assms by (auto simp: list_audit_events_def operational_sanitized_def Let_def db_bind_def sql_auto_def run_stmt_def
      db_lift_def newest_first_take audit_rows_def try_collect_eq_Inr count_call_def split: option.splits prod.splits sum.splits)

lemma audit_event_time: "audit_event_from_row jb r = Inr x \<Longrightarrow> ae_occurred_at x = aw_occurred_at r"
  by (auto simp: audit_event_from_row_def)

lemma last_page_time:
  assumes "list_all2 (\<lambda>r x. audit_event_from_row jb r = Inr x) rows items" "items \<noteq> []"
  shows "rows \<noteq> [] \<and> ae_occurred_at (last items) = aw_occurred_at (last rows)"
  using assms by (induction rule: list_all2_induct) (auto simp: audit_event_time)

text \<open>A client that reads on until the answer has no cursor.\<close>

lemma fewer_rows:
  assumes "r \<in> set (audit_rows db pid b)"
  shows "length (audit_rows db pid (Some (aw_occurred_at r))) < length (audit_rows db pid b)"
proof -
  have "audit_rows db pid (Some (aw_occurred_at r)) =
      filter (\<lambda>x. aw_occurred_at x < aw_occurred_at r) (audit_rows db pid b)"
    using assms by (auto simp: audit_rows_def before_ok_def intro!: filter_cong split: option.splits)
  then show ?thesis using length_filter_less [OF assms] by simp
qed

text \<open>Every further page ranges over fewer rows.\<close>

lemma page_shrinks:
  assumes "list_audit_events s pid \<lparr>ol_limit = limit, ol_before = b\<rparr> w = (Inr items, w')"
    and "li_next_before (page_of ae_occurred_at f limit items) = Some cursor"
  shows "length (audit_rows (wd_db w') pid (Some cursor)) < length (audit_rows (wd_db w) pid b)"
proof -
  have items: "items \<noteq> []" "cursor = ae_occurred_at (last items)"
    using assms(2) by (auto simp: page_of_def split: if_splits)
  let ?p = "take (unat (clamp_limit limit)) (descending aw_occurred_at (audit_rows (wd_db w) pid b))"
  from list_audit_events_page [OF assms(1)] have db: "wd_db w' = wd_db w"
      and page: "list_all2 (\<lambda>r x. audit_event_from_row (st_jsonb s) r = Inr x) ?p items" by simp_all
  from last_page_time [OF page items(1)] have p: "?p \<noteq> []" "cursor = aw_occurred_at (last ?p)" by (simp_all add: items(2))
  have "last ?p \<in> set (audit_rows (wd_db w) pid b)"
    using in_set_takeD [OF last_in_set [OF p(1)]] by simp
  from fewer_rows [OF this] show ?thesis by (simp add: p(2) db)
qed

function read_audit_trail ::
    "'r storage \<Rightarrow> project_id \<Rightarrow> u32 \<Rightarrow> timestamp option \<Rightarrow> 'r world \<Rightarrow> storage_error + audit_event_response list" where
  "read_audit_trail s pid limit b w =
     (case list_audit_events s pid \<lparr>ol_limit = limit, ol_before = b\<rparr> w of
        (Inl e, w') \<Rightarrow> Inl e
      | (Inr items, w') \<Rightarrow>
          let page = page_of ae_occurred_at audit_event_response_from limit items in
          (case li_next_before page of
             None \<Rightarrow> Inr (li_items page)
           | Some cursor \<Rightarrow> res_map (\<lambda>older. li_items page @ older) (read_audit_trail s pid limit (Some cursor) w')))"
  by pat_completeness auto

termination
  by (relation "measure (\<lambda>(s, pid, limit, b, w). length (audit_rows (wd_db w) pid b))") (auto dest: page_shrinks [OF sym])

declare read_audit_trail.simps [simp del]

lemma trail_reads_all:
  assumes "\<And>n. st_fault s n = None" "distinct (map aw_occurred_at (audit_rows (wd_db w) pid None))"
    and "\<And>r. r \<in> set (audit_rows (wd_db w) pid None) \<Longrightarrow> audit_event_from_row (st_jsonb s) r = Inr (g r)"
  shows "read_audit_trail s pid limit b w =
           Inr (map (\<lambda>r. audit_event_response_from (g r)) (descending aw_occurred_at (audit_rows (wd_db w) pid b)))"
  using assms
proof (induction s pid limit b w rule: read_audit_trail.induct)
  case (1 s pid limit b w)
  let ?rows = "audit_rows (wd_db w) pid b"
  let ?L = "descending aw_occurred_at ?rows" and ?n = "unat (clamp_limit limit)"
  let ?f = "\<lambda>r. audit_event_response_from (g r)"
  have sub: "set ?rows \<subseteq> set (audit_rows (wd_db w) pid None)" by (auto simp: audit_rows_def before_ok_def)
  have rows: "?rows = filter (\<lambda>r. before_ok b (aw_occurred_at r)) (audit_rows (wd_db w) pid None)"
    by (auto simp: audit_rows_def before_ok_def intro!: filter_cong)
  have strict: "sorted_wrt (\<lambda>x y. aw_occurred_at y < aw_occurred_at x) ?L"
    by (rule descending_strict) (simp add: rows distinct_map_filter "1.prems"(2))
  have in_page: "r \<in> set (take ?n ?L) \<Longrightarrow> r \<in> set (audit_rows (wd_db w) pid None)" for r
    using in_set_takeD [of r ?n ?L] sub by auto
  have "try_collect (audit_event_from_row (st_jsonb s)) (take ?n ?L) = Inr (map g (take ?n ?L))"
    by (rule try_collect_total, rule "1.prems"(3), rule in_page)
  then have answer: "list_audit_events s pid \<lparr>ol_limit = limit, ol_before = b\<rparr> w = (Inr (map g (take ?n ?L)), count_call w)"
    using "1.prems"(1) by (simp add: list_audit_events_def operational_sanitized_def Let_def db_bind_def sql_auto_def
        run_stmt_def db_lift_def newest_first_take audit_rows_def count_call_def)
  show ?case
  proof (cases "take ?n ?L = []")
    case True
    have "?n > 0" by (simp add: clamp_limit_def max_operational_list_limit_def unat_gt_0 word_neq_0_conv)
    with True have "?L = []" by (cases ?L) auto
    with True show ?thesis by (subst read_audit_trail.simps) (simp add: answer page_of_def Let_def)
  next
    case False
    let ?c = "aw_occurred_at (last (take ?n ?L))"
    have time: "ae_occurred_at (last (map g (take ?n ?L))) = ?c"
      using audit_event_time [OF "1.prems"(3) [OF in_page [OF last_in_set [OF False]]]] False by (simp add: last_map)
    have "audit_rows (wd_db w) pid (Some ?c) = filter (\<lambda>r. aw_occurred_at r < ?c) ?rows"
      using in_set_takeD [OF last_in_set [OF False]]
      by (auto simp: audit_rows_def before_ok_def intro!: filter_cong split: option.splits)
    then have older: "descending aw_occurred_at (audit_rows (wd_db w) pid (Some ?c)) = drop ?n ?L"
      using older_than_page [OF strict False] by (simp add: descending_filter)
    have "read_audit_trail s pid limit (Some ?c) (count_call w) = Inr (map ?f (drop ?n ?L))"
      using "1.IH" [OF answer [symmetric] refl refl, of ?c] "1.prems" older False time
      by (simp add: page_of_def count_call_def)
    moreover have "map ?f ?L = map ?f (take ?n ?L) @ map ?f (drop ?n ?L)"
      unfolding map_append [symmetric] append_take_drop_id by (rule refl)
    ultimately show ?thesis using False time
      by (subst read_audit_trail.simps) (simp add: answer page_of_def Let_def comp_def)
  qed
qed

text \<open>C25: a client that reads the audit trail page by page, each time from the cursor of the page before, comes to an end,
  whatever the tables hold; and when no two entries of the project share an instant it has read every
  entry exactly once, newest first, whatever the size of the pages.\<close>

theorem audit_trail_is_complete:
  assumes "\<And>n. st_fault s n = None" "distinct (map aw_occurred_at (audit_rows (wd_db w) pid None))"
    and "\<And>r. r \<in> set (audit_rows (wd_db w) pid None) \<Longrightarrow> audit_event_from_row (st_jsonb s) r = Inr (g r)"
  shows "read_audit_trail s pid limit None w =
           Inr (map (\<lambda>r. audit_event_response_from (g r)) (descending aw_occurred_at (audit_rows (wd_db w) pid None)))"
  using assms by (rule trail_reads_all)

section \<open>Examples\<close>

definition trail_row :: "string \<Rightarrow> timestamp \<Rightarrow> audit_row" where
  "trail_row i t =
     \<lparr>aw_audit_event_id = i, aw_project_id = Some ''p1'', aw_actor_id = None, aw_action = ''a'', aw_target_type = ''t'',
      aw_target_id = ''x'', aw_status = ''succeeded'', aw_reason = None, aw_metadata = JObject [], aw_occurred_at = t\<rparr>"

definition trail_world :: "audit_row list \<Rightarrow> nat world" where
  "trail_world rows = sample_world\<lparr>wd_db := empty_database\<lparr>db_audits := rows\<rparr>\<rparr>"

lemma trail_row_parses: "audit_event_from_row (st_jsonb sample_storage) (trail_row i t) = Inr (projr (audit_event_from_row (st_jsonb sample_storage) (trail_row i t)))"
proof -
  have "id_new ''project_id'' ''p1'' = Inr ''p1''" by code_simp
  then show ?thesis
    by (simp add: audit_event_from_row_def trail_row_def parse_audit_status_def value_to_object_def sample_storage_def
        sample_jsonb_def)
qed

theorem audit_trail_is_complete_witness:
  "\<exists>a b. read_audit_trail sample_storage ''p1'' 1 None (trail_world [trail_row ''e1'' 10, trail_row ''e2'' 20]) = Inr [a, b] \<and>
     rau_occurred_at a = 20 \<and> rau_occurred_at b = 10"
proof -
  let ?w = "trail_world [trail_row ''e1'' 10, trail_row ''e2'' 20]"
  have rows: "audit_rows (wd_db ?w) ''p1'' None = [trail_row ''e1'' 10, trail_row ''e2'' 20]"
    by (simp add: audit_rows_def trail_world_def before_ok_def trail_row_def)
  have times: "aw_occurred_at (trail_row i t) = t" for i t by (simp add: trail_row_def)
  have "ae_occurred_at (projr (audit_event_from_row (st_jsonb sample_storage) (trail_row i t))) = t" for i t
    using audit_event_time [OF trail_row_parses] by (simp add: times)
  moreover have "read_audit_trail sample_storage ''p1'' 1 None ?w =
      Inr (map (\<lambda>r. audit_event_response_from (projr (audit_event_from_row (st_jsonb sample_storage) r)))
        (descending aw_occurred_at (audit_rows (wd_db ?w) ''p1'' None)))"
    by (rule audit_trail_is_complete) (use trail_row_parses in \<open>auto simp: rows times sample_storage_def\<close>)
  ultimately show ?thesis by (simp add: rows descending_def times audit_event_response_from_def)
qed

text \<open>Two entries of one instant: pages of one entry show only one of them.\<close>

lemma audit_trail_loses_ties:
  "\<exists>a. read_audit_trail sample_storage ''p1'' 1 None (trail_world [trail_row ''e1'' 10, trail_row ''e2'' 10]) = Inr [a]"
proof -
  have id: "id_new ''project_id'' ''p1'' = Inr ''p1''" by code_simp
  show ?thesis
    by (simp add: read_audit_trail.simps list_audit_events_def operational_sanitized_def clamp_limit_def
        max_operational_list_limit_def Let_def db_bind_def sql_auto_def run_stmt_def db_lift_def count_call_def sample_storage_def
        trail_world_def sample_world_def before_ok_def newest_first_def trail_row_def audit_event_from_row_def
        parse_audit_status_def value_to_object_def page_of_def empty_database_def sample_jsonb_def id)
qed

end
