(* ===== verification/Spec2Isabelle.thy ===== *)
theory Spec2Isabelle
  imports Daemon_Main Bridge_Session Listing
begin

text \<open>
  A verification of Pipe Bolt, the broker-to-UI platform under \<^verbatim>\<open>src/crates\<close>: MQTT messages are routed
  to configured topic routes, decoded and normalized into events, the rules of the project are evaluated
  on each event, and the actions of the rules that fire are dispatched: to the realtime stream, to HTTP
  sinks, and to the command queue that publishes back to the broker.

  \<^bold>\<open>Language and library.\<close> \<^verbatim>\<open>Prelude\<close> has results with early return; \<^verbatim>\<open>Rust_Str\<close> has strings as UTF-8 byte
  lists with the operations of \<^verbatim>\<open>str\<close> the code calls; \<^verbatim>\<open>Ordered_Map\<close> has \<^verbatim>\<open>BTreeMap\<close> as a sorted
  association list behind the locale \<^verbatim>\<open>ordered_map\<close>; \<^verbatim>\<open>Machine\<close> has the integer conversions and durations
  in nanoseconds; \<^verbatim>\<open>Json\<close> has \<^verbatim>\<open>serde_json::Value\<close>, its numbers (64-bit words and binary64) and the
  conversion of integers to binary64; \<^verbatim>\<open>Ip_Addr\<close> has the parser of \<^verbatim>\<open>std::net::IpAddr\<close>; \<^verbatim>\<open>Channel\<close> has the
  contract of a bounded channel. Code outside the repository is a parameter: the JSON parser and printer and
  base64 (\<^verbatim>\<open>serde_lib\<close>), the HTTP client and URL parser (\<^verbatim>\<open>http_lib\<close>), the MQTT client, the channel, uuids
  and clocks.

  \<^bold>\<open>Domain\<close> (\<^verbatim>\<open>pipe-bolt-domain\<close>). \<^verbatim>\<open>Domain_Ids\<close>, \<^verbatim>\<open>Domain_Config\<close> and \<^verbatim>\<open>Domain_Event\<close> hold the structs and
  enums of the configuration, of events, intents and commands, every \<^verbatim>\<open>validate\<close> function of
  \<^verbatim>\<open>config.rs\<close> and \<^verbatim>\<open>rule.rs\<close>, and the error enums of the core crate with their texts.

  \<^bold>\<open>Routing\<close> (\<^verbatim>\<open>router/matcher.rs\<close>, \<^verbatim>\<open>pipeline/router.rs\<close>). \<^verbatim>\<open>Topic_Router\<close>: the filter matcher is equivalent
  to an inductive definition of MQTT matching, the two validators of filters agree, and the configured
  matcher takes the first enabled route that matches.

  \<^bold>\<open>Normalization\<close> (\<^verbatim>\<open>pipeline/normalizer.rs\<close>). \<^verbatim>\<open>Normalizer\<close>: an event carries exactly the message within the
  limits, field extraction follows the mapping, and paths never reach deeper than the depth limit.

  \<^bold>\<open>Rules\<close> (\<^verbatim>\<open>rule/rules.rs\<close>, \<^verbatim>\<open>action_metadata.rs\<close>). \<^verbatim>\<open>Rule_Engine\<close>: evaluation against a meaning of conditions
  that has no order, the intents of an evaluation, the limits of compiled rules, and how far a comparison
  of integers through binary64 is exact.

  \<^bold>\<open>Dispatch\<close> (\<^verbatim>\<open>dispatcher/action.rs\<close>). \<^verbatim>\<open>Dispatcher\<close>: the traits of the sinks are locales
  (\<^verbatim>\<open>realtime_sink\<close>, \<^verbatim>\<open>forward_boundary\<close>, \<^verbatim>\<open>command_boundary\<close>, combined in \<^verbatim>\<open>dispatch_boundary\<close>) interpreted on the
  implementations of the code; the world the handles live in is passed explicitly. Every intent is accounted
  for, nothing runs after a drop, and metadata stays bounded.

  \<^bold>\<open>Forwarding\<close> (\<^verbatim>\<open>forwarder.rs\<close>). \<^verbatim>\<open>Forwarder\<close>: the registry of targets under the egress policy, the enqueueing
  side, one delivery, and the worker as the step relation \<^verbatim>\<open>worker_step\<close> whose reachable states
  account for every accepted request.

  \<^bold>\<open>Commands\<close> (\<^verbatim>\<open>command.rs\<close>). \<^verbatim>\<open>Command_Render\<close>: rendered topics keep the levels of their template, rendered
  payloads stay within the limit, direct requests stay within their namespace.

  \<^bold>\<open>MQTT engine\<close> (\<^verbatim>\<open>mqtt/engine.rs\<close>, \<^verbatim>\<open>mqtt/backoff.rs\<close>, \<^verbatim>\<open>config.rs\<close>, \<^verbatim>\<open>bus.rs\<close>). \<^verbatim>\<open>Mqtt_Engine\<close>: client configuration,
  backoff, the workers as steps over the results of the MQTT client, and the outcome reports of commands. \<^verbatim>\<open>Mqtt_Workers\<close>:
  the loops of the router and command workers against the shutdown signal, and the commands that a stop leaves behind.

  \<^bold>\<open>Storage\<close> (\<^verbatim>\<open>pipe-bolt-storage\<close>). \<^verbatim>\<open>Storage_Secret\<close> has the cipher of secrets and the keyring, both interpretations of
  the locale \<^verbatim>\<open>secret_cipher\<close>; \<^verbatim>\<open>Config_Codec\<close> the stored form of a configuration and its round
  trip, with what the serializers and a \<^verbatim>\<open>JSONB\<close> column make of it (\<open>wire_config\<close>: durations in whole units, a null default
  that is no default, and JSON values as the parameter \<open>st_jsonb\<close> gives them back, so that a double may come back as an
  integer); \<^verbatim>\<open>Storage_Model\<close> the
  records and checks; \<^verbatim>\<open>Storage_Db\<close> the tables, the transactions and their failures; \<^verbatim>\<open>Storage_Ops\<close> the methods of
  \<^verbatim>\<open>PostgresStorage\<close>; \<^verbatim>\<open>Config_Store\<close> shows that the versioned configuration is a compare-and-swap register with
  a gapless history, that errors leave no trace, and that what was written is read back. The one error after a commit is
  there too: an instant that the row holds and the client cannot decode (\<open>st_unreadable\<close>).

  \<^bold>\<open>Daemon\<close> (\<^verbatim>\<open>pipe-bolt-daemon\<close>). \<^verbatim>\<open>Runtime_Config\<close> (\<^verbatim>\<open>runtime.rs\<close>): the checks of a configuration before it runs are
  equivalent to a declarative condition. \<^verbatim>\<open>Runtime_Pipeline\<close>: the router a broker's messages go through, whose handlers
  interpret the locales of the dispatcher. \<^verbatim>\<open>Command_Processor\<close>: every command a rule asks for is audited, published or
  marked as failed. \<^verbatim>\<open>Persistence_Writer\<close> (\<^verbatim>\<open>persistence_writer.rs\<close>): the bounded writer accounts for every outcome,
  the one a worker loses when it is aborted at the deadline of the shutdown included.
  \<^verbatim>\<open>Project_Runtime\<close>: when a runtime starts, and that a shutdown stops every part. \<^verbatim>\<open>Supervisor\<close>
  (\<^verbatim>\<open>runtime_control.rs\<close>): reload with rollback, shutdown and commands as the step relation \<^verbatim>\<open>daemon_step\<close>. A command
  records, enqueues and gives up in steps of their own, since the code holds no lock between them; \<open>execute_command\<close>, which
  has them in one go, is a sequence of such steps (\<open>execute_command_steps\<close>). What the supervisor
  needs of a runtime is the locale \<^verbatim>\<open>runtime_host\<close>, interpreted on the project runtime.

  \<^bold>\<open>Management API\<close> (\<^verbatim>\<open>pipe-bolt-api\<close>). \<^verbatim>\<open>Api_Auth\<close> (\<^verbatim>\<open>auth.rs\<close>, \<^verbatim>\<open>error.rs\<close>) has the errors with their replies, tokens,
  roles and scopes; \<^verbatim>\<open>Api_Control\<close> the answers of a runtime; \<^verbatim>\<open>Api_Config\<close> (\<^verbatim>\<open>dto.rs\<close>, \<^verbatim>\<open>handler.rs\<close>) the documents with hidden
  secrets and how a submitted document gets them back; \<^verbatim>\<open>Api_Handler\<close> every handler as an action on a state with
  early errors; \<^verbatim>\<open>Api_Realtime\<close> and \<^verbatim>\<open>Realtime_Session\<close> (\<^verbatim>\<open>realtime.rs\<close>) the streams; \<^verbatim>\<open>Web_Socket\<close> the loop that serves a
  socket and its send queue, whose delivery in order is proved in the locale \<^verbatim>\<open>socket_service\<close>, interpreted on the stream of
  the API and on the older bridge of the core crate (\<^verbatim>\<open>Bridge\<close>, \<^verbatim>\<open>Bridge_Session\<close>; \<^verbatim>\<open>web/realtime\<close>). The telemetry task runs
  beside the loop, so its send to a full queue and its attempt at a close frame are two steps, and the loop may take a
  frame in between; \<^verbatim>\<open>Listing\<close> a client that reads a list page by page. \<^verbatim>\<open>Management\<close> (\<^verbatim>\<open>router.rs\<close>) puts guard and handlers
  together over the locale \<^verbatim>\<open>management_backend\<close>, interpreted on the model of PostgreSQL and the supervisor: nothing
  acts without a token that has the permission, and reading changes nothing. \<^verbatim>\<open>Management_Config\<close>: what an accepted
  configuration leaves behind, and which accepted configurations cannot be read back. A handler runs without
  other requests in between; the write of a configuration is a compare-and-swap, so two updates of one version
  never both succeed.

  \<^bold>\<open>Start\<close> (\<^verbatim>\<open>config_loader.rs\<close>, \<^verbatim>\<open>main.rs\<close>). \<^verbatim>\<open>Config_Loader\<close>: the settings of the environment and the configuration file.
  \<^verbatim>\<open>Daemon_Main\<close>: the settings fit together, and a started daemon runs the configuration of its settings, asks for the
  token of its environment, and is an initial state of the supervisor's state machine.

  \<^bold>\<open>Bounds and fuel.\<close> No definition uses fuel: every loop of the code is a recursion over a list, a string or a
  JSON value, or one step of a worker. Lengths are unbounded naturals where the code has \<^verbatim>\<open>usize\<close>
  lengths of existing buffers, and 64-bit words where it has counters and millisecond values.

  \<^bold>\<open>Not modelled.\<close> The async runtime itself (scheduling, cancellation tokens: workers take the list of what they
  receive), the wire formats of HTTP, SSE and WebSockets (how long a send takes is an input: it ended, failed or timed
  out), the text of the SQL statements (each is a function on the tables), the logging, listening on a socket address, the
  description of the API in OpenAPI, and the web dashboard.
\<close>

end
